(* ===== verification/Prelude.thy ===== *)
theory Prelude
  imports Main
begin

text \<open>
  What every other theory of the development shares: the collections of rewrite rules the
  component proofs draw on, the generic facts on lists, maps and options, and the names of
  the types that model Go's basic types.

  \<^item> Go's \<open>string\<close> and \<open>[]byte\<close> are lists of bytes, Isabelle's \<open>string\<close>;
  \<^item> \<open>int\<close>, \<open>int32\<close> and \<open>time.Duration\<close> (counted in seconds) are \<open>int\<close>: the
    program compares and prints them and never computes with them, so no width is observable but
    in the one conversion to 32 bits, \<open>FromInt\<close> of the theory Microservices;
  \<^item> \<open>map[string]string\<close> is a partial function; a nil map and an empty map are the same
    value, as every read and every \<open>range\<close> of the program treats them;
  \<^item> a pointer that may be nil is an \<open>option\<close>;
  \<^item> an \<open>error\<close> result is \<open>None\<close> for nil, and a pair of a value and an error is a sum.
\<close>

named_theorems str_simps \<open>equations of the string library that carry the component proofs\<close>
named_theorems prog_simps \<open>equations of the effect trees and their interpreters\<close>
named_theorems obj_simps \<open>what the builders of API objects put into an object\<close>

type_synonym smap = "string \<rightharpoonup> string"

subsection \<open>Lists\<close>

lemma take_append_length [simp]: "take (length xs) (xs @ ys) = xs"
  by simp

lemma distinct_index_eq:
  assumes "distinct xs" and "i < length xs" and "j < length xs" and "xs ! i = xs ! j"
  shows "i = j"
  using assms by (simp add: nth_eq_iff_index_eq)

lemma filter_idem_on: "(\<forall>x \<in> set xs. P x) \<Longrightarrow> filter P xs = xs"
  by (induction xs) auto

lemma filter_none: "(\<forall>x \<in> set xs. \<not> P x) \<Longrightarrow> filter P xs = []"
  by (induction xs) auto

lemma length_filter_eq_1:
  assumes "length (filter P xs) = 1"
  shows "\<exists>x \<in> set xs. P x"
proof (rule ccontr)
  assume "\<not> ?thesis"
  then have "filter P xs = []" by (simp add: filter_empty_conv)
  with assms show False by simp
qed

subsection \<open>Keeping the first occurrence of each element\<close>

text \<open>
  The shape of every Go loop that skips an element already in a \<open>seen\<close> set.
\<close>

fun dedup :: "'a list \<Rightarrow> 'a list \<Rightarrow> 'a list" where
  "dedup seen [] = []"
| "dedup seen (x # xs) = (if x \<in> set seen then dedup seen xs else x # dedup (x # seen) xs)"

lemma set_dedup: "set (dedup seen xs) = set xs - set seen"
  by (induction seen xs rule: dedup.induct) auto

lemma distinct_dedup: "distinct (dedup seen xs)"
  by (induction seen xs rule: dedup.induct) (auto simp: set_dedup)

lemma dedup_id: "distinct xs \<Longrightarrow> set xs \<inter> set seen = {} \<Longrightarrow> dedup seen xs = xs"
proof (induction seen xs rule: dedup.induct)
  case (1 seen)
  then show ?case by simp
next
  case (2 seen x xs)
  then show ?case by auto
qed

lemma dedup_idem: "dedup [] (dedup [] xs) = dedup [] xs"
  by (rule dedup_id) (simp_all add: distinct_dedup)

subsection \<open>Maps\<close>

lemma map_add_absorb: "(\<And>k v. m k = Some v \<Longrightarrow> n k = Some v) \<Longrightarrow> m ++ n = n"
proof (rule ext)
  fix k
  assume *: "\<And>k v. m k = Some v \<Longrightarrow> n k = Some v"
  show "(m ++ n) k = n k"
    by (cases "m k") (auto simp: map_add_def * split: option.splits)
qed

lemma map_add_idem_left: "(m ++ n) ++ n = m ++ n"
  by (rule ext) (auto simp: map_add_def split: option.splits)

subsection \<open>Sums as results\<close>

fun is_err :: "'e + 'a \<Rightarrow> bool" where
  "is_err (Inl _) = True"
| "is_err (Inr _) = False"

lemma is_err_iff: "is_err r \<longleftrightarrow> (\<exists>e. r = Inl e)"
  by (cases r) auto

lemma not_is_err_iff: "\<not> is_err r \<longleftrightarrow> (\<exists>x. r = Inr x)"
  by (cases r) auto

end
