(* ===== verification/GoStrings.thy ===== *)
theory GoStrings
  imports Prelude "HOL-Library.Char_ord"
begin

text \<open>
  What the program uses of Go's packages \<open>strings\<close>, \<open>strconv\<close> and \<open>fmt\<close>, on byte
  strings. Each definition computes what the library documents; the lemmas after it are the
  ones the component theories rest on.

  Case mapping is exact for ASCII bytes and for the three runes outside ASCII whose lower case
  or case folding is an ASCII letter (the Kelvin sign, the long s, the dotted capital I): every
  comparison of the program is with an ASCII constant, so no other rune can make one succeed.
  White space is the ASCII white space.
\<close>

subsection \<open>Prefixes, suffixes, searching\<close>

definition hasPrefix :: "string \<Rightarrow> string \<Rightarrow> bool" where
  "hasPrefix s p \<longleftrightarrow> take (length p) s = p"

definition hasSuffix :: "string \<Rightarrow> string \<Rightarrow> bool" where
  "hasSuffix s p \<longleftrightarrow> length p \<le> length s \<and> drop (length s - length p) s = p"

definition trimPrefix :: "string \<Rightarrow> string \<Rightarrow> string" where
  "trimPrefix s p = (if hasPrefix s p then drop (length p) s else s)"

definition trimSuffix :: "string \<Rightarrow> string \<Rightarrow> string" where
  "trimSuffix s p = (if hasSuffix s p then take (length s - length p) s else s)"

fun indexOf :: "string \<Rightarrow> string \<Rightarrow> nat option" where
  "indexOf [] sub = (if sub = [] then Some 0 else None)"
| "indexOf (c # cs) sub =
     (if hasPrefix (c # cs) sub then Some 0 else map_option Suc (indexOf cs sub))"

definition contains :: "string \<Rightarrow> string \<Rightarrow> bool" where
  "contains s sub \<longleftrightarrow> indexOf s sub \<noteq> None"

lemma hasPrefix_append [simp, str_simps]: "hasPrefix (p @ s) p"
  by (simp add: hasPrefix_def)

lemma hasPrefix_iff: "hasPrefix s p \<longleftrightarrow> (\<exists>r. s = p @ r)"
  by (auto simp: hasPrefix_def) (metis append_take_drop_id)

lemma hasPrefix_Nil [simp]: "hasPrefix s []"
  by (simp add: hasPrefix_def)

lemma hasPrefix_Cons [simp]: "hasPrefix (c # s) (d # p) \<longleftrightarrow> c = d \<and> hasPrefix s p"
  by (auto simp: hasPrefix_def)

lemma hasPrefix_empty [simp]: "hasPrefix [] (d # p) \<longleftrightarrow> False"
  by (simp add: hasPrefix_def)

lemma hasSuffix_append [simp, str_simps]: "hasSuffix (s @ p) p"
  by (simp add: hasSuffix_def)

lemma hasSuffix_iff: "hasSuffix s p \<longleftrightarrow> (\<exists>r. s = r @ p)"
proof
  assume "hasSuffix s p"
  then have "s = take (length s - length p) s @ p"
    unfolding hasSuffix_def by (metis append_take_drop_id)
  then show "\<exists>r. s = r @ p" by blast
qed auto

lemma trimPrefix_append [simp, str_simps]: "trimPrefix (p @ s) p = s"
  by (simp add: trimPrefix_def)

lemma trimSuffix_append [simp, str_simps]: "trimSuffix (s @ p) p = s"
  by (simp add: trimSuffix_def)

lemma hasPrefix_append_sub:
  "hasPrefix (a @ b) sub \<Longrightarrow> length sub \<le> length a \<Longrightarrow> hasPrefix a sub"
  by (simp add: hasPrefix_def)

text \<open>A search that does not start in the first part finds the second part's first match.\<close>

lemma indexOf_at: "hasPrefix s sub \<Longrightarrow> indexOf s sub = Some 0"
  by (cases s) (auto simp: hasPrefix_def)

lemma indexOf_None_append1:
  assumes "c \<notin> set a" and "sub = c # cs"
  shows "indexOf (a @ b) sub = map_option (\<lambda>n. length a + n) (indexOf b sub)"
  using assms
proof (induction a)
  case Nil
  then show ?case by (simp add: option.map_ident)
next
  case (Cons x xs)
  then show ?case by (auto simp: option.map_comp comp_def)
qed

lemma indexOf_byte_None: "indexOf s [c] = None \<longleftrightarrow> c \<notin> set s"
  by (induction s) auto

lemma indexOf_byte_split:
  assumes "c \<notin> set a"
  shows "indexOf (a @ c # b) [c] = Some (length a)"
  using assms by (induction a) auto

lemma indexOf_Some_split:
  "indexOf s sub = Some n \<Longrightarrow> n \<le> length s \<and> hasPrefix (drop n s) sub"
proof (induction s arbitrary: n)
  case Nil
  then show ?case by (auto split: if_splits)
next
  case (Cons c cs)
  then show ?case by (auto split: if_splits)
qed

subsection \<open>Splitting, joining, trimming\<close>

text \<open>\<open>strings.Split\<close> at a one-byte separator, and \<open>strings.Join\<close>.\<close>

fun splitByte :: "char \<Rightarrow> string \<Rightarrow> string list" where
  "splitByte c [] = [[]]"
| "splitByte c (x # xs) =
     (if x = c then [] # splitByte c xs
      else (case splitByte c xs of [] \<Rightarrow> [[x]] | y # ys \<Rightarrow> (x # y) # ys))"

fun join :: "string \<Rightarrow> string list \<Rightarrow> string" where
  "join sep [] = []"
| "join sep [x] = x"
| "join sep (x # y # ys) = x @ sep @ join sep (y # ys)"

definition isSpace :: "char \<Rightarrow> bool" where
  "isSpace c \<longleftrightarrow> c \<in> set [CHR 0x09, CHR 0x0A, CHR 0x0B, CHR 0x0C, CHR 0x0D, CHR '' '']"

definition trimLeftBy :: "(char \<Rightarrow> bool) \<Rightarrow> string \<Rightarrow> string" where
  "trimLeftBy p s = dropWhile p s"

definition trimRightBy :: "(char \<Rightarrow> bool) \<Rightarrow> string \<Rightarrow> string" where
  "trimRightBy p s = rev (dropWhile p (rev s))"

definition trimBy :: "(char \<Rightarrow> bool) \<Rightarrow> string \<Rightarrow> string" where
  "trimBy p s = trimRightBy p (trimLeftBy p s)"

definition trimSpace :: "string \<Rightarrow> string" where
  "trimSpace s = trimBy isSpace s"

text \<open>\<open>strings.Trim(s, cutset)\<close> and \<open>strings.TrimRight(s, cutset)\<close> for a one-byte cut set.\<close>

definition trimByte :: "char \<Rightarrow> string \<Rightarrow> string" where
  "trimByte c s = trimBy (\<lambda>x. x = c) s"

definition trimRightByte :: "char \<Rightarrow> string \<Rightarrow> string" where
  "trimRightByte c s = trimRightBy (\<lambda>x. x = c) s"

lemma splitByte_nonempty [simp]: "splitByte c s \<noteq> []"
  by (induction s) (auto split: list.splits)

lemma splitByte_none: "c \<notin> set s \<Longrightarrow> splitByte c s = [s]"
  by (induction s) auto

lemma splitByte_append: "c \<notin> set a \<Longrightarrow> splitByte c (a @ c # b) = a # splitByte c b"
  by (induction a) (auto split: list.splits)

lemma splitByte_pieces: "p \<in> set (splitByte c s) \<Longrightarrow> c \<notin> set p"
proof (induction s arbitrary: p)
  case Nil
  then show ?case by simp
next
  case (Cons x xs)
  then show ?case by (auto split: if_splits list.splits)
qed

lemma splitByte_join_comma_space:
  assumes "xs \<noteq> []" and "\<forall>x \<in> set xs. c \<notin> set x" and "d \<noteq> c"
  shows "splitByte c (join [c, d] xs) = hd xs # map (\<lambda>x. d # x) (tl xs)"
  using assms
proof (induction "[c, d]" xs rule: join.induct)
  case 1
  then show ?case by simp
next
  case (2 x)
  then show ?case by (simp add: splitByte_none)
next
  case (3 x y ys)
  have IH: "splitByte c (join [c, d] (y # ys)) = y # map (\<lambda>x. d # x) ys"
    using "3.hyps" "3.prems" by simp
  have "splitByte c (join [c, d] (x # y # ys)) = x # splitByte c (d # join [c, d] (y # ys))"
    using "3.prems" by (simp add: splitByte_append)
  also have "splitByte c (d # join [c, d] (y # ys)) = (d # y) # map (\<lambda>x. d # x) ys"
    using IH "3.prems" by simp
  finally show ?case by simp
qed

lemma set_join: "set (join sep xs) \<subseteq> set sep \<union> (\<Union>x \<in> set xs. set x)"
  by (induction sep xs rule: join.induct) auto

lemma join_snoc: "xs \<noteq> [] \<Longrightarrow> join sep (xs @ [y]) = join sep xs @ sep @ y"
  by (induction sep xs rule: join.induct) auto

text \<open>Nothing to trim: the first and the last byte are kept.\<close>

lemma trimLeftBy_id: "s = [] \<or> \<not> p (hd s) \<Longrightarrow> trimLeftBy p s = s"
  by (cases s) (auto simp: trimLeftBy_def)

lemma trimRightBy_id: "s = [] \<or> \<not> p (last s) \<Longrightarrow> trimRightBy p s = s"
  by (cases s rule: rev_cases) (auto simp: trimRightBy_def)

lemma trimBy_id: "\<not> p (hd s) \<Longrightarrow> \<not> p (last s) \<Longrightarrow> trimBy p s = s"
  by (simp add: trimBy_def trimLeftBy_id trimRightBy_id)

lemma trimBy_none: "\<forall>c \<in> set s. \<not> p c \<Longrightarrow> trimBy p s = s"
  by (cases "s = []") (auto simp: trimBy_def trimLeftBy_id trimRightBy_id)

lemma trimLeftBy_Cons: "p c \<Longrightarrow> trimBy p (c # s) = trimBy p s"
  by (simp add: trimBy_def trimLeftBy_def)

lemma trimByte_quoted:
  assumes "c \<notin> set s"
  shows "trimByte c (c # s @ [c]) = s"
proof (cases "s = []")
  case True
  then show ?thesis by (simp add: trimByte_def trimBy_def trimLeftBy_def trimRightBy_def)
next
  case False
  then have "dropWhile (\<lambda>x. x = c) (s @ [c]) = s @ [c]"
    using assms by (cases s) auto
  moreover have "dropWhile (\<lambda>x. x = c) (rev s) = rev s"
    using assms False by (cases s rule: rev_cases) auto
  ultimately show ?thesis
    by (simp add: trimByte_def trimBy_def trimLeftBy_def trimRightBy_def)
qed

subsection \<open>Numbers\<close>

text \<open>\<open>strconv.Itoa\<close>, which \<open>fmt\<close> prints \<open>%d\<close> with, and \<open>strconv.FormatBool\<close>.\<close>

definition digit :: "nat \<Rightarrow> char" where
  "digit n = char_of (48 + n)"

fun itoa_nat :: "nat \<Rightarrow> string" where
  "itoa_nat n = (if n < 10 then [digit n] else itoa_nat (n div 10) @ [digit (n mod 10)])"

declare itoa_nat.simps [simp del]

definition itoa :: "int \<Rightarrow> string" where
  "itoa i = (if i < 0 then CHR ''-'' # itoa_nat (nat (- i)) else itoa_nat (nat i))"

definition formatBool :: "bool \<Rightarrow> string" where
  "formatBool b = (if b then ''true'' else ''false'')"

definition isDigit :: "char \<Rightarrow> bool" where
  "isDigit c \<longleftrightarrow> 48 \<le> (of_char c :: nat) \<and> (of_char c :: nat) \<le> 57"

definition digit_val :: "char \<Rightarrow> nat" where
  "digit_val c = of_char c - 48"

definition digits_val :: "string \<Rightarrow> nat" where
  "digits_val s = fold (\<lambda>c n. 10 * n + digit_val c) s 0"

text \<open>
  \<open>strconv.Atoi\<close> on a 64-bit platform: an optional sign, at least one decimal digit and
  nothing else, and a value in the range of \<open>int\<close>; \<open>None\<close> is its error.
\<close>

definition atoi_digits :: "string \<Rightarrow> int option" where
  "atoi_digits s = (if s \<noteq> [] \<and> list_all isDigit s then Some (int (digits_val s)) else None)"

definition in_int64 :: "int \<Rightarrow> bool" where
  "in_int64 i \<longleftrightarrow> - (2 ^ 63) \<le> i \<and> i < 2 ^ 63"

definition atoi :: "string \<Rightarrow> int option" where
  "atoi s =
     (let v = (case s of
                 c # cs \<Rightarrow> if c = CHR ''-'' then map_option uminus (atoi_digits cs)
                           else if c = CHR ''+'' then atoi_digits cs else atoi_digits s
               | [] \<Rightarrow> None)
      in case v of None \<Rightarrow> None | Some i \<Rightarrow> if in_int64 i then Some i else None)"

lemma of_char_digit [simp]: "n < 10 \<Longrightarrow> (of_char (digit n) :: nat) = 48 + n"
  by (simp add: digit_def)

lemma isDigit_digit [simp]: "n < 10 \<Longrightarrow> isDigit (digit n)"
  by (simp add: isDigit_def)

lemma digit_val_digit [simp]: "n < 10 \<Longrightarrow> digit_val (digit n) = n"
  by (simp add: digit_val_def)

lemma itoa_nat_digits: "\<forall>c \<in> set (itoa_nat n). isDigit c"
proof (induction n rule: itoa_nat.induct)
  case (1 n)
  show ?case
  proof (cases "n < 10")
    case True
    then show ?thesis by (subst itoa_nat.simps) simp
  next
    case False
    with "1.IH" show ?thesis by (subst itoa_nat.simps) auto
  qed
qed

lemma itoa_nat_nonempty [simp]: "itoa_nat n \<noteq> []"
  by (subst itoa_nat.simps) simp

lemma digits_val_snoc: "digits_val (s @ [c]) = 10 * digits_val s + digit_val c"
  by (simp add: digits_val_def)

lemma digits_val_itoa_nat [simp]: "digits_val (itoa_nat n) = n"
proof (induction n rule: itoa_nat.induct)
  case (1 n)
  show ?case
  proof (cases "n < 10")
    case True
    then show ?thesis by (subst itoa_nat.simps) (simp add: digits_val_def)
  next
    case False
    with "1.IH" show ?thesis by (subst itoa_nat.simps) (simp add: digits_val_snoc)
  qed
qed

lemma itoa_nat_inj: "itoa_nat m = itoa_nat n \<longleftrightarrow> m = n"
  by (metis digits_val_itoa_nat)

lemma isDigit_not_sign: "isDigit c \<Longrightarrow> c \<noteq> CHR ''-'' \<and> c \<noteq> CHR ''+''"
  by (auto simp: isDigit_def)

lemma atoi_itoa_nat: "n < 2 ^ 63 \<Longrightarrow> atoi (itoa_nat n) = Some (int n)"
proof -
  assume n: "n < 2 ^ 63"
  obtain c cs where eq: "itoa_nat n = c # cs"
    using itoa_nat_nonempty by (cases "itoa_nat n") auto
  have all: "\<forall>x \<in> set (c # cs). isDigit x"
    using itoa_nat_digits [of n] by (simp add: eq)
  then have "atoi_digits (c # cs) = Some (int n)"
    by (simp add: atoi_digits_def list_all_iff flip: eq)
  moreover have "c \<noteq> CHR ''-''" and "c \<noteq> CHR ''+''"
    using all isDigit_not_sign [of c] by auto
  moreover have "in_int64 (int n)"
    using n by (simp add: in_int64_def)
  ultimately show ?thesis
    by (simp add: atoi_def eq)
qed

lemma itoa_of_nat: "itoa (int n) = itoa_nat n"
  by (simp add: itoa_def)

lemma itoa_inj: "itoa i = itoa j \<longleftrightarrow> i = j"
proof
  have hd_digit: "hd (itoa_nat n) \<noteq> CHR ''-''" for n
  proof -
    have "isDigit (hd (itoa_nat n))"
      using itoa_nat_digits [of n] hd_in_set [OF itoa_nat_nonempty [of n]] by blast
    then show ?thesis using isDigit_not_sign by blast
  qed
  assume eq: "itoa i = itoa j"
  show "i = j"
  proof (cases "i < 0"; cases "j < 0")
    assume "i < 0" "\<not> j < 0"
    with eq have "hd (itoa_nat (nat j)) = CHR ''-''" by (simp add: itoa_def) (metis list.sel(1))
    with hd_digit show ?thesis by blast
  next
    assume "\<not> i < 0" "j < 0"
    with eq have "hd (itoa_nat (nat i)) = CHR ''-''" by (simp add: itoa_def)
    with hd_digit show ?thesis by blast
  qed (use eq in \<open>auto simp: itoa_def itoa_nat_inj\<close>)
qed simp

subsection \<open>Case\<close>

definition lowerByte :: "char \<Rightarrow> char" where
  "lowerByte c =
     (let n = (of_char c :: nat) in if 65 \<le> n \<and> n \<le> 90 then char_of (n + 32) else c)"

definition upperByte :: "char \<Rightarrow> char" where
  "upperByte c =
     (let n = (of_char c :: nat) in if 97 \<le> n \<and> n \<le> 122 then char_of (n - 32) else c)"

fun toLower :: "string \<Rightarrow> string" where
  "toLower (a # b # c # s) =
     (if a = CHR 0xE2 \<and> b = CHR 0x84 \<and> c = CHR 0xAA then CHR ''k'' # toLower s
      else if a = CHR 0xC4 \<and> b = CHR 0xB0 then CHR ''i'' # toLower (c # s)
      else lowerByte a # toLower (b # c # s))"
| "toLower [a, b] =
     (if a = CHR 0xC4 \<and> b = CHR 0xB0 then [CHR ''i''] else [lowerByte a, lowerByte b])"
| "toLower s = map lowerByte s"

lemma toLower_ascii: "\<forall>c \<in> set s. (of_char c :: nat) < 128 \<Longrightarrow> toLower s = map lowerByte s"
  by (induction s rule: toLower.induct) auto

lemma isDigit_ascii: "isDigit c \<Longrightarrow> (of_char c :: nat) < 128"
  by (simp add: isDigit_def)

lemma lowerByte_digit: "isDigit c \<Longrightarrow> lowerByte c = c"
  by (simp add: isDigit_def lowerByte_def Let_def)

definition toUpper :: "string \<Rightarrow> string" where
  "toUpper s = map upperByte s"

text \<open>\<open>strings.EqualFold(s, t)\<close> for an ASCII \<open>t\<close>.\<close>

fun foldCase :: "string \<Rightarrow> string" where
  "foldCase (a # b # c # s) =
     (if a = CHR 0xE2 \<and> b = CHR 0x84 \<and> c = CHR 0xAA then CHR ''k'' # foldCase s
      else if a = CHR 0xC5 \<and> b = CHR 0xBF then CHR ''s'' # foldCase (c # s)
      else lowerByte a # foldCase (b # c # s))"
| "foldCase [a, b] =
     (if a = CHR 0xC5 \<and> b = CHR 0xBF then [CHR ''s''] else [lowerByte a, lowerByte b])"
| "foldCase s = map lowerByte s"

definition equalFold :: "string \<Rightarrow> string \<Rightarrow> bool" where
  "equalFold s t \<longleftrightarrow> foldCase s = map lowerByte t"

subsection \<open>Replacing\<close>

text \<open>
  \<open>strings.NewReplacer(old1, new1, ...).Replace(s)\<close>, for non-empty olds: at each position of
  \<open>s\<close> the first old of the argument list that matches is replaced, without overlap, and what
  was put in is not looked at again. \<open>strings.ReplaceAll\<close> is the case of one pair.
\<close>

fun matchOld :: "(string \<times> string) list \<Rightarrow> string \<Rightarrow> (string \<times> string) option" where
  "matchOld [] s = None"
| "matchOld ((old, new) # ps) s = (if hasPrefix s old then Some (old, new) else matchOld ps s)"

function replacer :: "(string \<times> string) list \<Rightarrow> string \<Rightarrow> string" where
  "replacer ps [] = []"
| "replacer ps (c # cs) =
     (case matchOld ps (c # cs) of
        None \<Rightarrow> c # replacer ps cs
      | Some on \<Rightarrow> snd on @ replacer ps (drop (length (fst on) - 1) cs))"
  by pat_completeness auto
termination
  by (relation "measure (\<lambda>(ps, s). length s)") auto

definition replaceAll :: "string \<Rightarrow> string \<Rightarrow> string \<Rightarrow> string" where
  "replaceAll s old new = replacer [(old, new)] s"

text \<open>The cut of a text at its placeholders, which does not depend on the new values.\<close>

fun matchKey :: "string list \<Rightarrow> string \<Rightarrow> string option" where
  "matchKey [] s = None"
| "matchKey (old # ps) s = (if hasPrefix s old then Some old else matchKey ps s)"

function cutAt :: "string list \<Rightarrow> string \<Rightarrow> (char + string) list" where
  "cutAt olds [] = []"
| "cutAt olds (c # cs) =
     (case matchKey olds (c # cs) of
        None \<Rightarrow> Inl c # cutAt olds cs
      | Some old \<Rightarrow> Inr old # cutAt olds (drop (length old - 1) cs))"
  by pat_completeness auto
termination
  by (relation "measure (\<lambda>(ps, s). length s)") auto

fun fill :: "(string \<times> string) list \<Rightarrow> char + string \<Rightarrow> string" where
  "fill ps (Inl c) = [c]"
| "fill ps (Inr old) = (case map_of ps old of Some new \<Rightarrow> new | None \<Rightarrow> old)"

lemma matchOld_matchKey:
  "matchOld ps s =
     map_option (\<lambda>old. (old, case map_of ps old of Some new \<Rightarrow> new | None \<Rightarrow> old))
       (matchKey (map fst ps) s)"
proof (induction ps)
  case Nil
  then show ?case by simp
next
  case (Cons p ps)
  obtain o1 n1 where p: "p = (o1, n1)" by (cases p)
  have "matchKey (map fst ps) s = Some o1 \<Longrightarrow> hasPrefix s o1"
    by (induction ps) (auto split: if_splits)
  with Cons show ?case
    by (cases "matchKey (map fst ps) s") (auto simp: p)
qed

lemma replacer_cutAt:
  "replacer ps s = concat (map (fill ps) (cutAt (map fst ps) s))"
proof (induction ps s rule: replacer.induct)
  case (1 ps)
  then show ?case by simp
next
  case (2 ps c cs)
  show ?case
  proof (cases "matchKey (map fst ps) (c # cs)")
    case None
    with "2.IH"(1) show ?thesis by (simp add: matchOld_matchKey)
  next
    case (Some old)
    with "2.IH"(2) show ?thesis by (simp add: matchOld_matchKey)
  qed
qed

lemma replacer_id: "\<forall>(old, new) \<in> set ps. \<forall>c \<in> set s. old \<noteq> [] \<and> hd old \<noteq> c \<Longrightarrow> replacer ps s = s"
proof (induction s)
  case Nil
  then show ?case by simp
next
  case (Cons c cs)
  have "matchOld ps (c # cs) = None"
    using Cons.prems by (induction ps) (auto simp: neq_Nil_conv)
  with Cons show ?case by auto
qed

lemma replaceAll_byte: "replaceAll s [c] new = concat (map (\<lambda>x. if x = c then new else [x]) s)"
  by (induction s) (auto simp: replaceAll_def)

end
