(* ===== verification/ApiTypes.thy ===== *)
theory ApiTypes
  imports GoStrings
begin

text \<open>
  The custom resources of the operator, as \<open>apis/controlplanes/v3/controlplane_types.go\<close> and
  \<open>apis/apps/v3/application_types.go\<close> declare them: one record per struct, one field per
  field. A field of pointer type is an \<open>option\<close>. The metadata and the conditions are the
  fields of the Kubernetes types \<open>ObjectMeta\<close> and \<open>Condition\<close> the program reads or writes.
\<close>

subsection \<open>Metadata and conditions\<close>

record OwnerRef =
  own_kind :: string
  own_name :: string
  own_controller :: bool

record Meta =
  m_name :: string
  m_namespace :: string
  m_labels :: smap
  m_annotations :: smap
  m_owners :: "OwnerRef list"
  m_generation :: int
  m_resourceVersion :: string

definition new_meta :: "string \<Rightarrow> string \<Rightarrow> smap \<Rightarrow> smap \<Rightarrow> Meta" where
  "new_meta name ns labels annotations =
     \<lparr>m_name = name, m_namespace = ns, m_labels = labels, m_annotations = annotations,
      m_owners = [], m_generation = 0, m_resourceVersion = []\<rparr>"

datatype ConditionStatus = ConditionTrue | ConditionFalse | ConditionUnknown

record Condition =
  c_Type :: string
  c_Status :: ConditionStatus
  c_Reason :: string
  c_Message :: string
  c_LastTransitionTime :: int
  c_ObservedGeneration :: int

subsection \<open>The ControlPlane resource\<close>

record VaultHashicorp =
  vh_Address :: string
  vh_Token :: string
  vh_Mount :: string

record VaultAws =
  va_Region :: string
  va_AccessKeyId :: string
  va_AccessKey :: string

record VaultAzure =
  vz_URL :: string
  vz_TenantId :: string
  vz_ClientId :: string
  vz_ClientSecret :: string

record VaultGoogle =
  vg_ProjectId :: string
  vg_Credentials :: string

record Vault =
  v_Enabled :: "bool option"
  v_Provider :: string
  v_BasePath :: string
  v_Hashicorp :: "VaultHashicorp option"
  v_Aws :: "VaultAws option"
  v_Azure :: "VaultAzure option"
  v_Google :: "VaultGoogle option"

record Replicas =
  rep_Controller :: int
  rep_Nats :: int

record Service =
  svc_Type :: string
  svc_Address :: string
  svc_Annotations :: smap
  svc_ExternalTrafficPolicy :: string

record Services =
  svcs_Controller :: Service
  svcs_Router :: Service
  svcs_Nats :: Service
  svcs_NatsServer :: Service

record Images =
  img_PullSecret :: string
  img_Controller :: string
  img_Router :: string
  img_Nats :: string

record Auth =
  auth_URL :: string
  auth_Realm :: string
  auth_SSL :: string
  auth_RealmKey :: string
  auth_ControllerClient :: string
  auth_ControllerSecret :: string
  auth_ViewerClient :: string

record Events =
  evt_AuditEnabled :: "bool option"
  evt_RetentionDays :: int
  evt_CleanupInterval :: int
  evt_CaptureIpAddress :: "bool option"

record Database =
  db_Provider :: string
  db_Host :: string
  db_Port :: int
  db_User :: string
  db_Password :: string
  db_DatabaseName :: string
  db_SSL :: "bool option"
  db_CA :: "string option"

record RouterIngress =
  ri_Address :: string
  ri_MessagePort :: int
  ri_InteriorPort :: int
  ri_EdgePort :: int

record ControllerIngress =
  ci_Annotations :: smap
  ci_IngressClassName :: string
  ci_Host :: string
  ci_SecretName :: string

record NatsIngress =
  ni_Address :: string
  ni_ServerPort :: int
  ni_ClusterPort :: int
  ni_LeafPort :: int
  ni_MqttPort :: int
  ni_HttpPort :: int

record Ingresses =
  ing_Controller :: ControllerIngress
  ing_Router :: RouterIngress
  ing_Nats :: NatsIngress

record Controller =
  ctl_PidBaseDir :: string
  ctl_EcnViewerPort :: int
  ctl_EcnViewerURL :: string
  ctl_ECNName :: string
  ctl_Https :: "bool option"
  ctl_SecretName :: string
  ctl_LogLevel :: string

record NatsJetStream =
  js_StorageSize :: string
  js_MemoryStoreSize :: string
  js_StorageClassName :: string

record Nats =
  nats_Enabled :: "bool option"
  nats_JetStream :: NatsJetStream

record ControlPlaneSpec =
  spec_Auth :: Auth
  spec_Database :: Database
  spec_Ingresses :: Ingresses
  spec_Services :: Services
  spec_Replicas :: Replicas
  spec_Images :: Images
  spec_Controller :: Controller
  spec_Events :: Events
  spec_Nats :: "Nats option"
  spec_Vault :: "Vault option"

record ControlPlane =
  cp_Meta :: Meta
  cp_Spec :: ControlPlaneSpec
  cp_Conditions :: "Condition list"

abbreviation cp_Name :: "ControlPlane \<Rightarrow> string" where
  "cp_Name cp \<equiv> m_name (cp_Meta cp)"

abbreviation cp_Namespace :: "ControlPlane \<Rightarrow> string" where
  "cp_Namespace cp \<equiv> m_namespace (cp_Meta cp)"

abbreviation cp_Generation :: "ControlPlane \<Rightarrow> int" where
  "cp_Generation cp \<equiv> m_generation (cp_Meta cp)"

subsection \<open>The Application resource\<close>

text \<open>
  A microservice of an Application is a type of the ioFog SDK: its name and its two images are
  what the operator reads, and the rest is opaque. The pod names of the status are \<open>None\<close> for a
  nil slice, which \<open>reflect.DeepEqual\<close> tells from an empty one.
\<close>

record AppMicroservice =
  ams_Name :: string
  ams_X86 :: string
  ams_ARM :: string
  ams_Rest :: string

record ApplicationSpec =
  aspec_Microservices :: "AppMicroservice list"
  aspec_NatsConfig :: "string option"
  aspec_Replicas :: int

record ApplicationStatus =
  astat_Replicas :: int
  astat_LabelSelector :: string
  astat_PodNames :: "string list option"

record Application =
  app_Meta :: Meta
  app_Spec :: ApplicationSpec
  app_Status :: ApplicationStatus

abbreviation app_Name :: "Application \<Rightarrow> string" where
  "app_Name a \<equiv> m_name (app_Meta a)"

abbreviation app_Namespace :: "Application \<Rightarrow> string" where
  "app_Namespace a \<equiv> m_namespace (app_Meta a)"

end
