(* ===== verification/Conditions.thy ===== *)
theory Conditions
  imports ApiTypes
begin

text \<open>
  The state a ControlPlane is in, kept in its status conditions
  (\<open>apis/controlplanes/v3/controlplane_types.go\<close>): \<open>setCondition\<close> with its three callers,
  \<open>GetCondition\<close> and the predicates on it.

  The list is updated by \<open>SetStatusCondition\<close> of the Kubernetes library, a parameter \<open>ssc\<close>
  here; the locale \<open>status_condition\<close> states what its documentation promises: the first
  condition of the new one's type takes the new fields (the transition time may be kept), and a
  type that is not there is appended.
\<close>

subsection \<open>The code\<close>

definition conditionReady :: string where "conditionReady = ''ready''"
definition conditionDeploying :: string where "conditionDeploying = ''deploying''"
definition conditionUpdating :: string where "conditionUpdating = ''updating''"

definition normalize_reason :: "string \<Rightarrow> string" where
  "normalize_reason r =
     replaceAll (replaceAll (toLower r) '' '' ''_'') ''-'' ''_''"

definition clear_condition :: "int \<Rightarrow> int \<Rightarrow> string \<Rightarrow> Condition \<Rightarrow> Condition" where
  "clear_condition now gen conditionType c =
     (let c = c\<lparr>c_Reason := normalize_reason (c_Reason c)\<rparr>
      in if c_Status c = ConditionTrue
         then c\<lparr>c_Status := ConditionFalse,
                c_Reason := ''transition_to_'' @ conditionType,
                c_LastTransitionTime := now,
                c_ObservedGeneration := gen\<rparr>
         else c)"

definition new_condition :: "int \<Rightarrow> int \<Rightarrow> string \<Rightarrow> Condition" where
  "new_condition now gen conditionType =
     \<lparr>c_Type = conditionType, c_Status = ConditionTrue, c_Reason = ''initial_status'',
      c_Message = [], c_LastTransitionTime = now, c_ObservedGeneration = gen\<rparr>"

type_synonym set_status_condition = "Condition list \<Rightarrow> Condition \<Rightarrow> Condition list"

definition setCondition :: "set_status_condition \<Rightarrow> int \<Rightarrow> string \<Rightarrow> ControlPlane \<Rightarrow> ControlPlane" where
  "setCondition ssc now conditionType cp =
     cp\<lparr>cp_Conditions :=
          ssc (map (clear_condition now (cp_Generation cp) conditionType) (cp_Conditions cp))
              (new_condition now (cp_Generation cp) conditionType)\<rparr>"

definition SetConditionDeploying :: "set_status_condition \<Rightarrow> int \<Rightarrow> ControlPlane \<Rightarrow> ControlPlane" where
  "SetConditionDeploying ssc now cp = setCondition ssc now conditionDeploying cp"

definition SetConditionReady :: "set_status_condition \<Rightarrow> int \<Rightarrow> ControlPlane \<Rightarrow> ControlPlane" where
  "SetConditionReady ssc now cp = setCondition ssc now conditionReady cp"

definition SetConditionUpdating :: "set_status_condition \<Rightarrow> int \<Rightarrow> ControlPlane \<Rightarrow> ControlPlane" where
  "SetConditionUpdating ssc now cp = setCondition ssc now conditionUpdating cp"

fun get_condition :: "int \<Rightarrow> Condition list \<Rightarrow> string" where
  "get_condition gen [] = conditionDeploying"
| "get_condition gen (c # cs) =
     (if c_Status c = ConditionTrue
      then (if c_ObservedGeneration c = gen then c_Type c else conditionUpdating)
      else get_condition gen cs)"

definition GetCondition :: "ControlPlane \<Rightarrow> string" where
  "GetCondition cp = get_condition (cp_Generation cp) (cp_Conditions cp)"

definition IsReady :: "ControlPlane \<Rightarrow> bool" where
  "IsReady cp \<longleftrightarrow> GetCondition cp = conditionReady"

definition IsDeploying :: "ControlPlane \<Rightarrow> bool" where
  "IsDeploying cp \<longleftrightarrow> GetCondition cp = conditionDeploying"

definition IsUpdating :: "ControlPlane \<Rightarrow> bool" where
  "IsUpdating cp \<longleftrightarrow> GetCondition cp = conditionUpdating"

lemmas condition_names = conditionReady_def conditionDeploying_def conditionUpdating_def

lemma condition_names_distinct [simp]:
  "conditionReady \<noteq> conditionDeploying" "conditionReady \<noteq> conditionUpdating"
  "conditionDeploying \<noteq> conditionReady" "conditionDeploying \<noteq> conditionUpdating"
  "conditionUpdating \<noteq> conditionReady" "conditionUpdating \<noteq> conditionDeploying"
  by (simp_all add: condition_names)

subsection \<open>Reading the state off the conditions\<close>

abbreviation is_true :: "Condition \<Rightarrow> bool" where
  "is_true c \<equiv> c_Status c = ConditionTrue"

lemma get_condition_filter:
  "get_condition gen cs = get_condition gen (filter is_true cs)"
  by (induction cs) auto

lemma get_condition_none: "\<forall>c \<in> set cs. \<not> is_true c \<Longrightarrow> get_condition gen cs = conditionDeploying"
  by (induction cs) auto

lemma clear_condition_not_true [simp]: "\<not> is_true (clear_condition now gen ty c)"
  by (simp add: clear_condition_def Let_def)

lemma clear_condition_type [simp]: "c_Type (clear_condition now gen ty c) = c_Type c"
  by (simp add: clear_condition_def Let_def)

lemma setCondition_meta [simp]:
  "cp_Meta (setCondition ssc now ty cp) = cp_Meta cp"
  "cp_Spec (setCondition ssc now ty cp) = cp_Spec cp"
  by (simp_all add: setCondition_def)

subsection \<open>Reasons are migrated\<close>

definition plain_reason :: "string \<Rightarrow> bool" where
  "plain_reason r \<longleftrightarrow> CHR '' '' \<notin> set r \<and> CHR ''-'' \<notin> set r"

lemma normalize_reason_plain: "plain_reason (normalize_reason r)"
  by (auto simp: plain_reason_def normalize_reason_def replaceAll_byte)

lemma clear_condition_reason:
  "plain_reason ty \<Longrightarrow> plain_reason (c_Reason (clear_condition now gen ty c))"
  using normalize_reason_plain by (auto simp: clear_condition_def Let_def plain_reason_def)

subsection \<open>The interface of the library's list update\<close>

definition same_but_time :: "Condition \<Rightarrow> Condition \<Rightarrow> bool" where
  "same_but_time a b \<longleftrightarrow> a\<lparr>c_LastTransitionTime := 0\<rparr> = b\<lparr>c_LastTransitionTime := 0\<rparr>"

lemma same_but_time_fields:
  "same_but_time a b \<Longrightarrow>
     c_Type a = c_Type b \<and> c_Status a = c_Status b \<and> c_Reason a = c_Reason b \<and>
     c_ObservedGeneration a = c_ObservedGeneration b"
  by (cases a; cases b) (simp add: same_but_time_def)

lemma first_of_type:
  assumes "t \<in> c_Type ` set cs"
  shows "\<exists>pre old post. cs = pre @ old # post \<and> c_Type old = t \<and> (\<forall>c \<in> set pre. c_Type c \<noteq> t)"
proof -
  from assms have "\<exists>c \<in> set cs. c_Type c = t" by auto
  then obtain pre old post where "cs = pre @ old # post" "c_Type old = t"
    "\<forall>c \<in> set pre. \<not> c_Type c = t"
    by (rule split_list_first_propE)
  then show ?thesis by blast
qed

locale status_condition =
  fixes ssc :: set_status_condition
  assumes set_existing:
    "\<forall>c \<in> set pre. c_Type c \<noteq> c_Type n \<Longrightarrow> c_Type old = c_Type n \<Longrightarrow>
     \<exists>n'. same_but_time n' n \<and> ssc (pre @ old # post) n = pre @ n' # post"
  and set_new:
    "\<forall>c \<in> set cs. c_Type c \<noteq> c_Type n \<Longrightarrow>
     \<exists>n'. same_but_time n' n \<and> ssc cs n = cs @ [n']"
begin

lemma set_cases:
  "\<exists>n' pre post. same_but_time n' n \<and> ssc cs n = pre @ n' # post \<and>
     set pre \<union> set post \<subseteq> set cs"
proof (cases "c_Type n \<in> c_Type ` set cs")
  case True
  then obtain pre old post where cs: "cs = pre @ old # post" "c_Type old = c_Type n"
    "\<forall>c \<in> set pre. c_Type c \<noteq> c_Type n"
    using first_of_type by blast
  from set_existing [OF cs(3,2)] obtain n'
    where "same_but_time n' n" "ssc cs n = pre @ n' # post" unfolding cs(1) by blast
  with cs True show ?thesis
    by (intro exI [of _ n'] exI [of _ pre] exI [of _ post]) auto
next
  case False
  then have "\<forall>c \<in> set cs. c_Type c \<noteq> c_Type n" by (metis imageI)
  from set_new [OF this] obtain n' where "same_but_time n' n" "ssc cs n = cs @ [n']" by blast
  with False show ?thesis
    by (intro exI [of _ n'] exI [of _ cs] exI [of _ "[]"]) auto
qed

lemma true_after_clear:
  "\<exists>c. filter is_true (cp_Conditions (setCondition ssc now ty cp)) = [c] \<and>
     c_Type c = ty \<and> c_ObservedGeneration c = cp_Generation cp"
proof -
  let ?n = "new_condition now (cp_Generation cp) ty"
  let ?cs = "map (clear_condition now (cp_Generation cp) ty) (cp_Conditions cp)"
  obtain n' pre post where n': "same_but_time n' ?n" "ssc ?cs ?n = pre @ n' # post"
    "set pre \<union> set post \<subseteq> set ?cs"
    using set_cases [of ?n ?cs] by blast
  have "\<forall>c \<in> set pre \<union> set post. \<not> is_true c" using n'(3) by auto
  then have "filter is_true pre = []" "filter is_true post = []"
    by (auto intro: filter_none)
  moreover have "is_true n'" "c_Type n' = ty" "c_ObservedGeneration n' = cp_Generation cp"
    using same_but_time_fields [OF n'(1)] by (simp_all add: new_condition_def)
  ultimately show ?thesis
    using n'(2) by (intro exI [of _ n']) (simp add: setCondition_def)
qed

lemma get_set: "GetCondition (setCondition ssc now ty cp) = ty"
proof -
  obtain c where "filter is_true (cp_Conditions (setCondition ssc now ty cp)) = [c]"
    "c_Type c = ty" "c_ObservedGeneration c = cp_Generation cp"
    using true_after_clear by blast
  then show ?thesis
    by (subst GetCondition_def, subst get_condition_filter)
      (auto simp: GetCondition_def dest: filter_eq_ConsD)
qed

lemma types_kept:
  "map c_Type (cp_Conditions (setCondition ssc now ty cp)) =
     (if ty \<in> c_Type ` set (cp_Conditions cp) then map c_Type (cp_Conditions cp)
      else map c_Type (cp_Conditions cp) @ [ty])"
proof -
  let ?n = "new_condition now (cp_Generation cp) ty"
  let ?cs = "map (clear_condition now (cp_Generation cp) ty) (cp_Conditions cp)"
  have ty: "c_Type ?n = ty" by (simp add: new_condition_def)
  have types: "map c_Type ?cs = map c_Type (cp_Conditions cp)" by simp
  then have mem: "c_Type ` set ?cs = c_Type ` set (cp_Conditions cp)" by (metis list.set_map)
  show ?thesis
  proof (cases "ty \<in> c_Type ` set (cp_Conditions cp)")
    case True
    then have "c_Type ?n \<in> c_Type ` set ?cs" using mem ty by simp
    then obtain pre old post where cs: "?cs = pre @ old # post" "c_Type old = c_Type ?n"
      "\<forall>c \<in> set pre. c_Type c \<noteq> c_Type ?n"
      using first_of_type by blast
    from set_existing [OF cs(3,2)] obtain n'
      where n': "same_but_time n' ?n" "ssc ?cs ?n = pre @ n' # post" unfolding cs(1) by blast
    then have "map c_Type (ssc ?cs ?n) = map c_Type ?cs"
      using cs(1,2) same_but_time_fields [OF n'(1)] by simp
    with True types show ?thesis by (simp add: setCondition_def)
  next
    case False
    then have "\<forall>c \<in> set ?cs. c_Type c \<noteq> c_Type ?n" using mem ty by (metis imageI)
    from set_new [OF this] obtain n' where n': "same_but_time n' ?n" "ssc ?cs ?n = ?cs @ [n']"
      by blast
    then have "map c_Type (ssc ?cs ?n) = map c_Type ?cs @ [ty]"
      using same_but_time_fields [OF n'(1)] ty by simp
    with False types show ?thesis by (simp add: setCondition_def)
  qed
qed

lemma reasons_plain:
  assumes "plain_reason ty" and "c \<in> set (cp_Conditions (setCondition ssc now ty cp))"
  shows "plain_reason (c_Reason c)"
proof -
  let ?n = "new_condition now (cp_Generation cp) ty"
  let ?cs = "map (clear_condition now (cp_Generation cp) ty) (cp_Conditions cp)"
  obtain n' pre post where n': "same_but_time n' ?n" "ssc ?cs ?n = pre @ n' # post"
    "set pre \<union> set post \<subseteq> set ?cs"
    using set_cases [of ?n ?cs] by blast
  have "c = n' \<or> c \<in> set ?cs"
    using assms(2) n'(2,3) by (auto simp: setCondition_def)
  then show ?thesis
  proof
    assume "c = n'"
    then show ?thesis
      using same_but_time_fields [OF n'(1)] by (simp add: new_condition_def plain_reason_def)
  next
    assume "c \<in> set ?cs"
    then show ?thesis using assms(1) by (auto intro: clear_condition_reason)
  qed
qed

end

subsection \<open>A list update that keeps the promises\<close>

text \<open>
  The update as the library documents it: the transition time is taken over only when the
  status changes.
\<close>

fun set_status_condition_ref :: set_status_condition where
  "set_status_condition_ref [] n = [n]"
| "set_status_condition_ref (c # cs) n =
     (if c_Type c = c_Type n
      then (if c_Status c = c_Status n
            then n\<lparr>c_LastTransitionTime := c_LastTransitionTime c\<rparr> else n) # cs
      else c # set_status_condition_ref cs n)"

lemma set_status_condition_ref_existing:
  "\<forall>c \<in> set pre. c_Type c \<noteq> c_Type n \<Longrightarrow> c_Type old = c_Type n \<Longrightarrow>
   \<exists>n'. same_but_time n' n \<and> set_status_condition_ref (pre @ old # post) n = pre @ n' # post"
  by (induction pre) (auto simp: same_but_time_def)

lemma set_status_condition_ref_new:
  "\<forall>c \<in> set cs. c_Type c \<noteq> c_Type n \<Longrightarrow>
   \<exists>n'. same_but_time n' n \<and> set_status_condition_ref cs n = cs @ [n']"
  by (induction cs) (auto simp: same_but_time_def)

interpretation ssc_ref: status_condition set_status_condition_ref
  by unfold_locales (blast intro: set_status_condition_ref_existing set_status_condition_ref_new)+

subsection \<open>The state machine of a ControlPlane\<close>

text \<open>A ControlPlane without any field set, for closed examples.\<close>

definition empty_spec :: ControlPlaneSpec where
  "empty_spec =
     (let no_svc = \<lparr>svc_Type = [], svc_Address = [], svc_Annotations = Map.empty,
                    svc_ExternalTrafficPolicy = []\<rparr>
      in \<lparr>spec_Auth = \<lparr>auth_URL = [], auth_Realm = [], auth_SSL = [], auth_RealmKey = [],
            auth_ControllerClient = [], auth_ControllerSecret = [], auth_ViewerClient = []\<rparr>,
          spec_Database = \<lparr>db_Provider = [], db_Host = [], db_Port = 0, db_User = [],
            db_Password = [], db_DatabaseName = [], db_SSL = None, db_CA = None\<rparr>,
          spec_Ingresses = \<lparr>ing_Controller = \<lparr>ci_Annotations = Map.empty, ci_IngressClassName = [],
              ci_Host = [], ci_SecretName = []\<rparr>,
            ing_Router = \<lparr>ri_Address = [], ri_MessagePort = 0, ri_InteriorPort = 0, ri_EdgePort = 0\<rparr>,
            ing_Nats = \<lparr>ni_Address = [], ni_ServerPort = 0, ni_ClusterPort = 0, ni_LeafPort = 0,
              ni_MqttPort = 0, ni_HttpPort = 0\<rparr>\<rparr>,
          spec_Services = \<lparr>svcs_Controller = no_svc, svcs_Router = no_svc, svcs_Nats = no_svc,
            svcs_NatsServer = no_svc\<rparr>,
          spec_Replicas = \<lparr>rep_Controller = 0, rep_Nats = 0\<rparr>,
          spec_Images = \<lparr>img_PullSecret = [], img_Controller = [], img_Router = [], img_Nats = []\<rparr>,
          spec_Controller = \<lparr>ctl_PidBaseDir = [], ctl_EcnViewerPort = 0, ctl_EcnViewerURL = [],
            ctl_ECNName = [], ctl_Https = None, ctl_SecretName = [], ctl_LogLevel = []\<rparr>,
          spec_Events = \<lparr>evt_AuditEnabled = None, evt_RetentionDays = 0, evt_CleanupInterval = 0,
            evt_CaptureIpAddress = None\<rparr>,
          spec_Nats = None, spec_Vault = None\<rparr>)"

definition empty_cp :: ControlPlane where
  "empty_cp = \<lparr>cp_Meta = new_meta ''pot'' ''ns'' Map.empty Map.empty, cp_Spec = empty_spec,
               cp_Conditions = []\<rparr>"

text \<open>
  C27: A transition leaves exactly one true condition: the one of the new state, observed at the
  present generation, and the state read back is that state. So whatever conditions an object
  had, duplicates and several true ones included, after \<open>setCondition\<close> it is in one state.
\<close>

theorem setCondition_exclusive:
  assumes "status_condition ssc"
  shows "(\<exists>c. filter is_true (cp_Conditions (setCondition ssc now ty cp)) = [c] \<and>
              c_Type c = ty \<and> c_ObservedGeneration c = cp_Generation cp) \<and>
         GetCondition (setCondition ssc now ty cp) = ty"
  using status_condition.true_after_clear [OF assms] status_condition.get_set [OF assms] by blast

lemma setCondition_exclusive_witness:
  "GetCondition (setCondition set_status_condition_ref 7 conditionReady
     (empty_cp\<lparr>cp_Conditions := [new_condition 1 3 conditionDeploying,
                                  new_condition 2 3 conditionUpdating]\<rparr>)) = conditionReady"
  using setCondition_exclusive [OF ssc_ref.status_condition_axioms] by blast

text \<open>
  C28: A change of the spec is noticed: an object made ready at one generation reads as updating
  at every other generation, and as ready as long as the generation stays.
\<close>

theorem ready_until_next_generation:
  assumes "status_condition ssc"
  shows "GetCondition (SetConditionReady ssc now cp\<lparr>cp_Meta := (cp_Meta cp)\<lparr>m_generation := gen\<rparr>\<rparr>) =
           (if gen = cp_Generation cp then conditionReady else conditionUpdating)"
proof -
  let ?cp = "SetConditionReady ssc now cp"
  obtain c where c: "filter is_true (cp_Conditions ?cp) = [c]" "c_Type c = conditionReady"
    "c_ObservedGeneration c = cp_Generation cp"
    using status_condition.true_after_clear [OF assms, of now conditionReady cp]
    unfolding SetConditionReady_def by blast
  then have "c \<in> set (filter is_true (cp_Conditions ?cp))" by simp
  then have "is_true c" by simp
  with c have "get_condition gen (filter is_true (cp_Conditions ?cp)) =
      (if gen = cp_Generation cp then conditionReady else conditionUpdating)"
    by auto
  then show ?thesis
    by (simp add: GetCondition_def get_condition_filter [of gen, symmetric])
qed

lemma ready_until_next_generation_witness:
  "GetCondition (SetConditionReady set_status_condition_ref 7 empty_cp
     \<lparr>cp_Meta := (cp_Meta empty_cp)\<lparr>m_generation := 1\<rparr>\<rparr>) = conditionUpdating"
  using ready_until_next_generation [OF ssc_ref.status_condition_axioms,
      where now = 7 and cp = empty_cp and gen = 1]
  by (simp add: empty_cp_def new_meta_def)

text \<open>
  C37: The list of conditions keeps one entry per state: a transition never removes or reorders a
  condition, it adds one only for a type that is not there, and afterwards no reason holds a
  blank or a hyphen any more (the migration of old objects).
\<close>

theorem setCondition_types_and_reasons:
  assumes "status_condition ssc" and "plain_reason ty"
  shows "map c_Type (cp_Conditions (setCondition ssc now ty cp)) =
           (if ty \<in> c_Type ` set (cp_Conditions cp) then map c_Type (cp_Conditions cp)
            else map c_Type (cp_Conditions cp) @ [ty]) \<and>
         (\<forall>c \<in> set (cp_Conditions (setCondition ssc now ty cp)). plain_reason (c_Reason c))"
  using status_condition.types_kept [OF assms(1)] status_condition.reasons_plain [OF assms]
  by blast

lemma setCondition_types_and_reasons_witness:
  "map c_Type (cp_Conditions (setCondition set_status_condition_ref 7 conditionReady
     (empty_cp\<lparr>cp_Conditions := [(new_condition 1 3 conditionDeploying)\<lparr>c_Reason := ''Initial status-x''\<rparr>]\<rparr>))) =
   [conditionDeploying, conditionReady]"
  using setCondition_types_and_reasons [OF ssc_ref.status_condition_axioms, of conditionReady]
  by (simp add: plain_reason_def conditionReady_def conditionDeploying_def new_condition_def)

end
