(* ===== verification/NatsConfig.thy ===== *)
theory NatsConfig
  imports GoStrings
begin

text \<open>
  The configuration of the NATS hub (\<open>controllers/controlplanes/nats/config.go\<close>): the
  \<open>server.conf\<close> text built from a template, and the list of cluster routes in it. The routes
  the operator owns are one per replica; routes of other origin in the existing text are kept.

  A replica count is a \<open>nat\<close>: the one caller passes at least 2, and Go's \<open>make\<close> would panic on
  a negative count.
\<close>

subsection \<open>Names and sizes\<close>

definition DefaultServerPort :: int where "DefaultServerPort = 4222"
definition DefaultClusterPort :: int where "DefaultClusterPort = 6222"
definition DefaultLeafPort :: int where "DefaultLeafPort = 7422"
definition DefaultMqttPort :: int where "DefaultMqttPort = 8883"
definition DefaultHttpPort :: int where "DefaultHttpPort = 8222"

definition DefaultStorageSize :: string where "DefaultStorageSize = ''10G''"
definition DefaultMemoryStoreSize :: string where "DefaultMemoryStoreSize = ''1G''"
definition DefaultStorageSizePVC :: string where "DefaultStorageSizePVC = ''10Gi''"

definition ConfigMapName :: string where "ConfigMapName = ''iofog-nats-config''"
definition JWTBundleCMName :: string where "JWTBundleCMName = ''iofog-nats-jwt-bundle''"
definition HeadlessServiceName :: string where "HeadlessServiceName = ''nats-headless''"
definition ClientServiceName :: string where "ClientServiceName = ''nats''"
definition ServerServiceName :: string where "ServerServiceName = ''nats-server''"

definition JetStreamKeySecretName :: "string \<Rightarrow> string" where
  "JetStreamKeySecretName controlplaneName = ''nats-jetstream-key-'' @ controlplaneName"

definition ToNatsSize :: "string \<Rightarrow> string" where
  "ToNatsSize s0 =
     (let s = trimSpace s0 in
      if s = [] then s
      else let lower = toLower s; base = take (length s - 2) s in
        if hasSuffix lower ''gi'' then base @ ''G''
        else if hasSuffix lower ''mi'' then base @ ''M''
        else if hasSuffix lower ''ti'' then base @ ''T''
        else if hasSuffix lower ''ki'' then base @ ''K''
        else s)"

subsection \<open>The template and its values\<close>

definition unlines :: "string list \<Rightarrow> string" where
  "unlines ls = concat (map (\<lambda>l. l @ [CHR 0x0A]) ls)"

definition serverConfTemplateLines :: "string list" where
  "serverConfTemplateLines =
    [''port: $NATS_SERVER_PORT$'',
     ''server_name: $SELFNAME'',
     ''pid_file: /home/runner/run/nats.pid'',
     ''http_port: $NATS_HTTP_PORT$'',
     [],
     ''# Operator'',
     ''operator = $OPERATOR_JWT$'',
     [],
     ''# System account'',
     ''system_account = $SYSTEM_ACCOUNT$'',
     [],
     ''jetstream: {'',
     ''  store_dir: /home/runner/data'',
     ''  domain: $JETSTREAM_DOMAIN$'',
     ''  max_memory_store: $MAX_MEMORY_STORE$'',
     ''  max_file_store: $MAX_FILE_STORE$'',
     ''  cipher: chachapoly'',
     ''  key: \"$JETSTREAM_KEY$\"'',
     ''  prev_encryption_key: \"$JETSTREAM_PREV_KEY$\"'',
     ''}'',
     [],
     ''cluster: {'',
     ''  name: $CONTROLLER_NAME$'',
     ''  port: $NATS_CLUSTER_PORT$'',
     ''  no_advertise: true'',
     ''  routes: $NATS_CLUSTER_ROUTES$'',
     ''  tls: {'',
     ''    ca_file: \"$NATS_SSL_DIR$/$NATS_CERT_NAME$/ca.crt\"'',
     ''    cert_file: \"$NATS_SSL_DIR$/$NATS_CERT_NAME$/tls.crt\"'',
     ''    key_file: \"$NATS_SSL_DIR$/$NATS_CERT_NAME$/tls.key\"'',
     ''    handshake_first: true'',
     ''    verify: true'',
     ''    timeout: \"3s\"'',
     ''  }'',
     ''}'',
     [],
     ''leafnodes: {'',
     ''  port: $NATS_LEAF_PORT$'',
     ''  advertise: $NATS_LEAF_ADVERTISE$'',
     ''  tls: {'',
     ''    ca_file: \"$NATS_SSL_DIR$/$NATS_CERT_NAME$/ca.crt\"'',
     ''    cert_file: \"$NATS_SSL_DIR$/$NATS_CERT_NAME$/tls.crt\"'',
     ''    key_file: \"$NATS_SSL_DIR$/$NATS_CERT_NAME$/tls.key\"'',
     ''    verify: true'',
     CHR 0x09 # ''handshake_first: true'',
     ''    timeout: \"3s\"'',
     ''  }'',
     ''}'',
     [],
     ''mqtt: {'',
     ''  port: $NATS_MQTT_PORT$'',
     ''  tls: {'',
     ''    ca_file: \"$NATS_SSL_DIR$/$NATS_MQTT_CERT_NAME$/ca.crt\"'',
     ''    cert_file: \"$NATS_SSL_DIR$/$NATS_MQTT_CERT_NAME$/tls.crt\"'',
     ''    key_file: \"$NATS_SSL_DIR$/$NATS_MQTT_CERT_NAME$/tls.key\"'',
     ''    handshake_first: true'',
     ''    timeout: \"3s\"'',
     ''  }'',
     ''}'',
     [],
     ''resolver: {'',
     ''  type: full'',
     ''  dir: \"$NATS_JWT_DIR$\"'',
     ''  allow_delete: false'',
     ''  interval: \"2m\"'',
     ''}'']"

definition serverConfTemplate :: string where
  "serverConfTemplate = unlines serverConfTemplateLines"

record ServerConfParams =
  scp_ServerPort :: int
  scp_HttpPort :: int
  scp_OperatorJWT :: string
  scp_SystemAccount :: string
  scp_JetStreamDomain :: string
  scp_JetStreamKey :: string
  scp_JetStreamPrev :: string
  scp_ClusterRoutes :: string
  scp_SSLDir :: string
  scp_CertName :: string
  scp_MqttCertName :: string
  scp_LeafPort :: int
  scp_LeafAdvertise :: string
  scp_ClusterPort :: int
  scp_MqttPort :: int
  scp_JWTDir :: string
  scp_ControllerName :: string
  scp_MaxMemoryStore :: string
  scp_MaxFileStore :: string

definition escapeConfString :: "string \<Rightarrow> string" where
  "escapeConfString s = replaceAll s [CHR 0x22] [CHR 0x5C, CHR 0x22]"

definition serverConfRepl :: "ServerConfParams \<Rightarrow> (string \<times> string) list" where
  "serverConfRepl p =
    [(''$NATS_SERVER_PORT$'', itoa (scp_ServerPort p)),
     (''$NATS_HTTP_PORT$'', itoa (scp_HttpPort p)),
     (''$OPERATOR_JWT$'', scp_OperatorJWT p),
     (''$SYSTEM_ACCOUNT$'', scp_SystemAccount p),
     (''$JETSTREAM_DOMAIN$'', scp_JetStreamDomain p),
     (''$JETSTREAM_KEY$'', escapeConfString (scp_JetStreamKey p)),
     (''$JETSTREAM_PREV_KEY$'', escapeConfString (scp_JetStreamPrev p)),
     (''$NATS_CLUSTER_ROUTES$'', scp_ClusterRoutes p),
     (''$NATS_SSL_DIR$'', scp_SSLDir p),
     (''$NATS_CERT_NAME$'', scp_CertName p),
     (''$NATS_MQTT_CERT_NAME$'', scp_MqttCertName p),
     (''$NATS_LEAF_PORT$'', itoa (scp_LeafPort p)),
     (''$NATS_LEAF_ADVERTISE$'', scp_LeafAdvertise p),
     (''$NATS_CLUSTER_PORT$'', itoa (scp_ClusterPort p)),
     (''$NATS_MQTT_PORT$'', itoa (scp_MqttPort p)),
     (''$NATS_JWT_DIR$'', scp_JWTDir p),
     (''$CONTROLLER_NAME$'', scp_ControllerName p),
     (''$MAX_MEMORY_STORE$'', scp_MaxMemoryStore p),
     (''$MAX_FILE_STORE$'', scp_MaxFileStore p)]"

definition BuildServerConf :: "ServerConfParams \<Rightarrow> string" where
  "BuildServerConf p = replacer (serverConfRepl p) serverConfTemplate"

subsection \<open>Cluster routes\<close>

definition quote_route :: "string \<Rightarrow> string" where
  "quote_route r = CHR 0x22 # r @ [CHR 0x22]"

definition ordinal_route :: "string \<Rightarrow> int \<Rightarrow> nat \<Rightarrow> string" where
  "ordinal_route headlessName clusterPort i =
     ''nats://nats-'' @ itoa (int i) @ ''.'' @ headlessName @ '':'' @ itoa clusterPort"

definition ClusterRoutesFormat :: "string \<Rightarrow> nat \<Rightarrow> string" where
  "ClusterRoutesFormat headlessName replicas =
     ''['' @ join '', ''
       (map (\<lambda>i. quote_route (ordinal_route headlessName DefaultClusterPort i)) [0..<replicas])
     @ '']''"

text \<open>One segment between commas, as \<open>parseRoutesFromServerConf\<close> cleans it.\<close>

definition clean_segment :: "string \<Rightarrow> string" where
  "clean_segment s = trimSpace (trimRightByte CHR '','' (trimByte CHR 0x22 (trimSpace s)))"

definition parseRoutesFromServerConf :: "string \<Rightarrow> string list option" where
  "parseRoutesFromServerConf serverConf =
     (case indexOf serverConf ''routes:'' of
        None \<Rightarrow> None
      | Some idx \<Rightarrow>
        let rest = drop (idx + length ''routes:'') serverConf in
        case indexOf rest ''['' of
          None \<Rightarrow> None
        | Some start \<Rightarrow>
          case indexOf (drop start rest) '']'' of
            None \<Rightarrow> None
          | Some end \<Rightarrow>
            let inner = trimSpace (take (end - 1) (drop (start + 1) rest)) in
            if inner = [] then Some []
            else let raw = filter (\<lambda>s. s \<noteq> []) (map clean_segment (splitByte CHR '','' inner))
                 in if raw = [] then None else Some raw)"

definition isK8sOrdinalRoute :: "string \<Rightarrow> string \<Rightarrow> int \<Rightarrow> bool" where
  "isK8sOrdinalRoute route headlessName clusterPort =
     (let prefix = ''nats://nats-''; suffix = ''.'' @ headlessName @ '':'' @ itoa clusterPort in
      if \<not> hasPrefix route prefix \<or> \<not> hasSuffix route suffix then False
      else atoi (trimPrefix (trimSuffix route suffix) prefix) \<noteq> None)"

definition norm_route :: "string \<Rightarrow> string" where
  "norm_route r = trimSpace (trimRightByte CHR '','' (trimByte CHR 0x22 r))"

fun collect_other :: "string \<Rightarrow> int \<Rightarrow> string list \<Rightarrow> string list \<Rightarrow> string list \<Rightarrow> string list" where
  "collect_other headlessName clusterPort k8sSet seenOther [] = []"
| "collect_other headlessName clusterPort k8sSet seenOther (r # rs) =
     (let norm = norm_route r in
      if norm = [] then collect_other headlessName clusterPort k8sSet seenOther rs
      else if isK8sOrdinalRoute norm headlessName clusterPort
      then collect_other headlessName clusterPort k8sSet seenOther rs
      else if norm \<in> set k8sSet then collect_other headlessName clusterPort k8sSet seenOther rs
      else if norm \<in> set seenOther
      then collect_other headlessName clusterPort k8sSet seenOther rs
      else norm # collect_other headlessName clusterPort k8sSet (norm # seenOther) rs)"

definition ClusterRoutesMerge :: "string \<Rightarrow> nat \<Rightarrow> int \<Rightarrow> string \<Rightarrow> string" where
  "ClusterRoutesMerge headlessName replicas clusterPort existingServerConf =
     (if existingServerConf = [] then ClusterRoutesFormat headlessName replicas
      else case parseRoutesFromServerConf existingServerConf of
        None \<Rightarrow> ClusterRoutesFormat headlessName replicas
      | Some existing \<Rightarrow>
        let k8sRoutes = map (\<lambda>i. quote_route (ordinal_route headlessName clusterPort i)) [0..<replicas];
            k8sSet = map (trimByte CHR 0x22) k8sRoutes;
            otherRoutes = collect_other headlessName clusterPort k8sSet [] existing
        in ''['' @ join '', '' (k8sRoutes @ map quote_route otherRoutes) @ '']'')"

subsection \<open>What the built text is\<close>

text \<open>
  Placeholders hold no line break, so a text is replaced line by line; and a line without a
  dollar sign stays as it is.
\<close>

lemma matchOld_no_cross:
  assumes "\<forall>on \<in> set ps. c \<notin> set (fst on)"
  shows "matchOld ps (a @ c # b) = matchOld ps a"
  using assms
proof (induction ps)
  case Nil
  then show ?case by simp
next
  case (Cons p ps)
  obtain old new where p: "p = (old, new)" by (cases p)
  have c: "c \<notin> set old" using Cons.prems by (simp add: p)
  have "hasPrefix (a @ c # b) old \<longleftrightarrow> hasPrefix a old"
  proof
    assume "hasPrefix (a @ c # b) old"
    then obtain r where r: "a @ c # b = old @ r" by (auto simp: hasPrefix_iff)
    with c show "hasPrefix a old"
      by (auto simp: hasPrefix_iff append_eq_append_conv2 Cons_eq_append_conv)
  qed (auto simp: hasPrefix_iff)
  with Cons show ?case by (simp add: p)
qed

lemma matchOld_Some: "matchOld ps s = Some on \<Longrightarrow> on \<in> set ps \<and> hasPrefix s (fst on)"
  by (induction ps) (auto split: if_splits)

lemma replacer_split:
  assumes ps: "\<forall>on \<in> set ps. c \<notin> set (fst on) \<and> fst on \<noteq> []"
  shows "replacer ps (a @ c # b) = replacer ps a @ c # replacer ps b"
proof (induction "length a" arbitrary: a rule: less_induct)
  case less
  have nc: "\<forall>on \<in> set ps. c \<notin> set (fst on)" using ps by auto
  show ?case
  proof (cases a)
    case Nil
    have "matchOld ps [] = None"
      using ps matchOld_Some [of ps "[]"] by (cases "matchOld ps []") (auto simp: hasPrefix_def)
    then have "matchOld ps (c # b) = None"
      using matchOld_no_cross [OF nc, of "[]" b] by simp
    with Nil show ?thesis by simp
  next
    case (Cons x xs)
    show ?thesis
    proof (cases "matchOld ps a")
      case None
      then have "matchOld ps (x # xs @ c # b) = None"
        using matchOld_no_cross [OF nc, of a b] Cons by simp
      with None Cons less.hyps [of xs] show ?thesis by simp
    next
      case (Some on)
      then have at: "matchOld ps (x # xs @ c # b) = Some on"
        using matchOld_no_cross [OF nc, of a b] Cons by simp
      from matchOld_Some [OF Some] have "hasPrefix (x # xs) (fst on)" using Cons by simp
      then have len: "length (fst on) - 1 \<le> length xs"
        by (auto simp: hasPrefix_iff dest!: arg_cong [where f = length])
      have "replacer ps (drop (length (fst on) - 1) xs @ c # b)
          = replacer ps (drop (length (fst on) - 1) xs) @ c # replacer ps b"
        using Cons by (intro less.hyps) simp
      with at Some Cons len show ?thesis by simp
    qed
  qed
qed

lemma replacer_unlines:
  assumes "\<forall>on \<in> set ps. CHR 0x0A \<notin> set (fst on) \<and> fst on \<noteq> []"
  shows "replacer ps (unlines ls) = unlines (map (replacer ps) ls)"
  by (induction ls) (simp_all add: unlines_def replacer_split [OF assms])

lemma serverConfRepl_olds:
  "\<forall>on \<in> set (serverConfRepl p). CHR 0x0A \<notin> set (fst on) \<and> fst on \<noteq> []"
  by (simp add: serverConfRepl_def)

lemma conf_plain_byte:
  "c \<noteq> CHR ''$'' \<Longrightarrow>
     replacer (serverConfRepl p) (c # cs) = c # replacer (serverConfRepl p) cs"
  by (simp add: serverConfRepl_def)

lemmas conf_dollar = replacer.simps(2) [of "serverConfRepl p" "CHR ''$''" for p]

lemma conf_match:
  "matchOld (serverConfRepl p) s = matchOld
    [(''$NATS_SERVER_PORT$'', itoa (scp_ServerPort p)),
     (''$NATS_HTTP_PORT$'', itoa (scp_HttpPort p)),
     (''$OPERATOR_JWT$'', scp_OperatorJWT p),
     (''$SYSTEM_ACCOUNT$'', scp_SystemAccount p),
     (''$JETSTREAM_DOMAIN$'', scp_JetStreamDomain p),
     (''$JETSTREAM_KEY$'', escapeConfString (scp_JetStreamKey p)),
     (''$JETSTREAM_PREV_KEY$'', escapeConfString (scp_JetStreamPrev p)),
     (''$NATS_CLUSTER_ROUTES$'', scp_ClusterRoutes p),
     (''$NATS_SSL_DIR$'', scp_SSLDir p),
     (''$NATS_CERT_NAME$'', scp_CertName p),
     (''$NATS_MQTT_CERT_NAME$'', scp_MqttCertName p),
     (''$NATS_LEAF_PORT$'', itoa (scp_LeafPort p)),
     (''$NATS_LEAF_ADVERTISE$'', scp_LeafAdvertise p),
     (''$NATS_CLUSTER_PORT$'', itoa (scp_ClusterPort p)),
     (''$NATS_MQTT_PORT$'', itoa (scp_MqttPort p)),
     (''$NATS_JWT_DIR$'', scp_JWTDir p),
     (''$CONTROLLER_NAME$'', scp_ControllerName p),
     (''$MAX_MEMORY_STORE$'', scp_MaxMemoryStore p),
     (''$MAX_FILE_STORE$'', scp_MaxFileStore p)] s"
  by (simp add: serverConfRepl_def)

definition conf_before_routes :: "ServerConfParams \<Rightarrow> string" where
  "conf_before_routes p = unlines
    [''port: '' @ itoa (scp_ServerPort p),
     ''server_name: $SELFNAME'',
     ''pid_file: /home/runner/run/nats.pid'',
     ''http_port: '' @ itoa (scp_HttpPort p),
     [],
     ''# Operator'',
     ''operator = '' @ scp_OperatorJWT p,
     [],
     ''# System account'',
     ''system_account = '' @ scp_SystemAccount p,
     [],
     ''jetstream: {'',
     ''  store_dir: /home/runner/data'',
     ''  domain: '' @ scp_JetStreamDomain p,
     ''  max_memory_store: '' @ scp_MaxMemoryStore p,
     ''  max_file_store: '' @ scp_MaxFileStore p,
     ''  cipher: chachapoly'',
     ''  key: \"'' @ escapeConfString (scp_JetStreamKey p) @ ''\"'',
     ''  prev_encryption_key: \"'' @ escapeConfString (scp_JetStreamPrev p) @ ''\"'',
     ''}'',
     [],
     ''cluster: {'',
     ''  name: '' @ scp_ControllerName p,
     ''  port: '' @ itoa (scp_ClusterPort p),
     ''  no_advertise: true'']"

definition conf_after_routes :: "ServerConfParams \<Rightarrow> string" where
  "conf_after_routes p = unlines
    [''  tls: {'',
     ''    ca_file: \"'' @ scp_SSLDir p @ ''/'' @ scp_CertName p @ ''/ca.crt\"'',
     ''    cert_file: \"'' @ scp_SSLDir p @ ''/'' @ scp_CertName p @ ''/tls.crt\"'',
     ''    key_file: \"'' @ scp_SSLDir p @ ''/'' @ scp_CertName p @ ''/tls.key\"'',
     ''    handshake_first: true'',
     ''    verify: true'',
     ''    timeout: \"3s\"'',
     ''  }'',
     ''}'',
     [],
     ''leafnodes: {'',
     ''  port: '' @ itoa (scp_LeafPort p),
     ''  advertise: '' @ scp_LeafAdvertise p,
     ''  tls: {'',
     ''    ca_file: \"'' @ scp_SSLDir p @ ''/'' @ scp_CertName p @ ''/ca.crt\"'',
     ''    cert_file: \"'' @ scp_SSLDir p @ ''/'' @ scp_CertName p @ ''/tls.crt\"'',
     ''    key_file: \"'' @ scp_SSLDir p @ ''/'' @ scp_CertName p @ ''/tls.key\"'',
     ''    verify: true'',
     CHR 0x09 # ''handshake_first: true'',
     ''    timeout: \"3s\"'',
     ''  }'',
     ''}'',
     [],
     ''mqtt: {'',
     ''  port: '' @ itoa (scp_MqttPort p),
     ''  tls: {'',
     ''    ca_file: \"'' @ scp_SSLDir p @ ''/'' @ scp_MqttCertName p @ ''/ca.crt\"'',
     ''    cert_file: \"'' @ scp_SSLDir p @ ''/'' @ scp_MqttCertName p @ ''/tls.crt\"'',
     ''    key_file: \"'' @ scp_SSLDir p @ ''/'' @ scp_MqttCertName p @ ''/tls.key\"'',
     ''    handshake_first: true'',
     ''    timeout: \"3s\"'',
     ''  }'',
     ''}'',
     [],
     ''resolver: {'',
     ''  type: full'',
     ''  dir: \"'' @ scp_JWTDir p @ ''\"'',
     ''  allow_delete: false'',
     ''  interval: \"2m\"'',
     ''}'']"

lemma unlines_append: "unlines (a @ b) = unlines a @ unlines b"
  by (simp add: unlines_def)

lemma BuildServerConf_eq:
  "BuildServerConf p =
     conf_before_routes p @ ''  routes: '' @ scp_ClusterRoutes p @ [CHR 0x0A] @ conf_after_routes p"
proof -
  have "BuildServerConf p = unlines (map (replacer (serverConfRepl p)) serverConfTemplateLines)"
    by (simp add: BuildServerConf_def serverConfTemplate_def replacer_unlines [OF serverConfRepl_olds])
  also have "map (replacer (serverConfRepl p)) serverConfTemplateLines =
    [''port: '' @ itoa (scp_ServerPort p),
     ''server_name: $SELFNAME'',
     ''pid_file: /home/runner/run/nats.pid'',
     ''http_port: '' @ itoa (scp_HttpPort p),
     [],
     ''# Operator'',
     ''operator = '' @ scp_OperatorJWT p,
     [],
     ''# System account'',
     ''system_account = '' @ scp_SystemAccount p,
     [],
     ''jetstream: {'',
     ''  store_dir: /home/runner/data'',
     ''  domain: '' @ scp_JetStreamDomain p,
     ''  max_memory_store: '' @ scp_MaxMemoryStore p,
     ''  max_file_store: '' @ scp_MaxFileStore p,
     ''  cipher: chachapoly'',
     ''  key: \"'' @ escapeConfString (scp_JetStreamKey p) @ ''\"'',
     ''  prev_encryption_key: \"'' @ escapeConfString (scp_JetStreamPrev p) @ ''\"'',
     ''}'',
     [],
     ''cluster: {'',
     ''  name: '' @ scp_ControllerName p,
     ''  port: '' @ itoa (scp_ClusterPort p),
     ''  no_advertise: true''] @ (''  routes: '' @ scp_ClusterRoutes p) #
    [''  tls: {'',
     ''    ca_file: \"'' @ scp_SSLDir p @ ''/'' @ scp_CertName p @ ''/ca.crt\"'',
     ''    cert_file: \"'' @ scp_SSLDir p @ ''/'' @ scp_CertName p @ ''/tls.crt\"'',
     ''    key_file: \"'' @ scp_SSLDir p @ ''/'' @ scp_CertName p @ ''/tls.key\"'',
     ''    handshake_first: true'',
     ''    verify: true'',
     ''    timeout: \"3s\"'',
     ''  }'',
     ''}'',
     [],
     ''leafnodes: {'',
     ''  port: '' @ itoa (scp_LeafPort p),
     ''  advertise: '' @ scp_LeafAdvertise p,
     ''  tls: {'',
     ''    ca_file: \"'' @ scp_SSLDir p @ ''/'' @ scp_CertName p @ ''/ca.crt\"'',
     ''    cert_file: \"'' @ scp_SSLDir p @ ''/'' @ scp_CertName p @ ''/tls.crt\"'',
     ''    key_file: \"'' @ scp_SSLDir p @ ''/'' @ scp_CertName p @ ''/tls.key\"'',
     ''    verify: true'',
     CHR 0x09 # ''handshake_first: true'',
     ''    timeout: \"3s\"'',
     ''  }'',
     ''}'',
     [],
     ''mqtt: {'',
     ''  port: '' @ itoa (scp_MqttPort p),
     ''  tls: {'',
     ''    ca_file: \"'' @ scp_SSLDir p @ ''/'' @ scp_MqttCertName p @ ''/ca.crt\"'',
     ''    cert_file: \"'' @ scp_SSLDir p @ ''/'' @ scp_MqttCertName p @ ''/tls.crt\"'',
     ''    key_file: \"'' @ scp_SSLDir p @ ''/'' @ scp_MqttCertName p @ ''/tls.key\"'',
     ''    handshake_first: true'',
     ''    timeout: \"3s\"'',
     ''  }'',
     ''}'',
     [],
     ''resolver: {'',
     ''  type: full'',
     ''  dir: \"'' @ scp_JWTDir p @ ''\"'',
     ''  allow_delete: false'',
     ''  interval: \"2m\"'',
     ''}'']"
    by (simp add: serverConfTemplateLines_def conf_plain_byte conf_dollar conf_match
        del: replacer.simps(2))
  finally show ?thesis
    by (simp add: conf_before_routes_def conf_after_routes_def unlines_def)
qed

end
