(* ===== verification/NatsRoutes.thy ===== *)
theory NatsRoutes
  imports NatsConfig
begin

text \<open>
  What the cluster routes of \<open>server.conf\<close> keep: the parser reads back what the operator wrote,
  a merge replaces exactly the routes the operator owns, and over any sequence of reconciles the
  routes of other origin are kept once each, in their order.
\<close>

subsection \<open>Reading back what was written\<close>

definition plain_char :: "char \<Rightarrow> bool" where
  "plain_char c \<longleftrightarrow> \<not> isSpace c \<and> c \<noteq> CHR '','' \<and> c \<noteq> CHR 0x22 \<and> c \<noteq> CHR '']''"

text \<open>A route that survives writing and reading: a URL without blanks, commas, quotes, brackets.\<close>

definition route_ok :: "string \<Rightarrow> bool" where
  "route_ok r \<longleftrightarrow> r \<noteq> [] \<and> list_all plain_char r"

definition routes_text :: "string list \<Rightarrow> string" where
  "routes_text rs = ''['' @ join '', '' (map quote_route rs) @ '']''"

lemma indexOf_first:
  "indexOf (a @ sub) sub = Some (length a) \<Longrightarrow> indexOf (a @ sub @ b) sub = Some (length a)"
proof (induction a)
  case Nil
  then show ?case by (simp add: indexOf_at)
next
  case (Cons x a)
  then have no: "\<not> hasPrefix (x # a @ sub) sub" by auto
  then have "\<not> hasPrefix ((x # a @ sub) @ b) sub"
    using hasPrefix_append_sub [of "x # a @ sub" b sub] by auto
  with Cons no show ?case by auto
qed

lemma plain_char_special [simp]:
  "\<not> plain_char CHR '',''" "\<not> plain_char CHR 0x22" "\<not> plain_char CHR '']''" "\<not> plain_char CHR '' ''"
  by (simp_all add: plain_char_def isSpace_def)

lemma isSpace_quote [simp]: "\<not> isSpace CHR 0x22"
  by (simp add: isSpace_def)

lemma route_ok_chars: "route_ok r \<Longrightarrow> c \<in> set r \<Longrightarrow> plain_char c"
  by (auto simp: route_ok_def list_all_iff)

lemma quote_route_trimSpace: "trimSpace (quote_route r) = quote_route r"
  by (simp add: trimSpace_def quote_route_def trimBy_id)

lemma plain_trims:
  assumes "route_ok r"
  shows "trimRightByte CHR '','' r = r" and "trimSpace r = r" and "trimByte CHR 0x22 r = r"
proof -
  have all: "\<forall>c \<in> set r. plain_char c" using assms by (auto dest: route_ok_chars)
  have ne: "r \<noteq> []" using assms by (simp add: route_ok_def)
  have "last r \<noteq> CHR '',''" using all last_in_set [OF ne] by auto
  then show "trimRightByte CHR '','' r = r" by (simp add: trimRightByte_def trimRightBy_id)
  show "trimSpace r = r"
    unfolding trimSpace_def using all by (intro trimBy_none) (auto simp: plain_char_def)
  show "trimByte CHR 0x22 r = r"
    unfolding trimByte_def using all by (intro trimBy_none) (auto simp: plain_char_def)
qed

lemma norm_route_ok: "route_ok r \<Longrightarrow> norm_route r = r"
  by (simp add: norm_route_def plain_trims)

lemma trimByte_quote_route: "route_ok r \<Longrightarrow> trimByte CHR 0x22 (quote_route r) = r"
  unfolding quote_route_def by (rule trimByte_quoted) (auto dest: route_ok_chars)

lemma clean_segment_quote: "route_ok r \<Longrightarrow> clean_segment (quote_route r) = r"
  by (simp add: clean_segment_def quote_route_trimSpace trimByte_quote_route plain_trims)

lemma clean_segment_space: "clean_segment (CHR '' '' # s) = clean_segment s"
  by (simp add: clean_segment_def trimSpace_def trimLeftBy_Cons isSpace_def)

lemma quote_route_chars:
  assumes "route_ok r" and "c \<in> set (quote_route r)"
  shows "c \<noteq> CHR '',''" and "c \<noteq> CHR '']''"
  using assms by (auto simp: quote_route_def dest: route_ok_chars)

lemma join_routes_no_bracket:
  assumes "\<forall>r \<in> set rs. route_ok r"
  shows "CHR '']'' \<notin> set (join '', '' (map quote_route rs))"
  using set_join [of "'', ''" "map quote_route rs"] quote_route_chars(2) assms by fastforce

lemma join_routes_ends:
  "rs \<noteq> [] \<Longrightarrow> \<exists>m. join '', '' (map quote_route rs) = CHR 0x22 # m @ [CHR 0x22]"
proof (induction rs rule: rev_induct)
  case Nil
  then show ?case by simp
next
  case (snoc r rs)
  show ?case
  proof (cases rs)
    case Nil
    then show ?thesis by (simp add: quote_route_def)
  next
    case Cons
    with snoc.IH obtain m where "join '', '' (map quote_route rs) = CHR 0x22 # m @ [CHR 0x22]" by auto
    moreover have "join '', '' (map quote_route (rs @ [r])) =
        join '', '' (map quote_route rs) @ '', '' @ quote_route r"
      using Cons join_snoc [of "map quote_route rs" "'', ''" "quote_route r"] by simp
    ultimately have "join '', '' (map quote_route (rs @ [r])) =
        CHR 0x22 # (m @ CHR 0x22 # '', '' @ CHR 0x22 # r) @ [CHR 0x22]"
      by (simp add: quote_route_def [of r])
    then show ?thesis by blast
  qed
qed

lemma split_routes:
  assumes "rs \<noteq> []" and "\<forall>r \<in> set rs. route_ok r"
  shows "map clean_segment (splitByte CHR '','' (join '', '' (map quote_route rs))) = rs"
proof -
  have "\<forall>q \<in> set (map quote_route rs). CHR '','' \<notin> set q"
    using assms(2) quote_route_chars(1) by fastforce
  then have "splitByte CHR '','' (join '', '' (map quote_route rs)) =
      hd (map quote_route rs) # map (\<lambda>x. CHR '' '' # x) (tl (map quote_route rs))"
    using assms(1) by (intro splitByte_join_comma_space) auto
  with assms show ?thesis
    by (cases rs) (auto simp: clean_segment_quote clean_segment_space intro: map_idI)
qed

lemma parse_routes_text:
  assumes at: "indexOf (a @ ''routes:'') ''routes:'' = Some (length a)"
    and w: "CHR ''['' \<notin> set w" and ok: "\<forall>r \<in> set rs. route_ok r"
  shows "parseRoutesFromServerConf (a @ ''routes:'' @ w @ routes_text rs @ b) = Some rs"
proof -
  let ?J = "join '', '' (map quote_route rs)"
  have idx: "indexOf (a @ ''routes:'' @ w @ routes_text rs @ b) ''routes:'' = Some (length a)"
    using at by (rule indexOf_first)
  have start: "indexOf (w @ CHR ''['' # ?J @ CHR '']'' # b) ''['' = Some (length w)"
    using w by (rule indexOf_byte_split)
  have stop: "indexOf (CHR ''['' # ?J @ CHR '']'' # b) '']'' = Some (Suc (length ?J))"
    using indexOf_byte_split [of "CHR '']''" "CHR ''['' # ?J" b] join_routes_no_bracket [OF ok]
    by simp
  have rest: "drop (length a + length ''routes:'') (a @ ''routes:'' @ w @ routes_text rs @ b) =
      w @ CHR ''['' # ?J @ CHR '']'' # b"
    by (simp add: routes_text_def)
  show ?thesis
  proof (cases "rs = []")
    case True
    then show ?thesis
      using idx rest start stop
      by (simp add: parseRoutesFromServerConf_def Let_def trimSpace_def trimBy_def trimLeftBy_def
          trimRightBy_def)
  next
    case False
    obtain m where m: "?J = CHR 0x22 # m @ [CHR 0x22]" using join_routes_ends [OF False] by blast
    then have trim: "trimSpace ?J = ?J" by (simp add: trimSpace_def trimBy_id)
    have pieces: "map clean_segment (splitByte CHR '','' ?J) = rs"
      using False ok by (rule split_routes)
    have "filter (\<lambda>s. s \<noteq> []) rs = rs"
      using ok by (intro filter_idem_on) (auto simp: route_ok_def)
    then show ?thesis
      using False idx rest start stop trim pieces m
      by (simp add: parseRoutesFromServerConf_def Let_def)
  qed
qed

subsection \<open>The routes the operator owns\<close>

definition host_ok :: "string \<Rightarrow> bool" where
  "host_ok h \<longleftrightarrow> list_all plain_char h"

lemma digit_plain: "isDigit c \<Longrightarrow> plain_char c"
  by (auto simp: isDigit_def plain_char_def isSpace_def)

lemma itoa_plain:
  assumes "c \<in> set (itoa i)"
  shows "plain_char c"
proof -
  have "c = CHR ''-'' \<or> isDigit c"
    using assms itoa_nat_digits by (auto simp: itoa_def split: if_splits)
  then show ?thesis
  proof
    assume "c = CHR ''-''"
    then show ?thesis by (simp add: plain_char_def isSpace_def)
  qed (rule digit_plain)
qed

lemma ordinal_route_ok:
  assumes "host_ok h"
  shows "route_ok (ordinal_route h p i)"
proof -
  have "list_all plain_char (itoa j)" for j by (simp add: list_all_iff itoa_plain)
  moreover have "list_all plain_char ''nats://nats-''" "plain_char CHR ''.''" "plain_char CHR '':''"
    by (simp_all add: plain_char_def isSpace_def)
  ultimately show ?thesis
    using assms by (simp add: route_ok_def ordinal_route_def host_ok_def)
qed

lemma ordinal_route_is_k8s:
  assumes "i < 2 ^ 63"
  shows "isK8sOrdinalRoute (ordinal_route h p i) h p"
proof -
  let ?pre = "''nats://nats-''" and ?suf = "''.'' @ h @ '':'' @ itoa p"
  have r: "ordinal_route h p i = (?pre @ itoa (int i)) @ ?suf"
    by (simp add: ordinal_route_def)
  have "hasPrefix (ordinal_route h p i) ?pre"
    unfolding ordinal_route_def by (rule hasPrefix_append)
  moreover have "hasSuffix (ordinal_route h p i) ?suf"
    unfolding r by (rule hasSuffix_append)
  moreover have "trimPrefix (trimSuffix (ordinal_route h p i) ?suf) ?pre = itoa (int i)"
    unfolding r by (simp only: trimSuffix_append trimPrefix_append)
  ultimately show ?thesis
    using assms by (simp add: isK8sOrdinalRoute_def Let_def itoa_of_nat atoi_itoa_nat)
qed

lemma ordinal_route_inj:
  "ordinal_route h p i = ordinal_route h p j \<longleftrightarrow> i = j"
  by (simp add: ordinal_route_def itoa_of_nat itoa_nat_inj)

definition own_routes :: "string \<Rightarrow> int \<Rightarrow> nat \<Rightarrow> string list" where
  "own_routes h p n = map (ordinal_route h p) [0..<n]"

lemma own_routes_ok: "host_ok h \<Longrightarrow> r \<in> set (own_routes h p n) \<Longrightarrow> route_ok r"
  by (auto simp: own_routes_def ordinal_route_ok)

lemma own_routes_k8s:
  "n \<le> 2 ^ 63 \<Longrightarrow> r \<in> set (own_routes h p n) \<Longrightarrow> isK8sOrdinalRoute r h p"
  by (auto simp: own_routes_def ordinal_route_is_k8s)

lemma distinct_own_routes: "distinct (own_routes h p n)"
  by (simp add: own_routes_def distinct_map inj_on_def ordinal_route_inj)

lemma ClusterRoutesFormat_text:
  "ClusterRoutesFormat h n = routes_text (own_routes h DefaultClusterPort n)"
  by (simp add: ClusterRoutesFormat_def routes_text_def own_routes_def comp_def)

subsection \<open>Merging\<close>

lemma collect_other_dedup:
  "collect_other h p ks seen rs =
     dedup seen (filter (\<lambda>r. r \<noteq> [] \<and> \<not> isK8sOrdinalRoute r h p \<and> r \<notin> set ks) (map norm_route rs))"
  by (induction h p ks seen rs rule: collect_other.induct) (auto simp: Let_def)

definition foreign :: "string \<Rightarrow> int \<Rightarrow> string \<Rightarrow> bool" where
  "foreign h p r \<longleftrightarrow> \<not> isK8sOrdinalRoute r h p"

lemma merge_text:
  assumes parsed: "parseRoutesFromServerConf conf = Some rs"
    and ok: "\<forall>r \<in> set rs. route_ok r" and h: "host_ok h" and n: "n \<le> 2 ^ 63"
  shows "ClusterRoutesMerge h n p conf =
           routes_text (own_routes h p n @ dedup [] (filter (foreign h p) rs))"
proof -
  let ?qs = "map (\<lambda>i. quote_route (ordinal_route h p i)) [0..<n]"
  have conf: "conf \<noteq> []"
    using parsed by (auto simp: parseRoutesFromServerConf_def)
  have ks: "map (trimByte CHR 0x22) ?qs = own_routes h p n"
    using h by (simp add: own_routes_def trimByte_quote_route ordinal_route_ok)
  have norm: "map norm_route rs = rs"
    using ok by (intro map_idI) (simp add: norm_route_ok)
  have keep: "filter (\<lambda>r. r \<noteq> [] \<and> \<not> isK8sOrdinalRoute r h p \<and> r \<notin> set (own_routes h p n)) rs =
      filter (foreign h p) rs"
    using ok own_routes_k8s [OF n] by (intro filter_cong) (auto simp: foreign_def route_ok_def)
  have "ClusterRoutesMerge h n p conf =
      ''['' @ join '', '' (?qs @ map quote_route
        (collect_other h p (map (trimByte CHR 0x22) ?qs) [] rs)) @ '']''"
    using parsed conf by (simp only: ClusterRoutesMerge_def Let_def option.case if_False)
  also have "collect_other h p (map (trimByte CHR 0x22) ?qs) [] rs = dedup [] (filter (foreign h p) rs)"
    by (simp only: ks collect_other_dedup norm keep)
  also have "?qs = map quote_route (own_routes h p n)"
    by (simp add: own_routes_def)
  finally show ?thesis
    by (simp only: routes_text_def map_append)
qed

subsection \<open>Reconciles in sequence\<close>

text \<open>
  The interface between the text of \<open>server.conf\<close> and its cluster routes: \<open>parse\<close> reads the
  routes of a text, \<open>merge n conf\<close> makes the routes for \<open>n\<close> replicas from the present text, and
  \<open>wrap p\<close> builds the next text around them, where \<open>p\<close> stands for everything else in it.
\<close>

locale route_table =
  fixes parse :: "string \<Rightarrow> string list option"
    and merge :: "nat \<Rightarrow> string \<Rightarrow> string"
    and wrap :: "'p \<Rightarrow> string \<Rightarrow> string"
    and own :: "nat \<Rightarrow> string list"
    and other :: "string \<Rightarrow> bool"
    and ok :: "string \<Rightarrow> bool"
    and fits :: "'p \<Rightarrow> nat \<Rightarrow> bool"
  assumes parse_wrap_merge:
    "fits p n \<Longrightarrow> parse conf = Some rs \<Longrightarrow> \<forall>r \<in> set rs. ok r \<Longrightarrow>
     parse (wrap p (merge n conf)) = Some (own n @ dedup [] (filter other rs))"
  and own_routes: "fits p n \<Longrightarrow> r \<in> set (own n) \<Longrightarrow> ok r \<and> \<not> other r"
begin

lemma wrap_merge_ok:
  assumes "fits p n" and "\<forall>r \<in> set rs. ok r"
  shows "\<forall>r \<in> set (own n @ dedup [] (filter other rs)). ok r"
  using assms own_routes by (auto simp: set_dedup)

lemma other_after_merge:
  assumes "fits p n"
  shows "dedup [] (filter other (own n @ dedup [] (filter other rs))) = dedup [] (filter other rs)"
proof -
  have "filter other (own n) = []"
    using own_routes [OF assms] by (intro filter_none) auto
  moreover have "filter other (dedup [] (filter other rs)) = dedup [] (filter other rs)"
    by (intro filter_idem_on) (auto simp: set_dedup)
  ultimately show ?thesis by (simp add: dedup_idem)
qed

lemma merge_twice:
  assumes "parse conf = Some rs" and "\<forall>r \<in> set rs. ok r" and "fits p n" and "fits p' n'"
  shows "parse (wrap p' (merge n' (wrap p (merge n conf)))) =
           Some (own n' @ dedup [] (filter other rs))"
  using parse_wrap_merge [OF assms(4) parse_wrap_merge [OF assms(3,1,2)] wrap_merge_ok [OF assms(3,2)]]
    other_after_merge [OF assms(3)] by simp

lemma merge_sequence:
  assumes "parse conf = Some rs" and "\<forall>r \<in> set rs. ok r"
    and "\<forall>(p, n) \<in> set pns. fits p n" and "pns \<noteq> []"
  shows "parse (foldl (\<lambda>c pn. wrap (fst pn) (merge (snd pn) c)) conf pns) =
           Some (own (snd (last pns)) @ dedup [] (filter other rs))"
  using assms(3,4)
proof (induction pns rule: rev_induct)
  case Nil
  then show ?case by simp
next
  case (snoc pn pns)
  obtain p n where pn: "pn = (p, n)" by (cases pn)
  with snoc.prems have fits: "fits p n" by simp
  show ?case
  proof (cases "pns = []")
    case True
    then show ?thesis using parse_wrap_merge [OF fits assms(1,2)] by (simp add: pn)
  next
    case False
    let ?q = "last pns"
    from snoc.prems False have q: "fits (fst ?q) (snd ?q)"
      using last_in_set [OF False] by fastforce
    have "parse (foldl (\<lambda>c pn. wrap (fst pn) (merge (snd pn) c)) conf pns) =
        Some (own (snd ?q) @ dedup [] (filter other rs))"
      using snoc False by simp
    from parse_wrap_merge [OF fits this wrap_merge_ok [OF q assms(2)]] other_after_merge [OF q]
    show ?thesis by (simp add: pn)
  qed
qed

end

text \<open>
  The operator's own functions are such a table, when the text around the routes has no earlier
  \<open>routes:\<close> (no value filled in before that line holds one).
\<close>

definition wrap_routes :: "ServerConfParams \<Rightarrow> string \<Rightarrow> string" where
  "wrap_routes p routes = BuildServerConf (p\<lparr>scp_ClusterRoutes := routes\<rparr>)"

definition routes_line_first :: "ServerConfParams \<Rightarrow> bool" where
  "routes_line_first p \<longleftrightarrow>
     indexOf (conf_before_routes p @ ''  routes:'') ''routes:'' = Some (length (conf_before_routes p) + 2)"

definition conf_fits :: "ServerConfParams \<Rightarrow> nat \<Rightarrow> bool" where
  "conf_fits p n \<longleftrightarrow> routes_line_first p \<and> n \<le> 2 ^ 63"

lemma HeadlessServiceName_ok: "host_ok HeadlessServiceName"
  by (simp add: host_ok_def HeadlessServiceName_def plain_char_def isSpace_def)

lemma conf_around_routes [simp]:
  "conf_before_routes (p\<lparr>scp_ClusterRoutes := r\<rparr>) = conf_before_routes p"
  "conf_after_routes (p\<lparr>scp_ClusterRoutes := r\<rparr>) = conf_after_routes p"
  by (simp_all add: conf_before_routes_def conf_after_routes_def)

lemma parse_wrapped:
  assumes "routes_line_first p" and "\<forall>r \<in> set rs. route_ok r"
  shows "parseRoutesFromServerConf (wrap_routes p (routes_text rs)) = Some rs"
proof -
  have eq: "wrap_routes p (routes_text rs) =
      (conf_before_routes p @ ''  '') @ ''routes:'' @ '' '' @ routes_text rs @
        ([CHR 0x0A] @ conf_after_routes p)"
    by (simp add: wrap_routes_def BuildServerConf_eq)
  have "indexOf ((conf_before_routes p @ ''  '') @ ''routes:'') ''routes:'' =
      Some (length (conf_before_routes p @ ''  ''))"
    using assms(1) by (simp add: routes_line_first_def)
  then show ?thesis
    unfolding eq using assms(2) by (intro parse_routes_text) auto
qed

lemma parse_wrap_merged:
  assumes "conf_fits p n" and "parseRoutesFromServerConf conf = Some rs" and "\<forall>r \<in> set rs. route_ok r"
  shows "parseRoutesFromServerConf
           (wrap_routes p (ClusterRoutesMerge HeadlessServiceName n DefaultClusterPort conf)) =
         Some (own_routes HeadlessServiceName DefaultClusterPort n @
               dedup [] (filter (foreign HeadlessServiceName DefaultClusterPort) rs))"
proof -
  have "\<forall>r \<in> set (own_routes HeadlessServiceName DefaultClusterPort n @
      dedup [] (filter (foreign HeadlessServiceName DefaultClusterPort) rs)). route_ok r"
    using assms(3) own_routes_ok [OF HeadlessServiceName_ok] by (auto simp: set_dedup)
  with assms show ?thesis
    by (simp add: merge_text [OF assms(2,3) HeadlessServiceName_ok] conf_fits_def parse_wrapped)
qed

interpretation routes: route_table parseRoutesFromServerConf
    "\<lambda>n conf. ClusterRoutesMerge HeadlessServiceName n DefaultClusterPort conf"
    wrap_routes
    "own_routes HeadlessServiceName DefaultClusterPort"
    "foreign HeadlessServiceName DefaultClusterPort"
    route_ok conf_fits
proof (unfold_locales, goal_cases)
  case (1 p n conf rs)
  then show ?case by (rule parse_wrap_merged)
next
  case (2 p n r)
  then show ?case
    using own_routes_ok [OF HeadlessServiceName_ok] own_routes_k8s
    by (auto simp: conf_fits_def foreign_def)
qed

subsection \<open>Properties of the cluster routes\<close>

text \<open>
  C29: What the operator writes it reads back: the cluster routes of a built \<open>server.conf\<close> parse
  to exactly the routes that were formatted into it, for every other content of the text.
\<close>

theorem server_conf_roundtrip:
  assumes "routes_line_first p"
  shows "parseRoutesFromServerConf
           (BuildServerConf (p\<lparr>scp_ClusterRoutes := ClusterRoutesFormat HeadlessServiceName n\<rparr>)) =
         Some (map (ordinal_route HeadlessServiceName DefaultClusterPort) [0..<n])"
  using parse_wrapped [OF assms, of "own_routes HeadlessServiceName DefaultClusterPort n"]
    own_routes_ok [OF HeadlessServiceName_ok]
  by (simp add: wrap_routes_def ClusterRoutesFormat_text own_routes_def)

definition example_params :: ServerConfParams where
  "example_params =
     \<lparr>scp_ServerPort = DefaultServerPort, scp_HttpPort = DefaultHttpPort, scp_OperatorJWT = ''eyJ0'',
      scp_SystemAccount = ''AC1'', scp_JetStreamDomain = ''ns'', scp_JetStreamKey = ''key'',
      scp_JetStreamPrev = [], scp_ClusterRoutes = ''[]'', scp_SSLDir = ''/etc/nats/certs'',
      scp_CertName = ''nats-site-server'', scp_MqttCertName = ''nats-mqtt-server'',
      scp_LeafPort = DefaultLeafPort, scp_LeafAdvertise = [], scp_ClusterPort = DefaultClusterPort,
      scp_MqttPort = DefaultMqttPort, scp_JWTDir = ''/home/runner/nats/jwt'',
      scp_ControllerName = ''pot'', scp_MaxMemoryStore = ''1G'', scp_MaxFileStore = ''10G''\<rparr>"

text \<open>No occurrence of \<open>sub\<close> starts inside \<open>a\<close>, whatever follows \<open>sub\<close>.\<close>

fun first_at :: "string \<Rightarrow> string \<Rightarrow> bool" where
  "first_at [] sub = True"
| "first_at (x # a) sub = (\<not> hasPrefix (x # a @ sub) sub \<and> first_at a sub)"

lemma first_at_indexOf: "indexOf (a @ sub) sub = Some (length a) \<longleftrightarrow> first_at a sub"
  by (induction a) (auto simp: indexOf_at hasPrefix_def)

lemma routes_line_first_iff:
  "routes_line_first p \<longleftrightarrow> first_at (conf_before_routes p @ ''  '') ''routes:''"
  using first_at_indexOf [of "conf_before_routes p @ ''  ''" "''routes:''"]
  by (simp add: routes_line_first_def)

lemma port_texts:
  "itoa_nat 4222 = ''4222''" "itoa_nat 6222 = ''6222''" "itoa_nat 7422 = ''7422''"
  "itoa_nat 8222 = ''8222''" "itoa_nat 8883 = ''8883''" "itoa_nat 0 = ''0''"
  "itoa_nat (Suc 0) = ''1''" "itoa_nat 2 = ''2''"
  by (simp_all add: itoa_nat.simps digit_def char_of_def bit_0)

lemma example_params_first: "routes_line_first example_params"
  by (simp add: routes_line_first_iff conf_before_routes_def unlines_def example_params_def
      itoa_def DefaultServerPort_def DefaultHttpPort_def DefaultClusterPort_def port_texts
      escapeConfString_def replaceAll_byte)

lemma ordinal_texts:
  "ordinal_route HeadlessServiceName DefaultClusterPort 0 = ''nats://nats-0.nats-headless:6222''"
  "ordinal_route HeadlessServiceName DefaultClusterPort (Suc 0) = ''nats://nats-1.nats-headless:6222''"
  by (simp_all add: HeadlessServiceName_def DefaultClusterPort_def ordinal_route_def itoa_def port_texts)

lemma upto_2: "[0..<2] = [0, Suc 0]"
  by (simp add: numeral_2_eq_2)

lemma server_conf_roundtrip_witness:
  "parseRoutesFromServerConf
     (BuildServerConf (example_params\<lparr>scp_ClusterRoutes := ClusterRoutesFormat HeadlessServiceName 2\<rparr>)) =
   Some [''nats://nats-0.nats-headless:6222'', ''nats://nats-1.nats-headless:6222'']"
  using server_conf_roundtrip [OF example_params_first, of 2]
  by (simp add: upto_2 ordinal_texts)

text \<open>
  C30: Over any sequence of reconciles, scaling up and down and changing anything else in the
  text, the routes of \<open>server.conf\<close> are those of the last replica count, followed by the routes
  of other origin that were there at the start, each once and in their first order. Nothing of an
  earlier replica count is left and no route the controller added is lost.
\<close>

theorem routes_after_reconciles:
  assumes "parseRoutesFromServerConf conf = Some rs" and "\<forall>r \<in> set rs. route_ok r"
    and "\<forall>(p, n) \<in> set pns. conf_fits p n" and "pns \<noteq> []"
  shows "parseRoutesFromServerConf
           (foldl (\<lambda>c pn. BuildServerConf ((fst pn)\<lparr>scp_ClusterRoutes :=
                     ClusterRoutesMerge HeadlessServiceName (snd pn) DefaultClusterPort c\<rparr>)) conf pns) =
         Some (map (ordinal_route HeadlessServiceName DefaultClusterPort) [0..<snd (last pns)] @
               dedup [] (filter (\<lambda>r. \<not> isK8sOrdinalRoute r HeadlessServiceName DefaultClusterPort) rs))"
  using routes.merge_sequence [OF assms]
  by (simp add: wrap_routes_def own_routes_def foreign_def [abs_def])

definition agent_routes :: "string list" where
  "agent_routes = [''nats://nats-0.nats-headless:6222'', ''nats://agent-7.example.org:6222'',
                   ''nats://agent-7.example.org:6222'']"

definition agent_conf :: string where
  "agent_conf = ''cluster: { '' @ ''routes:'' @ '' '' @ routes_text agent_routes @ '' }''"

lemma agent_routes_ok: "\<forall>r \<in> set agent_routes. route_ok r"
  by (simp add: agent_routes_def route_ok_def plain_char_def isSpace_def)

lemma agent_conf_parsed: "parseRoutesFromServerConf agent_conf = Some agent_routes"
  unfolding agent_conf_def using agent_routes_ok by (intro parse_routes_text) simp_all

lemma agent_routes_kinds:
  "isK8sOrdinalRoute ''nats://nats-0.nats-headless:6222'' HeadlessServiceName DefaultClusterPort"
  "\<not> isK8sOrdinalRoute ''nats://agent-7.example.org:6222'' HeadlessServiceName DefaultClusterPort"
  using ordinal_route_is_k8s [of 0 HeadlessServiceName DefaultClusterPort]
  by (simp_all add: ordinal_texts) (simp add: isK8sOrdinalRoute_def Let_def)

lemma routes_after_reconciles_witness:
  "parseRoutesFromServerConf
     (foldl (\<lambda>c pn. BuildServerConf ((fst pn)\<lparr>scp_ClusterRoutes :=
               ClusterRoutesMerge HeadlessServiceName (snd pn) DefaultClusterPort c\<rparr>)) agent_conf
        [(example_params, 3), (example_params, 2)]) =
   Some [''nats://nats-0.nats-headless:6222'', ''nats://nats-1.nats-headless:6222'',
         ''nats://agent-7.example.org:6222'']"
proof -
  have fits: "\<forall>(p, n) \<in> set [(example_params, 3), (example_params, 2 :: nat)]. conf_fits p n"
    using example_params_first by (simp add: conf_fits_def)
  show ?thesis
    using routes_after_reconciles [OF agent_conf_parsed agent_routes_ok fits]
    by (simp add: agent_routes_kinds agent_routes_def upto_2 ordinal_texts)
qed

lemma hasSuffix_two: "hasSuffix (s @ [a, b]) [c, d] \<longleftrightarrow> a = c \<and> b = d"
  by (simp add: hasSuffix_def)

lemma hasSuffix_one: "b \<noteq> d \<Longrightarrow> \<not> hasSuffix (s @ [b]) [c, d]"
  by (auto simp: hasSuffix_iff append_eq_append_conv2 append_eq_Cons_conv Cons_eq_append_conv)

text \<open>
  A size is converted to the units NATS knows: a binary suffix in any case loses its second
  letter and gets the upper-case one, any other text is only trimmed.
\<close>

theorem ToNatsSize_units:
  assumes "list_all isDigit ds" and "ds \<noteq> []"
  shows "ToNatsSize (ds @ ''Gi'') = ds @ ''G'' \<and> ToNatsSize (ds @ ''gi'') = ds @ ''G'' \<and>
         ToNatsSize (ds @ ''Mi'') = ds @ ''M'' \<and> ToNatsSize (ds @ ''Ti'') = ds @ ''T'' \<and>
         ToNatsSize (ds @ ''Ki'') = ds @ ''K'' \<and> ToNatsSize (ds @ ''G'') = ds @ ''G''"
proof -
  have digits: "\<forall>c \<in> set ds. isDigit c" using assms(1) by (simp add: list_all_iff)
  have hd: "\<not> isSpace (hd ds)"
    using digits assms(2) digit_plain by (auto simp: plain_char_def)
  have trim: "trimSpace (ds @ u) = ds @ u" if "u \<noteq> []" "\<not> isSpace (last u)" for u
    unfolding trimSpace_def using that assms(2) hd by (intro trimBy_id) auto
  have lower: "toLower (ds @ u) = ds @ toLower u" if "\<forall>c \<in> set u. (of_char c :: nat) < 128" for u
  proof -
    have "toLower (ds @ u) = map lowerByte (ds @ u)"
      using digits that isDigit_ascii by (intro toLower_ascii) auto
    moreover have "map lowerByte ds = ds" using digits lowerByte_digit by (intro map_idI) blast
    ultimately show ?thesis using that by (simp add: toLower_ascii)
  qed
  show ?thesis
    using assms(2)
    by (simp add: ToNatsSize_def Let_def trim lower isSpace_def lowerByte_def hasSuffix_two
        hasSuffix_one char_of_def bit_0)
qed

lemma ToNatsSize_units_witness: "ToNatsSize ''10Gi'' = ''10G''"
  using ToNatsSize_units [of "''10''"] by (simp add: isDigit_def)

end
