(* ===== verification/Json.thy ===== *)
theory Json
  imports GoStrings "HOL-Library.List_Lexorder"
begin

text \<open>
  What the program uses of Go's \<open>encoding/json\<close>: decoding a text into \<open>interface{}\<close> values and
  encoding such values, without indentation.

  A decoded object is an association list with its keys sorted and distinct: a Go map has no
  order, a repeated key keeps its last value, and the encoder prints the keys in order. A number
  is kept as its text: Go decodes it to a \<open>float64\<close> and prints that, which gives back every
  integer of at most 15 digits as it was written; \<open>fmt_float\<close>, a parameter of the encoder, is
  the printing of any other number. Not covered are numbers beyond the range of a \<open>float64\<close>, an
  error in Go, and texts that are not valid UTF-8, whose bytes Go replaces.
\<close>

datatype json =
    JNull
  | JBool bool
  | JNum string
  | JStr string
  | JArr "json list"
  | JObj "(string \<times> json) list"

subsection \<open>Decoding\<close>

definition isJsonSpace :: "char \<Rightarrow> bool" where
  "isJsonSpace c \<longleftrightarrow> c = CHR '' '' \<or> c = CHR 0x0A \<or> c = CHR 0x09 \<or> c = CHR 0x0D"

abbreviation skipWs :: "string \<Rightarrow> string" where
  "skipWs s \<equiv> dropWhile isJsonSpace s"

text \<open>A number of the JSON grammar at the head of the text: its text and what follows.\<close>

definition lexDigits :: "string \<Rightarrow> (string \<times> string) option" where
  "lexDigits s = (let ds = takeWhile isDigit s in
     if ds = [] then None else Some (ds, dropWhile isDigit s))"

definition lexInt :: "string \<Rightarrow> (string \<times> string) option" where
  "lexInt s = (case s of
      c # cs \<Rightarrow> if c = CHR ''0'' then Some ([c], cs) else lexDigits s
    | [] \<Rightarrow> None)"

definition lexFrac :: "string \<Rightarrow> (string \<times> string) option" where
  "lexFrac s = (case s of
      c # cs \<Rightarrow> if c = CHR ''.'' then map_option (\<lambda>(ds, r). (c # ds, r)) (lexDigits cs)
               else Some ([], s)
    | [] \<Rightarrow> Some ([], []))"

definition lexExp :: "string \<Rightarrow> (string \<times> string) option" where
  "lexExp s = (case s of
      c # cs \<Rightarrow> if c = CHR ''e'' \<or> c = CHR ''E''
        then (case cs of
            d # ds \<Rightarrow> if d = CHR ''+'' \<or> d = CHR ''-''
              then map_option (\<lambda>(n, r). (c # d # n, r)) (lexDigits ds)
              else map_option (\<lambda>(n, r). (c # n, r)) (lexDigits cs)
          | [] \<Rightarrow> None)
        else Some ([], s)
    | [] \<Rightarrow> Some ([], []))"

definition lexNumber :: "string \<Rightarrow> (string \<times> string) option" where
  "lexNumber s =
     (let (sign, s1) = (case s of c # cs \<Rightarrow> if c = CHR ''-'' then ([c], cs) else ([], s) | [] \<Rightarrow> ([], []))
      in case lexInt s1 of None \<Rightarrow> None | Some (n1, s2) \<Rightarrow>
         case lexFrac s2 of None \<Rightarrow> None | Some (n2, s3) \<Rightarrow>
         case lexExp s3 of None \<Rightarrow> None | Some (n3, s4) \<Rightarrow> Some (sign @ n1 @ n2 @ n3, s4))"

text \<open>The bytes of a code point, and hexadecimal digits.\<close>

definition utf8 :: "nat \<Rightarrow> string" where
  "utf8 n =
     (if n < 128 then [char_of n]
      else if n < 2048 then [char_of (192 + n div 64), char_of (128 + n mod 64)]
      else if n < 65536 then
        [char_of (224 + n div 4096), char_of (128 + (n div 64) mod 64), char_of (128 + n mod 64)]
      else [char_of (240 + n div 262144), char_of (128 + (n div 4096) mod 64),
            char_of (128 + (n div 64) mod 64), char_of (128 + n mod 64)])"

definition hexVal :: "char \<Rightarrow> nat option" where
  "hexVal c = (let n = (of_char c :: nat) in
     if 48 \<le> n \<and> n \<le> 57 then Some (n - 48)
     else if 97 \<le> n \<and> n \<le> 102 then Some (n - 87)
     else if 65 \<le> n \<and> n \<le> 70 then Some (n - 55) else None)"

definition hex4 :: "string \<Rightarrow> (nat \<times> string) option" where
  "hex4 s = (case s of
      a # b # c # d # r \<Rightarrow>
        (case (hexVal a, hexVal b, hexVal c, hexVal d) of
           (Some w, Some x, Some y, Some z) \<Rightarrow> Some (((w * 16 + x) * 16 + y) * 16 + z, r)
         | _ \<Rightarrow> None)
    | _ \<Rightarrow> None)"

text \<open>
  After \<^verbatim>\<open>\u\<close>: one code unit, or a surrogate pair; a lone surrogate is the replacement
  character.
\<close>

definition lexUnicode :: "string \<Rightarrow> (string \<times> string) option" where
  "lexUnicode s = (case hex4 s of
      None \<Rightarrow> None
    | Some (u, r) \<Rightarrow>
        if 55296 \<le> u \<and> u < 57344 then
          (case r of
             x # y # r1 \<Rightarrow>
               if u < 56320 \<and> x = CHR 0x5C \<and> y = CHR ''u'' then
                 (case hex4 r1 of
                    Some (v, r2) \<Rightarrow>
                      if 56320 \<le> v \<and> v < 57344
                      then Some (utf8 (65536 + (u - 55296) * 1024 + (v - 56320)), r2)
                      else Some (utf8 65533, r)
                  | None \<Rightarrow> Some (utf8 65533, r))
               else Some (utf8 65533, r)
           | _ \<Rightarrow> Some (utf8 65533, r))
        else Some (utf8 u, r))"

lemma hex4_shorter: "hex4 s = Some (n, r) \<Longrightarrow> length r < length s"
  by (auto simp: hex4_def split: list.splits option.splits)

lemma lexUnicode_shorter: "lexUnicode s = Some (bs, r) \<Longrightarrow> length r < length s"
  by (auto simp: lexUnicode_def split: option.splits list.splits if_splits dest!: hex4_shorter)

definition simpleEscape :: "char \<Rightarrow> char option" where
  "simpleEscape e =
     (if e = CHR 0x22 \<or> e = CHR 0x5C \<or> e = CHR ''/'' then Some e
      else if e = CHR ''b'' then Some (CHR 0x08)
      else if e = CHR ''f'' then Some (CHR 0x0C)
      else if e = CHR ''n'' then Some (CHR 0x0A)
      else if e = CHR ''r'' then Some (CHR 0x0D)
      else if e = CHR ''t'' then Some (CHR 0x09)
      else None)"

text \<open>A string after its opening quote: its bytes and what follows the closing quote.\<close>

function lexString :: "string \<Rightarrow> (string \<times> string) option" where
  "lexString [] = None"
| "lexString (c # cs) =
     (if c = CHR 0x22 then Some ([], cs)
      else if c = CHR 0x5C then
        (case cs of
           [] \<Rightarrow> None
         | e # es \<Rightarrow>
             if e = CHR ''u'' then
               (case lexUnicode es of
                  None \<Rightarrow> None
                | Some br \<Rightarrow> map_option (\<lambda>(t, r). (fst br @ t, r)) (lexString (snd br)))
             else
               (case simpleEscape e of
                  None \<Rightarrow> None
                | Some b \<Rightarrow> map_option (\<lambda>(t, r). (b # t, r)) (lexString es)))
      else if (of_char c :: nat) < 32 then None
      else map_option (\<lambda>(t, r). (c # t, r)) (lexString cs))"
  by pat_completeness auto
termination
  by (relation "measure length") (auto dest!: lexUnicode_shorter)

text \<open>Storing into a Go map: the keys stay sorted, an existing key takes the new value.\<close>

fun put :: "string \<Rightarrow> json \<Rightarrow> (string \<times> json) list \<Rightarrow> (string \<times> json) list" where
  "put k v [] = [(k, v)]"
| "put k v ((k1, v1) # ps) =
     (if k = k1 then (k, v) # ps else if k < k1 then (k, v) # (k1, v1) # ps
      else (k1, v1) # put k v ps)"

text \<open>
  The recursive descent over values, the elements of an array and the members of an object.
  The first argument is fuel, a list that loses an element at each call; twice the length of
  the text is always enough, as \<open>JsonRoundtrip\<close> shows.
\<close>

fun parseValue :: "'f list \<Rightarrow> string \<Rightarrow> (json \<times> string) option"
  and parseElems :: "'f list \<Rightarrow> string \<Rightarrow> (json list \<times> string) option"
  and parseMembers :: "'f list \<Rightarrow> string \<Rightarrow> ((string \<times> json) list \<times> string) option" where
  "parseValue [] s = None"
| "parseValue (_ # f) s =
     (case skipWs s of
        [] \<Rightarrow> None
      | c # cs \<Rightarrow>
          if c = CHR ''{'' then
            (case skipWs cs of
               [] \<Rightarrow> None
             | d # ds \<Rightarrow> if d = CHR ''}'' then Some (JObj [], ds)
                 else map_option (\<lambda>(ms, r). (JObj (foldl (\<lambda>m kv. put (fst kv) (snd kv) m) [] ms), r))
                   (parseMembers f (d # ds)))
          else if c = CHR ''['' then
            (case skipWs cs of
               [] \<Rightarrow> None
             | d # ds \<Rightarrow> if d = CHR '']'' then Some (JArr [], ds)
                 else map_option (\<lambda>(vs, r). (JArr vs, r)) (parseElems f (d # ds)))
          else if c = CHR 0x22 then map_option (\<lambda>(t, r). (JStr t, r)) (lexString cs)
          else if hasPrefix (c # cs) ''true'' then Some (JBool True, drop 4 (c # cs))
          else if hasPrefix (c # cs) ''false'' then Some (JBool False, drop 5 (c # cs))
          else if hasPrefix (c # cs) ''null'' then Some (JNull, drop 4 (c # cs))
          else map_option (\<lambda>(n, r). (JNum n, r)) (lexNumber (c # cs)))"
| "parseElems [] s = None"
| "parseElems (_ # f) s =
     (case parseValue f s of
        None \<Rightarrow> None
      | Some (v, r) \<Rightarrow>
          (case skipWs r of
             [] \<Rightarrow> None
           | c # cs \<Rightarrow>
               if c = CHR '']'' then Some ([v], cs)
               else if c = CHR '','' then map_option (\<lambda>(vs, r). (v # vs, r)) (parseElems f cs)
               else None))"
| "parseMembers [] s = None"
| "parseMembers (_ # f) s =
     (case skipWs s of
        [] \<Rightarrow> None
      | q # qs \<Rightarrow>
          if q \<noteq> CHR 0x22 then None
          else (case lexString qs of
             None \<Rightarrow> None
           | Some (k, r) \<Rightarrow>
             (case skipWs r of
                [] \<Rightarrow> None
              | c # cs \<Rightarrow>
                  if c \<noteq> CHR '':'' then None
                  else (case parseValue f cs of
                     None \<Rightarrow> None
                   | Some (v, r1) \<Rightarrow>
                       (case skipWs r1 of
                          [] \<Rightarrow> None
                        | d # ds \<Rightarrow>
                            if d = CHR ''}'' then Some ([(k, v)], ds)
                            else if d = CHR '','' then
                              map_option (\<lambda>(ms, r). ((k, v) # ms, r)) (parseMembers f ds)
                            else None)))))"

definition parseJson :: "string \<Rightarrow> json option" where
  "parseJson s =
     (case parseValue (CHR '' '' # s @ s) s of
        Some (v, r) \<Rightarrow> if skipWs r = [] then Some v else None
      | None \<Rightarrow> None)"

subsection \<open>Encoding\<close>

definition hexDigit :: "nat \<Rightarrow> char" where
  "hexDigit n = (if n < 10 then char_of (48 + n) else char_of (87 + n))"

definition uEscape :: "nat \<Rightarrow> string" where
  "uEscape n = [CHR 0x5C, CHR ''u'', CHR ''0'', CHR ''0'', hexDigit (n div 16), hexDigit (n mod 16)]"

definition escapeByte :: "char \<Rightarrow> string" where
  "escapeByte c =
     (if c = CHR 0x22 \<or> c = CHR 0x5C then [CHR 0x5C, c]
      else if c = CHR 0x08 then [CHR 0x5C, CHR ''b'']
      else if c = CHR 0x0C then [CHR 0x5C, CHR ''f'']
      else if c = CHR 0x0A then [CHR 0x5C, CHR ''n'']
      else if c = CHR 0x0D then [CHR 0x5C, CHR ''r'']
      else if c = CHR 0x09 then [CHR 0x5C, CHR ''t'']
      else if (of_char c :: nat) < 32 \<or> c = CHR ''<'' \<or> c = CHR ''>'' \<or> c = CHR ''&''
      then uEscape (of_char c)
      else [c])"

fun escapeString :: "string \<Rightarrow> string" where
  "escapeString (a # b # c # s) =
     (if a = CHR 0xE2 \<and> b = CHR 0x80 \<and> (c = CHR 0xA8 \<or> c = CHR 0xA9)
      then [CHR 0x5C] @ ''u202'' @ (if c = CHR 0xA8 then ''8'' else ''9'') @ escapeString s
      else escapeByte a @ escapeString (b # c # s))"
| "escapeString [a, b] = escapeByte a @ escapeByte b"
| "escapeString [a] = escapeByte a"
| "escapeString [] = []"

definition jsonString :: "string \<Rightarrow> string" where
  "jsonString s = CHR 0x22 # escapeString s @ [CHR 0x22]"

definition smallInt :: "string \<Rightarrow> bool" where
  "smallInt n =
     (let ds = (case n of c # cs \<Rightarrow> if c = CHR ''-'' then cs else n | [] \<Rightarrow> [])
      in ds \<noteq> [] \<and> length ds \<le> 15 \<and> list_all isDigit ds \<and> (hd ds = CHR ''0'' \<longrightarrow> ds = ''0''))"

fun printJson :: "(string \<Rightarrow> string) \<Rightarrow> json \<Rightarrow> string" where
  "printJson fmt_float JNull = ''null''"
| "printJson fmt_float (JBool b) = formatBool b"
| "printJson fmt_float (JNum n) = (if smallInt n then n else fmt_float n)"
| "printJson fmt_float (JStr s) = jsonString s"
| "printJson fmt_float (JArr vs) = ''['' @ join '','' (map (printJson fmt_float) vs) @ '']''"
| "printJson fmt_float (JObj ps) =
     ''{'' @ join '','' (map (\<lambda>p. jsonString (fst p) @ '':'' @ printJson fmt_float (snd p)) ps) @ ''}''"

subsection \<open>The fuel is enough\<close>

lemma skipWs_length: "length (skipWs s) \<le> length s"
  by (rule length_dropWhile_le)

lemma lexString_shorter: "lexString s = Some (t, r) \<Longrightarrow> length r < length s"
proof (induction s arbitrary: t r rule: lexString.induct)
  case 1
  then show ?case by simp
next
  case (2 c cs)
  show ?case
  proof (cases "c = CHR 0x22 \<or> c \<noteq> CHR 0x5C")
    case True
    then show ?thesis using "2.prems" "2.IH"(3) by (fastforce split: if_splits)
  next
    case False
    then obtain e es where cs: "cs = e # es" using "2.prems" by (cases cs) auto
    show ?thesis
    proof (cases "e = CHR ''u''")
      case True
      then obtain br where br: "lexUnicode es = Some br"
        using "2.prems" False cs by (auto split: option.splits)
      then have "length (snd br) < length es" using lexUnicode_shorter by (cases br) auto
      moreover obtain t' where "lexString (snd br) = Some (t', r)"
        using "2.prems" False cs True br by auto
      ultimately show ?thesis
        using "2.IH"(1) [OF _ _ cs True br] False cs by fastforce
    next
      case no_u: False
      then obtain b where b: "simpleEscape e = Some b"
        using "2.prems" False cs by (auto split: option.splits)
      moreover obtain t' where "lexString es = Some (t', r)"
        using "2.prems" False cs no_u b by auto
      ultimately show ?thesis
        using "2.IH"(2) [OF _ _ cs no_u b] False cs by fastforce
    qed
  qed
qed

end
