(* ===== verification/Kube.thy ===== *)
theory Kube
  imports ApiTypes
begin

text \<open>
  The Kubernetes objects the operator builds, reads and writes: for each type of the API the
  fields the program sets or reads. An object of any kind is a \<open>KObj\<close>, its metadata and a
  payload of its kind; \<open>okey\<close> is the name it is stored under.
\<close>

subsection \<open>Parts of objects\<close>

record ServicePort =
  sp_Name :: string
  sp_Port :: int
  sp_TargetPort :: int
  sp_Protocol :: string

record ContainerPort =
  cpt_Name :: string
  cpt_ContainerPort :: int
  cpt_Protocol :: string

datatype EnvSource =
    Value string
  | SecretKeyRef string string  \<comment> \<open>name of the secret, key in it\<close>
  | FieldRef string

record EnvVar =
  env_Name :: string
  env_Source :: EnvSource

datatype VolumeSource =
    PVCSource string bool                            \<comment> \<open>claim name, read only\<close>
  | ConfigMapSource string "(string \<times> string) list"  \<comment> \<open>name, items (key, path)\<close>
  | SecretSource string "(string \<times> string) list"

record Volume =
  vol_Name :: string
  vol_Source :: VolumeSource

record VolumeMount =
  vm_Name :: string
  vm_MountPath :: string
  vm_ReadOnly :: bool

record Probe =
  pr_Path :: string
  pr_Port :: int
  pr_Scheme :: string
  pr_InitialDelaySeconds :: int
  pr_TimeoutSeconds :: int
  pr_PeriodSeconds :: int
  pr_SuccessThreshold :: int
  pr_FailureThreshold :: int

record Container =
  ct_Name :: string
  ct_Image :: string
  ct_Command :: "string list"
  ct_Args :: "string list"
  ct_Ports :: "ContainerPort list"
  ct_Env :: "EnvVar list"
  ct_Resources :: smap
  ct_ReadinessProbe :: "Probe option"
  ct_LivenessProbe :: "Probe option"
  ct_StartupProbe :: "Probe option"
  ct_VolumeMounts :: "VolumeMount list"
  ct_ImagePullPolicy :: string

record PolicyRule =
  rule_Verbs :: "string list"
  rule_APIGroups :: "string list"
  rule_Resources :: "string list"
  rule_ResourceNames :: "string list"

record PodSecurityContext =
  sc_RunAsUser :: "int option"
  sc_RunAsGroup :: "int option"
  sc_FSGroup :: "int option"

record Toleration =
  tol_Key :: string
  tol_Operator :: string
  tol_Value :: string
  tol_Effect :: string

record AntiAffinity =
  aff_Key :: string
  aff_Operator :: string
  aff_Values :: "string list"
  aff_TopologyKey :: string

record PodSpec =
  ps_ServiceAccountName :: string
  ps_Volumes :: "Volume list"
  ps_SecurityContext :: "PodSecurityContext option"
  ps_InitContainers :: "Container list"
  ps_Containers :: "Container list"
  ps_ImagePullSecrets :: "string list"
  ps_Tolerations :: "Toleration list"
  ps_Affinity :: "AntiAffinity list"

record PodTemplate =
  pt_Labels :: smap
  pt_Annotations :: smap
  pt_Spec :: PodSpec

datatype Strategy = StrategyUnset | RollingUpdate int int | Recreate

record DeploymentSpec =
  dep_MinReadySeconds :: int
  dep_Replicas :: "int option"
  dep_Selector :: smap
  dep_Strategy :: Strategy
  dep_Template :: PodTemplate

record PVCSpec =
  pvc_AccessModes :: "string list"
  pvc_Storage :: string
  pvc_StorageClassName :: "string option"

record StatefulSetSpec =
  sts_ServiceName :: string
  sts_Replicas :: "int option"
  sts_Selector :: smap
  sts_Template :: PodTemplate
  sts_VolumeClaimTemplates :: "(string \<times> PVCSpec) list"

record ServiceSpec =
  ss_Type :: string
  ss_LoadBalancerIP :: string
  ss_Selector :: smap
  ss_ExternalTrafficPolicy :: string
  ss_ClusterIP :: string
  ss_Ports :: "ServicePort list"

record IngressPath =
  ip_Path :: string
  ip_PathType :: string
  ip_Service :: string
  ip_PortName :: string

record IngressSpec =
  is_IngressClassName :: "string option"
  is_TLSHosts :: "string list"
  is_TLSSecretName :: string
  is_Host :: string
  is_Paths :: "IngressPath list"
  is_LoadBalancer :: "string list"  \<comment> \<open>status: the addresses the ingress controller gave it\<close>

record SecretData =
  sec_Type :: string
  sec_StringData :: smap
  sec_Data :: smap

record RoleBindingSpec =
  rb_SubjectKind :: string
  rb_SubjectName :: string
  rb_RefKind :: string
  rb_RefName :: string
  rb_RefAPIGroup :: string

subsection \<open>Objects\<close>

datatype Kind =
    KDeployment | KStatefulSet | KService | KServiceAccount | KRole | KRoleBinding | KSecret
  | KConfigMap | KPVC | KIngress | KControlPlane | KApplication | KPod

datatype Payload =
    PDeployment DeploymentSpec
  | PStatefulSet StatefulSetSpec
  | PService ServiceSpec
  | PServiceAccount "string list"
  | PRole "PolicyRule list"
  | PRoleBinding RoleBindingSpec
  | PSecret SecretData
  | PConfigMap smap
  | PPVC PVCSpec
  | PIngress IngressSpec
  | PControlPlane ControlPlaneSpec "Condition list"
  | PApplication ApplicationSpec ApplicationStatus
  | PPod

fun kind_of :: "Payload \<Rightarrow> Kind" where
  "kind_of (PDeployment _) = KDeployment"
| "kind_of (PStatefulSet _) = KStatefulSet"
| "kind_of (PService _) = KService"
| "kind_of (PServiceAccount _) = KServiceAccount"
| "kind_of (PRole _) = KRole"
| "kind_of (PRoleBinding _) = KRoleBinding"
| "kind_of (PSecret _) = KSecret"
| "kind_of (PConfigMap _) = KConfigMap"
| "kind_of (PPVC _) = KPVC"
| "kind_of (PIngress _) = KIngress"
| "kind_of (PControlPlane _ _) = KControlPlane"
| "kind_of (PApplication _ _) = KApplication"
| "kind_of PPod = KPod"

record KObj =
  o_Meta :: Meta
  o_Payload :: Payload

type_synonym okey = "Kind \<times> string \<times> string"  \<comment> \<open>kind, namespace, name\<close>

definition okey :: "KObj \<Rightarrow> okey" where
  "okey o1 = (kind_of (o_Payload o1), m_namespace (o_Meta o1), m_name (o_Meta o1))"

text \<open>
  The typed view of an object the client has decoded into a struct of one kind. The client
  never hands over an object of another kind; the accessors then read the zero value, as an
  undecoded struct has it.
\<close>

definition empty_pod_spec :: PodSpec where
  "empty_pod_spec =
     \<lparr>ps_ServiceAccountName = [], ps_Volumes = [], ps_SecurityContext = None,
      ps_InitContainers = [], ps_Containers = [], ps_ImagePullSecrets = [], ps_Tolerations = [],
      ps_Affinity = []\<rparr>"

definition empty_template :: PodTemplate where
  "empty_template =
     \<lparr>pt_Labels = Map.empty, pt_Annotations = Map.empty, pt_Spec = empty_pod_spec\<rparr>"

fun the_deployment :: "Payload \<Rightarrow> DeploymentSpec" where
  "the_deployment (PDeployment d) = d"
| "the_deployment _ =
     \<lparr>dep_MinReadySeconds = 0, dep_Replicas = None, dep_Selector = Map.empty,
      dep_Strategy = StrategyUnset, dep_Template = empty_template\<rparr>"

fun the_statefulset :: "Payload \<Rightarrow> StatefulSetSpec" where
  "the_statefulset (PStatefulSet s) = s"
| "the_statefulset _ =
     \<lparr>sts_ServiceName = [], sts_Replicas = None, sts_Selector = Map.empty,
      sts_Template = empty_template, sts_VolumeClaimTemplates = []\<rparr>"

fun the_secret :: "Payload \<Rightarrow> SecretData" where
  "the_secret (PSecret s) = s"
| "the_secret _ = \<lparr>sec_Type = [], sec_StringData = Map.empty, sec_Data = Map.empty\<rparr>"

fun the_configmap :: "Payload \<Rightarrow> smap" where
  "the_configmap (PConfigMap m) = m"
| "the_configmap _ = Map.empty"

fun ingress_lb :: "Payload \<Rightarrow> string list" where
  "ingress_lb (PIngress i) = is_LoadBalancer i"
| "ingress_lb _ = []"

text \<open>\<open>m[k]\<close> of a Go map: the zero value when the key is missing.\<close>

definition mget :: "smap \<Rightarrow> string \<Rightarrow> string" where
  "mget m k = (case m k of Some v \<Rightarrow> v | None \<Rightarrow> [])"

definition cp_obj :: "ControlPlane \<Rightarrow> KObj" where
  "cp_obj cp = \<lparr>o_Meta = cp_Meta cp, o_Payload = PControlPlane (cp_Spec cp) (cp_Conditions cp)\<rparr>"

text \<open>\<open>Get\<close> and \<open>Update\<close> decode the answer into the struct they are given.\<close>

definition decode_cp :: "KObj \<Rightarrow> ControlPlane \<Rightarrow> ControlPlane" where
  "decode_cp o1 old =
     (case o_Payload o1 of
        PControlPlane sp cs \<Rightarrow> \<lparr>cp_Meta = o_Meta o1, cp_Spec = sp, cp_Conditions = cs\<rparr>
      | _ \<Rightarrow> old)"

definition app_obj :: "Application \<Rightarrow> KObj" where
  "app_obj a = \<lparr>o_Meta = app_Meta a, o_Payload = PApplication (app_Spec a) (app_Status a)\<rparr>"

definition decode_app :: "KObj \<Rightarrow> Application \<Rightarrow> Application" where
  "decode_app o1 old =
     (case o_Payload o1 of
        PApplication sp st \<Rightarrow> \<lparr>app_Meta = o_Meta o1, app_Spec = sp, app_Status = st\<rparr>
      | _ \<Rightarrow> old)"

lemma decode_cp_obj [simp]: "decode_cp (cp_obj cp) old = cp"
  by (simp add: decode_cp_def cp_obj_def)

lemma decode_app_obj [simp]: "decode_app (app_obj a) old = a"
  by (simp add: decode_app_def app_obj_def)

lemma okey_cp_obj [simp]: "okey (cp_obj cp) = (KControlPlane, cp_Namespace cp, cp_Name cp)"
  by (simp add: okey_def cp_obj_def)

end
