(* ===== verification/Effects.thy ===== *)
theory Effects
  imports Kube
begin

text \<open>
  Go code that calls the outside (the Kubernetes API, the ioFog controller's REST API, Keycloak,
  the random source, the clock) is a tree: a node is one call with the rest of the code as a
  function of the answer, a leaf is the value returned or the end of the process by a panic or
  by \<open>log.Fatal\<close>. What the outside answers is a parameter of everything below: a fact about a
  tree holds for every answer the outside can give.

  \<^item> \<open>pbind\<close> is sequencing; \<open>orElseErr\<close> and \<open>tryE\<close> are Go's
    \<^verbatim>\<open>if err := f(); err != nil { return ... }\<close>;
  \<^item> \<open>runs p tr out\<close>: with the calls and answers \<open>tr\<close>, the code \<open>p\<close> ends with \<open>out\<close>;
  \<^item> \<open>every A P Q p\<close>: whatever is answered among what \<open>A\<close> allows, every call satisfies \<open>P\<close>
    and the result \<open>Q\<close>;
  \<^item> \<open>run\<close> executes a tree against a handler, so that closed examples evaluate.
\<close>

subsection \<open>Errors\<close>

text \<open>
  What the program observes of an \<open>error\<close>: whether \<open>k8serrors.IsNotFound\<close> or
  \<open>IsAlreadyExists\<close> holds for it, and its text. \<open>fmt.Errorf\<close> with \<open>%w\<close> keeps the reason,
  with \<open>%s\<close> or \<open>%v\<close> it is lost.
\<close>

datatype ApiReason = NotFound | AlreadyExists | OtherReason

record GoError =
  err_Reason :: ApiReason
  err_Msg :: string

abbreviation IsNotFound :: "GoError \<Rightarrow> bool" where
  "IsNotFound e \<equiv> err_Reason e = NotFound"

abbreviation IsAlreadyExists :: "GoError \<Rightarrow> bool" where
  "IsAlreadyExists e \<equiv> err_Reason e = AlreadyExists"

definition new_error :: "string \<Rightarrow> GoError" where
  "new_error m = \<lparr>err_Reason = OtherReason, err_Msg = m\<rparr>"

definition wrap_error :: "string \<Rightarrow> GoError \<Rightarrow> GoError" where
  "wrap_error prefix e = e\<lparr>err_Msg := prefix @ err_Msg e\<rparr>"

text \<open>A panic can be recovered from, \<open>log.Fatal\<close> ends the process.\<close>

datatype Crash = Panic string | Fatal string

subsection \<open>Calls and answers\<close>

datatype KWrite =
    WCreate KObj
  | WUpdate KObj
  | WStatusUpdate KObj
  | WDelete okey

fun write_key :: "KWrite \<Rightarrow> okey" where
  "write_key (WCreate o1) = okey o1"
| "write_key (WUpdate o1) = okey o1"
| "write_key (WStatusUpdate o1) = okey o1"
| "write_key (WDelete k) = k"

text \<open>An \<open>iofogclient.Client\<close>: its base URL and the access token it was given.\<close>

record IofogClient =
  ic_BaseURL :: string
  ic_Token :: string

text \<open>The bits of an \<open>x509.KeyUsage\<close> the operator sets, and its extended usages.\<close>

datatype KeyUsage = KeyUsageKeyEncipherment | KeyUsageDigitalSignature | KeyUsageCertSign
datatype ExtKeyUsage = ExtKeyUsageServerAuth | ExtKeyUsageClientAuth

record CertTemplate =
  tpl_CommonName :: string
  tpl_Serial :: string
  tpl_NotBefore :: int
  tpl_NotAfter :: int
  tpl_KeyUsage :: "KeyUsage list"
  tpl_ExtKeyUsage :: "ExtKeyUsage list"
  tpl_BasicConstraintsValid :: bool
  tpl_IsCA :: bool
  tpl_IPAddresses :: "string list"
  tpl_DNSNames :: "string list"

datatype ExtCall =
    NewK8sClient
  | WaitForLoadBalancer string string int
  | GetStatus IofogClient
  | PutDefaultRouter IofogClient string int int int
  | UpsertNatsHub IofogClient NatsIngress
  | GetCA IofogClient string
  | CreateCA IofogClient string string string
  | OAuthToken string string string "string list"
  | RandRead nat
  | RsaGenerateKey nat
  | RandSerial
  | CreateCertificate CertTemplate "string option" string string

record HttpReq =
  hr_Method :: string
  hr_URL :: string
  hr_Headers :: "(string \<times> string) list"
  hr_Body :: string

record HttpResp =
  hs_Status :: int
  hs_Body :: string

record BootstrapResp =
  bs_OperatorJwt :: string
  bs_OperatorPublicKey :: string
  bs_OperatorSeed :: string
  bs_SystemAccountJwt :: string
  bs_SystemAccountPublicKey :: string
  bs_SysUserCredsBase64 :: string

datatype Call =
    CGet okey
  | CList Kind
  | CWrite KWrite
  | CExt ExtCall
  | CHttp HttpReq
  | CBootstrap IofogClient
  | CNow

datatype Reply =
    RObj "GoError + KObj"
  | RList "GoError + KObj list"
  | RStr "GoError + string"
  | RHttp "GoError + HttpResp"
  | RBoot "GoError + BootstrapResp"
  | RTime int

type_synonym event = "Call \<times> Reply"

subsection \<open>Trees\<close>

datatype 'a prog =
    Done 'a
  | Crashed Crash
  | KGet okey "GoError + KObj \<Rightarrow> 'a prog"
  | KList Kind "GoError + KObj list \<Rightarrow> 'a prog"
  | KWrite KWrite "GoError + KObj \<Rightarrow> 'a prog"
  | Ext ExtCall "GoError + string \<Rightarrow> 'a prog"
  | Http HttpReq "GoError + HttpResp \<Rightarrow> 'a prog"
  | Bootstrap IofogClient "GoError + BootstrapResp \<Rightarrow> 'a prog"
  | Now "int \<Rightarrow> 'a prog"

primrec pbind :: "'a prog \<Rightarrow> ('a \<Rightarrow> 'b prog) \<Rightarrow> 'b prog" where
  "pbind (Done x) f = f x"
| "pbind (Crashed c) f = Crashed c"
| "pbind (KGet k g) f = KGet k (\<lambda>r. pbind (g r) f)"
| "pbind (KList k g) f = KList k (\<lambda>r. pbind (g r) f)"
| "pbind (KWrite w g) f = KWrite w (\<lambda>r. pbind (g r) f)"
| "pbind (Ext e g) f = Ext e (\<lambda>r. pbind (g r) f)"
| "pbind (Http q g) f = Http q (\<lambda>r. pbind (g r) f)"
| "pbind (Bootstrap c g) f = Bootstrap c (\<lambda>r. pbind (g r) f)"
| "pbind (Now g) f = Now (\<lambda>r. pbind (g r) f)"

lemma pbind_assoc [prog_simps]: "pbind (pbind m f) g = pbind m (\<lambda>x. pbind (f x) g)"
  by (induction m) auto

lemma pbind_Done [simp]: "pbind m Done = m"
  by (induction m) auto

text \<open>A result that is an error or a value: stop at the error, else go on with the value.\<close>

definition tryE :: "('e + 'a) prog \<Rightarrow> ('a \<Rightarrow> ('e + 'b) prog) \<Rightarrow> ('e + 'b) prog" where
  "tryE m f = pbind m (\<lambda>r. case r of Inl e \<Rightarrow> Done (Inl e) | Inr x \<Rightarrow> f x)"

text \<open>The same with the error turned into the caller's own kind of result.\<close>

definition orElseErr :: "('e \<Rightarrow> 'b) \<Rightarrow> ('e + 'a) prog \<Rightarrow> ('a \<Rightarrow> 'b prog) \<Rightarrow> 'b prog" where
  "orElseErr h m f = pbind m (\<lambda>r. case r of Inl e \<Rightarrow> Done (h e) | Inr x \<Rightarrow> f x)"

text \<open>A deferred \<open>recover()\<close>: a panic becomes a result, \<open>log.Fatal\<close> does not.\<close>

primrec recovering :: "(string \<Rightarrow> 'a) \<Rightarrow> 'a prog \<Rightarrow> 'a prog" where
  "recovering h (Done x) = Done x"
| "recovering h (Crashed c) = (case c of Panic m \<Rightarrow> Done (h m) | Fatal m \<Rightarrow> Crashed (Fatal m))"
| "recovering h (KGet k g) = KGet k (\<lambda>r. recovering h (g r))"
| "recovering h (KList k g) = KList k (\<lambda>r. recovering h (g r))"
| "recovering h (KWrite w g) = KWrite w (\<lambda>r. recovering h (g r))"
| "recovering h (Ext e g) = Ext e (\<lambda>r. recovering h (g r))"
| "recovering h (Http q g) = Http q (\<lambda>r. recovering h (g r))"
| "recovering h (Bootstrap c g) = Bootstrap c (\<lambda>r. recovering h (g r))"
| "recovering h (Now g) = Now (\<lambda>r. recovering h (g r))"

subsection \<open>One call at a time\<close>

text \<open>The call a tree is waiting for, and the tree after an answer of the right type.\<close>

fun next_call :: "'a prog \<Rightarrow> Call option" where
  "next_call (Done x) = None"
| "next_call (Crashed c) = None"
| "next_call (KGet k g) = Some (CGet k)"
| "next_call (KList k g) = Some (CList k)"
| "next_call (KWrite w g) = Some (CWrite w)"
| "next_call (Ext e g) = Some (CExt e)"
| "next_call (Http q g) = Some (CHttp q)"
| "next_call (Bootstrap c g) = Some (CBootstrap c)"
| "next_call (Now g) = Some CNow"

fun resume :: "'a prog \<Rightarrow> Reply \<Rightarrow> 'a prog option" where
  "resume (KGet k g) (RObj r) = Some (g r)"
| "resume (KList k g) (RList r) = Some (g r)"
| "resume (KWrite w g) (RObj r) = Some (g r)"
| "resume (Ext e g) (RStr r) = Some (g r)"
| "resume (Http q g) (RHttp r) = Some (g r)"
| "resume (Bootstrap c g) (RBoot r) = Some (g r)"
| "resume (Now g) (RTime t) = Some (g t)"
| "resume _ _ = None"

inductive step :: "'a prog \<Rightarrow> event \<Rightarrow> 'a prog \<Rightarrow> bool" where
  step: "next_call p = Some c \<Longrightarrow> resume p r = Some p' \<Longrightarrow> step p (c, r) p'"

inductive_cases step_DoneE [elim!]: "step (Done x) e p'"
inductive_cases step_CrashedE [elim!]: "step (Crashed c) e p'"
inductive_simps step_iff: "step p (c, r) p'"

lemma step_KGet [simp]:
  "step (KGet k g) e p' \<longleftrightarrow> (\<exists>r. e = (CGet k, RObj r) \<and> p' = g r)"
  by (cases e; cases "snd e") (auto simp: step_iff)

lemma step_KList [simp]:
  "step (KList k g) e p' \<longleftrightarrow> (\<exists>r. e = (CList k, RList r) \<and> p' = g r)"
  by (cases e; cases "snd e") (auto simp: step_iff)

lemma step_KWrite [simp]:
  "step (KWrite w g) e p' \<longleftrightarrow> (\<exists>r. e = (CWrite w, RObj r) \<and> p' = g r)"
  by (cases e; cases "snd e") (auto simp: step_iff)

lemma step_Ext [simp]:
  "step (Ext x g) e p' \<longleftrightarrow> (\<exists>r. e = (CExt x, RStr r) \<and> p' = g r)"
  by (cases e; cases "snd e") (auto simp: step_iff)

lemma step_Http [simp]:
  "step (Http q g) e p' \<longleftrightarrow> (\<exists>r. e = (CHttp q, RHttp r) \<and> p' = g r)"
  by (cases e; cases "snd e") (auto simp: step_iff)

lemma step_Bootstrap [simp]:
  "step (Bootstrap c g) e p' \<longleftrightarrow> (\<exists>r. e = (CBootstrap c, RBoot r) \<and> p' = g r)"
  by (cases e; cases "snd e") (auto simp: step_iff)

lemma step_Now [simp]:
  "step (Now g) e p' \<longleftrightarrow> (\<exists>r. e = (CNow, RTime r) \<and> p' = g r)"
  by (cases e; cases "snd e") (auto simp: step_iff)

lemma step_pbind:
  "step m e m' \<Longrightarrow> step (pbind m f) e (pbind m' f)"
  by (cases m) auto

end
