(* ===== verification/Traces.thy ===== *)
theory Traces
  imports Effects "HOL-Library.Multiset"
begin

text \<open>
  Executions of effect trees: complete runs with their traces, what holds whatever is answered,
  an executable interpreter, and goroutines that run side by side and send their results to one
  channel.
\<close>

subsection \<open>Runs\<close>

datatype 'a outcome = Returned 'a | Died Crash

inductive runs :: "'a prog \<Rightarrow> event list \<Rightarrow> 'a outcome \<Rightarrow> bool" where
  returned: "runs (Done x) [] (Returned x)"
| crashed: "runs (Crashed c) [] (Died c)"
| call: "step p e p' \<Longrightarrow> runs p' tr out \<Longrightarrow> runs p (e # tr) out"

inductive_simps runs_Done [simp, prog_simps]: "runs (Done x) tr out"
inductive_simps runs_Crashed [simp, prog_simps]: "runs (Crashed c) tr out"
inductive_simps runs_call_iff: "runs p tr out"

lemma runs_KGet [simp, prog_simps]:
  "runs (KGet k g) tr out \<longleftrightarrow> (\<exists>r tr'. tr = (CGet k, RObj r) # tr' \<and> runs (g r) tr' out)"
  by (subst runs_call_iff) auto

lemma runs_KList [simp, prog_simps]:
  "runs (KList k g) tr out \<longleftrightarrow> (\<exists>r tr'. tr = (CList k, RList r) # tr' \<and> runs (g r) tr' out)"
  by (subst runs_call_iff) auto

lemma runs_KWrite [simp, prog_simps]:
  "runs (KWrite w g) tr out \<longleftrightarrow> (\<exists>r tr'. tr = (CWrite w, RObj r) # tr' \<and> runs (g r) tr' out)"
  by (subst runs_call_iff) auto

lemma runs_Ext [simp, prog_simps]:
  "runs (Ext x g) tr out \<longleftrightarrow> (\<exists>r tr'. tr = (CExt x, RStr r) # tr' \<and> runs (g r) tr' out)"
  by (subst runs_call_iff) auto

lemma runs_Http [simp, prog_simps]:
  "runs (Http q g) tr out \<longleftrightarrow> (\<exists>r tr'. tr = (CHttp q, RHttp r) # tr' \<and> runs (g r) tr' out)"
  by (subst runs_call_iff) auto

lemma runs_Bootstrap [simp, prog_simps]:
  "runs (Bootstrap c g) tr out \<longleftrightarrow>
     (\<exists>r tr'. tr = (CBootstrap c, RBoot r) # tr' \<and> runs (g r) tr' out)"
  by (subst runs_call_iff) auto

lemma runs_Now [simp, prog_simps]:
  "runs (Now g) tr out \<longleftrightarrow> (\<exists>r tr'. tr = (CNow, RTime r) # tr' \<and> runs (g r) tr' out)"
  by (subst runs_call_iff) auto

text \<open>A run of a sequence is a run of the first part and then one of the second.\<close>

lemma runs_pbindI:
  assumes "runs m tr1 (Returned x)" and "runs (f x) tr2 out"
  shows "runs (pbind m f) (tr1 @ tr2) out"
  using assms
proof (induction m tr1 "Returned x" rule: runs.induct)
  case (call p e p' tr)
  then have "runs (pbind p' f) (tr @ tr2) out" by simp
  with step_pbind [OF call.hyps(1)] show ?case by (auto intro: runs.call)
qed simp

lemma step_pbindE:
  "step (pbind m f) e q \<Longrightarrow> (\<exists>x. m = Done x) \<or> (\<exists>m'. step m e m' \<and> q = pbind m' f)"
  by (cases m) auto

lemma runs_pbindE:
  assumes "runs (pbind m f) tr (Returned y)"
  shows "\<exists>tr1 tr2 x. tr = tr1 @ tr2 \<and> runs m tr1 (Returned x) \<and> runs (f x) tr2 (Returned y)"
  using assms
proof (induction "pbind m f" tr "Returned y" arbitrary: m rule: runs.induct)
  case returned
  then show ?case
  proof (cases m)
    case (Done x)
    with returned have "runs (f x) [] (Returned y)" by (metis pbind.simps(1) runs.returned)
    with Done show ?thesis by auto
  qed auto
next
  case (call e p' tr)
  show ?case
  proof (cases "\<exists>x. m = Done x")
    case True
    then obtain x where "m = Done x" by blast
    with call.hyps(1,2) show ?thesis
      by (intro exI [of _ "[]"] exI [of _ "e # tr"]) (auto intro: runs.call)
  next
    case False
    with step_pbindE [OF call.hyps(1)] obtain m' where m': "step m e m'" "p' = pbind m' f"
      by blast
    from call.hyps(3) [OF m'(2)] obtain tr1 tr2 x
      where "tr = tr1 @ tr2" "runs m' tr1 (Returned x)" "runs (f x) tr2 (Returned y)"
      by blast
    with m'(1) show ?thesis
      by (intro exI [of _ "e # tr1"] exI [of _ tr2]) (auto intro: runs.call)
  qed
qed

lemma runs_pbind_Returned:
  "runs (pbind m f) tr (Returned y) \<longleftrightarrow>
     (\<exists>tr1 tr2 x. tr = tr1 @ tr2 \<and> runs m tr1 (Returned x) \<and> runs (f x) tr2 (Returned y))"
  by (blast dest: runs_pbindE intro: runs_pbindI)

subsection \<open>What holds whatever is answered\<close>

text \<open>
  \<open>every A P Q p\<close>: as long as each answer is one that \<open>A\<close> allows, every call of \<open>p\<close> satisfies
  \<open>P\<close>, and so does the value it returns with \<open>Q\<close>.
\<close>

type_synonym allowed = "Call \<Rightarrow> Reply \<Rightarrow> bool"

primrec every :: "allowed \<Rightarrow> (Call \<Rightarrow> bool) \<Rightarrow> ('a \<Rightarrow> bool) \<Rightarrow> 'a prog \<Rightarrow> bool" where
  "every A P Q (Done x) = Q x"
| "every A P Q (Crashed c) = True"
| "every A P Q (KGet k g) = (P (CGet k) \<and> (\<forall>r. A (CGet k) (RObj r) \<longrightarrow> every A P Q (g r)))"
| "every A P Q (KList k g) = (P (CList k) \<and> (\<forall>r. A (CList k) (RList r) \<longrightarrow> every A P Q (g r)))"
| "every A P Q (KWrite w g) = (P (CWrite w) \<and> (\<forall>r. A (CWrite w) (RObj r) \<longrightarrow> every A P Q (g r)))"
| "every A P Q (Ext x g) = (P (CExt x) \<and> (\<forall>r. A (CExt x) (RStr r) \<longrightarrow> every A P Q (g r)))"
| "every A P Q (Http q g) = (P (CHttp q) \<and> (\<forall>r. A (CHttp q) (RHttp r) \<longrightarrow> every A P Q (g r)))"
| "every A P Q (Bootstrap c g) =
     (P (CBootstrap c) \<and> (\<forall>r. A (CBootstrap c) (RBoot r) \<longrightarrow> every A P Q (g r)))"
| "every A P Q (Now g) = (P CNow \<and> (\<forall>r. A CNow (RTime r) \<longrightarrow> every A P Q (g r)))"

lemma every_pbind: "every A P Q (pbind m f) \<longleftrightarrow> every A P (\<lambda>x. every A P Q (f x)) m"
  by (induction m) auto

lemma every_mono:
  assumes "every A P Q m" and "\<And>x. Q x \<Longrightarrow> R x"
  shows "every A P R m"
  using assms by (induction m) auto

lemma every_call_mono:
  assumes "every A P Q m" and "\<And>c. P c \<Longrightarrow> R c"
  shows "every A R Q m"
  using assms by (induction m) auto

lemma every_weaken:
  assumes "every A P Q m" and "\<And>c. P c \<Longrightarrow> P' c" and "\<And>x. Q x \<Longrightarrow> Q' x"
  shows "every A P' Q' m"
  using assms by (induction m) auto

lemma every_bindI:
  assumes "every A P R m" and "\<And>x. R x \<Longrightarrow> every A P Q (f x)"
  shows "every A P Q (pbind m f)"
  unfolding every_pbind using assms by (rule every_mono)

text \<open>
  The rules the component proofs use: after an error nothing more is called, so the result's
  predicate has to hold for the error, and the continuation has to be safe for every value.
\<close>

lemma every_tryE:
  assumes "every A P (\<lambda>r. case r of Inl e \<Rightarrow> Q (Inl e) | Inr x \<Rightarrow> R x) m"
    and "\<And>x. R x \<Longrightarrow> every A P Q (f x)"
  shows "every A P Q (tryE m f)"
  unfolding tryE_def using assms(1)
  by (rule every_bindI) (auto split: sum.splits intro: assms(2))

lemma every_orElseErr:
  assumes "every A P (\<lambda>r. case r of Inl e \<Rightarrow> Q (h e) | Inr x \<Rightarrow> R x) m"
    and "\<And>x. R x \<Longrightarrow> every A P Q (f x)"
  shows "every A P Q (orElseErr h m f)"
  unfolding orElseErr_def using assms(1)
  by (rule every_bindI) (auto split: sum.splits intro: assms(2))

lemma every_recovering:
  assumes "every A P Q p" and "\<And>m. Q (h m)"
  shows "every A P Q (recovering h p)"
  using assms by (induction p) (auto split: Crash.splits)

lemma every_step:
  "step p e p' \<Longrightarrow> every A P Q p \<Longrightarrow> A (fst e) (snd e) \<Longrightarrow> P (fst e) \<and> every A P Q p'"
  by (cases p) auto

lemma every_next: "step p e p' \<Longrightarrow> every A P Q p \<Longrightarrow> P (fst e)"
  by (cases p) auto

lemma every_runs:
  assumes "runs p tr out" and "every A P Q p" and "\<forall>(c, r) \<in> set tr. A c r"
  shows "(\<forall>e \<in> set tr. P (fst e)) \<and> (\<forall>x. out = Returned x \<longrightarrow> Q x)"
  using assms
proof (induction rule: runs.induct)
  case (call p e p' tr out)
  then have "A (fst e) (snd e)" by (cases e) auto
  with call show ?case using every_step [OF call.hyps(1) call.prems(1)] by auto
qed auto

abbreviation any_reply :: allowed where
  "any_reply \<equiv> \<lambda>c r. True"

subsection \<open>Running a tree against a handler\<close>

record 'w handler =
  h_get :: "okey \<Rightarrow> 'w \<Rightarrow> (GoError + KObj) \<times> 'w"
  h_list :: "Kind \<Rightarrow> 'w \<Rightarrow> (GoError + KObj list) \<times> 'w"
  h_write :: "KWrite \<Rightarrow> 'w \<Rightarrow> (GoError + KObj) \<times> 'w"
  h_ext :: "ExtCall \<Rightarrow> 'w \<Rightarrow> (GoError + string) \<times> 'w"
  h_http :: "HttpReq \<Rightarrow> 'w \<Rightarrow> (GoError + HttpResp) \<times> 'w"
  h_boot :: "IofogClient \<Rightarrow> 'w \<Rightarrow> (GoError + BootstrapResp) \<times> 'w"
  h_now :: "'w \<Rightarrow> int \<times> 'w"

primrec run :: "'w handler \<Rightarrow> 'a prog \<Rightarrow> 'w \<Rightarrow> 'a outcome \<times> event list \<times> 'w" where
  "run h (Done x) = (\<lambda>w. (Returned x, [], w))"
| "run h (Crashed c) = (\<lambda>w. (Died c, [], w))"
| "run h (KGet k g) = (\<lambda>w. case h_get h k w of (r, w1) \<Rightarrow>
     case run h (g r) w1 of (out, tr, w2) \<Rightarrow> (out, (CGet k, RObj r) # tr, w2))"
| "run h (KList k g) = (\<lambda>w. case h_list h k w of (r, w1) \<Rightarrow>
     case run h (g r) w1 of (out, tr, w2) \<Rightarrow> (out, (CList k, RList r) # tr, w2))"
| "run h (KWrite c g) = (\<lambda>w. case h_write h c w of (r, w1) \<Rightarrow>
     case run h (g r) w1 of (out, tr, w2) \<Rightarrow> (out, (CWrite c, RObj r) # tr, w2))"
| "run h (Ext x g) = (\<lambda>w. case h_ext h x w of (r, w1) \<Rightarrow>
     case run h (g r) w1 of (out, tr, w2) \<Rightarrow> (out, (CExt x, RStr r) # tr, w2))"
| "run h (Http q g) = (\<lambda>w. case h_http h q w of (r, w1) \<Rightarrow>
     case run h (g r) w1 of (out, tr, w2) \<Rightarrow> (out, (CHttp q, RHttp r) # tr, w2))"
| "run h (Bootstrap c g) = (\<lambda>w. case h_boot h c w of (r, w1) \<Rightarrow>
     case run h (g r) w1 of (out, tr, w2) \<Rightarrow> (out, (CBootstrap c, RBoot r) # tr, w2))"
| "run h (Now g) = (\<lambda>w. case h_now h w of (r, w1) \<Rightarrow>
     case run h (g r) w1 of (out, tr, w2) \<Rightarrow> (out, (CNow, RTime r) # tr, w2))"

lemma run_runs: "run h p w = (out, tr, w') \<Longrightarrow> runs p tr out"
  by (induction p arbitrary: w tr) (auto split: prod.splits)

lemma runs_exists: "\<exists>tr out. runs p tr out"
proof -
  obtain out tr w' where "run (undefined :: unit handler) p () = (out, tr, w')"
    by (cases "run (undefined :: unit handler) p ()")
  then show ?thesis by (blast dest: run_runs)
qed

lemma run_pbind:
  "run h (pbind m f) w =
     (case run h m w of
        (Returned x, tr1, w1) \<Rightarrow> (case run h (f x) w1 of (out, tr2, w2) \<Rightarrow> (out, tr1 @ tr2, w2))
      | (Died c, tr1, w1) \<Rightarrow> (Died c, tr1, w1))"
  by (induction m arbitrary: w) (auto split: prod.splits outcome.splits)

subsection \<open>Goroutines that send to one channel\<close>

text \<open>
  A pool is a list of routines, \<open>None\<close> for one that has ended, and what the channel has been
  sent so far. A step is one call of one routine, or a routine that has its result sending it;
  which routine moves is not determined. The label is the routine and the event of its call.
\<close>

record 'a pool =
  pl_routines :: "'a prog option list"
  pl_chan :: "'a list"

inductive pool_step :: "'a pool \<Rightarrow> (nat \<times> event) list \<Rightarrow> 'a pool \<Rightarrow> bool" where
  routine_call:
    "i < length (pl_routines s) \<Longrightarrow> pl_routines s ! i = Some p \<Longrightarrow> step p e p' \<Longrightarrow>
     pool_step s [(i, e)] (s\<lparr>pl_routines := (pl_routines s)[i := Some p']\<rparr>)"
| send:
    "i < length (pl_routines s) \<Longrightarrow> pl_routines s ! i = Some (Done x) \<Longrightarrow>
     pool_step s []
       (s\<lparr>pl_routines := (pl_routines s)[i := None], pl_chan := pl_chan s @ [x]\<rparr>)"

inductive pool_run :: "'a pool \<Rightarrow> (nat \<times> event) list \<Rightarrow> 'a pool \<Rightarrow> bool" where
  stop: "pool_run s [] s"
| move: "pool_run s tr s' \<Longrightarrow> pool_step s' l s'' \<Longrightarrow> pool_run s (tr @ l) s''"

definition start_pool :: "'a prog list \<Rightarrow> 'a pool" where
  "start_pool ps = \<lparr>pl_routines = map Some ps, pl_chan = []\<rparr>"

definition proj :: "nat \<Rightarrow> (nat \<times> event) list \<Rightarrow> event list" where
  "proj i tr = map snd (filter (\<lambda>x. fst x = i) tr)"

lemma proj_append [simp]: "proj i (a @ b) = proj i a @ proj i b"
  by (simp add: proj_def)

lemma proj_Nil [simp]: "proj i [] = []"
  by (simp add: proj_def)

lemma proj_Cons [simp]: "proj i (x # xs) = (if fst x = i then snd x # proj i xs else proj i xs)"
  by (simp add: proj_def)

text \<open>The calls one routine has made lead from its start to where it is now.\<close>

inductive steps :: "'a prog \<Rightarrow> event list \<Rightarrow> 'a prog \<Rightarrow> bool" where
  refl: "steps p [] p"
| snoc: "steps p tr p' \<Longrightarrow> step p' e p'' \<Longrightarrow> steps p (tr @ [e]) p''"

lemma steps_runs: "steps p tr p' \<Longrightarrow> runs p' tr' out \<Longrightarrow> runs p (tr @ tr') out"
proof (induction arbitrary: tr' rule: steps.induct)
  case (refl p)
  then show ?case by simp
next
  case (snoc p tr p' e p'')
  have "runs p' (e # tr') out" using snoc.hyps(2) snoc.prems by (rule runs.call)
  then show ?case using snoc.IH by simp
qed

lemma every_steps:
  "steps p tr p' \<Longrightarrow> every A P Q p \<Longrightarrow> \<forall>(c, r) \<in> set tr. A c r \<Longrightarrow>
     (\<forall>e \<in> set tr. P (fst e)) \<and> every A P Q p'"
proof (induction rule: steps.induct)
  case (snoc p tr p' e p'')
  then have "A (fst e) (snd e)" by (cases e) auto
  with snoc show ?case using every_step [OF snoc.hyps(2)] by auto
qed simp

text \<open>
  The invariant of a pool started from \<open>ps\<close>: every routine that still runs is where its own
  calls have led it, every routine that has ended returned a value \<open>ys i\<close>, and the channel
  holds exactly the values of the routines that have ended.
\<close>

definition pool_inv :: "'a prog list \<Rightarrow> (nat \<times> event) list \<Rightarrow> 'a pool \<Rightarrow> bool" where
  "pool_inv ps tr s \<longleftrightarrow>
     length (pl_routines s) = length ps \<and>
     (\<exists>ys. (\<forall>i < length ps. case pl_routines s ! i of
               Some p \<Rightarrow> steps (ps ! i) (proj i tr) p
             | None \<Rightarrow> steps (ps ! i) (proj i tr) (Done (ys i))) \<and>
           mset (pl_chan s) =
             image_mset ys (mset (filter (\<lambda>i. pl_routines s ! i = None) [0..<length ps])))"

lemma pool_inv_start: "pool_inv ps [] (start_pool ps)"
  by (auto simp: pool_inv_def start_pool_def intro: steps.refl)

lemma pool_inv_step:
  assumes "pool_inv ps tr s" and "pool_step s l s'"
  shows "pool_inv ps (tr @ l) s'"
  using assms(2,1)
proof (cases rule: pool_step.cases)
  case (routine_call i p e p')
  from assms(1) obtain ys where len: "length (pl_routines s) = length ps"
    and at: "\<forall>j < length ps. case pl_routines s ! j of
               Some q \<Rightarrow> steps (ps ! j) (proj j tr) q
             | None \<Rightarrow> steps (ps ! j) (proj j tr) (Done (ys j))"
    and ch: "mset (pl_chan s) =
               image_mset ys (mset (filter (\<lambda>j. pl_routines s ! j = None) [0..<length ps]))"
    by (auto simp: pool_inv_def)
  have "steps (ps ! i) (proj i tr @ [e]) p'"
    using at routine_call len by (auto intro: steps.snoc split: option.splits)
  moreover have "filter (\<lambda>j. pl_routines s' ! j = None) [0..<length ps]
      = filter (\<lambda>j. pl_routines s ! j = None) [0..<length ps]"
    using routine_call len by (intro filter_cong) (auto simp: nth_list_update)
  ultimately show ?thesis
    using at ch len routine_call
    by (auto simp: pool_inv_def nth_list_update intro!: exI [of _ ys] split: option.splits)
next
  case (send i x)
  from assms(1) obtain ys where len: "length (pl_routines s) = length ps"
    and at: "\<forall>j < length ps. case pl_routines s ! j of
               Some q \<Rightarrow> steps (ps ! j) (proj j tr) q
             | None \<Rightarrow> steps (ps ! j) (proj j tr) (Done (ys j))"
    and ch: "mset (pl_chan s) =
               image_mset ys (mset (filter (\<lambda>j. pl_routines s ! j = None) [0..<length ps]))"
    by (auto simp: pool_inv_def)
  let ?old = "filter (\<lambda>j. pl_routines s ! j = None) [0..<length ps]"
  let ?new = "filter (\<lambda>j. pl_routines s' ! j = None) [0..<length ps]"
  have "set ?new = insert i (set ?old)"
    using send len by (auto simp: nth_list_update)
  moreover have "i \<notin> set ?old" using send by simp
  moreover have "distinct ?old" and "distinct ?new" by simp_all
  ultimately have new: "mset ?new = add_mset i (mset ?old)"
    by (metis distinct.simps(2) list.simps(15) mset.simps(2) set_eq_iff_mset_eq_distinct)
  have "image_mset (ys(i := x)) (mset ?old) = image_mset ys (mset ?old)"
    using \<open>i \<notin> set ?old\<close> by (intro image_mset_cong) auto
  with new ch have "mset (pl_chan s @ [x]) = image_mset (ys(i := x)) (mset ?new)"
    by simp
  moreover have "steps (ps ! i) (proj i tr) (Done x)"
    using at send len by (auto split: option.splits)
  ultimately show ?thesis
    using at len send
    by (auto simp: pool_inv_def nth_list_update intro!: exI [of _ "ys(i := x)"] split: option.splits)
qed

lemma pool_run_inv: "pool_run s0 tr s \<Longrightarrow> s0 = start_pool ps \<Longrightarrow> pool_inv ps tr s"
proof (induction rule: pool_run.induct)
  case (stop s)
  then show ?case by (simp add: pool_inv_start)
next
  case (move s tr s' l s'')
  then show ?case by (blast intro: pool_inv_step)
qed

text \<open>
  When every routine has ended, each of them made a complete run on its own calls, and the
  channel holds their results, each once, in some order.
\<close>

lemma pool_run_complete:
  assumes "pool_run (start_pool ps) tr s"
    and "\<forall>r \<in> set (pl_routines s). r = None"
  shows "\<exists>xs. length xs = length ps \<and> mset (pl_chan s) = mset xs \<and>
           (\<forall>i < length ps. runs (ps ! i) (proj i tr) (Returned (xs ! i)))"
proof -
  have inv: "pool_inv ps tr s" using assms(1) by (rule pool_run_inv) simp
  then obtain ys where len: "length (pl_routines s) = length ps"
    and at: "\<forall>j < length ps. case pl_routines s ! j of
               Some q \<Rightarrow> steps (ps ! j) (proj j tr) q
             | None \<Rightarrow> steps (ps ! j) (proj j tr) (Done (ys j))"
    and ch: "mset (pl_chan s) =
               image_mset ys (mset (filter (\<lambda>j. pl_routines s ! j = None) [0..<length ps]))"
    by (auto simp: pool_inv_def)
  have none: "\<forall>j < length ps. pl_routines s ! j = None"
    using assms(2) len by (metis nth_mem)
  then have "filter (\<lambda>j. pl_routines s ! j = None) [0..<length ps] = [0..<length ps]"
    by (intro filter_idem_on) simp
  with ch have "mset (pl_chan s) = mset (map ys [0..<length ps])" by simp
  moreover have "runs (ps ! i) (proj i tr) (Returned (ys i))" if "i < length ps" for i
  proof -
    have "steps (ps ! i) (proj i tr) (Done (ys i))" using at none that by fastforce
    then have "runs (ps ! i) (proj i tr @ []) (Returned (ys i))"
      by (rule steps_runs) simp
    then show ?thesis by simp
  qed
  ultimately show ?thesis
    by (intro exI [of _ "map ys [0..<length ps]"]) simp
qed

end
