(* ===== verification/Lib.thy ===== *)
theory Lib
  imports Traces Conditions
begin

text \<open>
  Code that the operator calls and that is not part of it: the functions of the ioFog operator
  SDK (\<open>op\<close>), of controller-runtime, of the Kubernetes API machinery, and the parts of Go's
  library whose value the operator only passes on. Together they are a record \<open>Lib\<close>, an argument
  of every definition that uses one of them; the values the linker sets
  (\<open>internal/util/images.go\<close>) are in it too.

  What the operator relies on is stated by two locales: \<open>operator_sdk\<close> for the
  \<open>Reconciliation\<close> values, \<open>controller_reference\<close> for \<open>SetControllerReference\<close>; a third,
  \<open>status_condition\<close>, stands in \<open>Conditions\<close>. Each is interpreted on a function that
  behaves as the library documents.
\<close>

subsection \<open>Reconciliations\<close>

record Reconciliation =
  rc_Requeue :: bool
  rc_Delay :: int
  rc_End :: bool
  rc_Err :: "GoError option"

definition zero_Reconciliation :: Reconciliation where
  "zero_Reconciliation = \<lparr>rc_Requeue = False, rc_Delay = 0, rc_End = False, rc_Err = None\<rparr>"

record CtrlResult =
  res_Requeue :: bool
  res_RequeueAfter :: int

text \<open>\<open>(ctrl.Result, error)\<close>, what a reconciler returns to the manager.\<close>

type_synonym ctrl_return = "CtrlResult \<times> GoError option"

record OpSdk =
  op_Reconcile :: Reconciliation
  op_Continue :: Reconciliation
  op_ReconcileWithError :: "GoError \<Rightarrow> Reconciliation"
  op_ReconcileWithRequeue :: "int \<Rightarrow> Reconciliation"
  op_IsFinal :: "Reconciliation \<Rightarrow> bool"
  op_Result :: "Reconciliation \<Rightarrow> ctrl_return"
  op_DoNotRequeue :: ctrl_return
  op_RequeueWithError :: "GoError \<Rightarrow> ctrl_return"

text \<open>
  The documented contract: a reconciliation is final when it carries an error, asks for a
  requeue or ends; \<open>Continue\<close> is the empty one; the constructors set the field they name.
\<close>

locale operator_sdk =
  fixes sdk :: OpSdk
  assumes IsFinal: "op_IsFinal sdk r \<longleftrightarrow> rc_Err r \<noteq> None \<or> rc_Requeue r \<or> rc_End r"
    and Continue: "op_Continue sdk = zero_Reconciliation"
    and Reconcile: "rc_Err (op_Reconcile sdk) = None \<and> \<not> rc_Requeue (op_Reconcile sdk)"
    and WithError: "op_ReconcileWithError sdk e = zero_Reconciliation\<lparr>rc_Err := Some e\<rparr>"
    and WithRequeue:
      "op_ReconcileWithRequeue sdk d = zero_Reconciliation\<lparr>rc_Requeue := True, rc_Delay := d\<rparr>"
    and DoNotRequeue: "snd (op_DoNotRequeue sdk) = None"
    and RequeueWithError: "snd (op_RequeueWithError sdk e) = Some e"
    and Result: "snd (op_Result sdk r) = rc_Err r"
begin

lemma error_final [simp]: "op_IsFinal sdk (op_ReconcileWithError sdk e)"
  by (simp add: IsFinal WithError)

lemma requeue_final [simp]: "op_IsFinal sdk (op_ReconcileWithRequeue sdk d)"
  by (simp add: IsFinal WithRequeue)

lemma continue_not_final [simp]: "\<not> op_IsFinal sdk (op_Continue sdk)"
  by (simp add: IsFinal Continue zero_Reconciliation_def)

lemma error_not_continue [simp]: "op_ReconcileWithError sdk e \<noteq> op_Continue sdk"
  by (metis continue_not_final error_final)

lemma requeue_not_continue [simp]: "op_ReconcileWithRequeue sdk d \<noteq> op_Continue sdk"
  by (metis continue_not_final requeue_final)

end

definition sdk_ref :: OpSdk where
  "sdk_ref =
     \<lparr>op_Reconcile = zero_Reconciliation\<lparr>rc_End := True\<rparr>,
      op_Continue = zero_Reconciliation,
      op_ReconcileWithError = (\<lambda>e. zero_Reconciliation\<lparr>rc_Err := Some e\<rparr>),
      op_ReconcileWithRequeue = (\<lambda>d. zero_Reconciliation\<lparr>rc_Requeue := True, rc_Delay := d\<rparr>),
      op_IsFinal = (\<lambda>r. rc_Err r \<noteq> None \<or> rc_Requeue r \<or> rc_End r),
      op_Result = (\<lambda>r. (\<lparr>res_Requeue = rc_Requeue r, res_RequeueAfter = rc_Delay r\<rparr>, rc_Err r)),
      op_DoNotRequeue = (\<lparr>res_Requeue = False, res_RequeueAfter = 0\<rparr>, None),
      op_RequeueWithError = (\<lambda>e. (\<lparr>res_Requeue = True, res_RequeueAfter = 0\<rparr>, Some e))\<rparr>"

interpretation sdk_ref: operator_sdk sdk_ref
  by unfold_locales (auto simp: sdk_ref_def zero_Reconciliation_def)

subsection \<open>Owner references\<close>

text \<open>
  \<open>SetControllerReference(owner, obj)\<close>: the metadata of the owner with its kind, the metadata of
  the object, and the object's new metadata or an error.
\<close>

type_synonym set_reference = "string \<Rightarrow> Meta \<Rightarrow> Meta \<Rightarrow> GoError + Meta"

definition owned_by :: "string \<Rightarrow> Meta \<Rightarrow> Meta \<Rightarrow> bool" where
  "owned_by kind own m \<longleftrightarrow>
     (\<exists>r \<in> set (m_owners m). own_controller r \<and> own_kind r = kind \<and> own_name r = m_name own)"

locale controller_reference =
  fixes setref :: set_reference
  assumes reference_only:
    "setref kind own m = Inr m' \<Longrightarrow> m'\<lparr>m_owners := []\<rparr> = m\<lparr>m_owners := []\<rparr>"
    and reference_set: "setref kind own m = Inr m' \<Longrightarrow> owned_by kind own m'"
begin

lemma reference_keeps:
  assumes "setref kind own m = Inr m'"
  shows "m_name m' = m_name m" and "m_namespace m' = m_namespace m" and "m_labels m' = m_labels m"
    and "m_annotations m' = m_annotations m"
  using reference_only [OF assms] by (cases m; cases m'; simp)+

end

text \<open>
  As documented: an object that another controller owns is an error, as is one of another
  namespace; else the reference is added, or replaced when the owner is there already.
\<close>

definition setref_ref :: set_reference where
  "setref_ref kind own m =
     (let me = \<lparr>own_kind = kind, own_name = m_name own, own_controller = True\<rparr> in
      if m_namespace own \<noteq> m_namespace m
      then Inl (new_error ''cross-namespace owner references are disallowed'')
      else if list_ex (\<lambda>r. own_controller r \<and> \<not> (own_kind r = kind \<and> own_name r = m_name own)) (m_owners m)
      then Inl (new_error ''already owned by another controller'')
      else Inr (m\<lparr>m_owners :=
        filter (\<lambda>r. \<not> (own_kind r = kind \<and> own_name r = m_name own)) (m_owners m) @ [me]\<rparr>))"

interpretation setref_ref: controller_reference setref_ref
  by unfold_locales (auto simp: setref_ref_def Let_def owned_by_def split: if_splits)

subsection \<open>The record of all of it\<close>

record Crypto =
  cr_pemDecode :: "string \<Rightarrow> string option"
  cr_pemEncode :: "string \<Rightarrow> string \<Rightarrow> string"
  cr_ParseCertificate :: "string \<Rightarrow> GoError + string"
  cr_ParsePKCS1PrivateKey :: "string \<Rightarrow> GoError + string"
  cr_ParseIP :: "string \<Rightarrow> string option"

record ImageVars =
  iv_repo :: string
  iv_controllerTag :: string
  iv_routerTag :: string
  iv_natsTag :: string

record Lib =
  lib_op :: OpSdk
  lib_setref :: set_reference
  lib_ssc :: set_status_condition
  lib_crypto :: Crypto
  lib_images :: ImageVars
  lib_parseQuantity :: "string \<Rightarrow> string option"
  lib_quantityIsZero :: "string \<Rightarrow> bool"
  lib_urlError :: "string \<Rightarrow> string option"
  lib_rfc3339 :: "int \<Rightarrow> string"
  lib_jsonError :: "string \<Rightarrow> string"
  lib_fmtFloat :: "string \<Rightarrow> string"
  lib_decodeError :: "string \<Rightarrow> string"
  lib_marshalMicroservices :: "AppMicroservice list \<Rightarrow> GoError + string"
  lib_marshalNatsConfig :: "string \<Rightarrow> GoError + string"

text \<open>
  \<^item> \<open>lib_parseQuantity s\<close>: the quantity \<open>resource.ParseQuantity\<close> reads, in canonical form,
    or \<open>None\<close>, on which \<open>MustParse\<close> panics;
  \<^item> \<open>lib_urlError s\<close>: the error \<open>url.Parse\<close> and \<open>http.NewRequest\<close> report for \<open>s\<close>;
  \<^item> \<open>lib_jsonError s\<close>, \<open>lib_decodeError s\<close>: the text of the error of \<open>json.Unmarshal\<close> and of
    \<open>base64\<close>'s \<open>DecodeString\<close> on \<open>s\<close>; that there is one is part of the model;
  \<^item> the two marshalling functions print types of the ioFog SDK.
\<close>

locale library =
  fixes L :: Lib
  assumes sdk: "operator_sdk (lib_op L)"
    and reference: "controller_reference (lib_setref L)"
    and conditions: "status_condition (lib_ssc L)"

sublocale library \<subseteq> operator_sdk "lib_op L" by (rule sdk)

sublocale library \<subseteq> controller_reference "lib_setref L" by (rule reference)

sublocale library \<subseteq> status_condition "lib_ssc L" by (rule conditions)

text \<open>A library that keeps the contracts, for closed examples.\<close>

definition crypto_ref :: Crypto where
  "crypto_ref =
     \<lparr>cr_pemDecode = (\<lambda>s. if hasPrefix s ''PEM '' then Some (drop 4 s) else None),
      cr_pemEncode = (\<lambda>ty s. ''PEM '' @ s),
      cr_ParseCertificate = Inr,
      cr_ParsePKCS1PrivateKey = Inr,
      cr_ParseIP = (\<lambda>s. if s \<noteq> [] \<and> list_all (\<lambda>c. isDigit c \<or> c = CHR ''.'') s then Some s else None)\<rparr>"

definition lib_ref :: Lib where
  "lib_ref =
     \<lparr>lib_op = sdk_ref, lib_setref = setref_ref, lib_ssc = set_status_condition_ref,
      lib_crypto = crypto_ref,
      lib_images = \<lparr>iv_repo = ''ghcr.io/datasance'', iv_controllerTag = ''3.5.0'',
        iv_routerTag = ''3.4.0'', iv_natsTag = ''2.10.0''\<rparr>,
      lib_parseQuantity = (\<lambda>s. if s = [] then None else Some s),
      lib_quantityIsZero = (\<lambda>s. s = ''0''),
      lib_urlError = (\<lambda>s. if contains s '' '' then Some ''invalid character in host name'' else None),
      lib_rfc3339 = (\<lambda>t. itoa t),
      lib_jsonError = (\<lambda>s. ''invalid JSON''),
      lib_fmtFloat = (\<lambda>s. s),
      lib_decodeError = (\<lambda>s. ''illegal base64 data''),
      lib_marshalMicroservices = (\<lambda>ms. Inr (''['' @ join '','' (map ams_Rest ms) @ '']'')),
      lib_marshalNatsConfig = (\<lambda>s. Inr s)\<rparr>"

interpretation lib_ref: library lib_ref
  by (rule library.intro)
    (simp_all add: lib_ref_def sdk_ref.operator_sdk_axioms setref_ref.controller_reference_axioms
      ssc_ref.status_condition_axioms)

end
