(* ===== verification/Util.thy ===== *)
theory Util
  imports Lib
begin

text \<open>
  \<open>internal/util/strings.go\<close> and \<open>internal/util/images.go\<close>: cutting strings at a substring and
  the image names of the components.
\<close>

definition Before :: "string \<Rightarrow> string \<Rightarrow> string" where
  "Before input substr = (case indexOf input substr of None \<Rightarrow> input | Some pos \<Rightarrow> take pos input)"

definition After :: "string \<Rightarrow> string \<Rightarrow> string" where
  "After input substr =
     (case indexOf input substr of
        None \<Rightarrow> []
      | Some pos \<Rightarrow> if int pos + 1 > int (length input) - 1 then [] else drop (pos + 1) input)"

definition TransformImageToARM :: "string \<Rightarrow> string" where
  "TransformImageToARM img =
     (if \<not> contains img '':'' then img
      else Before img '':'' @ ''-arm:'' @ After img '':'')"

definition GetControllerImage :: "Lib \<Rightarrow> string" where
  "GetControllerImage L =
     iv_repo (lib_images L) @ ''/'' @ ''controller'' @ '':'' @ iv_controllerTag (lib_images L)"

definition GetRouterImage :: "Lib \<Rightarrow> string" where
  "GetRouterImage L = iv_repo (lib_images L) @ ''/'' @ ''router'' @ '':'' @ iv_routerTag (lib_images L)"

definition GetNatsImage :: "Lib \<Rightarrow> string" where
  "GetNatsImage L = iv_repo (lib_images L) @ ''/'' @ ''nats'' @ '':'' @ iv_natsTag (lib_images L)"

lemma After_drop: "indexOf input substr = Some pos \<Longrightarrow> After input substr = drop (pos + 1) input"
  by (auto simp: After_def)

lemma Before_After_byte:
  assumes "c \<notin> set name"
  shows "Before (name @ c # tag) [c] = name" and "After (name @ c # tag) [c] = tag"
  using indexOf_byte_split [OF assms, of tag] After_drop [of "name @ c # tag" "[c]" "length name"]
  by (auto simp: Before_def)

text \<open>
  An image name with a tag becomes the name with \<open>-arm\<close> before the tag, one without a tag
  stays as it is, and the name and the tag are read off the first colon.
\<close>

theorem TransformImageToARM_spec:
  assumes "CHR '':'' \<notin> set name"
  shows "TransformImageToARM (name @ '':'' @ tag) = name @ ''-arm:'' @ tag \<and>
         TransformImageToARM name = name"
  using Before_After_byte [OF assms, of tag] assms indexOf_byte_split [OF assms, of tag]
    indexOf_byte_None [of name "CHR '':''"]
  by (auto simp: TransformImageToARM_def contains_def)

lemma TransformImageToARM_spec_witness:
  "TransformImageToARM (''iofog/router'' @ '':'' @ ''3.4.0'') = ''iofog/router'' @ ''-arm:'' @ ''3.4.0''"
  using TransformImageToARM_spec [of "''iofog/router''" "''3.4.0''"] by simp

end
