(* ===== verification/RouterConfig.thy ===== *)
theory RouterConfig
  imports Json NatsConfig Lib
begin

text \<open>
  The configuration of the router: \<open>controllers/controlplanes/router/config.go\<close>, which fills the
  ports and the namespace into a fixed JSON text, and the part of
  \<open>controllers/controlplanes/k8s.go\<close> that merges that text with the one a cluster already has
  (\<open>shouldUpdate\<close>, \<open>getConfigVersion\<close>, \<open>mergeConfigs\<close>).
\<close>

subsection \<open>The default configuration\<close>

definition MessagePort :: int where "MessagePort = 5671"
definition HTTPPort :: int where "HTTPPort = 9090"
definition InteriorPort :: int where "InteriorPort = 55671"
definition EdgePort :: int where "EdgePort = 45671"

text \<open>A quote with a backslash before it, as inside the metadata string.\<close>

abbreviation bsq :: string where "bsq \<equiv> [CHR 0x5C, CHR 0x22]"

definition metadataLine :: string where
  "metadataLine =
     ''            \"metadata\": \"{'' @ bsq @ ''id'' @ bsq @ '':'' @ bsq @ ''default-router''
      @ bsq @ '','' @ bsq @ ''version'' @ bsq @ '':'' @ bsq @ ''pot'' @ bsq @ '',''
      @ bsq @ ''platform'' @ bsq @ '':'' @ bsq @ ''kubernetes'' @ bsq @ '',''
      @ bsq @ ''pot-config'' @ bsq @ '':'' @ bsq @ ''1.0.0'' @ bsq @ ''}\"''"

definition rawRouterConfigLines :: "string list" where
  "rawRouterConfigLines =
    [[],
     ''['',
     ''    ['',
     ''        \"router\",'',
     ''        {'',
     ''            \"id\": \"default-router\",'',
     ''            \"mode\": \"interior\",'',
     ''            \"helloMaxAgeSeconds\": \"3\",'',
     metadataLine,
     ''        }'',
     ''    ],'',
     ''    ['',
     ''        \"site\",'',
     ''        {'',
     ''            \"name\": \"default-router\",'',
     ''            \"platform\": \"kubernetes\",'',
     ''            \"namespace\": \"<NAMESPACE>\",'',
     ''            \"version\": \"pot\"'',
     ''        }'',
     ''    ],'',
     ''    ['',
     ''        \"sslProfile\",'',
     ''        {'',
     ''            \"name\": \"system-default\",'',
     ''            \"certFile\": \"/etc/pki/tls/certs/ca-bundle.crt\"'',
     ''        }'',
     ''    ],'',
     ''    ['',
     ''        \"sslProfile\",'',
     ''        {'',
     ''            \"name\": \"router-site-server\",'',
     ''            \"certFile\": \"/etc/skupper-router-certs/router-site-server/tls.crt\",'',
     ''            \"privateKeyFile\": \"/etc/skupper-router-certs/router-site-server/tls.key\",'',
     ''            \"caCertFile\": \"/etc/skupper-router-certs/router-site-server/ca.crt\"'',
     ''        }'',
     ''    ],'',
     ''    ['',
     ''        \"sslProfile\",'',
     ''        {'',
     ''            \"name\": \"router-local-server\",'',
     ''            \"certFile\": \"/etc/skupper-router-certs/router-local-server/tls.crt\",'',
     ''            \"privateKeyFile\": \"/etc/skupper-router-certs/router-local-server/tls.key\",'',
     ''            \"caCertFile\": \"/etc/skupper-router-certs/router-local-server/ca.crt\"'',
     ''        }'',
     ''    ],'',
     ''    ['',
     ''        \"listener\",'',
     ''        {'',
     ''            \"name\": \"iofog-router-edge\",'',
     ''            \"role\": \"edge\",'',
     ''            \"port\": <EDGE_PORT>,'',
     ''            \"sslProfile\": \"router-site-server\",'',
     ''            \"saslMechanisms\": \"EXTERNAL\",'',
     ''            \"authenticatePeer\": true'',
     ''        }'',
     ''    ],'',
     ''    ['',
     ''        \"listener\",'',
     ''        {'',
     ''            \"name\": \"amqp\",'',
     ''            \"host\": \"localhost\",'',
     ''            \"port\": 5672'',
     ''        }'',
     ''    ],'',
     ''    ['',
     ''        \"listener\",'',
     ''        {'',
     ''            \"name\": \"amqps\",'',
     ''            \"port\": <MESSAGE_PORT>,'',
     ''            \"sslProfile\": \"router-local-server\",'',
     ''            \"saslMechanisms\": \"EXTERNAL\",'',
     ''            \"authenticatePeer\": true'',
     ''        }'',
     ''    ],'',
     ''    ['',
     ''        \"listener\",'',
     ''        {'',
     ''            \"name\": \"@9090\",'',
     ''            \"role\": \"normal\",'',
     ''            \"port\": <HTTP_PORT>,'',
     ''            \"http\": true,'',
     ''            \"httpRootDir\": \"disabled\",'',
     ''            \"healthz\": true,'',
     ''            \"metrics\": true'',
     ''        }'',
     ''    ],'',
     ''    ['',
     ''        \"listener\",'',
     ''        {'',
     ''            \"name\": \"iofog-router-inter-router\",'',
     ''            \"role\": \"inter-router\",'',
     ''            \"port\": <INTERIOR_PORT>,'',
     ''            \"sslProfile\": \"router-site-server\",'',
     ''            \"saslMechanisms\": \"EXTERNAL\",'',
     ''            \"authenticatePeer\": true'',
     ''        }'',
     ''    ],'',
     ''    ['',
     ''        \"address\",'',
     ''        {'',
     ''            \"prefix\": \"mc\",'',
     ''            \"distribution\": \"multicast\"'',
     ''        }'',
     ''    ],'',
     ''    ['',
     ''        \"log\",'',
     ''        {'',
     ''            \"module\": \"ROUTER_CORE\",'',
     ''            \"enable\": \"error+\"'',
     ''        }'',
     ''    ]'',
     '']'']"

definition rawRouterConfig :: string where
  "rawRouterConfig = unlines rawRouterConfigLines"

definition routerRepl :: "string \<Rightarrow> (string \<times> string) list" where
  "routerRepl namespace =
    [(''<MESSAGE_PORT>'', itoa MessagePort),
     (''<HTTP_PORT>'', itoa HTTPPort),
     (''<INTERIOR_PORT>'', itoa InteriorPort),
     (''<EDGE_PORT>'', itoa EdgePort),
     (''<NAMESPACE>'', namespace)]"

definition GetConfig :: "string \<Rightarrow> string" where
  "GetConfig namespace = replacer (routerRepl namespace) rawRouterConfig"

subsection \<open>Entries\<close>

text \<open>
  A configuration is an array of entries, an entry an array: its type and an object. Go decodes
  it into \<open>[]ConfigEntry\<close>, which fails when the text is not an array of arrays; \<open>null\<close> decodes to
  a nil slice, at the top and as an entry.
\<close>

type_synonym ConfigEntry = "json list"

definition json_string :: "json \<Rightarrow> string option" where
  "json_string j = (case j of JStr s \<Rightarrow> Some s | _ \<Rightarrow> None)"

definition json_object :: "json \<Rightarrow> (string \<times> json) list option" where
  "json_object j = (case j of JObj ps \<Rightarrow> Some ps | _ \<Rightarrow> None)"

definition entry_of :: "json \<Rightarrow> ConfigEntry option" where
  "entry_of j = (case j of JArr vs \<Rightarrow> Some vs | JNull \<Rightarrow> Some [] | _ \<Rightarrow> None)"

fun all_some :: "'a option list \<Rightarrow> 'a list option" where
  "all_some [] = Some []"
| "all_some (None # xs) = None"
| "all_some (Some x # xs) = map_option ((#) x) (all_some xs)"

definition unmarshalEntries :: "Lib \<Rightarrow> string \<Rightarrow> GoError + ConfigEntry list" where
  "unmarshalEntries L config =
     (case parseJson config of
        Some JNull \<Rightarrow> Inr []
      | Some (JArr vs) \<Rightarrow>
          (case all_some (map entry_of vs) of
             Some es \<Rightarrow> Inr es
           | None \<Rightarrow> Inl (new_error (lib_jsonError L config)))
      | _ \<Rightarrow> Inl (new_error (lib_jsonError L config)))"

definition shouldUpdate :: "ConfigEntry \<Rightarrow> bool" where
  "shouldUpdate entry =
     (if length entry \<noteq> 2 then False
      else case json_string (entry ! 0) of
        None \<Rightarrow> False
      | Some entryType \<Rightarrow>
        (case json_object (entry ! 1) of
           None \<Rightarrow> False
         | Some data \<Rightarrow>
           if entryType \<in> set [''router'', ''site'', ''address'', ''log''] then True
           else if entryType = ''sslProfile'' then
             (case Option.bind (map_of data ''name'') json_string of
                Some name \<Rightarrow> name = ''router-site-server'' \<or> name = ''router-local-server''
              | None \<Rightarrow> False)
           else if entryType = ''listener'' then
             (case Option.bind (map_of data ''name'') json_string of
                Some name \<Rightarrow> name = ''iofog-router-edge'' \<or> name = ''amqp'' \<or> name = ''amqps'' \<or>
                             name = ''@9090'' \<or> name = ''iofog-router-inter-router''
              | None \<Rightarrow> False)
           else False))"

subsection \<open>The version\<close>

text \<open>The loop over the entries, from the one at hand on.\<close>

fun config_version :: "Lib \<Rightarrow> ConfigEntry list \<Rightarrow> GoError + string" where
  "config_version L [] = Inr []"
| "config_version L (entry # entries) =
     (if length entry \<noteq> 2 then config_version L entries
      else if json_string (entry ! 0) \<noteq> Some ''router'' then config_version L entries
      else case json_object (entry ! 1) of
        None \<Rightarrow> config_version L entries
      | Some data \<Rightarrow>
        (case Option.bind (map_of data ''metadata'') json_string of
           None \<Rightarrow> config_version L entries
         | Some metadata \<Rightarrow>
           (case parseJson metadata of
              Some (JObj m) \<Rightarrow>
                (case Option.bind (map_of m ''pot-config'') json_string of
                   Some version \<Rightarrow> Inr version
                 | None \<Rightarrow> config_version L entries)
            | Some JNull \<Rightarrow> config_version L entries
            | _ \<Rightarrow> Inl (wrap_error ''failed to parse metadata: ''
                        (new_error (lib_jsonError L metadata))))))"

definition getConfigVersion :: "Lib \<Rightarrow> string \<Rightarrow> GoError + string" where
  "getConfigVersion L config =
     (case unmarshalEntries L config of
        Inl e \<Rightarrow> Inl (wrap_error ''failed to parse config: '' e)
      | Inr entries \<Rightarrow> config_version L entries)"

subsection \<open>Merging\<close>

text \<open>
  \<open>entry[0].(string)\<close> without the second result: it panics on an entry without elements and on
  one that does not start with a string. \<open>existingMap\<close> is keyed by the type alone, so of several
  entries of a type the last one stays.
\<close>

definition entry_key :: "ConfigEntry \<Rightarrow> Crash + string" where
  "entry_key entry =
     (case entry of
        [] \<Rightarrow> Inl (Panic ''index out of range'')
      | j # _ \<Rightarrow> (case json_string j of
                   Some k \<Rightarrow> Inr k
                 | None \<Rightarrow> Inl (Panic ''interface conversion'')))"

fun existing_map :: "ConfigEntry list \<Rightarrow> (string \<rightharpoonup> ConfigEntry) \<Rightarrow> Crash + (string \<rightharpoonup> ConfigEntry)" where
  "existing_map [] m = Inr m"
| "existing_map (entry # entries) m =
     (case entry_key entry of
        Inl c \<Rightarrow> Inl c
      | Inr k \<Rightarrow> existing_map entries (m(k \<mapsto> entry)))"

fun merge_new :: "(string \<rightharpoonup> ConfigEntry) \<Rightarrow> ConfigEntry list \<Rightarrow> Crash + ConfigEntry list" where
  "merge_new existingMap [] = Inr []"
| "merge_new existingMap (entry # entries) =
     (if shouldUpdate entry
      then (case merge_new existingMap entries of
              Inl c \<Rightarrow> Inl c
            | Inr rest \<Rightarrow> Inr (entry # rest))
      else case entry_key entry of
        Inl c \<Rightarrow> Inl c
      | Inr k \<Rightarrow>
        (case merge_new existingMap entries of
           Inl c \<Rightarrow> Inl c
         | Inr rest \<Rightarrow>
           (case existingMap k of
              Some old \<Rightarrow> Inr (old # rest)
            | None \<Rightarrow> Inr rest)))"

definition merge_entries :: "ConfigEntry list \<Rightarrow> ConfigEntry list \<Rightarrow> Crash + ConfigEntry list" where
  "merge_entries existing new =
     (case existing_map existing Map.empty of
        Inl c \<Rightarrow> Inl c
      | Inr existingMap \<Rightarrow>
        (case merge_new existingMap new of
           Inl c \<Rightarrow> Inl c
         | Inr result \<Rightarrow> Inr (result @ filter (\<lambda>e. \<not> shouldUpdate e) existing)))"

text \<open>
  A crash is the outer sum, an error result the inner one. A nil entry prints as \<open>null\<close>; it is
  never in the result, since \<open>entry_key\<close> panics on it first.
\<close>

definition marshalEntries :: "Lib \<Rightarrow> ConfigEntry list \<Rightarrow> string" where
  "marshalEntries L result = printJson (lib_fmtFloat L) (JArr (map JArr result))"

definition mergeConfigs :: "Lib \<Rightarrow> string \<Rightarrow> string \<Rightarrow> Crash + (GoError + string)" where
  "mergeConfigs L existingConfig newConfig =
     (case getConfigVersion L existingConfig of
        Inl e \<Rightarrow> Inr (Inl (wrap_error ''failed to get existing config version: '' e))
      | Inr existingVersion \<Rightarrow>
        (case getConfigVersion L newConfig of
           Inl e \<Rightarrow> Inr (Inl (wrap_error ''failed to get new config version: '' e))
         | Inr newVersion \<Rightarrow>
           if existingVersion \<noteq> [] \<and> existingVersion = newVersion then Inr (Inr existingConfig)
           else case unmarshalEntries L existingConfig of
             Inl e \<Rightarrow> Inr (Inl (wrap_error ''failed to parse existing config: '' e))
           | Inr existing \<Rightarrow>
             (case unmarshalEntries L newConfig of
                Inl e \<Rightarrow> Inr (Inl (wrap_error ''failed to parse new config: '' e))
              | Inr new \<Rightarrow>
                (case merge_entries existing new of
                   Inl c \<Rightarrow> Inl c
                 | Inr result \<Rightarrow> Inr (Inr (marshalEntries L result))))))"

end
