(* ===== verification/Microservices.thy ===== *)
theory Microservices
  imports Util RouterConfig
begin

text \<open>
  What is to run, before it becomes API objects (\<open>controllers/controlplanes/microservices.go\<close>):
  the \<open>microservice\<close> of the controller, of the router and of the NATS hub, each computed from its
  configuration. \<open>buildControllerSecrets\<close> makes the secrets the controller's environment refers
  to.

  \<open>db\<close> and \<open>auth\<close> of the controller's configuration are never nil: their one writer takes the
  address of a field. A container is updated through \<open>containers[0]\<close>, which exists in every
  microservice built here.
\<close>

subsection \<open>Data\<close>

record service =
  s_name :: string
  s_loadBalancerAddr :: string
  s_trafficPolicy :: string
  s_serviceType :: string
  s_serviceAnnotations :: smap
  s_ports :: "ServicePort list"
  s_headless :: bool

record container =
  k_name :: string
  k_image :: string
  k_imagePullPolicy :: string
  k_args :: "string list"
  k_readinessProbe :: "Probe option"
  k_livenessProbe :: "Probe option"
  k_startupProbe :: "Probe option"
  k_env :: "EnvVar list"
  k_command :: "string list"
  k_ports :: "ContainerPort list"
  k_resources :: smap
  k_volumeMounts :: "VolumeMount list"

record microservice =
  ms_name :: string
  ms_services :: "service list"
  ms_imagePullSecret :: string
  ms_replicas :: int
  ms_containers :: "container list"
  ms_initContainers :: "container list"
  ms_labels :: smap
  ms_annotations :: smap
  ms_secrets :: "KObj list"
  ms_volumes :: "Volume list"
  ms_securityContext :: "PodSecurityContext option"
  ms_rbacRules :: "PolicyRule list"
  ms_mustRecreateOnRollout :: bool
  ms_availableDelay :: int
  ms_isStatefulSet :: bool
  ms_statefulSetServiceName :: string
  ms_volumeClaimTemplates :: "(string \<times> PVCSpec) list"
  ms_podTemplateAnnotations :: smap

record controllerMicroserviceConfig =
  cc_controllerName :: string
  cc_replicas :: int
  cc_image :: string
  cc_imagePullSecret :: string
  cc_serviceType :: string
  cc_serviceAnnotations :: smap
  cc_externalTrafficPolicy :: string
  cc_https :: "bool option"
  cc_scheme :: string
  cc_secretName :: string
  cc_loadBalancerAddr :: string
  cc_auth :: Auth
  cc_db :: Database
  cc_events :: "Events option"
  cc_routerImage :: string
  cc_natsImage :: string
  cc_natsEnabled :: bool
  cc_ecn :: string
  cc_pidBaseDir :: string
  cc_ecnViewerPort :: int
  cc_ecnViewerURL :: string
  cc_logLevel :: string
  cc_vault :: "Vault option"

record routerMicroserviceConfig =
  rr_image :: string
  rr_imagePullSecret :: string
  rr_serviceType :: string
  rr_serviceAnnotations :: smap
  rr_externalTrafficPolicy :: string
  rr_siteCA :: string
  rr_localCA :: string
  rr_siteSecret :: string
  rr_localSecret :: string
  rr_ha :: bool

record natsMicroserviceConfig =
  nn_image :: string
  nn_imagePullSecret :: string
  nn_replicas :: int
  nn_storageSize :: string
  nn_storageClassName :: string
  nn_jetStreamKeySecret :: string
  nn_serviceType :: string
  nn_serviceAnnotations :: smap
  nn_externalTrafficPolicy :: string
  nn_serverServiceType :: string
  nn_serverServiceAnnotations :: smap
  nn_serverExternalTrafficPolicy :: string

text \<open>A composite literal with only some fields named.\<close>

definition empty_microservice :: microservice where
  "empty_microservice =
     \<lparr>ms_name = [], ms_services = [], ms_imagePullSecret = [], ms_replicas = 0, ms_containers = [],
      ms_initContainers = [], ms_labels = Map.empty, ms_annotations = Map.empty, ms_secrets = [],
      ms_volumes = [], ms_securityContext = None, ms_rbacRules = [],
      ms_mustRecreateOnRollout = False, ms_availableDelay = 0, ms_isStatefulSet = False,
      ms_statefulSetServiceName = [], ms_volumeClaimTemplates = [],
      ms_podTemplateAnnotations = Map.empty\<rparr>"

definition empty_container :: container where
  "empty_container =
     \<lparr>k_name = [], k_image = [], k_imagePullPolicy = [], k_args = [], k_readinessProbe = None,
      k_livenessProbe = None, k_startupProbe = None, k_env = [], k_command = [], k_ports = [],
      k_resources = Map.empty, k_volumeMounts = []\<rparr>"

definition empty_service :: service where
  "empty_service =
     \<lparr>s_name = [], s_loadBalancerAddr = [], s_trafficPolicy = [], s_serviceType = [],
      s_serviceAnnotations = Map.empty, s_ports = [], s_headless = False\<rparr>"

definition valueEnv :: "string \<Rightarrow> string \<Rightarrow> EnvVar" where
  "valueEnv n v = \<lparr>env_Name = n, env_Source = Value v\<rparr>"

definition secretEnv :: "string \<Rightarrow> string \<Rightarrow> string \<Rightarrow> EnvVar" where
  "secretEnv n secret key = \<lparr>env_Name = n, env_Source = SecretKeyRef secret key\<rparr>"

definition fieldEnv :: "string \<Rightarrow> string \<Rightarrow> EnvVar" where
  "fieldEnv n path = \<lparr>env_Name = n, env_Source = FieldRef path\<rparr>"

definition tcpPort :: "string \<Rightarrow> int \<Rightarrow> int \<Rightarrow> ServicePort" where
  "tcpPort n port target =
     \<lparr>sp_Name = n, sp_Port = port, sp_TargetPort = target, sp_Protocol = ''TCP''\<rparr>"

definition rule :: "string list \<Rightarrow> string list \<Rightarrow> string list \<Rightarrow> PolicyRule" where
  "rule verbs groups resources =
     \<lparr>rule_Verbs = verbs, rule_APIGroups = groups, rule_Resources = resources,
      rule_ResourceNames = []\<rparr>"

definition mount :: "string \<Rightarrow> string \<Rightarrow> bool \<Rightarrow> VolumeMount" where
  "mount n path ro = \<lparr>vm_Name = n, vm_MountPath = path, vm_ReadOnly = ro\<rparr>"

definition containerPort :: "string \<Rightarrow> int \<Rightarrow> string \<Rightarrow> ContainerPort" where
  "containerPort n p proto =
     \<lparr>cpt_Name = n, cpt_ContainerPort = p, cpt_Protocol = proto\<rparr>"

definition runAs10000 :: PodSecurityContext where
  "runAs10000 = \<lparr>sc_RunAsUser = Some 10000, sc_RunAsGroup = Some 10000, sc_FSGroup = Some 10000\<rparr>"

definition first_container :: "(container \<Rightarrow> container) \<Rightarrow> microservice \<Rightarrow> microservice" where
  "first_container f ms =
     ms\<lparr>ms_containers := (case ms_containers ms of [] \<Rightarrow> [] | c # cs \<Rightarrow> f c # cs)\<rparr>"

definition addEnv :: "EnvVar list \<Rightarrow> microservice \<Rightarrow> microservice" where
  "addEnv es = first_container (\<lambda>c. c\<lparr>k_env := k_env c @ es\<rparr>)"

definition addMount :: "VolumeMount \<Rightarrow> microservice \<Rightarrow> microservice" where
  "addMount m = first_container (\<lambda>c. c\<lparr>k_volumeMounts := k_volumeMounts c @ [m]\<rparr>)"

definition addVolume :: "Volume \<Rightarrow> microservice \<Rightarrow> microservice" where
  "addVolume v ms = ms\<lparr>ms_volumes := ms_volumes ms @ [v]\<rparr>"

subsection \<open>Names\<close>

definition routerName :: string where "routerName = ''router''"
definition controllerName :: string where "controllerName = ''controller''"
definition controlllerAuthCredentialsSecretName :: string where
  "controlllerAuthCredentialsSecretName = ''controller-auth-credentials''"
definition controllerDBCredentialsSecretName :: string where
  "controllerDBCredentialsSecretName = ''controller-db-credentials''"
definition controllerVaultCredentialsSecretName :: string where
  "controllerVaultCredentialsSecretName = ''controller-vault-credentials''"

definition NatsSiteCASecret :: string where "NatsSiteCASecret = ''nats-site-ca''"
definition NatsSiteServerSecret :: string where "NatsSiteServerSecret = ''nats-site-server''"
definition NatsLocalCASecret :: string where "NatsLocalCASecret = ''default-nats-local-ca''"
definition NatsMqttServerSecret :: string where "NatsMqttServerSecret = ''nats-mqtt-server''"
definition HubSystemUserCredsSecret :: string where
  "HubSystemUserCredsSecret = ''nats-creds-sys-admin-hub''"
definition HubSystemUserCredsDataKey :: string where
  "HubSystemUserCredsDataKey = ''admin-hub.creds''"
definition OperatorSeedSecretName :: string where "OperatorSeedSecretName = ''nats-operator-seed''"

subsection \<open>Small functions\<close>

definition getSSLValue :: "bool option \<Rightarrow> string" where
  "getSSLValue ssl = (case ssl of None \<Rightarrow> ''false'' | Some b \<Rightarrow> formatBool b)"

definition getCAValue :: "string option \<Rightarrow> string" where
  "getCAValue ca = (case ca of None \<Rightarrow> [] | Some s \<Rightarrow> s)"

definition getTrafficPolicy :: "string \<Rightarrow> string \<Rightarrow> string" where
  "getTrafficPolicy serviceType override =
     (if equalFold serviceType ''ClusterIP'' then []
      else if equalFold override ''Local'' then ''Local''
      else if equalFold override ''Cluster'' then ''Cluster''
      else if equalFold serviceType ''LoadBalancer'' then ''Local''
      else if equalFold serviceType ''NodePort'' then ''Cluster''
      else [])"

subsection \<open>The secrets of the controller\<close>

definition opaqueSecret :: "string \<Rightarrow> string \<Rightarrow> smap \<Rightarrow> KObj" where
  "opaqueSecret namespace n data =
     \<lparr>o_Meta = new_meta n namespace Map.empty Map.empty,
      o_Payload = PSecret \<lparr>sec_Type = ''Opaque'', sec_StringData = data, sec_Data = Map.empty\<rparr>\<rparr>"

definition buildVaultCredentialsSecret :: "string \<Rightarrow> Vault option \<Rightarrow> KObj option" where
  "buildVaultCredentialsSecret namespace vault =
     (case vault of None \<Rightarrow> None | Some v \<Rightarrow>
        map_option (opaqueSecret namespace controllerVaultCredentialsSecretName)
          (case v_Hashicorp v of
             Some h \<Rightarrow> Some [''address'' \<mapsto> vh_Address h, ''token'' \<mapsto> vh_Token h, ''mount'' \<mapsto> vh_Mount h]
           | None \<Rightarrow>
          (case v_Aws v of
             Some a \<Rightarrow> Some [''region'' \<mapsto> va_Region a, ''accessKeyId'' \<mapsto> va_AccessKeyId a,
                            ''accessKey'' \<mapsto> va_AccessKey a]
           | None \<Rightarrow>
          (case v_Azure v of
             Some z \<Rightarrow> Some [''url'' \<mapsto> vz_URL z, ''tenantId'' \<mapsto> vz_TenantId z,
                            ''clientId'' \<mapsto> vz_ClientId z, ''clientSecret'' \<mapsto> vz_ClientSecret z]
           | None \<Rightarrow>
          (case v_Google v of
             Some g \<Rightarrow> Some [''projectId'' \<mapsto> vg_ProjectId g, ''credentials'' \<mapsto> vg_Credentials g]
           | None \<Rightarrow> None)))))"

definition dbSecretData :: "Database \<Rightarrow> smap" where
  "dbSecretData db =
     [''dbname'' \<mapsto> db_DatabaseName db, ''host'' \<mapsto> db_Host db, ''port'' \<mapsto> itoa (db_Port db),
      ''username'' \<mapsto> db_User db, ''password'' \<mapsto> db_Password db, ''ssl'' \<mapsto> getSSLValue (db_SSL db),
      ''ca'' \<mapsto> getCAValue (db_CA db)]"

definition authSecretData :: "Auth \<Rightarrow> smap" where
  "authSecretData a =
     [''auth-url'' \<mapsto> auth_URL a, ''auth-realm'' \<mapsto> auth_Realm a, ''auth-realm-key'' \<mapsto> auth_RealmKey a,
      ''auth-ssl-req'' \<mapsto> auth_SSL a, ''auth-controller-client'' \<mapsto> auth_ControllerClient a,
      ''auth-controller-client-secret'' \<mapsto> auth_ControllerSecret a,
      ''auth-viewer-client'' \<mapsto> auth_ViewerClient a]"

definition buildControllerSecrets :: "string \<Rightarrow> controllerMicroserviceConfig \<Rightarrow> KObj list" where
  "buildControllerSecrets namespace cfg =
     [opaqueSecret namespace controllerDBCredentialsSecretName (dbSecretData (cc_db cfg)),
      opaqueSecret namespace controlllerAuthCredentialsSecretName (authSecretData (cc_auth cfg))] @
     (case buildVaultCredentialsSecret namespace (cc_vault cfg) of
        Some vaultSec \<Rightarrow> [vaultSec]
      | None \<Rightarrow> [])"

subsection \<open>The controller\<close>

definition filterControllerConfig ::
    "Lib \<Rightarrow> controllerMicroserviceConfig \<Rightarrow> controllerMicroserviceConfig" where
  "filterControllerConfig L cfg =
     (let cfg = (if cc_replicas cfg = 0 then cfg\<lparr>cc_replicas := 1\<rparr> else cfg);
          cfg = (if cc_image cfg = [] then cfg\<lparr>cc_image := GetControllerImage L\<rparr> else cfg);
          cfg = (if cc_routerImage cfg = [] then cfg\<lparr>cc_routerImage := GetRouterImage L\<rparr> else cfg);
          cfg = (if cc_natsImage cfg = [] then cfg\<lparr>cc_natsImage := GetNatsImage L\<rparr> else cfg);
          cfg = (if cc_serviceType cfg = [] then cfg\<lparr>cc_serviceType := ''LoadBalancer''\<rparr> else cfg);
          cfg = (if cc_ecnViewerPort cfg = 0 then cfg\<lparr>cc_ecnViewerPort := 8008\<rparr> else cfg);
          cfg = (if cc_pidBaseDir cfg = [] then cfg\<lparr>cc_pidBaseDir := ''/home/runner''\<rparr> else cfg);
          cfg = cfg\<lparr>cc_scheme := (if cc_https cfg = None \<or> cc_https cfg = Some False
                                  then ''http'' else ''https'')\<rparr>
      in if cc_logLevel cfg = [] then cfg\<lparr>cc_logLevel := ''info''\<rparr> else cfg)"

definition getControllerPort :: "microservice \<Rightarrow> GoError + int" where
  "getControllerPort msvc =
     (case ms_services msvc of
        [] \<Rightarrow> Inl (new_error ''controller microservice does not have requisite ports'')
      | s # _ \<Rightarrow>
        (case s_ports s of
           [] \<Rightarrow> Inl (new_error ''controller microservice does not have requisite ports'')
         | p # _ \<Rightarrow> Inr (sp_Port p)))"

abbreviation fullVerbs :: "string list" where
  "fullVerbs \<equiv> [''get'', ''list'', ''watch'', ''create'', ''update'', ''patch'', ''delete'']"

abbreviation readVerbs :: "string list" where
  "readVerbs \<equiv> [''get'', ''list'', ''watch'']"

definition controllerRbacRules :: "PolicyRule list" where
  "controllerRbacRules =
     [rule fullVerbs [[]] [''configmaps''],
      rule readVerbs [[]] [''secrets''],
      rule fullVerbs [[]] [''services''],
      rule readVerbs [''apps''] [''statefulsets''],
      (rule [''update'', ''patch''] [''apps''] [''statefulsets''])\<lparr>rule_ResourceNames := [''nats'']\<rparr>]"

text \<open>\<open>intstr.FromInt\<close> keeps the low 32 bits of the integer, as a signed one.\<close>

definition FromInt :: "int \<Rightarrow> int" where
  "FromInt p = (p + 2 ^ 31) mod 2 ^ 32 - 2 ^ 31"

lemma FromInt_small [simp]: "- (2 ^ 31) \<le> p \<Longrightarrow> p < 2 ^ 31 \<Longrightarrow> FromInt p = p"
  by (simp add: FromInt_def)

definition controllerServices :: "controllerMicroserviceConfig \<Rightarrow> service list" where
  "controllerServices cfg =
     [empty_service
        \<lparr>s_name := ''controller'',
         s_serviceType := cc_serviceType cfg,
         s_serviceAnnotations := cc_serviceAnnotations cfg,
         s_trafficPolicy := getTrafficPolicy (cc_serviceType cfg) (cc_externalTrafficPolicy cfg),
         s_loadBalancerAddr := cc_loadBalancerAddr cfg,
         s_ports := [tcpPort ''controller-api'' 51121 51121,
                     tcpPort ''ecn-viewer'' 80 (FromInt (cc_ecnViewerPort cfg))]\<rparr>]"

definition controllerReadinessProbe :: "controllerMicroserviceConfig \<Rightarrow> Probe" where
  "controllerReadinessProbe cfg =
     \<lparr>pr_Path = ''/api/v3/status'', pr_Port = 51121, pr_Scheme = toUpper (cc_scheme cfg),
      pr_InitialDelaySeconds = 10, pr_TimeoutSeconds = 10, pr_PeriodSeconds = 5,
      pr_SuccessThreshold = 0, pr_FailureThreshold = 2\<rparr>"

definition controllerEnv :: "string \<Rightarrow> controllerMicroserviceConfig \<Rightarrow> EnvVar list" where
  "controllerEnv namespace cfg =
     (let auth = controlllerAuthCredentialsSecretName; db = controllerDBCredentialsSecretName in
     [secretEnv ''KC_URL'' auth ''auth-url'',
      secretEnv ''KC_REALM'' auth ''auth-realm'',
      secretEnv ''KC_REALM_KEY'' auth ''auth-realm-key'',
      secretEnv ''KC_SSL_REQ'' auth ''auth-ssl-req'',
      secretEnv ''KC_CLIENT'' auth ''auth-controller-client'',
      secretEnv ''KC_CLIENT_SECRET'' auth ''auth-controller-client-secret'',
      secretEnv ''KC_VIEWER_CLIENT'' auth ''auth-viewer-client'',
      valueEnv ''DB_PROVIDER'' (db_Provider (cc_db cfg)),
      secretEnv ''DB_NAME'' db ''dbname'',
      secretEnv ''DB_USERNAME'' db ''username'',
      secretEnv ''DB_PASSWORD'' db ''password'',
      secretEnv ''DB_HOST'' db ''host'',
      secretEnv ''DB_PORT'' db ''port'',
      secretEnv ''DB_USE_SSL'' db ''ssl'',
      secretEnv ''DB_SSL_CA'' db ''ca'',
      valueEnv ''CONTROL_PLANE'' ''Kubernetes'',
      valueEnv ''CONTROLLER_NAME'' (cc_controllerName cfg),
      valueEnv ''CONTROLLER_NAMESPACE'' namespace,
      valueEnv ''ROUTER_IMAGE_1'' (cc_routerImage cfg),
      valueEnv ''ROUTER_IMAGE_2'' (cc_routerImage cfg),
      valueEnv ''NATS_ENABLED'' (formatBool (cc_natsEnabled cfg)),
      valueEnv ''NATS_IMAGE_1'' (cc_natsImage cfg),
      valueEnv ''NATS_IMAGE_2'' (cc_natsImage cfg),
      valueEnv ''ECN_NAME'' (cc_ecn cfg),
      valueEnv ''PID_BASE'' (cc_pidBaseDir cfg),
      valueEnv ''VIEWER_PORT'' (itoa (cc_ecnViewerPort cfg)),
      valueEnv ''VIEWER_URL'' (cc_ecnViewerURL cfg),
      valueEnv ''LOG_LEVEL'' (cc_logLevel cfg)])"

definition controllerBase :: "string \<Rightarrow> controllerMicroserviceConfig \<Rightarrow> microservice" where
  "controllerBase namespace cfg =
     empty_microservice
       \<lparr>ms_availableDelay := 5,
        ms_name := ''controller'',
        ms_labels := [''datasance.com/component'' \<mapsto> ''controller''],
        ms_rbacRules := controllerRbacRules,
        ms_imagePullSecret := cc_imagePullSecret cfg,
        ms_replicas := cc_replicas cfg,
        ms_services := controllerServices cfg,
        ms_secrets := buildControllerSecrets namespace cfg,
        ms_securityContext := Some runAs10000,
        ms_containers :=
          [empty_container
             \<lparr>k_name := ''controller'',
              k_image := cc_image cfg,
              k_imagePullPolicy := ''Always'',
              k_readinessProbe := Some (controllerReadinessProbe cfg),
              k_env := controllerEnv namespace cfg\<rparr>]\<rparr>"

definition withSqlite :: "controllerMicroserviceConfig \<Rightarrow> microservice \<Rightarrow> microservice" where
  "withSqlite cfg ms =
     (if db_Host (cc_db cfg) = []
      then addMount (mount ''controller-sqlite''
             ''/home/runner/.npm-global/lib/node_modules/@datasance/iofogcontroller/src/data/sqlite_files/''
             False)
             (addVolume \<lparr>vol_Name = ''controller-sqlite'',
                         vol_Source = PVCSource ''controller-sqlite'' False\<rparr>
               (ms\<lparr>ms_mustRecreateOnRollout := True\<rparr>))
      else ms)"

definition withTls :: "controllerMicroserviceConfig \<Rightarrow> microservice \<Rightarrow> microservice" where
  "withTls cfg ms =
     (if cc_https cfg = Some True
      then addEnv [valueEnv ''SERVER_DEV_MODE'' ''false'',
                   valueEnv ''SSL_PATH_CERT'' ''/etc/pot/controller-cert/tls.crt'',
                   valueEnv ''SSL_PATH_KEY'' ''/etc/pot/controller-cert/tls.key'',
                   valueEnv ''SSL_PATH_INTERMEDIATE_CERT'' ''/etc/pot/controller-cert/ca.crt'']
             (addMount (mount ''controller-cert'' ''/etc/pot/controller-cert/'' False)
               (addVolume \<lparr>vol_Name = ''controller-cert'',
                           vol_Source = SecretSource (cc_secretName cfg) []\<rparr> ms))
      else ms)"

definition eventsEnv :: "Events option \<Rightarrow> EnvVar list" where
  "eventsEnv events =
     (case events of None \<Rightarrow> [] | Some ev \<Rightarrow>
      (case evt_AuditEnabled ev of None \<Rightarrow> [] | Some audit \<Rightarrow>
         [valueEnv ''EVENT_AUDIT_ENABLED'' (formatBool audit)] @
         (if audit then
            (if evt_RetentionDays ev \<noteq> 0
             then [valueEnv ''EVENT_RETENTION_DAYS'' (itoa (evt_RetentionDays ev))] else []) @
            (if evt_CleanupInterval ev \<noteq> 0
             then [valueEnv ''EVENT_CLEANUP_INTERVAL'' (itoa (evt_CleanupInterval ev))] else [])
          else []) @
         (case evt_CaptureIpAddress ev of
            Some b \<Rightarrow> [valueEnv ''EVENT_CAPTURE_IP_ADDRESS'' (formatBool b)]
          | None \<Rightarrow> [])))"

definition vaultProviderEnv :: "Vault \<Rightarrow> EnvVar list" where
  "vaultProviderEnv v =
     (let sec = controllerVaultCredentialsSecretName in
      if v_Hashicorp v \<noteq> None then
        [secretEnv ''VAULT_HASHICORP_ADDRESS'' sec ''address'',
         secretEnv ''VAULT_HASHICORP_TOKEN'' sec ''token'',
         secretEnv ''VAULT_HASHICORP_MOUNT'' sec ''mount'']
      else if v_Aws v \<noteq> None then
        [secretEnv ''VAULT_AWS_REGION'' sec ''region'',
         secretEnv ''VAULT_AWS_ACCESS_KEY_ID'' sec ''accessKeyId'',
         secretEnv ''VAULT_AWS_ACCESS_KEY'' sec ''accessKey'']
      else if v_Azure v \<noteq> None then
        [secretEnv ''VAULT_AZURE_URL'' sec ''url'',
         secretEnv ''VAULT_AZURE_TENANT_ID'' sec ''tenantId'',
         secretEnv ''VAULT_AZURE_CLIENT_ID'' sec ''clientId'',
         secretEnv ''VAULT_AZURE_CLIENT_SECRET'' sec ''clientSecret'']
      else if v_Google v \<noteq> None then
        [secretEnv ''VAULT_GOOGLE_PROJECT_ID'' sec ''projectId'',
         secretEnv ''VAULT_GOOGLE_CREDENTIALS'' sec ''credentials'']
      else [])"

definition vaultEnv :: "string \<Rightarrow> Vault option \<Rightarrow> EnvVar list" where
  "vaultEnv namespace vault =
     (case vault of None \<Rightarrow> [] | Some v \<Rightarrow>
        [valueEnv ''VAULT_ENABLED''
           (formatBool (case v_Enabled v of Some b \<Rightarrow> b | None \<Rightarrow> True))] @
        (if v_Provider v \<noteq> [] then [valueEnv ''VAULT_PROVIDER'' (v_Provider v)] else []) @
        (if v_BasePath v \<noteq> []
         then [valueEnv ''VAULT_BASE_PATH'' (replaceAll (v_BasePath v) ''$namespace'' namespace)]
         else []) @
        vaultProviderEnv v)"

definition newControllerMicroservice ::
    "Lib \<Rightarrow> string \<Rightarrow> controllerMicroserviceConfig \<Rightarrow> microservice" where
  "newControllerMicroservice L namespace cfg0 =
     (let cfg = filterControllerConfig L cfg0
      in addEnv (vaultEnv namespace (cc_vault cfg))
           (addEnv (eventsEnv (cc_events cfg))
             (withTls cfg (withSqlite cfg (controllerBase namespace cfg)))))"

end
