(* ===== verification/HubMicroservices.thy ===== *)
theory HubMicroservices
  imports Microservices
begin

text \<open>
  The other two microservices of \<open>controllers/controlplanes/microservices.go\<close>: the router, with
  the secondary one that high availability would add, and the NATS hub.

  \<open>resource.MustParse\<close> panics on a text that is not a quantity, so \<open>newNatsMicroservice\<close> is a sum
  of the panic and the microservice.
\<close>

subsection \<open>The router\<close>

definition filterRouterConfig :: "Lib \<Rightarrow> routerMicroserviceConfig \<Rightarrow> routerMicroserviceConfig" where
  "filterRouterConfig L cfg =
     (let cfg = (if rr_image cfg = [] then cfg\<lparr>rr_image := GetRouterImage L\<rparr> else cfg);
          cfg = (if rr_serviceType cfg = [] then cfg\<lparr>rr_serviceType := ''LoadBalancer''\<rparr> else cfg);
          cfg = (if rr_siteSecret cfg = [] then cfg\<lparr>rr_siteSecret := ''router-site-server''\<rparr> else cfg);
          cfg = (if rr_localSecret cfg = [] then cfg\<lparr>rr_localSecret := ''router-local-server''\<rparr> else cfg);
          cfg = (if rr_siteCA cfg = [] then cfg\<lparr>rr_siteCA := ''router-site-ca''\<rparr> else cfg)
      in if rr_localCA cfg = [] then cfg\<lparr>rr_localCA := ''default-router-local-ca''\<rparr> else cfg)"

definition routerLabels :: smap where
  "routerLabels =
     [''datasance.com/component'' \<mapsto> routerName, ''application'' \<mapsto> ''interior-router'',
      ''skupper.io/component'' \<mapsto> ''router'', ''skupper.io/type'' \<mapsto> ''site'']"

definition routerAnnotations :: smap where
  "routerAnnotations = [''prometheus.io/port'' \<mapsto> ''9090'', ''prometheus.io/scrape'' \<mapsto> ''true'']"

definition routerServices :: "routerMicroserviceConfig \<Rightarrow> service list" where
  "routerServices cfg =
     [empty_service
        \<lparr>s_name := ''router'',
         s_serviceType := rr_serviceType cfg,
         s_serviceAnnotations := rr_serviceAnnotations cfg,
         s_trafficPolicy := getTrafficPolicy (rr_serviceType cfg) (rr_externalTrafficPolicy cfg),
         s_ports := [tcpPort ''router-message'' MessagePort MessagePort,
                     tcpPort ''router-interior'' InteriorPort InteriorPort,
                     tcpPort ''router-edge'' EdgePort EdgePort]\<rparr>]"

definition routerRbacRules :: "PolicyRule list" where
  "routerRbacRules =
     [rule readVerbs [[]] [''pods''],
      rule readVerbs [[]] [''configmaps''],
      rule readVerbs [[]] [''secrets''],
      rule fullVerbs [''coordination.k8s.io''] [''leases''],
      rule [''get''] [''apps''] [''deployments''],
      rule readVerbs [[]] [''services'']]"

definition routerVolumes :: "Volume list" where
  "routerVolumes =
     [\<lparr>vol_Name = ''iofog-router-config'',
       vol_Source = ConfigMapSource ''iofog-router'' [(''skrouterd.json'', ''skrouterd.json'')]\<rparr>,
      \<lparr>vol_Name = ''router-site-server'', vol_Source = SecretSource ''router-site-server'' []\<rparr>,
      \<lparr>vol_Name = ''router-local-server'', vol_Source = SecretSource ''router-local-server'' []\<rparr>]"

definition routerContainerPorts :: "ContainerPort list" where
  "routerContainerPorts =
     [containerPort ''amqps'' 5671 ''TCP'',
      containerPort ''http'' 9090 ''TCP'',
      containerPort ''inter-router'' 55671 ''TCP'',
      containerPort ''edge'' 45671 ''TCP'']"

definition routerProbe :: "int \<Rightarrow> Probe" where
  "routerProbe delay =
     \<lparr>pr_Path = ''/healthz'', pr_Port = 9090, pr_Scheme = ''HTTP'', pr_InitialDelaySeconds = delay,
      pr_TimeoutSeconds = 1, pr_PeriodSeconds = 10, pr_SuccessThreshold = 1, pr_FailureThreshold = 3\<rparr>"

definition routerEnv :: "EnvVar list" where
  "routerEnv =
     [valueEnv ''APPLICATION_NAME'' routerName,
      valueEnv ''QDROUTERD_AUTO_MESH_DISCOVERY'' ''QUERY'',
      valueEnv ''QDROUTERD_CONF'' ''/tmp/skrouterd.json'',
      valueEnv ''QDROUTERD_CONF_TYPE'' ''json'',
      valueEnv ''SSL_PROFILE_PATH'' ''/etc/skupper-router-certs'',
      valueEnv ''SKUPPER_SITE_ID'' ''default-router'',
      valueEnv ''SKUPPER_PLATFORM'' ''kubernetes'',
      fieldEnv ''POD_NAMESPACE'' ''metadata.namespace'',
      fieldEnv ''POD_IP'' ''status.podIP'']"

definition routerVolumeMounts :: "VolumeMount list" where
  "routerVolumeMounts =
     [mount ''iofog-router-config'' ''/tmp'' False,
      mount ''router-site-server'' ''/etc/skupper-router-certs/router-site-server'' False,
      mount ''router-local-server'' ''/etc/skupper-router-certs/router-local-server'' False]"

definition newRouterMicroservice :: "Lib \<Rightarrow> routerMicroserviceConfig \<Rightarrow> microservice" where
  "newRouterMicroservice L cfg0 =
     (let cfg = filterRouterConfig L cfg0 in
      empty_microservice
        \<lparr>ms_name := routerName,
         ms_labels := routerLabels,
         ms_annotations := routerAnnotations,
         ms_services := routerServices cfg,
         ms_imagePullSecret := rr_imagePullSecret cfg,
         ms_replicas := 1,
         ms_rbacRules := routerRbacRules,
         ms_volumes := routerVolumes,
         ms_containers :=
           [empty_container
              \<lparr>k_name := routerName,
               k_image := rr_image cfg,
               k_imagePullPolicy := ''Always'',
               k_command := [''/home/skrouterd/bin/router''],
               k_ports := routerContainerPorts,
               k_readinessProbe := Some (routerProbe 1),
               k_livenessProbe := Some (routerProbe 60),
               k_env := routerEnv,
               k_volumeMounts := routerVolumeMounts\<rparr>]\<rparr>)"

text \<open>The secondary router: its own rules, command and environment, and no service.\<close>

definition secondaryRbacRules :: "PolicyRule list" where
  "secondaryRbacRules =
     [rule readVerbs [[]] [''pods'', ''services'', ''endpoints''],
      rule readVerbs [''apps''] [''deployments'']]"

definition secondaryEnv :: "EnvVar list" where
  "secondaryEnv =
     [valueEnv ''APPLICATION_NAME'' routerName,
      valueEnv ''QDROUTERD_AUTO_MESH_DISCOVERY'' ''QUERY'',
      valueEnv ''QDROUTERD_CONF'' ''/tmp/skrouterd.json'',
      valueEnv ''QDROUTERD_CONF_TYPE'' ''json'',
      valueEnv ''SSL_PROFILE_PATH'' ''/etc/skupper-router-certs'',
      valueEnv ''SKUPPER_SITE_ID'' ''default-router'',
      valueEnv ''SKUPPER_SITE_NAME'' ''default-router'',
      valueEnv ''SKUPPER_PLATFORM'' ''kubernetes'']"

definition newRouterMicroserviceWithName ::
    "Lib \<Rightarrow> routerMicroserviceConfig \<Rightarrow> string \<Rightarrow> microservice" where
  "newRouterMicroserviceWithName L cfg0 n =
     (let cfg = filterRouterConfig L cfg0 in
      empty_microservice
        \<lparr>ms_name := n,
         ms_labels := routerLabels,
         ms_annotations := routerAnnotations,
         ms_services := [],
         ms_imagePullSecret := rr_imagePullSecret cfg,
         ms_replicas := 1,
         ms_rbacRules := secondaryRbacRules,
         ms_volumes := routerVolumes,
         ms_containers :=
           [empty_container
              \<lparr>k_name := routerName,
               k_image := rr_image cfg,
               k_imagePullPolicy := ''Always'',
               k_command := [''/home/skrouterd/bin/launch.sh''],
               k_ports := routerContainerPorts,
               k_readinessProbe := Some (routerProbe 1),
               k_livenessProbe := Some (routerProbe 60),
               k_env := secondaryEnv,
               k_volumeMounts := routerVolumeMounts\<rparr>]\<rparr>)"

definition newRouterMicroservices :: "Lib \<Rightarrow> routerMicroserviceConfig \<Rightarrow> microservice list" where
  "newRouterMicroservices L cfg0 =
     (let cfg = filterRouterConfig L cfg0 in
      [newRouterMicroservice L cfg] @
      (if rr_ha cfg then [newRouterMicroserviceWithName L cfg ''router-2''] else []))"

subsection \<open>The NATS hub\<close>

definition plainPort :: "string \<Rightarrow> int \<Rightarrow> ServicePort" where
  "plainPort n p = \<lparr>sp_Name = n, sp_Port = p, sp_TargetPort = p, sp_Protocol = []\<rparr>"

definition natsHeadlessPorts :: "ServicePort list" where
  "natsHeadlessPorts =
     [plainPort ''cluster'' DefaultClusterPort, plainPort ''leaf'' DefaultLeafPort,
      plainPort ''mqtt'' DefaultMqttPort, plainPort ''client'' DefaultServerPort,
      plainPort ''monitor'' DefaultHttpPort]"

definition natsClientPorts :: "ServicePort list" where
  "natsClientPorts =
     [plainPort ''cluster'' DefaultClusterPort, plainPort ''leaf'' DefaultLeafPort,
      plainPort ''mqtt'' DefaultMqttPort]"

definition natsServerPorts :: "ServicePort list" where
  "natsServerPorts =
     [plainPort ''client'' DefaultServerPort, plainPort ''monitor'' DefaultHttpPort]"

text \<open>The size of the volume claim; zero means the default.\<close>

definition storageQuantity :: "Lib \<Rightarrow> string \<Rightarrow> Crash + string" where
  "storageQuantity L sz =
     (case lib_parseQuantity L sz of
        None \<Rightarrow> Inl (Panic ''cannot parse quantity'')
      | Some q \<Rightarrow>
        if lib_quantityIsZero L q then
          (case lib_parseQuantity L DefaultStorageSizePVC of
             None \<Rightarrow> Inl (Panic ''cannot parse quantity'')
           | Some d \<Rightarrow> Inr d)
        else Inr q)"

definition natsServices :: "natsMicroserviceConfig \<Rightarrow> service list" where
  "natsServices cfg =
     [empty_service
        \<lparr>s_name := HeadlessServiceName, s_serviceType := ''ClusterIP'', s_headless := True,
         s_ports := natsHeadlessPorts\<rparr>,
      empty_service
        \<lparr>s_name := ClientServiceName, s_serviceType := nn_serviceType cfg,
         s_serviceAnnotations := nn_serviceAnnotations cfg,
         s_trafficPolicy := getTrafficPolicy (nn_serviceType cfg) (nn_externalTrafficPolicy cfg),
         s_ports := natsClientPorts\<rparr>,
      empty_service
        \<lparr>s_name := ServerServiceName, s_serviceType := nn_serverServiceType cfg,
         s_serviceAnnotations := nn_serverServiceAnnotations cfg,
         s_trafficPolicy :=
           getTrafficPolicy (nn_serverServiceType cfg) (nn_serverExternalTrafficPolicy cfg),
         s_headless := False, s_ports := natsServerPorts\<rparr>]"

definition natsVolumes :: "natsMicroserviceConfig \<Rightarrow> Volume list" where
  "natsVolumes cfg =
     [\<lparr>vol_Name = ''config'', vol_Source = ConfigMapSource ConfigMapName []\<rparr>,
      \<lparr>vol_Name = ''jwt'', vol_Source = ConfigMapSource JWTBundleCMName []\<rparr>,
      \<lparr>vol_Name = ''nats-site-server'', vol_Source = SecretSource NatsSiteServerSecret []\<rparr>,
      \<lparr>vol_Name = ''nats-mqtt-server'', vol_Source = SecretSource NatsMqttServerSecret []\<rparr>,
      \<lparr>vol_Name = ''jetstream-key'', vol_Source = SecretSource (nn_jetStreamKeySecret cfg) []\<rparr>,
      \<lparr>vol_Name = ''sys-user-creds'',
       vol_Source = SecretSource HubSystemUserCredsSecret
         [(HubSystemUserCredsDataKey, ''admin-hub.creds'')]\<rparr>]"

definition natsContainerPorts :: "ContainerPort list" where
  "natsContainerPorts =
     [containerPort ''client'' DefaultServerPort [], containerPort ''cluster'' DefaultClusterPort [],
      containerPort ''leaf'' DefaultLeafPort [], containerPort ''mqtt'' DefaultMqttPort [],
      containerPort ''monitor'' DefaultHttpPort []]"

definition natsEnv :: "natsMicroserviceConfig \<Rightarrow> EnvVar list" where
  "natsEnv cfg =
     [valueEnv ''NATS_CONF'' ''/etc/nats/config/server.conf'',
      valueEnv ''NATS_SERVER_MODE'' ''server'',
      valueEnv ''NATS_JWT_DIR'' ''/home/runner/nats/jwt'',
      valueEnv ''NATS_JWT_MOUNT_DIR'' ''/tmp/nats/jwt'',
      valueEnv ''NATS_CREDS_DIR'' ''/etc/nats/creds'',
      valueEnv ''NATS_SYS_USER_CRED_PATH'' ''/etc/nats/creds/admin-hub.creds'',
      valueEnv ''NATS_SSL_DIR'' ''/etc/nats/certs'',
      valueEnv ''NATS_CERT_NAME'' ''nats-site-server'',
      valueEnv ''NATS_MQTT_CERT_NAME'' ''nats-mqtt-server'',
      valueEnv ''NATS_SERVER_PORT'' ''4222'',
      valueEnv ''NATS_CLUSTER_PORT'' ''6222'',
      valueEnv ''NATS_LEAF_PORT'' ''7422'',
      valueEnv ''NATS_MQTT_PORT'' ''8883'',
      valueEnv ''NATS_MONITOR_PORT'' ''8222'',
      valueEnv ''NATS_JETSTREAM_STORE_DIR'' ''/home/runner/data'',
      valueEnv ''NATS_HTTP_PORT'' ''8222'',
      secretEnv ''JETSTREAM_KEY'' (nn_jetStreamKeySecret cfg) ''jsk'',
      valueEnv ''JETSTREAM_PREV_KEY'' [],
      fieldEnv ''SELFNAME'' ''metadata.name'']"

definition natsVolumeMounts :: "VolumeMount list" where
  "natsVolumeMounts =
     [mount ''config'' ''/etc/nats/config'' False,
      mount ''jwt'' ''/tmp/nats/jwt'' False,
      mount ''nats-site-server'' ''/etc/nats/certs/nats-site-server'' False,
      mount ''nats-mqtt-server'' ''/etc/nats/certs/nats-mqtt-server'' False,
      mount ''jetstream-key'' ''/etc/nats/jetstream'' True,
      mount ''sys-user-creds'' ''/etc/nats/creds'' True,
      mount ''js-data'' ''/home/runner/data'' False]"

definition natsProbe :: "int \<Rightarrow> Probe" where
  "natsProbe period =
     \<lparr>pr_Path = ''/healthz?js-enabled-only=true'', pr_Port = DefaultHttpPort, pr_Scheme = [],
      pr_InitialDelaySeconds = 10, pr_TimeoutSeconds = 5, pr_PeriodSeconds = period,
      pr_SuccessThreshold = 1, pr_FailureThreshold = 3\<rparr>"

definition natsPVCSpec :: "natsMicroserviceConfig \<Rightarrow> string \<Rightarrow> PVCSpec" where
  "natsPVCSpec cfg quantity =
     \<lparr>pvc_AccessModes = [''ReadWriteOnce''], pvc_Storage = quantity,
      pvc_StorageClassName = (if nn_storageClassName cfg \<noteq> [] then Some (nn_storageClassName cfg)
                              else None)\<rparr>"

definition natsContainer :: "natsMicroserviceConfig \<Rightarrow> container" where
  "natsContainer cfg =
     empty_container
       \<lparr>k_name := ''nats'',
        k_image := nn_image cfg,
        k_imagePullPolicy := ''Always'',
        k_ports := natsContainerPorts,
        k_env := natsEnv cfg,
        k_volumeMounts := natsVolumeMounts,
        k_readinessProbe := Some (natsProbe 10),
        k_livenessProbe := Some (natsProbe 30)\<rparr>"

definition newNatsMicroservice :: "Lib \<Rightarrow> natsMicroserviceConfig \<Rightarrow> Crash + microservice" where
  "newNatsMicroservice L cfg =
     (case storageQuantity L (nn_storageSize cfg) of
        Inl c \<Rightarrow> Inl c
      | Inr quantity \<Rightarrow> Inr
          (empty_microservice
             \<lparr>ms_name := ''nats'',
              ms_isStatefulSet := True,
              ms_statefulSetServiceName := HeadlessServiceName,
              ms_volumeClaimTemplates := [(''js-data'', natsPVCSpec cfg quantity)],
              ms_imagePullSecret := nn_imagePullSecret cfg,
              ms_replicas := nn_replicas cfg,
              ms_labels := [''datasance.com/component'' \<mapsto> ''nats''],
              ms_services := natsServices cfg,
              ms_volumes := natsVolumes cfg,
              ms_securityContext := Some runAs10000,
              ms_containers := [natsContainer cfg],
              ms_rbacRules := [rule readVerbs [[]] [''configmaps'', ''secrets'']]\<rparr>))"

end
