(* ===== verification/Resources.thy ===== *)
theory Resources
  imports HubMicroservices
begin

text \<open>
  The API objects made from a microservice (\<open>controllers/controlplanes/resources.go\<close>,
  \<open>nats/configmap.go\<close>, \<open>nats/services.go\<close>): labels, services, the ingress, the deployment or
  stateful set, the service account with its role and binding, and the config maps.
\<close>

subsection \<open>Labels\<close>

definition getStandardLabels :: "string \<Rightarrow> string \<Rightarrow> smap" where
  "getStandardLabels component instanceName =
     [''app.kubernetes.io/name'' \<mapsto> ''pot'',
      ''app.kubernetes.io/instance'' \<mapsto> instanceName,
      ''app.kubernetes.io/component'' \<mapsto> component,
      ''app.kubernetes.io/managed-by'' \<mapsto> ''iofog-operator'',
      ''datasance.com/component'' \<mapsto> component]"

definition mergeLabels :: "smap \<Rightarrow> smap \<Rightarrow> smap" where
  "mergeLabels standard existing = existing ++ standard"

definition getComponentFromMicroservice :: "microservice \<Rightarrow> string" where
  "getComponentFromMicroservice ms =
     (if ms_name ms = ''controller'' then ''controller''
      else if ms_name ms = ''nats'' then ''nats''
      else ''router'')"

definition msLabels :: "string \<Rightarrow> microservice \<Rightarrow> smap" where
  "msLabels instanceName ms =
     mergeLabels (getStandardLabels (getComponentFromMicroservice ms) instanceName) (ms_labels ms)"

subsection \<open>Services and the ingress\<close>

definition newService :: "string \<Rightarrow> smap \<Rightarrow> service \<Rightarrow> KObj" where
  "newService namespace labels svc =
     \<lparr>o_Meta = new_meta (s_name svc) namespace labels (s_serviceAnnotations svc),
      o_Payload = PService
        \<lparr>ss_Type = s_serviceType svc,
         ss_LoadBalancerIP = s_loadBalancerAddr svc,
         ss_Selector = labels,
         ss_ExternalTrafficPolicy = (if s_trafficPolicy svc \<noteq> [] then s_trafficPolicy svc else []),
         ss_ClusterIP = (if s_headless svc then ''None'' else []),
         ss_Ports = s_ports svc\<rparr>\<rparr>"

definition newServices :: "string \<Rightarrow> string \<Rightarrow> microservice \<Rightarrow> KObj list" where
  "newServices namespace instanceName ms =
     map (newService namespace (msLabels instanceName ms)) (ms_services ms)"

record controllerIngressConfig =
  gi_annotations :: smap
  gi_ingressClassName :: string
  gi_host :: string
  gi_secretName :: string

definition newControllerIngress :: "string \<Rightarrow> string \<Rightarrow> controllerIngressConfig \<Rightarrow> KObj" where
  "newControllerIngress namespace instanceName cfg =
     \<lparr>o_Meta = new_meta ''pot-controller'' namespace (getStandardLabels ''controller'' instanceName)
                 (gi_annotations cfg),
      o_Payload = PIngress
        \<lparr>is_IngressClassName =
           (if gi_ingressClassName cfg \<noteq> [] then Some (gi_ingressClassName cfg) else None),
         is_TLSHosts = [gi_host cfg],
         is_TLSSecretName = gi_secretName cfg,
         is_Host = gi_host cfg,
         is_Paths =
           [\<lparr>ip_Path = ''/'', ip_PathType = ''Prefix'', ip_Service = ''controller'',
             ip_PortName = ''ecn-viewer''\<rparr>,
            \<lparr>ip_Path = ''/api/v3'', ip_PathType = ''Prefix'', ip_Service = ''controller'',
             ip_PortName = ''controller-api''\<rparr>],
         is_LoadBalancer = []\<rparr>\<rparr>"

subsection \<open>Workloads\<close>

definition newContainer :: "container \<Rightarrow> Container" where
  "newContainer c =
     \<lparr>ct_Name = k_name c, ct_Image = k_image c, ct_Command = k_command c, ct_Args = k_args c,
      ct_Ports = k_ports c, ct_Env = k_env c, ct_Resources = k_resources c,
      ct_ReadinessProbe = k_readinessProbe c, ct_LivenessProbe = k_livenessProbe c,
      ct_StartupProbe = k_startupProbe c, ct_VolumeMounts = k_volumeMounts c,
      ct_ImagePullPolicy = k_imagePullPolicy c\<rparr>"

definition deploymentSpec :: "smap \<Rightarrow> microservice \<Rightarrow> DeploymentSpec" where
  "deploymentSpec labels ms =
     \<lparr>dep_MinReadySeconds = ms_availableDelay ms,
      dep_Replicas = Some (ms_replicas ms),
      dep_Selector = labels,
      dep_Strategy = (if ms_mustRecreateOnRollout ms then Recreate else RollingUpdate 0 1),
      dep_Template =
        \<lparr>pt_Labels = labels,
         pt_Annotations = Map.empty,
         pt_Spec = empty_pod_spec
           \<lparr>ps_ServiceAccountName := ms_name ms,
            ps_Volumes := ms_volumes ms,
            ps_SecurityContext := ms_securityContext ms,
            ps_InitContainers := map newContainer (ms_initContainers ms),
            ps_Containers := map newContainer (ms_containers ms)\<rparr>\<rparr>\<rparr>"

definition newDeployment :: "string \<Rightarrow> string \<Rightarrow> microservice \<Rightarrow> KObj" where
  "newDeployment namespace instanceName ms =
     (let labels = msLabels instanceName ms in
      \<lparr>o_Meta = new_meta (ms_name ms) namespace labels Map.empty,
       o_Payload = PDeployment (deploymentSpec labels ms)\<rparr>)"

definition statefulSetSpec :: "smap \<Rightarrow> microservice \<Rightarrow> StatefulSetSpec" where
  "statefulSetSpec labels ms =
     \<lparr>sts_ServiceName = ms_statefulSetServiceName ms,
      sts_Replicas = Some (ms_replicas ms),
      sts_Selector = labels,
      sts_Template =
        \<lparr>pt_Labels = labels,
         pt_Annotations = ms_podTemplateAnnotations ms,
         pt_Spec = empty_pod_spec
           \<lparr>ps_Volumes := ms_volumes ms,
            ps_SecurityContext := ms_securityContext ms,
            ps_ImagePullSecrets :=
              (if ms_imagePullSecret ms \<noteq> [] then [ms_imagePullSecret ms] else []),
            ps_ServiceAccountName := (if ms_name ms \<noteq> [] then ms_name ms else []),
            ps_InitContainers := map newContainer (ms_initContainers ms),
            ps_Containers := map newContainer (ms_containers ms)\<rparr>\<rparr>,
      sts_VolumeClaimTemplates = ms_volumeClaimTemplates ms\<rparr>"

definition newStatefulSet :: "string \<Rightarrow> string \<Rightarrow> microservice \<Rightarrow> KObj" where
  "newStatefulSet namespace instanceName ms =
     (let labels = msLabels instanceName ms in
      \<lparr>o_Meta = new_meta (ms_name ms) namespace labels Map.empty,
       o_Payload = PStatefulSet (statefulSetSpec labels ms)\<rparr>)"

subsection \<open>Accounts and roles\<close>

definition newServiceAccount :: "string \<Rightarrow> string \<Rightarrow> microservice \<Rightarrow> KObj" where
  "newServiceAccount namespace instanceName ms =
     \<lparr>o_Meta = new_meta (ms_name ms) namespace (msLabels instanceName ms) Map.empty,
      o_Payload = PServiceAccount []\<rparr>"

definition newRoleBinding :: "string \<Rightarrow> string \<Rightarrow> microservice \<Rightarrow> KObj" where
  "newRoleBinding namespace instanceName ms =
     \<lparr>o_Meta = new_meta (ms_name ms) namespace (msLabels instanceName ms) Map.empty,
      o_Payload = PRoleBinding
        \<lparr>rb_SubjectKind = ''ServiceAccount'', rb_SubjectName = ms_name ms, rb_RefKind = ''Role'',
         rb_RefName = ms_name ms, rb_RefAPIGroup = ''rbac.authorization.k8s.io''\<rparr>\<rparr>"

definition newRole :: "string \<Rightarrow> string \<Rightarrow> microservice \<Rightarrow> KObj" where
  "newRole namespace instanceName ms =
     \<lparr>o_Meta = new_meta (ms_name ms) namespace (msLabels instanceName ms) Map.empty,
      o_Payload = PRole (ms_rbacRules ms)\<rparr>"

subsection \<open>Config maps\<close>

definition newRouterConfigMap :: "string \<Rightarrow> string \<Rightarrow> KObj" where
  "newRouterConfigMap namespace instanceName =
     \<lparr>o_Meta = new_meta ''iofog-router'' namespace (getStandardLabels ''router'' instanceName) Map.empty,
      o_Payload = PConfigMap [''skrouterd.json'' \<mapsto> GetConfig namespace]\<rparr>"

definition ServerConfKey :: string where
  "ServerConfKey = ''server.conf''"

definition NewNatsConfigMap :: "string \<Rightarrow> string \<Rightarrow> smap \<Rightarrow> string \<Rightarrow> KObj" where
  "NewNatsConfigMap namespace instanceName labels serverConfContent =
     \<lparr>o_Meta = new_meta ConfigMapName namespace labels Map.empty,
      o_Payload = PConfigMap [ServerConfKey \<mapsto> serverConfContent]\<rparr>"

text \<open>
  The entries of \<open>accountJWTs\<close> are an association list with distinct keys: the program passes a
  map literal of one entry.
\<close>

definition NewJWTBundleConfigMap :: "string \<Rightarrow> smap \<Rightarrow> (string \<times> string) list \<Rightarrow> KObj" where
  "NewJWTBundleConfigMap namespace labels accountJWTs =
     \<lparr>o_Meta = new_meta JWTBundleCMName namespace labels Map.empty,
      o_Payload = PConfigMap
        (foldl (\<lambda>data (pubKey, jwtContent). data(pubKey @ ''.jwt'' \<mapsto> jwtContent)) Map.empty accountJWTs)\<rparr>"

subsection \<open>The services of the hub, built directly\<close>

definition hubService :: "string \<Rightarrow> string \<Rightarrow> smap \<Rightarrow> smap \<Rightarrow> string \<Rightarrow> string \<Rightarrow> ServicePort list \<Rightarrow> KObj" where
  "hubService n namespace labels annotations ty clusterIP ports =
     \<lparr>o_Meta = new_meta n namespace labels annotations,
      o_Payload = PService
        \<lparr>ss_Type = ty, ss_LoadBalancerIP = [], ss_Selector = labels, ss_ExternalTrafficPolicy = [],
         ss_ClusterIP = clusterIP, ss_Ports = ports\<rparr>\<rparr>"

definition NewNatsHeadlessService :: "string \<Rightarrow> smap \<Rightarrow> KObj" where
  "NewNatsHeadlessService namespace labels =
     hubService HeadlessServiceName namespace labels Map.empty [] ''None''
       [plainPort ''cluster'' DefaultClusterPort, plainPort ''leaf'' DefaultLeafPort,
        plainPort ''mqtt'' DefaultMqttPort, plainPort ''client'' DefaultServerPort,
        plainPort ''monitor'' DefaultHttpPort]"

definition NewNatsClientService :: "string \<Rightarrow> smap \<Rightarrow> string \<Rightarrow> smap \<Rightarrow> KObj" where
  "NewNatsClientService namespace labels serviceType annotations =
     hubService ClientServiceName namespace labels annotations serviceType []
       [plainPort ''cluster'' DefaultClusterPort, plainPort ''leaf'' DefaultLeafPort,
        plainPort ''mqtt'' DefaultMqttPort]"

definition NewNatsServerService :: "string \<Rightarrow> smap \<Rightarrow> KObj" where
  "NewNatsServerService namespace labels =
     hubService ServerServiceName namespace labels Map.empty [] []
       [plainPort ''client'' DefaultServerPort, plainPort ''monitor'' DefaultHttpPort]"

end
