(* ===== verification/Workloads.thy ===== *)
theory Workloads
  imports Resources "HOL-Library.Sublist"
begin

text \<open>
  What the microservices and the objects made from them keep: references to secrets, volumes,
  ports and labels resolve within what the operator itself creates.
\<close>

subsection \<open>References of a container\<close>

definition secret_of :: "KObj \<Rightarrow> SecretData" where
  "secret_of o1 = the_secret (o_Payload o1)"

text \<open>A secret of the list has the name and the key, in either of its two maps.\<close>

definition resolves :: "KObj list \<Rightarrow> string \<Rightarrow> string \<Rightarrow> bool" where
  "resolves secrets n key \<longleftrightarrow>
     list_ex (\<lambda>s. m_name (o_Meta s) = n \<and>
       (sec_StringData (secret_of s) key \<noteq> None \<or> sec_Data (secret_of s) key \<noteq> None)) secrets"

definition env_resolves :: "KObj list \<Rightarrow> EnvVar \<Rightarrow> bool" where
  "env_resolves secrets e \<longleftrightarrow>
     (case env_Source e of SecretKeyRef n key \<Rightarrow> resolves secrets n key | _ \<Rightarrow> True)"

lemma env_resolves_simps [simp]:
  "env_resolves ss (valueEnv n v)"
  "env_resolves ss (fieldEnv n p)"
  "env_resolves ss (secretEnv n s k) \<longleftrightarrow> resolves ss s k"
  by (simp_all add: env_resolves_def valueEnv_def fieldEnv_def secretEnv_def)

lemma secret_of_opaque [simp]:
  "secret_of (opaqueSecret ns n d) = \<lparr>sec_Type = ''Opaque'', sec_StringData = d, sec_Data = Map.empty\<rparr>"
  "m_name (o_Meta (opaqueSecret ns n d)) = n"
  by (simp_all add: secret_of_def opaqueSecret_def new_meta_def)

lemmas secret_names = controlllerAuthCredentialsSecretName_def controllerDBCredentialsSecretName_def
  controllerVaultCredentialsSecretName_def

lemma resolves_append [simp]: "resolves (a @ b) n k \<longleftrightarrow> resolves a n k \<or> resolves b n k"
  by (simp add: resolves_def)

lemma controllerEnv_resolves:
  "list_all (env_resolves (buildControllerSecrets ns cfg)) (controllerEnv ns cfg)"
  by (simp add: controllerEnv_def Let_def buildControllerSecrets_def)
    (simp add: resolves_def secret_names dbSecretData_def authSecretData_def)

lemma vaultEnv_resolves:
  "list_all (env_resolves (buildControllerSecrets ns cfg)) (vaultEnv ns (cc_vault cfg))"
proof (cases "cc_vault cfg")
  case None
  then show ?thesis by (simp add: vaultEnv_def)
next
  case (Some v)
  have "list_all (env_resolves (buildControllerSecrets ns cfg)) (vaultProviderEnv v)"
    by (cases "v_Hashicorp v"; cases "v_Aws v"; cases "v_Azure v"; cases "v_Google v";
        simp add: vaultProviderEnv_def Let_def buildControllerSecrets_def Some
          buildVaultCredentialsSecret_def; simp add: resolves_def)
  with Some show ?thesis by (simp add: vaultEnv_def)
qed

lemma eventsEnv_resolves: "list_all (env_resolves ss) (eventsEnv ev)"
  by (simp add: eventsEnv_def split: option.split)

subsection \<open>The controller, piece by piece\<close>

lemma first_container_simps [simp]:
  "ms_name (first_container f ms) = ms_name ms"
  "ms_services (first_container f ms) = ms_services ms"
  "ms_secrets (first_container f ms) = ms_secrets ms"
  "ms_volumes (first_container f ms) = ms_volumes ms"
  "ms_volumeClaimTemplates (first_container f ms) = ms_volumeClaimTemplates ms"
  "ms_replicas (first_container f ms) = ms_replicas ms"
  "ms_containers ms = [c] \<Longrightarrow> ms_containers (first_container f ms) = [f c]"
  by (simp_all add: first_container_def)

definition controllerContainer :: "Lib \<Rightarrow> string \<Rightarrow> controllerMicroserviceConfig \<Rightarrow> container" where
  "controllerContainer L ns cfg0 = hd (ms_containers (newControllerMicroservice L ns cfg0))"

definition tlsEnv :: "controllerMicroserviceConfig \<Rightarrow> EnvVar list" where
  "tlsEnv cfg =
     (if cc_https cfg = Some True
      then [valueEnv ''SERVER_DEV_MODE'' ''false'',
            valueEnv ''SSL_PATH_CERT'' ''/etc/pot/controller-cert/tls.crt'',
            valueEnv ''SSL_PATH_KEY'' ''/etc/pot/controller-cert/tls.key'',
            valueEnv ''SSL_PATH_INTERMEDIATE_CERT'' ''/etc/pot/controller-cert/ca.crt'']
      else [])"

lemma newControllerMicroservice_parts:
  fixes L ns cfg0
  defines "cfg \<equiv> filterControllerConfig L cfg0"
  defines "ms \<equiv> newControllerMicroservice L ns cfg0"
  shows "ms_name ms = ''controller''"
    and "ms_services ms = controllerServices cfg"
    and "ms_secrets ms = buildControllerSecrets ns cfg"
    and "ms_replicas ms = cc_replicas cfg"
    and "\<exists>c. ms_containers ms = [c] \<and>
           k_env c = controllerEnv ns cfg @ tlsEnv cfg @ eventsEnv (cc_events cfg) @ vaultEnv ns (cc_vault cfg) \<and>
           map vm_Name (k_volumeMounts c) = map vol_Name (ms_volumes ms)"
  unfolding cfg_def ms_def
  by (simp_all add: newControllerMicroservice_def Let_def withTls_def withSqlite_def addEnv_def
      addMount_def addVolume_def controllerBase_def first_container_def empty_microservice_def
      empty_container_def tlsEnv_def mount_def)

text \<open>
  C32: Every secret the controller's environment refers to is one the operator creates with it,
  under the key it is read by, whatever vault provider is configured.
\<close>

theorem controller_env_resolves:
  "\<exists>c. ms_containers (newControllerMicroservice L ns cfg) = [c] \<and>
     list_all (env_resolves (ms_secrets (newControllerMicroservice L ns cfg))) (k_env c)"
proof -
  let ?cfg = "filterControllerConfig L cfg"
  obtain c where c: "ms_containers (newControllerMicroservice L ns cfg) = [c]"
    "k_env c = controllerEnv ns ?cfg @ tlsEnv ?cfg @ eventsEnv (cc_events ?cfg) @ vaultEnv ns (cc_vault ?cfg)"
    using newControllerMicroservice_parts(5) by blast
  have "list_all (env_resolves (buildControllerSecrets ns ?cfg)) (k_env c)"
    using controllerEnv_resolves vaultEnv_resolves eventsEnv_resolves
    by (simp add: c(2) tlsEnv_def)
  then show ?thesis
    by (simp add: c(1) newControllerMicroservice_parts(3))
qed

subsection \<open>Names in the environment\<close>

definition controllerEnvNames :: "string list" where
  "controllerEnvNames =
     [''KC_URL'', ''KC_REALM'', ''KC_REALM_KEY'', ''KC_SSL_REQ'', ''KC_CLIENT'', ''KC_CLIENT_SECRET'',
      ''KC_VIEWER_CLIENT'', ''DB_PROVIDER'', ''DB_NAME'', ''DB_USERNAME'', ''DB_PASSWORD'', ''DB_HOST'',
      ''DB_PORT'', ''DB_USE_SSL'', ''DB_SSL_CA'', ''CONTROL_PLANE'', ''CONTROLLER_NAME'',
      ''CONTROLLER_NAMESPACE'', ''ROUTER_IMAGE_1'', ''ROUTER_IMAGE_2'', ''NATS_ENABLED'',
      ''NATS_IMAGE_1'', ''NATS_IMAGE_2'', ''ECN_NAME'', ''PID_BASE'', ''VIEWER_PORT'', ''VIEWER_URL'',
      ''LOG_LEVEL'']"

definition tlsEnvNames :: "string list" where
  "tlsEnvNames =
     [''SERVER_DEV_MODE'', ''SSL_PATH_CERT'', ''SSL_PATH_KEY'', ''SSL_PATH_INTERMEDIATE_CERT'']"

definition eventsEnvNames :: "string list" where
  "eventsEnvNames =
     [''EVENT_AUDIT_ENABLED'', ''EVENT_RETENTION_DAYS'', ''EVENT_CLEANUP_INTERVAL'',
      ''EVENT_CAPTURE_IP_ADDRESS'']"

definition vaultEnvNames :: "string list" where
  "vaultEnvNames =
     [''VAULT_ENABLED'', ''VAULT_PROVIDER'', ''VAULT_BASE_PATH'',
      ''VAULT_HASHICORP_ADDRESS'', ''VAULT_HASHICORP_TOKEN'', ''VAULT_HASHICORP_MOUNT'',
      ''VAULT_AWS_REGION'', ''VAULT_AWS_ACCESS_KEY_ID'', ''VAULT_AWS_ACCESS_KEY'',
      ''VAULT_AZURE_URL'', ''VAULT_AZURE_TENANT_ID'', ''VAULT_AZURE_CLIENT_ID'',
      ''VAULT_AZURE_CLIENT_SECRET'', ''VAULT_GOOGLE_PROJECT_ID'', ''VAULT_GOOGLE_CREDENTIALS'']"

lemma env_name_simps [simp]:
  "env_Name (valueEnv n v) = n" "env_Name (secretEnv n s k) = n" "env_Name (fieldEnv n p) = n"
  by (simp_all add: valueEnv_def secretEnv_def fieldEnv_def)

lemma controllerEnv_names: "map env_Name (controllerEnv ns cfg) = controllerEnvNames"
  by (simp add: controllerEnv_def Let_def controllerEnvNames_def)

lemma tlsEnv_names: "subseq (map env_Name (tlsEnv cfg)) tlsEnvNames"
  by (simp add: tlsEnv_def tlsEnvNames_def)

lemma eventsEnv_names: "subseq (map env_Name (eventsEnv ev)) eventsEnvNames"
  by (simp add: eventsEnv_def eventsEnvNames_def split: option.split)

lemma vaultEnv_names: "subseq (map env_Name (vaultEnv ns v)) vaultEnvNames"
proof -
  let ?h = "[''VAULT_HASHICORP_ADDRESS'', ''VAULT_HASHICORP_TOKEN'', ''VAULT_HASHICORP_MOUNT'']"
  let ?a = "[''VAULT_AWS_REGION'', ''VAULT_AWS_ACCESS_KEY_ID'', ''VAULT_AWS_ACCESS_KEY'']"
  let ?z = "[''VAULT_AZURE_URL'', ''VAULT_AZURE_TENANT_ID'', ''VAULT_AZURE_CLIENT_ID'', ''VAULT_AZURE_CLIENT_SECRET'']"
  let ?g = "[''VAULT_GOOGLE_PROJECT_ID'', ''VAULT_GOOGLE_CREDENTIALS'']"
  have names: "vaultEnvNames = [''VAULT_ENABLED''] @ [''VAULT_PROVIDER''] @ [''VAULT_BASE_PATH''] @ (?h @ ?a @ ?z @ ?g)"
    by (simp only: vaultEnvNames_def append.simps)
  have parts: "subseq ?h (?h @ ?a @ ?z @ ?g)" "subseq ?a (?h @ ?a @ ?z @ ?g)" "subseq ?z (?h @ ?a @ ?z @ ?g)"
    "subseq ?g (?h @ ?a @ ?z @ ?g)"
    by (intro list_emb_append2 list_emb_prefix subseq_order.order_refl)+
  have provider: "subseq (map env_Name (vaultProviderEnv w)) (?h @ ?a @ ?z @ ?g)" for w
  proof -
    have "map env_Name (vaultProviderEnv w) = ?h \<or> map env_Name (vaultProviderEnv w) = ?a \<or>
        map env_Name (vaultProviderEnv w) = ?z \<or> map env_Name (vaultProviderEnv w) = ?g \<or>
        map env_Name (vaultProviderEnv w) = []"
      by (simp add: vaultProviderEnv_def Let_def)
    then show ?thesis by (elim disjE) (simp_all only: parts list_emb_Nil)
  qed
  have first: "subseq (map env_Name [valueEnv n x]) [n]"
    and optional: "subseq (map env_Name (if b then [valueEnv n x] else [])) [n]" for b n x
    by simp_all
  show ?thesis
  proof (cases v)
    case (Some w)
    then show ?thesis
      unfolding vaultEnv_def names option.case Some map_append
      by (intro list_emb_append_mono first optional provider)
  qed (simp add: vaultEnv_def)
qed

lemma all_env_names_distinct:
  "distinct (controllerEnvNames @ tlsEnvNames @ eventsEnvNames @ vaultEnvNames)"
  by (simp add: controllerEnvNames_def tlsEnvNames_def eventsEnvNames_def vaultEnvNames_def)

lemma distinct_subseq:
  assumes "subseq xs ys" and "distinct ys"
  shows "distinct xs"
  using assms by (metis subseq_conv_nths distinct_nthsI)

text \<open>
  C33: No variable is set twice in the controller's environment, whatever is configured: the
  Kubernetes API would take the last one, and a secret could be shadowed by a plain value.
\<close>

theorem controller_env_distinct:
  "\<exists>c. ms_containers (newControllerMicroservice L ns cfg) = [c] \<and> distinct (map env_Name (k_env c))"
proof -
  let ?cfg = "filterControllerConfig L cfg"
  obtain c where c: "ms_containers (newControllerMicroservice L ns cfg) = [c]"
    "k_env c = controllerEnv ns ?cfg @ tlsEnv ?cfg @ eventsEnv (cc_events ?cfg) @ vaultEnv ns (cc_vault ?cfg)"
    using newControllerMicroservice_parts(5) by blast
  have "subseq (map env_Name (k_env c)) (controllerEnvNames @ tlsEnvNames @ eventsEnvNames @ vaultEnvNames)"
    unfolding c(2) map_append controllerEnv_names
    by (intro list_emb_append_mono subseq_order.refl tlsEnv_names eventsEnv_names vaultEnv_names)
  then show ?thesis
    using distinct_subseq [OF _ all_env_names_distinct] by (simp add: c(1))
qed

subsection \<open>Volumes\<close>

definition mounts_declared :: "microservice \<Rightarrow> bool" where
  "mounts_declared ms \<longleftrightarrow>
     list_all (\<lambda>c. list_all (\<lambda>m. vm_Name m \<in>
         set (map vol_Name (ms_volumes ms) @ map fst (ms_volumeClaimTemplates ms))) (k_volumeMounts c))
       (ms_initContainers ms @ ms_containers ms)"

lemma router_mounts:
  "mounts_declared (newRouterMicroservice L cfg)"
  "mounts_declared (newRouterMicroserviceWithName L cfg n)"
  by (simp_all add: mounts_declared_def newRouterMicroservice_def newRouterMicroserviceWithName_def
      Let_def empty_microservice_def empty_container_def routerVolumes_def routerVolumeMounts_def mount_def)

lemma controller_mounts: "mounts_declared (newControllerMicroservice L ns cfg)"
proof -
  obtain c where "ms_containers (newControllerMicroservice L ns cfg) = [c]"
    "map vm_Name (k_volumeMounts c) = map vol_Name (ms_volumes (newControllerMicroservice L ns cfg))"
    using newControllerMicroservice_parts(5) by blast
  moreover have "ms_initContainers (newControllerMicroservice L ns cfg) = []"
    by (simp add: newControllerMicroservice_def Let_def withTls_def withSqlite_def addEnv_def
        addMount_def addVolume_def controllerBase_def first_container_def empty_microservice_def)
  moreover have "vm_Name m \<in> vol_Name ` set (ms_volumes (newControllerMicroservice L ns cfg))"
    if "m \<in> set (k_volumeMounts c)" for m
    using calculation(2) that by (metis image_eqI list.set_map)
  ultimately show ?thesis by (simp add: mounts_declared_def list_all_iff)
qed

text \<open>
  C34: Every volume a container mounts is declared by its pod or is a claim of its stateful set,
  in the controller, the routers and the hub; so the pods can be admitted.
\<close>

theorem mounts_are_declared:
  "mounts_declared (newControllerMicroservice L ns cfg) \<and>
   (\<forall>ms \<in> set (newRouterMicroservices L rcfg). mounts_declared ms) \<and>
   (\<forall>ms. newNatsMicroservice L ncfg = Inr ms \<longrightarrow> mounts_declared ms)"
proof (intro conjI allI impI ballI)
  show "mounts_declared (newControllerMicroservice L ns cfg)" by (rule controller_mounts)
  show "mounts_declared ms" if "ms \<in> set (newRouterMicroservices L rcfg)" for ms
    using that router_mounts by (auto simp: newRouterMicroservices_def Let_def split: if_splits)
  show "mounts_declared ms" if "newNatsMicroservice L ncfg = Inr ms" for ms
    using that by (auto simp: newNatsMicroservice_def mounts_declared_def natsContainer_def
        empty_microservice_def empty_container_def natsVolumes_def natsVolumeMounts_def mount_def
        split: sum.splits)
qed

definition example_nats :: natsMicroserviceConfig where
  "example_nats =
     \<lparr>nn_image = ''nats'', nn_imagePullSecret = [], nn_replicas = 2, nn_storageSize = ''10Gi'',
      nn_storageClassName = [], nn_jetStreamKeySecret = ''nats-jetstream-key-pot'',
      nn_serviceType = ''LoadBalancer'', nn_serviceAnnotations = Map.empty,
      nn_externalTrafficPolicy = [], nn_serverServiceType = ''ClusterIP'',
      nn_serverServiceAnnotations = Map.empty, nn_serverExternalTrafficPolicy = []\<rparr>"

lemma example_nats_built:
  "\<exists>ms. newNatsMicroservice lib_ref example_nats = Inr ms"
  by (simp add: newNatsMicroservice_def storageQuantity_def lib_ref_def example_nats_def)

lemma mounts_are_declared_witness:
  "\<exists>ms. newNatsMicroservice lib_ref example_nats = Inr ms \<and> mounts_declared ms"
  using example_nats_built mounts_are_declared by blast

subsection \<open>Ports\<close>

fun ingress_paths :: "Payload \<Rightarrow> IngressPath list" where
  "ingress_paths (PIngress i) = is_Paths i"
| "ingress_paths _ = []"

definition offers :: "microservice \<Rightarrow> string \<Rightarrow> string \<Rightarrow> bool" where
  "offers ms svc port \<longleftrightarrow>
     list_ex (\<lambda>s. s_name s = svc \<and> port \<in> set (map sp_Name (s_ports s))) (ms_services ms)"

text \<open>
  C35: The controller's API is at port 51121 of its service whatever is configured, which is the
  port the NATS routine and the readiness probe assume, and each path of the ingress leads to a
  port that the controller's service has.
\<close>

theorem controller_ports:
  "getControllerPort (newControllerMicroservice L ns cfg) = Inr 51121 \<and>
   list_all (\<lambda>p. offers (newControllerMicroservice L ns cfg) (ip_Service p) (ip_PortName p))
     (ingress_paths (o_Payload (newControllerIngress ns inst icfg))) \<and>
   map (\<lambda>c. map_option pr_Port (k_readinessProbe c))
     (ms_containers (newControllerMicroservice L ns cfg)) = [Some 51121]"
proof (intro conjI)
  show "getControllerPort (newControllerMicroservice L ns cfg) = Inr 51121"
    by (simp add: getControllerPort_def newControllerMicroservice_parts(2) controllerServices_def tcpPort_def)
  show "list_all (\<lambda>p. offers (newControllerMicroservice L ns cfg) (ip_Service p) (ip_PortName p))
     (ingress_paths (o_Payload (newControllerIngress ns inst icfg)))"
    by (simp add: newControllerIngress_def offers_def newControllerMicroservice_parts(2)
        controllerServices_def tcpPort_def)
  show "map (\<lambda>c. map_option pr_Port (k_readinessProbe c))
     (ms_containers (newControllerMicroservice L ns cfg)) = [Some 51121]"
    by (simp add: newControllerMicroservice_def Let_def withTls_def withSqlite_def addEnv_def
        addMount_def addVolume_def controllerBase_def first_container_def controllerReadinessProbe_def)
qed

definition ports_open :: "microservice \<Rightarrow> bool" where
  "ports_open ms \<longleftrightarrow>
     list_all (\<lambda>c.
       list_all (\<lambda>s. list_all (\<lambda>p. sp_TargetPort p \<in> set (map cpt_ContainerPort (k_ports c))) (s_ports s))
         (ms_services ms) \<and>
       (\<forall>pr \<in> set_option (k_readinessProbe c) \<union> set_option (k_livenessProbe c).
          pr_Port pr \<in> set (map cpt_ContainerPort (k_ports c)))) (ms_containers ms)"

lemmas open_simps = ports_open_def empty_microservice_def empty_container_def containerPort_def
  tcpPort_def plainPort_def

lemma routers_reach_containers:
  "ports_open (newRouterMicroservice L cfg)"
  "ports_open (newRouterMicroserviceWithName L cfg n)"
  by (simp_all add: newRouterMicroservice_def newRouterMicroserviceWithName_def Let_def
      routerServices_def routerContainerPorts_def routerProbe_def MessagePort_def
      InteriorPort_def EdgePort_def open_simps)

lemma hub_reaches_containers:
  assumes "newNatsMicroservice L ncfg = Inr ms"
  shows "ports_open ms"
proof -
  obtain q where "ms_containers ms = [natsContainer ncfg]" "ms_services ms = natsServices ncfg"
    using assms by (auto simp: newNatsMicroservice_def empty_microservice_def split: sum.splits)
  then show ?thesis
    by (simp add: natsContainer_def natsServices_def natsContainerPorts_def natsProbe_def
        natsHeadlessPorts_def natsClientPorts_def natsServerPorts_def open_simps)
qed

text \<open>
  C36: Every port a service of the router or the hub forwards to is a port its container opens,
  and its probes ask one of them.
\<close>

theorem services_reach_containers:
  "(\<forall>ms \<in> set (newRouterMicroservices L rcfg). ports_open ms) \<and>
   (\<forall>ms. newNatsMicroservice L ncfg = Inr ms \<longrightarrow> ports_open ms)"
proof (intro conjI allI impI ballI)
  show "ports_open ms" if "ms \<in> set (newRouterMicroservices L rcfg)" for ms
    using that routers_reach_containers
    by (auto simp: newRouterMicroservices_def Let_def split: if_splits)
  show "ports_open ms" if "newNatsMicroservice L ncfg = Inr ms" for ms
    using that by (rule hub_reaches_containers)
qed

lemma services_reach_containers_witness:
  "\<exists>ms. newNatsMicroservice lib_ref example_nats = Inr ms \<and> ports_open ms"
  using example_nats_built services_reach_containers by blast

subsection \<open>Defaults\<close>

text \<open>A default set under a condition, as one update of the field.\<close>

lemma default_updates:
  "(if b then c\<lparr>cc_replicas := v0\<rparr> else c) = c\<lparr>cc_replicas := (if b then v0 else cc_replicas c)\<rparr>"
  "(if b then c\<lparr>cc_image := v1\<rparr> else c) = c\<lparr>cc_image := (if b then v1 else cc_image c)\<rparr>"
  "(if b then c\<lparr>cc_routerImage := v2\<rparr> else c) = c\<lparr>cc_routerImage := (if b then v2 else cc_routerImage c)\<rparr>"
  "(if b then c\<lparr>cc_natsImage := v3\<rparr> else c) = c\<lparr>cc_natsImage := (if b then v3 else cc_natsImage c)\<rparr>"
  "(if b then c\<lparr>cc_serviceType := v4\<rparr> else c) = c\<lparr>cc_serviceType := (if b then v4 else cc_serviceType c)\<rparr>"
  "(if b then c\<lparr>cc_ecnViewerPort := v5\<rparr> else c) = c\<lparr>cc_ecnViewerPort := (if b then v5 else cc_ecnViewerPort c)\<rparr>"
  "(if b then c\<lparr>cc_pidBaseDir := v6\<rparr> else c) = c\<lparr>cc_pidBaseDir := (if b then v6 else cc_pidBaseDir c)\<rparr>"
  "(if b then c\<lparr>cc_logLevel := v7\<rparr> else c) = c\<lparr>cc_logLevel := (if b then v7 else cc_logLevel c)\<rparr>"
  for c :: controllerMicroserviceConfig
  by simp_all

lemma filterControllerConfig_fields [simp]:
  "cc_controllerName (filterControllerConfig L cfg) = cc_controllerName cfg"
  "cc_replicas (filterControllerConfig L cfg) = (if cc_replicas cfg = 0 then 1 else cc_replicas cfg)"
  "cc_image (filterControllerConfig L cfg) = (if cc_image cfg = [] then GetControllerImage L else cc_image cfg)"
  "cc_imagePullSecret (filterControllerConfig L cfg) = cc_imagePullSecret cfg"
  "cc_serviceType (filterControllerConfig L cfg) = (if cc_serviceType cfg = [] then ''LoadBalancer'' else cc_serviceType cfg)"
  "cc_serviceAnnotations (filterControllerConfig L cfg) = cc_serviceAnnotations cfg"
  "cc_externalTrafficPolicy (filterControllerConfig L cfg) = cc_externalTrafficPolicy cfg"
  "cc_https (filterControllerConfig L cfg) = cc_https cfg"
  "cc_scheme (filterControllerConfig L cfg) = (if cc_https cfg = Some True then ''https'' else ''http'')"
  "cc_secretName (filterControllerConfig L cfg) = cc_secretName cfg"
  "cc_loadBalancerAddr (filterControllerConfig L cfg) = cc_loadBalancerAddr cfg"
  "cc_auth (filterControllerConfig L cfg) = cc_auth cfg"
  "cc_db (filterControllerConfig L cfg) = cc_db cfg"
  "cc_events (filterControllerConfig L cfg) = cc_events cfg"
  "cc_routerImage (filterControllerConfig L cfg) = (if cc_routerImage cfg = [] then GetRouterImage L else cc_routerImage cfg)"
  "cc_natsImage (filterControllerConfig L cfg) = (if cc_natsImage cfg = [] then GetNatsImage L else cc_natsImage cfg)"
  "cc_natsEnabled (filterControllerConfig L cfg) = cc_natsEnabled cfg"
  "cc_ecn (filterControllerConfig L cfg) = cc_ecn cfg"
  "cc_pidBaseDir (filterControllerConfig L cfg) = (if cc_pidBaseDir cfg = [] then ''/home/runner'' else cc_pidBaseDir cfg)"
  "cc_ecnViewerPort (filterControllerConfig L cfg) = (if cc_ecnViewerPort cfg = 0 then 8008 else cc_ecnViewerPort cfg)"
  "cc_ecnViewerURL (filterControllerConfig L cfg) = cc_ecnViewerURL cfg"
  "cc_logLevel (filterControllerConfig L cfg) = (if cc_logLevel cfg = [] then ''info'' else cc_logLevel cfg)"
  "cc_vault (filterControllerConfig L cfg) = cc_vault cfg"
  by (simp_all add: filterControllerConfig_def default_updates Let_def split del: if_split cong: if_cong)
    (auto split: if_split)

lemma image_names_not_empty [simp]:
  "GetControllerImage L \<noteq> []" "GetRouterImage L \<noteq> []" "GetNatsImage L \<noteq> []"
  by (simp_all add: GetControllerImage_def GetRouterImage_def GetNatsImage_def)

lemma filterControllerConfig_idem:
  "filterControllerConfig L (filterControllerConfig L cfg) = filterControllerConfig L cfg"
  by (rule controllerMicroserviceConfig.equality) simp_all

text \<open>
  After the defaults are filled in no required field of the controller's configuration is
  empty, a field that was set is kept, and filling in again changes nothing.
\<close>

theorem filterControllerConfig_complete:
  "let c = filterControllerConfig L cfg in
     filterControllerConfig L c = c \<and>
     cc_replicas c \<noteq> 0 \<and> cc_serviceType c \<noteq> [] \<and> cc_ecnViewerPort c \<noteq> 0 \<and>
     cc_pidBaseDir c \<noteq> [] \<and> cc_logLevel c \<noteq> [] \<and> cc_image c \<noteq> [] \<and> cc_routerImage c \<noteq> [] \<and>
     cc_natsImage c \<noteq> [] \<and>
     cc_scheme c = (if cc_https cfg = Some True then ''https'' else ''http'') \<and>
     (cc_image cfg = [] \<or> cc_image c = cc_image cfg) \<and>
     (cc_replicas cfg = 0 \<or> cc_replicas c = cc_replicas cfg) \<and>
     cc_db c = cc_db cfg \<and> cc_auth c = cc_auth cfg \<and> cc_vault c = cc_vault cfg"
  by (simp add: Let_def filterControllerConfig_idem)

text \<open>
  A service of type ClusterIP gets no external traffic policy, which the API would reject;
  an override of Local or Cluster in any case is used in its proper case; without one a load
  balancer gets Local and a node port Cluster; and no other policy is ever produced.
\<close>

theorem getTrafficPolicy_spec:
  "getTrafficPolicy ty ov \<in> {[], ''Local'', ''Cluster''} \<and>
   (getTrafficPolicy ty ov = [] \<longleftrightarrow>
      equalFold ty ''ClusterIP'' \<or>
      (\<not> equalFold ov ''Local'' \<and> \<not> equalFold ov ''Cluster'' \<and>
       \<not> equalFold ty ''LoadBalancer'' \<and> \<not> equalFold ty ''NodePort''))"
  by (simp add: getTrafficPolicy_def)

end
