(* ===== verification/Apps.thy ===== *)
theory Apps
  imports Lib
begin

text \<open>
  The reconciler of Applications (\<open>controllers/apps/controller.go\<close>): a deployment per
  application, scaled to its replicas, and the names of the pods kept in its status.

  The operator reads \<open>*found.Spec.Replicas\<close> without a nil test, so a deployment without a replica
  count is a panic here; the API server defaults the field.
\<close>

definition getPodNames :: "KObj list \<Rightarrow> string list" where
  "getPodNames pods = map (\<lambda>p. m_name (o_Meta p)) pods"

definition labelsForIOFog :: "string \<Rightarrow> smap" where
  "labelsForIOFog n = [''app'' \<mapsto> n]"

definition bare_container :: "string \<Rightarrow> string \<Rightarrow> Container" where
  "bare_container n img =
     \<lparr>ct_Name = n, ct_Image = img, ct_Command = [], ct_Args = [], ct_Ports = [], ct_Env = [],
      ct_Resources = Map.empty, ct_ReadinessProbe = None, ct_LivenessProbe = None,
      ct_StartupProbe = None, ct_VolumeMounts = [], ct_ImagePullPolicy = []\<rparr>"

definition app_container :: "AppMicroservice \<Rightarrow> Container" where
  "app_container m = bare_container (ams_Name m) (ams_X86 m @ '', '' @ ams_ARM m)"

definition app_pod_spec :: "Application \<Rightarrow> PodSpec" where
  "app_pod_spec app =
     empty_pod_spec
       \<lparr>ps_Tolerations := [\<lparr>tol_Key = ''resource-type'', tol_Operator = ''Equal'',
                           tol_Value = ''iofog-custom-resource'', tol_Effect = ''NoSchedule''\<rparr>],
        ps_Affinity := [\<lparr>aff_Key = ''app'', aff_Operator = ''In'', aff_Values = [app_Name app],
                         aff_TopologyKey = ''kubernetes.io/hostname''\<rparr>],
        ps_Containers := map app_container (aspec_Microservices (app_Spec app))\<rparr>"

definition app_deployment :: "Application \<Rightarrow> smap \<Rightarrow> KObj" where
  "app_deployment app annotations =
     \<lparr>o_Meta = new_meta (app_Name app) (app_Namespace app) Map.empty Map.empty,
      o_Payload = PDeployment
        \<lparr>dep_MinReadySeconds = 0,
         dep_Replicas = Some (aspec_Replicas (app_Spec app)),
         dep_Selector = labelsForIOFog (app_Name app),
         dep_Strategy = StrategyUnset,
         dep_Template = \<lparr>pt_Labels = labelsForIOFog (app_Name app), pt_Annotations = annotations,
                         pt_Spec = app_pod_spec app\<rparr>\<rparr>\<rparr>"

definition app_annotations :: "Lib \<Rightarrow> Application \<Rightarrow> GoError + smap" where
  "app_annotations L app =
     (case lib_marshalMicroservices L (aspec_Microservices (app_Spec app)) of
        Inl e \<Rightarrow> Inl e
      | Inr microservices \<Rightarrow>
        (case aspec_NatsConfig (app_Spec app) of
           None \<Rightarrow> Inr [''microservices'' \<mapsto> microservices]
         | Some nc \<Rightarrow>
           (case lib_marshalNatsConfig L nc of
              Inl e \<Rightarrow> Inl e
            | Inr natsConfig \<Rightarrow>
                Inr [''microservices'' \<mapsto> microservices, ''natsConfig'' \<mapsto> natsConfig])))"

definition deploymentForApp :: "Lib \<Rightarrow> Application \<Rightarrow> GoError + KObj" where
  "deploymentForApp L app =
     (case app_annotations L app of
        Inl e \<Rightarrow> Inl e
      | Inr annotations \<Rightarrow>
        let dep = app_deployment app annotations in
        (case lib_setref L ''Application'' (app_Meta app) (o_Meta dep) of
           Inl e \<Rightarrow> Inl e
         | Inr m \<Rightarrow> Inr (dep\<lparr>o_Meta := m\<rparr>)))"

abbreviation app_result :: "bool \<Rightarrow> CtrlResult" where
  "app_result requeue \<equiv> \<lparr>res_Requeue = requeue, res_RequeueAfter = 0\<rparr>"

definition app_fail :: "GoError \<Rightarrow> ctrl_return" where
  "app_fail e = (app_result False, Some e)"

definition scale_deployment :: "int \<Rightarrow> KObj \<Rightarrow> KObj" where
  "scale_deployment desired found =
     found\<lparr>o_Payload := PDeployment ((the_deployment (o_Payload found))\<lparr>dep_Replicas := Some desired\<rparr>)\<rparr>"

definition write_or_fail :: "KWrite \<Rightarrow> ctrl_return \<Rightarrow> ctrl_return prog" where
  "write_or_fail w ok = KWrite w (\<lambda>r. Done (case r of Inl e \<Rightarrow> app_fail e | Inr o1 \<Rightarrow> ok))"

definition updatePodNames :: "Application \<Rightarrow> ctrl_return prog" where
  "updatePodNames instance1 =
     KList KPod (\<lambda>r. case r of
       Inl e \<Rightarrow> Done (app_fail e)
     | Inr pods \<Rightarrow>
         if Some (getPodNames pods) \<noteq> astat_PodNames (app_Status instance1)
         then write_or_fail
                (WUpdate (app_obj (instance1\<lparr>app_Status :=
                   (app_Status instance1)\<lparr>astat_PodNames := Some (getPodNames pods)\<rparr>\<rparr>)))
                (app_result False, None)
         else Done (app_result False, None))"

definition scaleApplication :: "Application \<Rightarrow> KObj \<Rightarrow> ctrl_return prog" where
  "scaleApplication instance1 found =
     (case dep_Replicas (the_deployment (o_Payload found)) of
        None \<Rightarrow> Crashed (Panic ''nil pointer dereference'')
      | Some current \<Rightarrow>
          let desired = aspec_Replicas (app_Spec instance1) in
          if current \<noteq> desired
          then write_or_fail (WUpdate (scale_deployment desired found)) (app_result True, None)
          else updatePodNames instance1)"

definition empty_app :: Application where
  "empty_app =
     \<lparr>app_Meta = new_meta [] [] Map.empty Map.empty,
      app_Spec = \<lparr>aspec_Microservices = [], aspec_NatsConfig = None, aspec_Replicas = 0\<rparr>,
      app_Status = \<lparr>astat_Replicas = 0, astat_LabelSelector = [], astat_PodNames = None\<rparr>\<rparr>"

definition reconcileApplication :: "Lib \<Rightarrow> string \<Rightarrow> string \<Rightarrow> ctrl_return prog" where
  "reconcileApplication L namespace n =
     KGet (KApplication, namespace, n) (\<lambda>r. case r of
       Inl e \<Rightarrow> Done (if IsNotFound e then (app_result False, None) else app_fail e)
     | Inr o1 \<Rightarrow>
         let instance1 = decode_app o1 empty_app in
         KGet (KDeployment, app_Namespace instance1, app_Name instance1) (\<lambda>r2. case r2 of
           Inl e \<Rightarrow>
             if IsNotFound e then
               (case deploymentForApp L instance1 of
                  Inl e2 \<Rightarrow> Done (app_fail e2)
                | Inr dep \<Rightarrow> write_or_fail (WCreate dep) (app_result True, None))
             else Done (app_fail e)
         | Inr found \<Rightarrow> scaleApplication instance1 found))"

end
