(* ===== verification/Apis.thy ===== *)
theory Apis
  imports Prelude
begin

text \<open>
  The custom resource definitions and the test of whether a cluster's definition is supported
  (\<open>apis/apis.go\<close>). Of a definition the fields the operator sets are kept; \<open>InitClientScheme\<close>
  is in \<open>Startup\<close>.
\<close>

record CRDVersion =
  crv_Name :: string
  crv_Served :: bool
  crv_Storage :: bool
  crv_SchemaType :: string
  crv_PreserveUnknownFields :: bool
  crv_StatusSubresource :: bool

record CRD =
  crd_Name :: string
  crd_Group :: string
  crd_Kind :: string
  crd_ListKind :: string
  crd_Plural :: string
  crd_Singular :: string
  crd_Scope :: string
  crd_Versions :: "CRDVersion list"

text \<open>The loop over \<open>apiVersions\<close>: the first one is the storage version.\<close>

definition crd_versions :: "string list \<Rightarrow> CRDVersion list" where
  "crd_versions apiVersions =
     map (\<lambda>(i, version). \<lparr>crv_Name = version, crv_Served = True, crv_Storage = (i = 0),
            crv_SchemaType = ''object'', crv_PreserveUnknownFields = True,
            crv_StatusSubresource = True\<rparr>)
       (enumerate 0 apiVersions)"

definition NewControlPlaneCustomResource :: CRD where
  "NewControlPlaneCustomResource =
     \<lparr>crd_Name = ''controlplanes.datasance.com'', crd_Group = ''datasance.com'',
      crd_Kind = ''ControlPlane'', crd_ListKind = ''ControlPlaneList'',
      crd_Plural = ''controlplanes'', crd_Singular = ''controlplane'', crd_Scope = ''Namespaced'',
      crd_Versions = crd_versions [''v3'']\<rparr>"

definition NewAppCustomResource :: CRD where
  "NewAppCustomResource =
     \<lparr>crd_Name = ''apps.datasance.com'', crd_Group = ''datasance.com'',
      crd_Kind = ''Application'', crd_ListKind = ''ApplicationList'',
      crd_Plural = ''apps'', crd_Singular = ''app'', crd_Scope = ''Namespaced'',
      crd_Versions = crd_versions [''v3'']\<rparr>"

fun version_matched :: "CRDVersion \<Rightarrow> CRDVersion list \<Rightarrow> bool \<Rightarrow> bool" where
  "version_matched l [] matched = matched"
| "version_matched l (r # rs) matched =
     version_matched l rs (if crv_Name l = crv_Name r then True else matched)"

fun same_versions :: "CRDVersion list \<Rightarrow> CRDVersion list \<Rightarrow> bool" where
  "same_versions [] right = True"
| "same_versions (l # ls) right =
     (if \<not> version_matched l right False then False else same_versions ls right)"

definition sameVersionsSupported :: "CRD \<Rightarrow> CRD \<Rightarrow> bool" where
  "sameVersionsSupported left right = same_versions (crd_Versions left) (crd_Versions right)"

definition IsSupportedCustomResource :: "CRD \<Rightarrow> bool" where
  "IsSupportedCustomResource crd =
     (if crd_Name crd = crd_Name NewControlPlaneCustomResource
      then sameVersionsSupported NewControlPlaneCustomResource crd
      else if crd_Name crd = crd_Name NewAppCustomResource
      then sameVersionsSupported NewAppCustomResource crd
      else False)"

lemma version_matched_iff:
  "version_matched l rs m \<longleftrightarrow> m \<or> crv_Name l \<in> crv_Name ` set rs"
  by (induction l rs m rule: version_matched.induct) auto

lemma same_versions_iff: "same_versions ls rs \<longleftrightarrow> crv_Name ` set ls \<subseteq> crv_Name ` set rs"
  by (induction ls) (auto simp: version_matched_iff)

lemma crd_versions_names: "map crv_Name (crd_versions vs) = vs"
  by (simp add: crd_versions_def case_prod_unfold comp_def)

text \<open>
  A definition is supported exactly when it is one of the two resources by name and serves
  every version the operator works with; it may have others.
\<close>

theorem IsSupportedCustomResource_iff:
  "IsSupportedCustomResource crd \<longleftrightarrow>
     crd_Name crd \<in> {''controlplanes.datasance.com'', ''apps.datasance.com''} \<and>
     ''v3'' \<in> crv_Name ` set (crd_Versions crd)"
  by (auto simp: IsSupportedCustomResource_def sameVersionsSupported_def same_versions_iff
      NewControlPlaneCustomResource_def NewAppCustomResource_def crd_versions_def enumerate_eq_zip)

end
