(* ===== verification/Certs.thy ===== *)
theory Certs
  imports Resources
begin

text \<open>
  TLS secrets (\<open>internal/util/certs/certs.go\<close>): \<open>GenerateSecret\<close> makes a key and a certificate,
  signed by a given certificate authority or by itself. The cryptography is outside: generating
  the key and the certificate, random numbers and the clock are calls, PEM and X.509 decoding are
  functions of \<open>Lib\<close>. A private key is its PKCS#1 encoding, a parsed certificate its DER bytes.

  An error of these functions ends the process (\<open>log.Fatal\<close>). A secret whose \<open>Data\<close> is nil counts
  as no authority in \<open>getCAFromSecret\<close> but as one at the end of \<open>GenerateSecret\<close>, which then
  dereferences nil; decoding never gives an empty non-nil \<open>Data\<close>.
\<close>

record CertificateAuthority =
  ca_Certificate :: string
  ca_Key :: string
  ca_CrtData :: string

definition decodeDataElement :: "Lib \<Rightarrow> string \<Rightarrow> string \<Rightarrow> Crash + string" where
  "decodeDataElement L in1 n =
     (case cr_pemDecode (lib_crypto L) in1 of
        None \<Rightarrow> Inl (Fatal (''failed to decode PEM block of type '' @ n))
      | Some bytes \<Rightarrow> Inr bytes)"

definition getCAFromSecret :: "Lib \<Rightarrow> KObj option \<Rightarrow> Crash + CertificateAuthority option" where
  "getCAFromSecret L secret =
     (case secret of None \<Rightarrow> Inr None | Some s \<Rightarrow>
       (let data = sec_Data (the_secret (o_Payload s)) in
        if data = Map.empty then Inr None
        else case decodeDataElement L (mget data ''tls.crt'') ''certificate'' of
          Inl c \<Rightarrow> Inl c
        | Inr certBytes \<Rightarrow>
          (case cr_ParseCertificate (lib_crypto L) certBytes of
             Inl e \<Rightarrow> Inl (Fatal ''failed to get CA certificate from secret'')
           | Inr cert \<Rightarrow>
             (case decodeDataElement L (mget data ''tls.key'') ''private key'' of
                Inl c \<Rightarrow> Inl c
              | Inr keyBytes \<Rightarrow>
                (case cr_ParsePKCS1PrivateKey (lib_crypto L) keyBytes of
                   Inl e \<Rightarrow> Inl (Fatal (''failed to get CA private key from secret'' @ err_Msg e))
                 | Inr key \<Rightarrow> Inr (Some \<lparr>ca_Certificate = cert, ca_Key = key,
                                        ca_CrtData = mget data ''tls.crt''\<rparr>))))))"

definition hostsList :: "string \<Rightarrow> string list" where
  "hostsList hosts = map trimSpace (splitByte CHR '','' hosts)"

definition ipAddresses :: "Lib \<Rightarrow> string list \<Rightarrow> string list" where
  "ipAddresses L hs = concat (map (\<lambda>h. case cr_ParseIP (lib_crypto L) h of Some ip \<Rightarrow> [ip] | None \<Rightarrow> []) hs)"

text \<open>Five years, in seconds.\<close>

definition defaultExpiration :: int where
  "defaultExpiration = 5 * 365 * 24 * 3600"

definition certTemplate ::
    "Lib \<Rightarrow> string \<Rightarrow> string \<Rightarrow> string \<Rightarrow> int \<Rightarrow> int \<Rightarrow> bool \<Rightarrow> CertTemplate" where
  "certTemplate L subject hosts serial notBefore expiration self =
     \<lparr>tpl_CommonName = subject, tpl_Serial = serial, tpl_NotBefore = notBefore,
      tpl_NotAfter = notBefore + (if expiration = 0 then defaultExpiration else expiration),
      tpl_KeyUsage = [KeyUsageKeyEncipherment, KeyUsageDigitalSignature] @
        (if self then [KeyUsageCertSign] else []),
      tpl_ExtKeyUsage = [ExtKeyUsageServerAuth, ExtKeyUsageClientAuth],
      tpl_BasicConstraintsValid = True, tpl_IsCA = self,
      tpl_IPAddresses = ipAddresses L (hostsList hosts), tpl_DNSNames = hostsList hosts\<rparr>"

definition tlsSecret :: "string \<Rightarrow> string \<Rightarrow> string \<Rightarrow> string \<Rightarrow> KObj" where
  "tlsSecret n crt key ca =
     \<lparr>o_Meta = new_meta n [] Map.empty Map.empty,
      o_Payload = PSecret
        \<lparr>sec_Type = ''kubernetes.io/tls'', sec_StringData = Map.empty,
         sec_Data = [''tls.crt'' \<mapsto> crt, ''tls.key'' \<mapsto> key, ''ca.crt'' \<mapsto> ca]\<rparr>\<rparr>"

definition fatal_or :: "string \<Rightarrow> (GoError + string) \<Rightarrow> (string \<Rightarrow> 'a prog) \<Rightarrow> 'a prog" where
  "fatal_or msg r f = (case r of Inl e \<Rightarrow> Crashed (Fatal (msg @ err_Msg e)) | Inr x \<Rightarrow> f x)"

definition GenerateSecret ::
    "Lib \<Rightarrow> string \<Rightarrow> string \<Rightarrow> string \<Rightarrow> int \<Rightarrow> KObj option \<Rightarrow> KObj prog" where
  "GenerateSecret L n subject hosts expiration ca =
     (case getCAFromSecret L ca of
        Inl c \<Rightarrow> Crashed c
      | Inr caCert \<Rightarrow>
        Ext (RsaGenerateKey 2048) (\<lambda>r1. fatal_or ''failed to generate private key: '' r1 (\<lambda>priv.
        Now (\<lambda>notBefore.
        Ext RandSerial (\<lambda>r2. fatal_or ''failed to generate serial number: '' r2 (\<lambda>serial.
          let tpl = certTemplate L subject hosts serial notBefore expiration (caCert = None);
              cakey = (case caCert of None \<Rightarrow> priv | Some a \<Rightarrow> ca_Key a)
          in Ext (CreateCertificate tpl (map_option ca_Certificate caCert) priv cakey)
            (\<lambda>r3. fatal_or ''Failed to create certificate: '' r3 (\<lambda>der.
              let crt = cr_pemEncode (lib_crypto L) ''CERTIFICATE'' der;
                  key = cr_pemEncode (lib_crypto L) ''RSA PRIVATE KEY'' priv
              in if ca \<noteq> None
                 then (case caCert of
                         None \<Rightarrow> Crashed (Panic ''nil pointer dereference'')
                       | Some a \<Rightarrow> Done (tlsSecret n crt key (ca_CrtData a)))
                 else Done (tlsSecret n crt key crt)))))))))"

definition DecodeCertificate :: "Lib \<Rightarrow> string \<Rightarrow> GoError + string" where
  "DecodeCertificate L data =
     (case cr_pemDecode (lib_crypto L) data of
        None \<Rightarrow> Inl (new_error ''Could not decode PEM block from data'')
      | Some bytes \<Rightarrow> cr_ParseCertificate (lib_crypto L) bytes)"

subsection \<open>What a generated secret holds\<close>

lemma tlsSecret_meta [simp]:
  "o_Meta (tlsSecret n crt key ca) = new_meta n [] Map.empty Map.empty"
  by (simp add: tlsSecret_def)

lemma every_fatal_or:
  "(\<And>x. r = Inr x \<Longrightarrow> every A P Q (f x)) \<Longrightarrow> every A P Q (fatal_or msg r f)"
  by (cases r) (simp_all add: fatal_or_def)

text \<open>The calls it makes are of the cryptography and the clock, never of the cluster.\<close>

fun crypto_call :: "Call \<Rightarrow> bool" where
  "crypto_call (CExt (RsaGenerateKey n)) = True"
| "crypto_call (CExt RandSerial) = True"
| "crypto_call (CExt (CreateCertificate tpl parent pub key)) = True"
| "crypto_call CNow = True"
| "crypto_call _ = False"

definition generated :: "string \<Rightarrow> KObj \<Rightarrow> bool" where
  "generated n s \<longleftrightarrow> (\<exists>crt key ca. s = tlsSecret n crt key ca)"

lemma generated_tlsSecret [simp]: "generated n (tlsSecret n crt key ca)"
  by (auto simp: generated_def)

lemma GenerateSecret_every:
  "every A crypto_call (generated n) (GenerateSecret L n subject hosts expiration ca)"
  by (auto simp: GenerateSecret_def Let_def intro!: every_fatal_or split: sum.splits option.splits)

end
