(* ===== verification/Base64.thy ===== *)
theory Base64
  imports GoStrings
begin

text \<open>
  \<open>base64.StdEncoding\<close> of Go's library: \<open>EncodeToString\<close> and \<open>DecodeString\<close>. The decoder skips
  carriage returns and line feeds, wants the padding, and does not look at the unused bits of
  the last digit.
\<close>

definition b64_digit :: "nat \<Rightarrow> char" where
  "b64_digit n =
     char_of (if n < 26 then 65 + n else if n < 52 then 71 + n else if n < 62 then n - 4
              else if n = 62 then 43 else 47)"

definition b64_value :: "char \<Rightarrow> nat option" where
  "b64_value c =
     (let n = (of_char c :: nat) in
      if 65 \<le> n \<and> n \<le> 90 then Some (n - 65)
      else if 97 \<le> n \<and> n \<le> 122 then Some (n - 71)
      else if 48 \<le> n \<and> n \<le> 57 then Some (n + 4)
      else if n = 43 then Some 62 else if n = 47 then Some 63 else None)"

fun encodeBytes :: "nat list \<Rightarrow> string" where
  "encodeBytes [] = []"
| "encodeBytes [a] = [b64_digit (a div 4), b64_digit (a mod 4 * 16), CHR ''='', CHR ''='']"
| "encodeBytes [a, b] =
     [b64_digit (a div 4), b64_digit (a mod 4 * 16 + b div 16), b64_digit (b mod 16 * 4), CHR ''='']"
| "encodeBytes (a # b # c # s) =
     b64_digit (a div 4) # b64_digit (a mod 4 * 16 + b div 16) #
     b64_digit (b mod 16 * 4 + c div 64) # b64_digit (c mod 64) # encodeBytes s"

definition EncodeToString :: "string \<Rightarrow> string" where
  "EncodeToString s = encodeBytes (map of_char s)"

definition byte1 :: "nat \<Rightarrow> nat \<Rightarrow> nat" where "byte1 w x = (w * 4 + x div 16) mod 256"
definition byte2 :: "nat \<Rightarrow> nat \<Rightarrow> nat" where "byte2 x y = (x mod 16 * 16 + y div 4) mod 256"
definition byte3 :: "nat \<Rightarrow> nat \<Rightarrow> nat" where "byte3 y z = (y mod 4 * 64 + z) mod 256"

text \<open>One group of four: padding ends the text, and only two or three digits may precede it.\<close>

fun decodeBytes :: "string \<Rightarrow> nat list option" where
  "decodeBytes [] = Some []"
| "decodeBytes (a # b # c # d # s) =
     (case (b64_value a, b64_value b) of
        (Some w, Some x) \<Rightarrow>
          if c = CHR ''='' then (if d = CHR ''='' \<and> s = [] then Some [byte1 w x] else None)
          else (case b64_value c of
             None \<Rightarrow> None
           | Some y \<Rightarrow>
             if d = CHR ''='' then (if s = [] then Some [byte1 w x, byte2 x y] else None)
             else (case b64_value d of
                None \<Rightarrow> None
              | Some z \<Rightarrow> map_option (\<lambda>bs. byte1 w x # byte2 x y # byte3 y z # bs) (decodeBytes s)))
      | _ \<Rightarrow> None)"
| "decodeBytes s = None"

definition DecodeString :: "string \<Rightarrow> string option" where
  "DecodeString s =
     map_option (map char_of) (decodeBytes (filter (\<lambda>c. c \<noteq> CHR 0x0A \<and> c \<noteq> CHR 0x0D) s))"

subsection \<open>Round trip\<close>

lemma b64_value_digit:
  assumes "n < 64"
  shows "b64_value (b64_digit n) = Some n"
proof -
  consider "n < 26" | "26 \<le> n" "n < 52" | "52 \<le> n" "n < 62" | "n = 62" | "n = 63"
    using assms by linarith
  then show ?thesis
    by cases (simp_all add: b64_value_def b64_digit_def Let_def, arith)
qed

lemma b64_digit_code:
  assumes "n < 64"
  shows "(of_char (b64_digit n) :: nat) \<noteq> 61 \<and> (of_char (b64_digit n) :: nat) \<noteq> 10 \<and>
         (of_char (b64_digit n) :: nat) \<noteq> 13"
proof -
  consider "n < 26" | "26 \<le> n" "n < 52" | "52 \<le> n" "n < 62" | "n = 62" | "n = 63"
    using assms by linarith
  then show ?thesis
    by cases (simp_all add: b64_digit_def, arith)
qed

lemma b64_digit_special:
  assumes "n < 64"
  shows "b64_digit n \<noteq> CHR ''=''" and "b64_digit n \<noteq> CHR 0x0A" and "b64_digit n \<noteq> CHR 0x0D"
  using b64_digit_code [OF assms] by auto

lemma byte_join:
  assumes "a < 256" and "b < 256" and "c < 256"
  shows "byte1 (a div 4) (a mod 4 * 16 + b div 16) = a"
    and "byte2 (a mod 4 * 16 + b div 16) (b mod 16 * 4 + c div 64) = b"
    and "byte3 (b mod 16 * 4 + c div 64) (c mod 64) = c"
proof -
  have b: "b div 16 < 16" and c: "c div 64 < 4" using assms by auto
  have "(a mod 4 * 16 + b div 16) div 16 = a mod 4" using b by simp
  then show "byte1 (a div 4) (a mod 4 * 16 + b div 16) = a" using assms(1) by (simp add: byte1_def)
  have "(a mod 4 * 16 + b div 16) mod 16 = b div 16" using b by simp
  moreover have "(b mod 16 * 4 + c div 64) div 4 = b mod 16" using c by simp
  ultimately show "byte2 (a mod 4 * 16 + b div 16) (b mod 16 * 4 + c div 64) = b"
    using assms(2) by (simp add: byte2_def)
  have "(b mod 16 * 4 + c div 64) mod 4 = c div 64" using c by simp
  then show "byte3 (b mod 16 * 4 + c div 64) (c mod 64) = c" using assms(3) by (simp add: byte3_def)
qed

lemma decode_encode_bytes: "\<forall>b \<in> set s. b < 256 \<Longrightarrow> decodeBytes (encodeBytes s) = Some s"
proof (induction s rule: encodeBytes.induct)
  case (2 a)
  then have "a div 4 < 64" "a mod 4 * 16 < 64" by auto
  then show ?case using 2 by (simp add: b64_value_digit byte1_def)
next
  case (3 a b)
  then have "a div 4 < 64" "a mod 4 * 16 + b div 16 < 64" "b mod 16 * 4 < 64" by auto
  moreover have "byte1 (a div 4) (a mod 4 * 16 + b div 16) = a"
    and "byte2 (a mod 4 * 16 + b div 16) (b mod 16 * 4) = b"
    using 3 byte_join [of a b 0] by simp_all
  ultimately show ?case by (simp add: b64_value_digit b64_digit_special)
next
  case (4 a b c s)
  then have "a div 4 < 64" "a mod 4 * 16 + b div 16 < 64" "b mod 16 * 4 + c div 64 < 64"
    "c mod 64 < 64" by auto
  moreover note byte_join [of a b c]
  ultimately show ?case using 4 by (simp add: b64_value_digit b64_digit_special)
qed simp

lemma encodeBytes_plain:
  "\<forall>b \<in> set s. b < 256 \<Longrightarrow> c \<in> set (encodeBytes s) \<Longrightarrow> c \<noteq> CHR 0x0A \<and> c \<noteq> CHR 0x0D"
proof (induction s rule: encodeBytes.induct)
  case (2 a)
  then have "a div 4 < 64" "a mod 4 * 16 < 64" by auto
  then show ?case using 2(2) b64_digit_special [of "a div 4"] b64_digit_special [of "a mod 4 * 16"] by auto
next
  case (3 a b)
  then have "a div 4 < 64" "a mod 4 * 16 + b div 16 < 64" "b mod 16 * 4 < 64" by auto
  note d = b64_digit_special [OF this(1)] b64_digit_special [OF this(2)] b64_digit_special [OF this(3)]
  show ?case using 3(2) d by auto
next
  case (4 a b c s)
  then have "a div 4 < 64" "a mod 4 * 16 + b div 16 < 64" "b mod 16 * 4 + c div 64 < 64"
    "c mod 64 < 64" by auto
  note d = b64_digit_special [OF this(1)] b64_digit_special [OF this(2)] b64_digit_special [OF this(3)]
    b64_digit_special [OF this(4)]
  show ?case using 4 d by auto
qed simp

lemma DecodeString_EncodeToString: "DecodeString (EncodeToString s) = Some s"
proof -
  have bytes: "\<forall>b \<in> set (map of_char s). (b :: nat) < 256"
    using nat_of_char_less_256 by auto
  have "filter (\<lambda>c. c \<noteq> CHR 0x0A \<and> c \<noteq> CHR 0x0D) (EncodeToString s) = EncodeToString s"
    using encodeBytes_plain [OF bytes] unfolding EncodeToString_def by (intro filter_idem_on) blast
  then show ?thesis
    by (simp add: DecodeString_def EncodeToString_def decode_encode_bytes [OF bytes] comp_def)
qed

end
