(* ===== verification/NatsSecrets.thy ===== *)
theory NatsSecrets
  imports Certs Base64
begin

text \<open>
  The secrets of the NATS hub (\<open>controllers/controlplanes/nats/certs.go\<close> and \<open>bootstrap.go\<close>).
  Reading and creating a secret are arguments of the functions here, as in the code.
\<close>

subsection \<open>The code\<close>

definition natsSiteServerHosts :: "string \<Rightarrow> string \<Rightarrow> nat \<Rightarrow> string \<Rightarrow> string" where
  "natsSiteServerHosts headlessName namespace replicas address =
     join '','' (map (\<lambda>i. ''nats-'' @ itoa (int i) @ ''.'' @ headlessName) [0..<replicas]) @
     '','' @ ClientServiceName @ ''.'' @ namespace @ ''.svc.cluster.local'' @
     '','' @ ServerServiceName @ ''.'' @ namespace @ ''.svc.cluster.local'' @
     '',*.'' @ headlessName @ ''.'' @ namespace @ ''.svc.cluster.local'' @
     '',nats.'' @ namespace @ ''.svc.cluster.local'' @
     '',nats-server.'' @ namespace @ ''.svc.cluster.local'' @
     (if address \<noteq> [] then '','' @ address else [])"

type_synonym get_secret = "string \<Rightarrow> string \<Rightarrow> (GoError + KObj) prog"  \<comment> \<open>namespace, name\<close>
type_synonym create_secret = "KObj \<Rightarrow> (GoError + unit) prog"

text \<open>\<open>getSecret\<close> with its not-found error told apart: the secret, \<open>None\<close>, or another error.\<close>

definition find_secret :: "get_secret \<Rightarrow> string \<Rightarrow> string \<Rightarrow> (GoError + KObj option) prog" where
  "find_secret getSecret namespace n =
     pbind (getSecret namespace n) (\<lambda>r. Done (case r of
        Inr s \<Rightarrow> Inr (Some s)
      | Inl e \<Rightarrow> if IsNotFound e then Inr None else Inl e))"

definition in_namespace :: "string \<Rightarrow> smap \<Rightarrow> KObj \<Rightarrow> KObj" where
  "in_namespace namespace labels s =
     s\<lparr>o_Meta := (o_Meta s)\<lparr>m_namespace := namespace, m_labels := labels\<rparr>\<rparr>"

definition annotate :: "string \<Rightarrow> string \<Rightarrow> KObj \<Rightarrow> KObj" where
  "annotate k v s = s\<lparr>o_Meta := (o_Meta s)\<lparr>m_annotations := (m_annotations (o_Meta s))(k \<mapsto> v)\<rparr>\<rparr>"

text \<open>A certificate authority that is missing is generated, and the new one is used.\<close>

definition ensure_ca ::
    "Lib \<Rightarrow> string \<Rightarrow> string \<Rightarrow> smap \<Rightarrow> KObj option \<Rightarrow> (KObj \<times> KObj list) prog" where
  "ensure_ca L n namespace labels found =
     (case found of
        Some s \<Rightarrow> Done (s, [])
      | None \<Rightarrow> pbind (GenerateSecret L n n n 0 None)
          (\<lambda>s0. let s = in_namespace namespace labels s0 in Done (s, [s])))"

definition ensure_server ::
    "Lib \<Rightarrow> string \<Rightarrow> string \<Rightarrow> string \<Rightarrow> string \<Rightarrow> smap \<Rightarrow> nat \<Rightarrow> KObj \<Rightarrow> KObj option \<Rightarrow> KObj list prog" where
  "ensure_server L n subject hosts namespace labels replicas ca found =
     (case found of
        Some s \<Rightarrow> Done []
      | None \<Rightarrow> pbind (GenerateSecret L n subject hosts 0 (Some ca))
          (\<lambda>s. Done [annotate ''datasance.com/nats-replicas'' (itoa (int replicas))
                       (in_namespace namespace labels s)]))"

definition EnsureNatsSecrets ::
    "Lib \<Rightarrow> get_secret \<Rightarrow> string \<Rightarrow> string \<Rightarrow> string \<Rightarrow> nat \<Rightarrow> string \<Rightarrow> smap \<Rightarrow>
     (GoError + KObj list) prog" where
  "EnsureNatsSecrets L getSecret namespace instanceName headlessName replicas address labels =
     tryE (find_secret getSecret namespace NatsSiteCASecret) (\<lambda>siteCA0.
     tryE (find_secret getSecret namespace NatsLocalCASecret) (\<lambda>localCA0.
     tryE (find_secret getSecret namespace NatsSiteServerSecret) (\<lambda>siteServer0.
     tryE (find_secret getSecret namespace NatsMqttServerSecret) (\<lambda>mqttServer0.
       pbind (ensure_ca L NatsSiteCASecret namespace labels siteCA0) (\<lambda>(siteCA, out1).
       pbind (ensure_ca L NatsLocalCASecret namespace labels localCA0) (\<lambda>(localCA, out2).
         let hosts = natsSiteServerHosts headlessName namespace replicas address in
         pbind (ensure_server L NatsSiteServerSecret ''iofog-nats'' hosts namespace labels replicas
                  siteCA siteServer0) (\<lambda>out3.
         pbind (ensure_server L NatsMqttServerSecret ''iofog-nats-mqtt'' hosts namespace labels
                  replicas localCA mqttServer0) (\<lambda>out4.
           Done (Inr (out1 @ out2 @ out3 @ out4))))))))))"

record NatsBootstrapSecrets =
  nb_OperatorJWT :: string
  nb_SystemAccountJWT :: string
  nb_SystemAccountPubKey :: string
  nb_CredsContent :: string

definition dataSecret :: "string \<Rightarrow> string \<Rightarrow> smap \<Rightarrow> smap \<Rightarrow> KObj" where
  "dataSecret n namespace labels data =
     \<lparr>o_Meta = new_meta n namespace labels Map.empty,
      o_Payload = PSecret \<lparr>sec_Type = [], sec_StringData = Map.empty, sec_Data = data\<rparr>\<rparr>"

text \<open>The error of a step, with the prefix of \<open>fmt.Errorf\<close> before it.\<close>

definition wrapped :: "string \<Rightarrow> (GoError + 'a) prog \<Rightarrow> (GoError + 'a) prog" where
  "wrapped prefix p =
     pbind p (\<lambda>r. Done (case r of Inl e \<Rightarrow> Inl (wrap_error prefix e) | Inr x \<Rightarrow> Inr x))"

definition EnsureNatsBootstrapFromController ::
    "Lib \<Rightarrow> create_secret \<Rightarrow> string \<Rightarrow> smap \<Rightarrow> BootstrapResp option \<Rightarrow>
     (GoError + NatsBootstrapSecrets) prog" where
  "EnsureNatsBootstrapFromController L createSecret namespace labels api0 =
     (case api0 of
        None \<Rightarrow> Done (Inl (new_error ''bootstrap API response is nil''))
      | Some api \<Rightarrow>
        (case DecodeString (bs_SysUserCredsBase64 api) of
           None \<Rightarrow> Done (Inl (wrap_error ''decode sys user creds base64: ''
                     (new_error (lib_decodeError L (bs_SysUserCredsBase64 api)))))
         | Some credsRaw \<Rightarrow>
           tryE (wrapped ''create operator seed secret: ''
                  (createSecret (dataSecret OperatorSeedSecretName namespace labels
                     [''seed'' \<mapsto> bs_OperatorSeed api]))) (\<lambda>_.
           tryE (wrapped ''create hub system user creds secret: ''
                  (createSecret (dataSecret HubSystemUserCredsSecret namespace labels
                     [HubSystemUserCredsDataKey \<mapsto> credsRaw]))) (\<lambda>_.
             Done (Inr \<lparr>nb_OperatorJWT = bs_OperatorJwt api,
                        nb_SystemAccountJWT = bs_SystemAccountJwt api,
                        nb_SystemAccountPubKey = bs_SystemAccountPublicKey api,
                        nb_CredsContent = credsRaw\<rparr>)))))"

definition EnsureJetStreamKeySecret ::
    "get_secret \<Rightarrow> create_secret \<Rightarrow> string \<Rightarrow> string \<Rightarrow> smap \<Rightarrow> (GoError + bool) prog" where
  "EnsureJetStreamKeySecret getSecret createSecret namespace controlplaneName labels =
     (let n = JetStreamKeySecretName controlplaneName in
      pbind (getSecret namespace n) (\<lambda>r.
        if (case r of Inr existing \<Rightarrow> mget (sec_Data (the_secret (o_Payload existing))) ''jsk'' \<noteq> []
                    | Inl e \<Rightarrow> False)
        then Done (Inr False)
        else if (case r of Inl e \<Rightarrow> \<not> IsNotFound e | Inr existing \<Rightarrow> False)
        then Done (case r of Inl e \<Rightarrow> Inl e | Inr existing \<Rightarrow> Inr False)
        else Ext (RandRead 32) (\<lambda>r2. case r2 of
               Inl e \<Rightarrow> Done (Inl (wrap_error ''jetstream key rand: '' e))
             | Inr key \<Rightarrow>
               tryE (createSecret (dataSecret n namespace labels [''jsk'' \<mapsto> EncodeToString key]))
                 (\<lambda>_. Done (Inr True)))))"

end
