(* ===== verification/K8sOps.thy ===== *)
theory K8sOps
  imports NatsSecrets
begin

text \<open>
  The operations on the cluster (\<open>controllers/controlplanes/k8s.go\<close>): each builds objects from a
  microservice, makes the ControlPlane their owner, and creates or updates them. A function that
  only returns an error is a sum with \<open>unit\<close>. The ControlPlane is read here and never changed;
  calls to log are left out.
\<close>

subsection \<open>Calls\<close>

definition kget :: "Kind \<Rightarrow> string \<Rightarrow> string \<Rightarrow> (GoError + KObj) prog" where
  "kget kind namespace n = KGet (kind, namespace, n) Done"

definition kwrite :: "KWrite \<Rightarrow> (GoError + unit) prog" where
  "kwrite w = KWrite w (\<lambda>r. Done (case r of Inl e \<Rightarrow> Inl e | Inr o1 \<Rightarrow> Inr ()))"

definition crash_or :: "Crash + 'a \<Rightarrow> ('a \<Rightarrow> 'b prog) \<Rightarrow> 'b prog" where
  "crash_or x f = (case x of Inl c \<Rightarrow> Crashed c | Inr y \<Rightarrow> f y)"

text \<open>\<open>SetControllerReference(&r.cp, obj, r.Scheme)\<close>\<close>

definition setOwner :: "Lib \<Rightarrow> ControlPlane \<Rightarrow> KObj \<Rightarrow> GoError + KObj" where
  "setOwner L cp o1 =
     (case lib_setref L ''ControlPlane'' (cp_Meta cp) (o_Meta o1) of
        Inl e \<Rightarrow> Inl e
      | Inr m \<Rightarrow> Inr (o1\<lparr>o_Meta := m\<rparr>))"

text \<open>
  The two shapes of the operations below, for an object that has its owner: create it when it is
  not there and else leave it, or create it and else overwrite it.
\<close>

definition create_if_missing :: "KObj \<Rightarrow> (GoError + unit) prog" where
  "create_if_missing o1 =
     KGet (okey o1) (\<lambda>r. case r of
        Inl e \<Rightarrow> if IsNotFound e then kwrite (WCreate o1) else Done (Inl e)
      | Inr found \<Rightarrow> Done (Inr ()))"

definition create_or_update :: "KObj \<Rightarrow> (GoError + unit) prog" where
  "create_or_update o1 =
     KGet (okey o1) (\<lambda>r. case r of
        Inl e \<Rightarrow> if IsNotFound e then kwrite (WCreate o1) else Done (Inl e)
      | Inr found \<Rightarrow> kwrite (WUpdate o1))"

definition with_owner ::
    "Lib \<Rightarrow> ControlPlane \<Rightarrow> KObj \<Rightarrow> (KObj \<Rightarrow> (GoError + 'a) prog) \<Rightarrow> (GoError + 'a) prog" where
  "with_owner L cp o1 f = (case setOwner L cp o1 of Inl e \<Rightarrow> Done (Inl e) | Inr o2 \<Rightarrow> f o2)"

text \<open>A loop over objects that stops at the first error.\<close>

fun for_each :: "('a \<Rightarrow> (GoError + unit) prog) \<Rightarrow> 'a list \<Rightarrow> (GoError + unit) prog" where
  "for_each f [] = Done (Inr ())"
| "for_each f (x # xs) = tryE (f x) (\<lambda>_. for_each f xs)"

subsection \<open>Deployments and stateful sets\<close>

definition deploymentExists :: "string \<Rightarrow> string \<Rightarrow> (GoError + bool) prog" where
  "deploymentExists namespace n =
     pbind (kget KDeployment namespace n) (\<lambda>r. Done (case r of
        Inr dep \<Rightarrow> Inr True
      | Inl e \<Rightarrow> if IsNotFound e then Inr False else Inl e))"

definition default_replicas :: "KObj \<Rightarrow> KObj" where
  "default_replicas found =
     (case o_Payload found of
        PDeployment d \<Rightarrow>
          if dep_Replicas d = None
          then found\<lparr>o_Payload := PDeployment (d\<lparr>dep_Replicas := Some 1\<rparr>)\<rparr> else found
      | _ \<Rightarrow> found)"

definition restartPodsForDeployment :: "string \<Rightarrow> string \<Rightarrow> (GoError + unit) prog" where
  "restartPodsForDeployment deploymentName namespace =
     tryE (kget KDeployment namespace deploymentName) (\<lambda>found.
       KWrite (WUpdate (default_replicas found)) (\<lambda>r. case r of
         Inl e \<Rightarrow> Done (Inl e)
       | Inr found2 \<Rightarrow> kwrite (WUpdate found2)))"

definition createDeployment :: "Lib \<Rightarrow> ControlPlane \<Rightarrow> microservice \<Rightarrow> (GoError + unit) prog" where
  "createDeployment L cp ms =
     with_owner L cp (newDeployment (cp_Namespace cp) (cp_Name cp) ms) create_or_update"

definition createStatefulSet :: "Lib \<Rightarrow> ControlPlane \<Rightarrow> microservice \<Rightarrow> (GoError + unit) prog" where
  "createStatefulSet L cp ms =
     with_owner L cp (newStatefulSet (cp_Namespace cp) (cp_Name cp) ms) create_or_update"

subsection \<open>Claims, secrets, services\<close>

definition newPVC :: "ControlPlane \<Rightarrow> microservice \<Rightarrow> string \<Rightarrow> string \<Rightarrow> KObj" where
  "newPVC cp ms n storageSize =
     \<lparr>o_Meta = new_meta n (cp_Namespace cp)
        (getStandardLabels (getComponentFromMicroservice ms) (cp_Name cp)) Map.empty,
      o_Payload = PPVC \<lparr>pvc_AccessModes = [''ReadWriteOnce''], pvc_Storage = storageSize,
                         pvc_StorageClassName = None\<rparr>\<rparr>"

definition is_pvc_volume :: "Volume \<Rightarrow> bool" where
  "is_pvc_volume v = (case vol_Source v of PVCSource _ _ \<Rightarrow> True | _ \<Rightarrow> False)"

definition createPersistentVolumeClaims ::
    "Lib \<Rightarrow> ControlPlane \<Rightarrow> microservice \<Rightarrow> (GoError + unit) prog" where
  "createPersistentVolumeClaims L cp ms =
     for_each (\<lambda>v.
       if \<not> is_pvc_volume v then Done (Inr ())
       else case lib_parseQuantity L ''1Gi'' of
         None \<Rightarrow> Done (Inl (new_error ''cannot parse quantity''))
       | Some storageSize \<Rightarrow>
           with_owner L cp (newPVC cp ms (vol_Name v) storageSize) create_if_missing)
       (ms_volumes ms)"

definition relabel :: "smap \<Rightarrow> KObj \<Rightarrow> KObj" where
  "relabel stdLabels s =
     s\<lparr>o_Meta := (o_Meta s)\<lparr>m_labels := mergeLabels stdLabels (m_labels (o_Meta s))\<rparr>\<rparr>"

text \<open>
  The secrets in the microservice are not read after this, so their new versions are not
  returned. The deferred \<open>recover\<close> turns a panic into a nil error.
\<close>

definition createOrUpdateSecrets ::
    "Lib \<Rightarrow> ControlPlane \<Rightarrow> microservice \<Rightarrow> bool \<Rightarrow> (GoError + unit) prog" where
  "createOrUpdateSecrets L cp ms update =
     recovering (\<lambda>m. Inr ())
       (for_each (\<lambda>secret.
          with_owner L cp
            (relabel (getStandardLabels (getComponentFromMicroservice ms) (cp_Name cp)) secret)
            (if update then create_or_update else create_if_missing))
          (ms_secrets ms))"

definition createSecrets :: "Lib \<Rightarrow> ControlPlane \<Rightarrow> microservice \<Rightarrow> (GoError + unit) prog" where
  "createSecrets L cp ms = createOrUpdateSecrets L cp ms False"

definition createService :: "Lib \<Rightarrow> ControlPlane \<Rightarrow> microservice \<Rightarrow> (GoError + unit) prog" where
  "createService L cp ms =
     for_each (\<lambda>svc. with_owner L cp svc create_if_missing)
       (newServices (cp_Namespace cp) (cp_Name cp) ms)"

definition createIngress ::
    "Lib \<Rightarrow> ControlPlane \<Rightarrow> controllerIngressConfig \<Rightarrow> (GoError + unit) prog" where
  "createIngress L cp cfg =
     with_owner L cp (newControllerIngress (cp_Namespace cp) (cp_Name cp) cfg) create_or_update"

subsection \<open>Accounts and roles\<close>

text \<open>
  An account that appeared since it was looked for is no error. A pull secret of the wrong type
  ends the function with the error of the lookup, which is nil.
\<close>

definition ensure_account :: "KObj \<Rightarrow> (GoError + unit) prog" where
  "ensure_account o1 =
     KGet (okey o1) (\<lambda>r. case r of
        Inl e \<Rightarrow>
          if IsNotFound e
          then KWrite (WCreate o1) (\<lambda>r2. Done (case r2 of
                 Inl e2 \<Rightarrow> if IsAlreadyExists e2 then Inr () else Inl e2
               | Inr o2 \<Rightarrow> Inr ()))
          else Done (Inl e)
      | Inr found \<Rightarrow> Done (Inr ()))"

definition dockerConfigJson :: string where
  "dockerConfigJson = ''kubernetes.io/dockerconfigjson''"

definition createServiceAccount :: "Lib \<Rightarrow> ControlPlane \<Rightarrow> microservice \<Rightarrow> (GoError + unit) prog" where
  "createServiceAccount L cp ms =
     (let svcAcc = newServiceAccount (cp_Namespace cp) (cp_Name cp) ms in
      if ms_imagePullSecret ms \<noteq> [] then
        pbind (kget KSecret (cp_Namespace cp) (ms_imagePullSecret ms)) (\<lambda>r. case r of
          Inl e \<Rightarrow> Done (Inl e)
        | Inr secret \<Rightarrow>
            if sec_Type (the_secret (o_Payload secret)) \<noteq> dockerConfigJson then Done (Inr ())
            else with_owner L cp
                   (svcAcc\<lparr>o_Payload := PServiceAccount [ms_imagePullSecret ms]\<rparr>) ensure_account)
      else with_owner L cp svcAcc ensure_account)"

definition createRole :: "Lib \<Rightarrow> ControlPlane \<Rightarrow> microservice \<Rightarrow> (GoError + unit) prog" where
  "createRole L cp ms =
     with_owner L cp (newRole (cp_Namespace cp) (cp_Name cp) ms) create_if_missing"

definition createRoleBinding :: "Lib \<Rightarrow> ControlPlane \<Rightarrow> microservice \<Rightarrow> (GoError + unit) prog" where
  "createRoleBinding L cp ms =
     with_owner L cp (newRoleBinding (cp_Namespace cp) (cp_Name cp) ms) create_if_missing"

subsection \<open>The controller's REST API\<close>

text \<open>
  The client after a login: the same one with the token, or the error. \<open>json.Decoder\<close> reads the
  first value of the body; the member is found under its name, else by the name in another case.
  A body with several members that match is not told apart: Go takes the last one as written, and
  an object here has its members sorted.
\<close>

definition json_field :: "string \<Rightarrow> (string \<times> json) list \<Rightarrow> json option" where
  "json_field n ps =
     (case map_of ps n of
        Some j \<Rightarrow> Some j
      | None \<Rightarrow> map_option snd (List.find (\<lambda>p. equalFold (fst p) n) ps))"

definition access_token :: "string \<Rightarrow> string option" where
  "access_token body =
     (case map_option fst (parseValue (CHR '' '' # body @ body) body) of
        Some (JObj ps) \<Rightarrow>
          (case json_field ''access_token'' ps of
             None \<Rightarrow> Some []
           | Some JNull \<Rightarrow> Some []
           | Some (JStr s) \<Rightarrow> Some s
           | _ \<Rightarrow> None)
      | Some JNull \<Rightarrow> Some []
      | _ \<Rightarrow> None)"

definition login_request :: "Auth \<Rightarrow> HttpReq" where
  "login_request a =
     \<lparr>hr_Method = ''POST'',
      hr_URL = auth_URL a @ ''realms/'' @ auth_Realm a @ ''/protocol/openid-connect/token'',
      hr_Headers = [(''Cache-Control'', ''no-cache''),
                    (''Content-Type'', ''application/x-www-form-urlencoded'')],
      hr_Body = ''grant_type=client_credentials&client_id='' @ auth_ControllerClient a @
                ''&client_secret='' @ auth_ControllerSecret a\<rparr>"

definition loginIofogClient :: "Lib \<Rightarrow> ControlPlane \<Rightarrow> IofogClient \<Rightarrow> (GoError + IofogClient) prog" where
  "loginIofogClient L cp iofogClient =
     (let req = login_request (spec_Auth (cp_Spec cp)) in
      case lib_urlError L (hr_URL req) of
        Some e \<Rightarrow> Done (Inl (new_error e))
      | None \<Rightarrow>
        Http req (\<lambda>r. case r of
          Inl e \<Rightarrow> Done (Inl e)
        | Inr res \<Rightarrow>
            if hs_Status res \<noteq> 200
            then Done (Inl (new_error (''unexpected status code: '' @ itoa (hs_Status res))))
            else (case access_token (hs_Body res) of
                    None \<Rightarrow> Done (Inl (new_error (lib_jsonError L (hs_Body res))))
                  | Some t \<Rightarrow> Done (Inr (iofogClient\<lparr>ic_Token := t\<rparr>)))))"

definition ext_call :: "ExtCall \<Rightarrow> (GoError + unit) prog" where
  "ext_call x = Ext x (\<lambda>r. Done (case r of Inl e \<Rightarrow> Inl e | Inr s \<Rightarrow> Inr ()))"

definition createDefaultRouter :: "IofogClient \<Rightarrow> RouterIngress \<Rightarrow> (GoError + unit) prog" where
  "createDefaultRouter iofogClient proxy =
     ext_call (PutDefaultRouter iofogClient (ri_Address proxy) (ri_InteriorPort proxy)
       (ri_EdgePort proxy) (ri_MessagePort proxy))"

definition port_or :: "int \<Rightarrow> int \<Rightarrow> int" where
  "port_or d p = (if p = 0 then d else p)"

definition createDefaultNatsHub :: "IofogClient \<Rightarrow> NatsIngress \<Rightarrow> (GoError + unit) prog" where
  "createDefaultNatsHub iofogClient ing =
     ext_call (UpsertNatsHub iofogClient
       \<lparr>ni_Address = ni_Address ing,
        ni_ServerPort = port_or 4222 (ni_ServerPort ing),
        ni_ClusterPort = port_or 6222 (ni_ClusterPort ing),
        ni_LeafPort = port_or 7422 (ni_LeafPort ing),
        ni_MqttPort = port_or 8883 (ni_MqttPort ing),
        ni_HttpPort = port_or 8222 (ni_HttpPort ing)\<rparr>)"

definition ImportRouterCACertificate :: "IofogClient \<Rightarrow> string \<Rightarrow> (GoError + unit) prog" where
  "ImportRouterCACertificate iofogClient secretName =
     Ext (GetCA iofogClient secretName) (\<lambda>r. case r of
        Inl e \<Rightarrow>
          if \<not> contains (err_Msg e) ''NotFoundError'' then Done (Inl e)
          else ext_call (CreateCA iofogClient secretName ''k8s-secret'' secretName)
      | Inr ca \<Rightarrow> Done (Inr ()))"

subsection \<open>The router's config map\<close>

definition configData :: "KObj \<Rightarrow> string" where
  "configData cm = mget (the_configmap (o_Payload cm)) ''skrouterd.json''"

definition merged_configmap :: "KObj \<Rightarrow> KObj \<Rightarrow> string \<Rightarrow> KObj" where
  "merged_configmap existing configMap merged =
     existing
       \<lparr>o_Payload := PConfigMap ((the_configmap (o_Payload existing))(''skrouterd.json'' \<mapsto> merged)),
        o_Meta := (o_Meta existing)\<lparr>m_labels :=
          mergeLabels (m_labels (o_Meta configMap)) (m_labels (o_Meta existing))\<rparr>\<rparr>"

definition createConfigMap :: "Lib \<Rightarrow> ControlPlane \<Rightarrow> (GoError + unit) prog" where
  "createConfigMap L cp =
     with_owner L cp (newRouterConfigMap (cp_Namespace cp) (cp_Name cp)) (\<lambda>configMap.
       KGet (okey configMap) (\<lambda>r. case r of
         Inl e \<Rightarrow> if IsNotFound e then kwrite (WCreate configMap) else Done (Inl e)
       | Inr existing \<Rightarrow>
           crash_or (mergeConfigs L (configData existing) (configData configMap)) (\<lambda>m. case m of
             Inl e \<Rightarrow> Done (Inl (wrap_error ''failed to merge configs: '' e))
           | Inr merged \<Rightarrow> kwrite (WUpdate (merged_configmap existing configMap merged)))))"

definition DecodeBase64 :: "Lib \<Rightarrow> string \<Rightarrow> GoError + string" where
  "DecodeBase64 L encoded =
     (case DecodeString encoded of
        None \<Rightarrow> Inl (new_error (lib_decodeError L encoded))
      | Some bytes \<Rightarrow> Inr bytes)"

end
