(* ===== verification/OpenId.thy ===== *)
theory OpenId
  imports Microservices
begin

text \<open>
  Setting the root URL of the viewer's Keycloak client (\<open>internal/util/update_openid_client.go\<close>):
  an access token by the client credentials of the controller, the internal identifier of the
  client by its \<open>clientId\<close>, then the update. Errors are wrapped with \<open>%v\<close>, so only their text
  is kept.
\<close>

definition plain_error :: "string \<Rightarrow> GoError \<Rightarrow> GoError" where
  "plain_error prefix e = new_error (prefix @ err_Msg e)"

definition auth_headers :: "string \<Rightarrow> (string \<times> string) list" where
  "auth_headers adminToken =
     [(''Authorization'', ''Bearer '' @ adminToken), (''Accept'', ''application/json'')]"

definition clients_request :: "Auth \<Rightarrow> string \<Rightarrow> HttpReq" where
  "clients_request a adminToken =
     \<lparr>hr_Method = ''GET'', hr_URL = auth_URL a @ ''/admin/realms/'' @ auth_Realm a @ ''/clients'',
      hr_Headers = auth_headers adminToken, hr_Body = []\<rparr>"

text \<open>\<open>[]map[string]interface{}\<close>: an array of objects; \<open>null\<close> is a nil slice or a nil map.\<close>

definition client_list :: "string \<Rightarrow> (string \<times> json) list list option" where
  "client_list body =
     (case map_option fst (parseValue (CHR '' '' # body @ body) body) of
        Some JNull \<Rightarrow> Some []
      | Some (JArr vs) \<Rightarrow>
          all_some (map (\<lambda>v. case v of JObj ps \<Rightarrow> Some ps | JNull \<Rightarrow> Some [] | _ \<Rightarrow> None) vs)
      | _ \<Rightarrow> None)"

fun find_client :: "string \<Rightarrow> (string \<times> json) list list \<Rightarrow> string option" where
  "find_client clientID [] = None"
| "find_client clientID (c # cs) =
     (if map_of c ''clientId'' = Some (JStr clientID)
      then (case map_of c ''id'' of
              Some (JStr i) \<Rightarrow> Some i
            | _ \<Rightarrow> find_client clientID cs)
      else find_client clientID cs)"

definition getKeycloakClientID :: "Lib \<Rightarrow> Auth \<Rightarrow> string \<Rightarrow> string \<Rightarrow> (GoError + string) prog" where
  "getKeycloakClientID L a clientID adminToken =
     (let req = clients_request a adminToken in
      case lib_urlError L (hr_URL req) of
        Some e \<Rightarrow> Done (Inl (new_error (''failed to create get client request: '' @ e)))
      | None \<Rightarrow>
        Http req (\<lambda>r. case r of
          Inl e \<Rightarrow> Done (Inl (plain_error ''failed to execute get client request: '' e))
        | Inr resp \<Rightarrow>
            if hs_Status resp \<noteq> 200
            then Done (Inl (new_error (''get client request failed with status '' @
                   itoa (hs_Status resp) @ '': '' @ hs_Body resp)))
            else (case client_list (hs_Body resp) of
              None \<Rightarrow> Done (Inl (new_error (''failed to decode clients response: '' @
                        lib_jsonError L (hs_Body resp))))
            | Some clients \<Rightarrow>
                (case find_client clientID clients of
                   Some i \<Rightarrow> Done (Inr i)
                 | None \<Rightarrow> Done (Inl (new_error (''client with ID '' @ [CHR 0x27] @ clientID @
                             [CHR 0x27] @ '' not found'')))))))"

definition update_request :: "Auth \<Rightarrow> string \<Rightarrow> string \<Rightarrow> string \<Rightarrow> HttpReq" where
  "update_request a clientID newRootURL adminToken =
     \<lparr>hr_Method = ''PUT'',
      hr_URL = auth_URL a @ ''/admin/realms/'' @ auth_Realm a @ ''/clients/'' @ clientID,
      hr_Headers = [(''Authorization'', ''Bearer '' @ adminToken),
                    (''Content-Type'', ''application/json''), (''Accept'', ''application/json'')],
      hr_Body = printJson id (JObj [(''rootUrl'', JStr newRootURL)])\<rparr>"

definition updateClientRootURL ::
    "Lib \<Rightarrow> Auth \<Rightarrow> string \<Rightarrow> string \<Rightarrow> string \<Rightarrow> (GoError + unit) prog" where
  "updateClientRootURL L a clientID newRootURL adminToken =
     (let req = update_request a clientID newRootURL adminToken in
      case lib_urlError L (hr_URL req) of
        Some e \<Rightarrow> Done (Inl (new_error (''failed to create update client request: '' @ e)))
      | None \<Rightarrow>
        Http req (\<lambda>r. case r of
          Inl e \<Rightarrow> Done (Inl (plain_error ''failed to execute update client request: '' e))
        | Inr resp \<Rightarrow>
            if hs_Status resp \<noteq> 204 \<and> hs_Status resp \<noteq> 200
            then Done (Inl (new_error (''update client request failed with status '' @
                   itoa (hs_Status resp) @ '': '' @ hs_Body resp)))
            else Done (Inr ())))"

text \<open>The error of a step under a prefix, by its text only.\<close>

definition prefixed :: "string \<Rightarrow> (GoError + 'a) prog \<Rightarrow> (GoError + 'a) prog" where
  "prefixed prefix p =
     pbind p (\<lambda>r. Done (case r of Inl e \<Rightarrow> Inl (plain_error prefix e) | Inr x \<Rightarrow> Inr x))"

definition UpdateECNViewerClientRootURL :: "Lib \<Rightarrow> Auth \<Rightarrow> string \<Rightarrow> (GoError + unit) prog" where
  "UpdateECNViewerClientRootURL L a newRootURL =
     (if auth_URL a = [] then Done (Inl (new_error ''auth URL is required''))
      else if auth_Realm a = [] then Done (Inl (new_error ''auth realm is required''))
      else if auth_ControllerClient a = []
      then Done (Inl (new_error ''controller client ID is required''))
      else if auth_ControllerSecret a = []
      then Done (Inl (new_error ''controller client secret is required''))
      else if auth_ViewerClient a = [] then Done (Inl (new_error ''viewer client ID is required''))
      else if newRootURL = [] then Done (Inl (new_error ''new root URL is required''))
      else
        tryE (prefixed ''failed to obtain access token: ''
               (Ext (OAuthToken
                  (auth_URL a @ ''/realms/'' @ auth_Realm a @ ''/protocol/openid-connect/token'')
                  (auth_ControllerClient a) (auth_ControllerSecret a)
                  [''openid'', ''profile'', ''email'']) Done)) (\<lambda>token.
        tryE (prefixed ''failed to get client ID: ''
               (getKeycloakClientID L a (auth_ViewerClient a) token)) (\<lambda>clientID.
          prefixed ''failed to update client root URL: ''
            (updateClientRootURL L a clientID newRootURL token))))"

end
