(* ===== verification/Reconcile.thy ===== *)
theory Reconcile
  imports K8sOps OpenId
begin

text \<open>
  The three routines of a reconcile (\<open>controllers/controlplanes/reconcile.go\<close>): the controller,
  the router and the NATS hub. Each is the sequence of its operations, with every early return;
  an error becomes a \<open>Reconciliation\<close> by the SDK's constructors. Durations are in seconds.
\<close>

subsection \<open>What is configured\<close>

definition getEventsIfConfigured :: "Events \<Rightarrow> Events option" where
  "getEventsIfConfigured ev =
     (if evt_AuditEnabled ev \<noteq> None \<or> evt_CaptureIpAddress ev \<noteq> None \<or>
         evt_RetentionDays ev \<noteq> 0 \<or> evt_CleanupInterval ev \<noteq> 0
      then Some ev else None)"

definition getVaultIfConfigured :: "ControlPlaneSpec \<Rightarrow> Vault option" where
  "getVaultIfConfigured spec =
     (case spec_Vault spec of
        None \<Rightarrow> None
      | Some v \<Rightarrow>
          if v_Provider v \<noteq> [] \<or> v_Hashicorp v \<noteq> None \<or> v_Aws v \<noteq> None \<or> v_Azure v \<noteq> None \<or>
             v_Google v \<noteq> None
          then Some v else None)"

definition isNatsEnabled :: "ControlPlane \<Rightarrow> bool" where
  "isNatsEnabled cp =
     (case spec_Nats (cp_Spec cp) of
        Some n \<Rightarrow> \<not> (nats_Enabled n = Some False)
      | None \<Rightarrow> True)"

definition loadBalancerTimeout :: int where "loadBalancerTimeout = 360"

definition errProxyRouterMissing :: string where
  "errProxyRouterMissing = ''missing Proxy.Router data for non LoadBalancer Router service''"

text \<open>\<open>if err := f(); err != nil { return op.ReconcileWithError(err) }\<close>\<close>

definition orFail :: "Lib \<Rightarrow> (GoError + 'a) prog \<Rightarrow> ('a \<Rightarrow> Reconciliation prog) \<Rightarrow> Reconciliation prog" where
  "orFail L = orElseErr (op_ReconcileWithError (lib_op L))"

subsection \<open>Credentials the operator keeps up to date\<close>

definition reconcile_secret :: "Lib \<Rightarrow> ControlPlane \<Rightarrow> KObj \<Rightarrow> (GoError + bool \<times> KObj) prog" where
  "reconcile_secret L cp secret =
     with_owner L cp (relabel (getStandardLabels ''controller'' (cp_Name cp)) secret) (\<lambda>s.
       KGet (okey s) (\<lambda>r. case r of
         Inl e \<Rightarrow>
           if \<not> IsNotFound e then Done (Inl e)
           else KWrite (WCreate s) (\<lambda>r2. Done (case r2 of Inl e2 \<Rightarrow> Inl e2 | Inr s2 \<Rightarrow> Inr (False, s2)))
       | Inr found \<Rightarrow>
           KWrite (WUpdate s) (\<lambda>r2. Done (case r2 of Inl e2 \<Rightarrow> Inl e2 | Inr s2 \<Rightarrow> Inr (True, s2)))))"

text \<open>The first secret of the name; its new version takes its place in the microservice.\<close>

fun reconcile_named ::
    "Lib \<Rightarrow> ControlPlane \<Rightarrow> string \<Rightarrow> KObj list \<Rightarrow> (GoError + bool \<times> KObj list) prog" where
  "reconcile_named L cp n [] = Done (Inr (False, []))"
| "reconcile_named L cp n (s # ss) =
     (if m_name (o_Meta s) = n
      then tryE (reconcile_secret L cp s) (\<lambda>(restart, s2). Done (Inr (restart, s2 # ss)))
      else tryE (reconcile_named L cp n ss) (\<lambda>(restart, ss2). Done (Inr (restart, s # ss2))))"

definition reconcileDBCredentialsSecret ::
    "Lib \<Rightarrow> ControlPlane \<Rightarrow> microservice \<Rightarrow> (GoError + bool \<times> microservice) prog" where
  "reconcileDBCredentialsSecret L cp ms =
     tryE (reconcile_named L cp controllerDBCredentialsSecretName (ms_secrets ms))
       (\<lambda>(restart, ss). Done (Inr (restart, ms\<lparr>ms_secrets := ss\<rparr>)))"

definition reconcileVaultCredentialsSecret ::
    "Lib \<Rightarrow> ControlPlane \<Rightarrow> microservice \<Rightarrow> (GoError + bool \<times> microservice) prog" where
  "reconcileVaultCredentialsSecret L cp ms =
     tryE (reconcile_named L cp controllerVaultCredentialsSecretName (ms_secrets ms))
       (\<lambda>(restart, ss). Done (Inr (restart, ms\<lparr>ms_secrets := ss\<rparr>)))"

subsection \<open>The client of the controller\<close>

text \<open>A nil client is \<open>None\<close>; using it would dereference nil.\<close>

definition getIofogClient ::
    "Lib \<Rightarrow> string \<Rightarrow> string \<Rightarrow> int \<Rightarrow> (IofogClient option \<times> Reconciliation) prog" where
  "getIofogClient L scheme host port =
     (let baseURL = scheme @ ''://'' @ host @ '':'' @ itoa port @ ''/api/v3'' in
      case lib_urlError L baseURL of
        Some e \<Rightarrow> Done (None, op_ReconcileWithError (lib_op L)
                   (new_error (''failed to parse Controller endpoint as URL ('' @ baseURL @ ''): '' @ e)))
      | None \<Rightarrow>
          let iofogClient = \<lparr>ic_BaseURL = baseURL, ic_Token = []\<rparr> in
          Ext (GetStatus iofogClient) (\<lambda>r. Done (case r of
            Inl e \<Rightarrow> (None, op_ReconcileWithRequeue (lib_op L) 3)
          | Inr s \<Rightarrow> (Some iofogClient, op_Continue (lib_op L)))))"

definition with_client ::
    "Lib \<Rightarrow> (IofogClient option \<times> Reconciliation) prog \<Rightarrow> (IofogClient \<Rightarrow> Reconciliation prog) \<Rightarrow>
     Reconciliation prog" where
  "with_client L p f =
     pbind p (\<lambda>(c, fin).
       if op_IsFinal (lib_op L) fin then Done fin
       else case c of Some iofogClient \<Rightarrow> f iofogClient
            | None \<Rightarrow> Crashed (Panic ''nil pointer dereference''))"

text \<open>
  A login that fails with invalid credentials is passed over, and the client stays without a
  token.
\<close>

definition logged_in ::
    "Lib \<Rightarrow> ControlPlane \<Rightarrow> IofogClient \<Rightarrow> (IofogClient \<Rightarrow> Reconciliation prog) \<Rightarrow> Reconciliation prog" where
  "logged_in L cp iofogClient f =
     pbind (loginIofogClient L cp iofogClient) (\<lambda>r. case r of
        Inl e \<Rightarrow>
          if \<not> contains (toLower (err_Msg e)) ''invalid credentials''
          then Done (op_ReconcileWithError (lib_op L) e) else f iofogClient
      | Inr c \<Rightarrow> f c)"

definition getControllerClientForNats ::
    "Lib \<Rightarrow> ControlPlane \<Rightarrow> (IofogClient option \<times> Reconciliation) prog" where
  "getControllerClientForNats L cp =
     (let scheme = (if ctl_Https (spec_Controller (cp_Spec cp)) = Some True then ''https'' else ''http'')
      in getIofogClient L scheme (''controller.'' @ cp_Namespace cp @ ''.svc.cluster.local'') 51121)"

text \<open>The authorities to import, in order; the first failure asks for a requeue.\<close>

fun import_all :: "Lib \<Rightarrow> IofogClient \<Rightarrow> string list \<Rightarrow> Reconciliation prog" where
  "import_all L iofogClient [] = Done (op_Continue (lib_op L))"
| "import_all L iofogClient (n # ns) =
     orElseErr (\<lambda>e. op_ReconcileWithRequeue (lib_op L) 10) (ImportRouterCACertificate iofogClient n)
       (\<lambda>_. import_all L iofogClient ns)"

definition ImportCertificates :: "Lib \<Rightarrow> ControlPlane \<Rightarrow> IofogClient \<Rightarrow> Reconciliation prog" where
  "ImportCertificates L cp iofogClient =
     import_all L iofogClient
       ([''router-site-ca'', ''default-router-local-ca''] @
        (if isNatsEnabled cp then [NatsSiteCASecret, NatsLocalCASecret] else []))"

definition newK8sClient :: "(GoError + unit) prog" where
  "newK8sClient = ext_call NewK8sClient"

definition waitForLoadBalancer :: "string \<Rightarrow> string \<Rightarrow> (GoError + string) prog" where
  "waitForLoadBalancer namespace n = Ext (WaitForLoadBalancer namespace n loadBalancerTimeout) Done"

end
