(* ===== verification/Routines.thy ===== *)
theory Routines
  imports Reconcile
begin

text \<open>
  The routines themselves (\<open>controllers/controlplanes/reconcile.go\<close>): \<open>reconcileRouter\<close> with
  \<open>createRouterSecrets\<close>, \<open>reconcileNats\<close>, and \<open>reconcileIofogController\<close>, each cut where the code
  has a natural break. The ControlPlane they read is not changed by any of them.
\<close>

subsection \<open>The router\<close>

definition SiteCaSecret :: string where "SiteCaSecret = ''router-site-ca''"
definition LocalCaSecret :: string where "LocalCaSecret = ''default-router-local-ca''"
definition SiteServerSecret :: string where "SiteServerSecret = ''router-site-server''"
definition LocalServerSecret :: string where "LocalServerSecret = ''router-local-server''"

text \<open>A lookup whose error, whatever it is, counts as a missing secret.\<close>

definition lookup_secret :: "string \<Rightarrow> string \<Rightarrow> (KObj option \<Rightarrow> 'a prog) \<Rightarrow> 'a prog" where
  "lookup_secret namespace n f =
     KGet (KSecret, namespace, n) (\<lambda>r. f (case r of Inl e \<Rightarrow> None | Inr s \<Rightarrow> Some s))"

definition router_ca ::
    "Lib \<Rightarrow> string \<Rightarrow> string \<Rightarrow> smap \<Rightarrow> KObj option \<Rightarrow> (KObj \<times> KObj list) prog" where
  "router_ca L n namespace labels found =
     (case found of
        Some s \<Rightarrow> Done (s, [])
      | None \<Rightarrow> pbind (GenerateSecret L n n n 0 None)
          (\<lambda>s0. let s = in_namespace namespace labels s0 in Done (s, [s])))"

definition router_server ::
    "Lib \<Rightarrow> string \<Rightarrow> string \<Rightarrow> string \<Rightarrow> string \<Rightarrow> smap \<Rightarrow> KObj \<Rightarrow> KObj option \<Rightarrow> KObj list prog" where
  "router_server L n subject hosts namespace labels ca found =
     (case found of
        Some s \<Rightarrow> Done [s]
      | None \<Rightarrow> pbind (GenerateSecret L n subject hosts 0 (Some ca))
          (\<lambda>s. Done [in_namespace namespace labels s]))"

definition routerSecretAddress :: "string \<Rightarrow> string \<Rightarrow> string \<Rightarrow> string" where
  "routerSecretAddress msName namespace address =
     msName @ ''.'' @ namespace @ ''.svc.cluster.local,'' @ address"

text \<open>The microservice with the secrets to create, or the error a panic was turned into.\<close>

definition createRouterSecrets ::
    "Lib \<Rightarrow> ControlPlane \<Rightarrow> string \<Rightarrow> microservice \<Rightarrow> string \<Rightarrow> (GoError + microservice) prog" where
  "createRouterSecrets L cp namespace ms address =
     recovering (\<lambda>m. Inl (new_error (''createRouterSecrets failed: '' @ m)))
       (let hosts = routerSecretAddress (ms_name ms) namespace address;
            labels = getStandardLabels ''router'' (cp_Name cp);
            add = (\<lambda>ss. ms\<lparr>ms_secrets := ms_secrets ms @ ss\<rparr>)
        in lookup_secret namespace SiteCaSecret (\<lambda>siteCA0.
           lookup_secret namespace LocalCaSecret (\<lambda>localCA0.
           lookup_secret namespace SiteServerSecret (\<lambda>siteServer0.
           lookup_secret namespace LocalServerSecret (\<lambda>localServer0.
             if siteCA0 \<noteq> None \<and> localCA0 \<noteq> None \<and> siteServer0 \<noteq> None \<and> localServer0 \<noteq> None
             then Done (Inr (add [the siteServer0, the localServer0]))
             else
               pbind (router_ca L SiteCaSecret namespace labels siteCA0) (\<lambda>(siteCA, out1).
               pbind (router_ca L LocalCaSecret namespace labels localCA0) (\<lambda>(localCA, out2).
               pbind (router_server L SiteServerSecret ''iofog-router'' hosts namespace labels
                        siteCA siteServer0) (\<lambda>out3.
               pbind (router_server L LocalServerSecret ''iofog-router-local'' hosts namespace labels
                        localCA localServer0) (\<lambda>out4.
                 Done (Inr (add (out1 @ out2 @ out3 @ out4))))))))))))"

definition routerConfig :: "ControlPlane \<Rightarrow> routerMicroserviceConfig" where
  "routerConfig cp =
     (let sp = cp_Spec cp; svc = svcs_Router (spec_Services sp) in
      \<lparr>rr_image = img_Router (spec_Images sp), rr_imagePullSecret = img_PullSecret (spec_Images sp),
       rr_serviceType = svc_Type svc, rr_serviceAnnotations = svc_Annotations svc,
       rr_externalTrafficPolicy = svc_ExternalTrafficPolicy svc,
       rr_siteCA = [], rr_localCA = [], rr_siteSecret = [], rr_localSecret = [], rr_ha = False\<rparr>)"

definition routerAddress :: "ControlPlane \<Rightarrow> string \<Rightarrow> (GoError + string) prog" where
  "routerAddress cp msName =
     (if equalFold (svc_Type (svcs_Router (spec_Services (cp_Spec cp)))) ''LoadBalancer''
      then waitForLoadBalancer (cp_Namespace cp) msName
      else if ri_Address (ing_Router (spec_Ingresses (cp_Spec cp))) \<noteq> []
      then Done (Inr (ri_Address (ing_Router (spec_Ingresses (cp_Spec cp)))))
      else Done (Inl (new_error (''reconcile Router failed: '' @ errProxyRouterMissing))))"

definition reconcileRouter :: "Lib \<Rightarrow> ControlPlane \<Rightarrow> Reconciliation prog" where
  "reconcileRouter L cp =
     (let routerMicroservices = newRouterMicroservices L (routerConfig cp);
          ms = hd routerMicroservices
      in orFail L (createServiceAccount L cp ms) (\<lambda>_.
         orFail L (createRole L cp ms) (\<lambda>_.
         orFail L (createRoleBinding L cp ms) (\<lambda>_.
         orFail L (createService L cp ms) (\<lambda>_.
         orFail L newK8sClient (\<lambda>_.
         orFail L (routerAddress cp (ms_name ms)) (\<lambda>address.
         orFail L (createRouterSecrets L cp (cp_Namespace cp) ms address) (\<lambda>ms2.
         orFail L (createSecrets L cp ms2) (\<lambda>_.
         orFail L (createConfigMap L cp) (\<lambda>_.
         orFail L (for_each (createDeployment L cp) (ms2 # tl routerMicroservices)) (\<lambda>_.
           Done (op_Continue (lib_op L)))))))))))))"

subsection \<open>The NATS hub\<close>

text \<open>The two ways the hub's secrets are written.\<close>

definition createOrUpdateSecret :: "Lib \<Rightarrow> ControlPlane \<Rightarrow> smap \<Rightarrow> create_secret" where
  "createOrUpdateSecret L cp natsLabels s0 =
     with_owner L cp s0 (\<lambda>s.
       KWrite (WCreate s) (\<lambda>r. case r of
         Inr s1 \<Rightarrow> Done (Inr ())
       | Inl e \<Rightarrow>
           if \<not> IsAlreadyExists e then Done (Inl e)
           else KGet (okey s) (\<lambda>r2. case r2 of
             Inl e2 \<Rightarrow> Done (Inl e2)
           | Inr existing \<Rightarrow>
               let d = the_secret (o_Payload existing) in
               kwrite (WUpdate (existing
                 \<lparr>o_Payload := PSecret (d\<lparr>sec_Data := sec_Data (the_secret (o_Payload s))\<rparr>),
                  o_Meta := (o_Meta existing)\<lparr>m_labels :=
                    mergeLabels natsLabels (m_labels (o_Meta existing))\<rparr>\<rparr>)))))"

definition createOwned :: "Lib \<Rightarrow> ControlPlane \<Rightarrow> create_secret" where
  "createOwned L cp s0 = with_owner L cp s0 (\<lambda>s. kwrite (WCreate s))"

text \<open>A creation whose \<open>AlreadyExists\<close> is no error.\<close>

definition createIfAbsent :: "Lib \<Rightarrow> ControlPlane \<Rightarrow> KObj \<Rightarrow> (GoError + unit) prog" where
  "createIfAbsent L cp o1 =
     with_owner L cp o1 (\<lambda>o2. KWrite (WCreate o2) (\<lambda>r. Done (case r of
       Inl e \<Rightarrow> if IsAlreadyExists e then Inr () else Inl e
     | Inr o3 \<Rightarrow> Inr ())))"

definition natsReplicas :: "ControlPlane \<Rightarrow> int" where
  "natsReplicas cp =
     (if rep_Nats (spec_Replicas (cp_Spec cp)) < 2 then 2 else rep_Nats (spec_Replicas (cp_Spec cp)))"

definition natsConfig :: "Lib \<Rightarrow> ControlPlane \<Rightarrow> natsMicroserviceConfig" where
  "natsConfig L cp =
     (let sp = cp_Spec cp; svc = svcs_Nats (spec_Services sp); srv = svcs_NatsServer (spec_Services sp) in
      \<lparr>nn_image = GetNatsImage L,
       nn_imagePullSecret = img_PullSecret (spec_Images sp),
       nn_replicas = natsReplicas cp,
       nn_storageSize =
         (case spec_Nats sp of
            Some n \<Rightarrow> if js_StorageSize (nats_JetStream n) \<noteq> [] then js_StorageSize (nats_JetStream n)
                      else DefaultStorageSizePVC
          | None \<Rightarrow> DefaultStorageSizePVC),
       nn_storageClassName = [],
       nn_jetStreamKeySecret = JetStreamKeySecretName (cp_Name cp),
       nn_serviceType = (if svc_Type svc \<noteq> [] then svc_Type svc else ''LoadBalancer''),
       nn_serviceAnnotations = svc_Annotations svc,
       nn_externalTrafficPolicy = svc_ExternalTrafficPolicy svc,
       nn_serverServiceType = (if svc_Type srv \<noteq> [] then svc_Type srv else ''LoadBalancer''),
       nn_serverServiceAnnotations = svc_Annotations srv,
       nn_serverExternalTrafficPolicy = svc_ExternalTrafficPolicy srv\<rparr>)"

text \<open>The image and the storage class of the spec, put into the finished microservice.\<close>

definition natsOverrides :: "ControlPlane \<Rightarrow> microservice \<Rightarrow> microservice" where
  "natsOverrides cp ms =
     (let ms = (if img_Nats (spec_Images (cp_Spec cp)) \<noteq> []
                then first_container (\<lambda>c. c\<lparr>k_image := img_Nats (spec_Images (cp_Spec cp))\<rparr>) ms
                else ms)
      in case spec_Nats (cp_Spec cp) of
           Some n \<Rightarrow>
             let cls = js_StorageClassName (nats_JetStream n) in
             if cls \<noteq> [] then
               ms\<lparr>ms_volumeClaimTemplates :=
                    (case ms_volumeClaimTemplates ms of
                       [] \<Rightarrow> []
                     | (n1, p) # ps \<Rightarrow> (n1, p\<lparr>pvc_StorageClassName := Some cls\<rparr>) # ps)\<rparr>
             else ms
         | None \<Rightarrow> ms)"

definition natsFileStore :: "ControlPlane \<Rightarrow> string" where
  "natsFileStore cp =
     (case spec_Nats (cp_Spec cp) of
        Some n \<Rightarrow> if js_StorageSize (nats_JetStream n) \<noteq> []
                  then ToNatsSize (js_StorageSize (nats_JetStream n)) else DefaultStorageSize
      | None \<Rightarrow> DefaultStorageSize)"

definition natsMemoryStore :: "ControlPlane \<Rightarrow> string" where
  "natsMemoryStore cp =
     (case spec_Nats (cp_Spec cp) of
        Some n \<Rightarrow> if js_MemoryStoreSize (nats_JetStream n) \<noteq> []
                  then ToNatsSize (js_MemoryStoreSize (nats_JetStream n)) else DefaultMemoryStoreSize
      | None \<Rightarrow> DefaultMemoryStoreSize)"

definition natsAddressOf :: "ControlPlane \<Rightarrow> (GoError + string) prog" where
  "natsAddressOf cp =
     (if equalFold (svc_Type (svcs_Nats (spec_Services (cp_Spec cp)))) ''LoadBalancer''
      then tryE newK8sClient (\<lambda>_. waitForLoadBalancer (cp_Namespace cp) ClientServiceName)
      else Done (Inr (ni_Address (ing_Nats (spec_Ingresses (cp_Spec cp))))))"

text \<open>Certificates made for another replica count are deleted; a missing one is no error.\<close>

definition deleteSecret :: "string \<Rightarrow> string \<Rightarrow> (GoError + unit) prog" where
  "deleteSecret namespace n =
     KWrite (WDelete (KSecret, namespace, n)) (\<lambda>r. Done (case r of
       Inl e \<Rightarrow> if IsNotFound e then Inr () else Inl e
     | Inr o1 \<Rightarrow> Inr ()))"

definition dropStaleCertificates :: "string \<Rightarrow> int \<Rightarrow> (GoError + unit) prog" where
  "dropStaleCertificates namespace replicas =
     KGet (KSecret, namespace, NatsSiteServerSecret) (\<lambda>r. case r of
       Inl e \<Rightarrow> Done (Inr ())
     | Inr s \<Rightarrow>
         if mget (m_annotations (o_Meta s)) ''datasance.com/nats-replicas'' \<noteq> itoa replicas
         then for_each (deleteSecret namespace) [NatsSiteServerSecret, NatsMqttServerSecret]
         else Done (Inr ()))"

definition natsServerConf ::
    "ControlPlane \<Rightarrow> NatsBootstrapSecrets \<Rightarrow> string \<Rightarrow> string \<Rightarrow> string \<Rightarrow> string" where
  "natsServerConf cp boot natsAddress jetStreamKey existingServerConf =
     (let ingLeaf = ni_LeafPort (ing_Nats (spec_Ingresses (cp_Spec cp)));
          leafPort = (if ingLeaf > 0 then ingLeaf else DefaultLeafPort)
      in BuildServerConf
        \<lparr>scp_ServerPort = DefaultServerPort, scp_HttpPort = DefaultHttpPort,
         scp_OperatorJWT = nb_OperatorJWT boot, scp_SystemAccount = nb_SystemAccountPubKey boot,
         scp_JetStreamDomain = cp_Namespace cp, scp_JetStreamKey = jetStreamKey,
         scp_JetStreamPrev = [],
         scp_ClusterRoutes = ClusterRoutesMerge HeadlessServiceName (nat (natsReplicas cp))
                               DefaultClusterPort existingServerConf,
         scp_SSLDir = ''/etc/nats/certs'', scp_CertName = NatsSiteServerSecret,
         scp_MqttCertName = NatsMqttServerSecret, scp_LeafPort = DefaultLeafPort,
         scp_LeafAdvertise = (if natsAddress \<noteq> [] then natsAddress @ '':'' @ itoa leafPort else []),
         scp_ClusterPort = DefaultClusterPort, scp_MqttPort = DefaultMqttPort,
         scp_JWTDir = ''/home/runner/nats/jwt'', scp_ControllerName = cp_Name cp,
         scp_MaxMemoryStore = natsMemoryStore cp, scp_MaxFileStore = natsFileStore cp\<rparr>)"

definition writeNatsConfigMap :: "smap \<Rightarrow> KObj \<Rightarrow> (GoError + unit) prog" where
  "writeNatsConfigMap natsLabels configMap =
     KGet (okey configMap) (\<lambda>r. case r of
       Inl e \<Rightarrow> if IsNotFound e then kwrite (WCreate configMap) else Done (Inl e)
     | Inr existingCM \<Rightarrow>
         kwrite (WUpdate (existingCM
           \<lparr>o_Payload := PConfigMap (the_configmap (o_Payload configMap)),
            o_Meta := (o_Meta existingCM)\<lparr>m_labels :=
              mergeLabels natsLabels (m_labels (o_Meta existingCM))\<rparr>\<rparr>)))"

text \<open>
  The annotations of the pod template: kept, or with a new restart time when the stateful set
  has more replicas than wanted.
\<close>

definition podAnnotations :: "Lib \<Rightarrow> string \<Rightarrow> int \<Rightarrow> (smap \<Rightarrow> 'a prog) \<Rightarrow> 'a prog" where
  "podAnnotations L namespace replicas f =
     KGet (KStatefulSet, namespace, ''nats'') (\<lambda>r. case r of
       Inl e \<Rightarrow> f Map.empty
     | Inr existingSt \<Rightarrow>
         let st = the_statefulset (o_Payload existingSt);
             existingReplicas = (case sts_Replicas st of Some n \<Rightarrow> n | None \<Rightarrow> 1);
             old = pt_Annotations (sts_Template st)
         in if existingReplicas > replicas
            then Now (\<lambda>t. f (old(''kubectl.kubernetes.io/restartedAt'' \<mapsto> lib_rfc3339 L t)))
            else f old)"

definition natsConfigMaps ::
    "Lib \<Rightarrow> ControlPlane \<Rightarrow> smap \<Rightarrow> NatsBootstrapSecrets \<Rightarrow> string \<Rightarrow> (GoError + unit) prog" where
  "natsConfigMaps L cp natsLabels boot natsAddress =
     (let namespace = cp_Namespace cp in
      tryE (kget KSecret namespace (JetStreamKeySecretName (cp_Name cp))) (\<lambda>keySecret.
      KGet (KConfigMap, namespace, ConfigMapName) (\<lambda>r.
        let existing = (case r of
              Inl e \<Rightarrow> []
            | Inr cm \<Rightarrow> mget (the_configmap (o_Payload cm)) ServerConfKey);
            serverConf = natsServerConf cp boot natsAddress
              (mget (sec_Data (the_secret (o_Payload keySecret))) ''jsk'') existing
        in with_owner L cp (NewNatsConfigMap namespace (cp_Name cp) natsLabels serverConf) (\<lambda>configMap.
           tryE (writeNatsConfigMap natsLabels configMap) (\<lambda>_.
             createIfAbsent L cp (NewJWTBundleConfigMap namespace natsLabels
               [(nb_SystemAccountPubKey boot, nb_SystemAccountJWT boot)]))))))"

definition deployNats :: "Lib \<Rightarrow> ControlPlane \<Rightarrow> NatsBootstrapSecrets \<Rightarrow> microservice \<Rightarrow> Reconciliation prog" where
  "deployNats L cp boot natsMs =
     (let natsLabels = getStandardLabels ''nats'' (cp_Name cp); namespace = cp_Namespace cp;
          replicas = natsReplicas cp
      in orFail L (createServiceAccount L cp natsMs) (\<lambda>_.
         orFail L (createRole L cp natsMs) (\<lambda>_.
         orFail L (createRoleBinding L cp natsMs) (\<lambda>_.
         orFail L (createService L cp natsMs) (\<lambda>_.
         orFail L (natsAddressOf cp) (\<lambda>natsAddress.
         orFail L (dropStaleCertificates namespace replicas) (\<lambda>_.
         orFail L (EnsureNatsSecrets L (kget KSecret) namespace (cp_Name cp) HeadlessServiceName
                    (nat replicas) natsAddress natsLabels) (\<lambda>tlsSecrets.
         orFail L (for_each (createIfAbsent L cp) tlsSecrets) (\<lambda>_.
         orFail L (natsConfigMaps L cp natsLabels boot natsAddress) (\<lambda>_.
         podAnnotations L namespace replicas (\<lambda>ann.
         orFail L (createStatefulSet L cp (natsMs\<lparr>ms_podTemplateAnnotations := ann\<rparr>)) (\<lambda>_.
           Done (op_Continue (lib_op L))))))))))))))"

definition bootstrapNats ::
    "Lib \<Rightarrow> ControlPlane \<Rightarrow> IofogClient \<Rightarrow> (NatsBootstrapSecrets \<Rightarrow> Reconciliation prog) \<Rightarrow>
     Reconciliation prog" where
  "bootstrapNats L cp iofogClient f =
     (let natsLabels = getStandardLabels ''nats'' (cp_Name cp) in
      orFail L (wrapped ''get NATS bootstrap from Controller: '' (Bootstrap iofogClient Done)) (\<lambda>resp.
      orFail L (EnsureNatsBootstrapFromController L (createOrUpdateSecret L cp natsLabels)
                 (cp_Namespace cp) natsLabels (Some resp)) (\<lambda>boot.
      orFail L (EnsureJetStreamKeySecret (kget KSecret) (createOwned L cp) (cp_Namespace cp)
                 (cp_Name cp) natsLabels) (\<lambda>_. f boot))))"

definition reconcileNats :: "Lib \<Rightarrow> ControlPlane \<Rightarrow> Reconciliation prog" where
  "reconcileNats L cp =
     (if \<not> isNatsEnabled cp then Done (op_Continue (lib_op L))
      else with_client L (getControllerClientForNats L cp) (\<lambda>client.
             logged_in L cp client (\<lambda>client2.
             bootstrapNats L cp client2 (\<lambda>boot.
             crash_or (newNatsMicroservice L (natsConfig L cp)) (\<lambda>ms.
               deployNats L cp boot (natsOverrides cp ms))))))"

end
