(* ===== verification/ControllerRoutine.thy ===== *)
theory ControllerRoutine
  imports Routines
begin

text \<open>
  \<open>reconcileIofogController\<close> (\<open>controllers/controlplanes/reconcile.go\<close>), in the stages of the code:
  the objects of the controller, then, once its deployment is there, its registration through its
  REST API (default router, NATS hub, certificates), the address its viewer is reached at, and the
  restart after a change of credentials.
\<close>

definition controllerConfig :: "ControlPlane \<Rightarrow> controllerMicroserviceConfig" where
  "controllerConfig cp =
     (let sp = cp_Spec cp; ctl = spec_Controller sp; svc = svcs_Controller (spec_Services sp);
          img = spec_Images sp in
      \<lparr>cc_controllerName = cp_Name cp,
       cc_replicas = rep_Controller (spec_Replicas sp),
       cc_image = img_Controller img,
       cc_imagePullSecret = img_PullSecret img,
       cc_serviceType = svc_Type svc,
       cc_serviceAnnotations = svc_Annotations svc,
       cc_externalTrafficPolicy = svc_ExternalTrafficPolicy svc,
       cc_https = ctl_Https ctl,
       cc_scheme = [],
       cc_secretName = ctl_SecretName ctl,
       cc_loadBalancerAddr = svc_Address svc,
       cc_auth = spec_Auth sp,
       cc_db = spec_Database sp,
       cc_events = getEventsIfConfigured (spec_Events sp),
       cc_routerImage = img_Router img,
       cc_natsImage = img_Nats img,
       cc_natsEnabled = isNatsEnabled cp,
       cc_ecn = ctl_ECNName ctl,
       cc_pidBaseDir = ctl_PidBaseDir ctl,
       cc_ecnViewerPort = ctl_EcnViewerPort ctl,
       cc_ecnViewerURL = ctl_EcnViewerURL ctl,
       cc_logLevel = ctl_LogLevel ctl,
       cc_vault = getVaultIfConfigured sp\<rparr>)"

definition ingressConfig :: "ControlPlane \<Rightarrow> controllerIngressConfig" where
  "ingressConfig cp =
     (let ci = ing_Controller (spec_Ingresses (cp_Spec cp)) in
      \<lparr>gi_annotations = ci_Annotations ci, gi_ingressClassName = ci_IngressClassName ci,
       gi_host = ci_Host ci, gi_secretName = ci_SecretName ci\<rparr>)"

definition controllerScheme :: "ControlPlane \<Rightarrow> string" where
  "controllerScheme cp =
     (if ctl_Https (spec_Controller (cp_Spec cp)) = None \<or>
         ctl_Https (spec_Controller (cp_Spec cp)) = Some False
      then ''http'' else ''https'')"

definition controllerServiceType :: "ControlPlane \<Rightarrow> string" where
  "controllerServiceType cp = svc_Type (svcs_Controller (spec_Services (cp_Spec cp)))"

text \<open>The objects; the results are whether pods must restart and whether the deployment existed.\<close>

definition controllerObjects ::
    "Lib \<Rightarrow> ControlPlane \<Rightarrow> microservice \<Rightarrow> (bool \<Rightarrow> bool \<Rightarrow> Reconciliation prog) \<Rightarrow> Reconciliation prog" where
  "controllerObjects L cp ms f =
     orFail L (createServiceAccount L cp ms) (\<lambda>_.
     orFail L (createRole L cp ms) (\<lambda>_.
     orFail L (createRoleBinding L cp ms) (\<lambda>_.
     orFail L (reconcileDBCredentialsSecret L cp ms) (\<lambda>(restartDB, ms1).
     orFail L (reconcileVaultCredentialsSecret L cp ms1) (\<lambda>(restartVault, ms2).
     orFail L (createSecrets L cp ms2) (\<lambda>_.
     orFail L (createService L cp ms2) (\<lambda>_.
     orFail L (if equalFold (controllerServiceType cp) ''ClusterIP''
               then createIngress L cp (ingressConfig cp) else Done (Inr ())) (\<lambda>_.
     orFail L (createPersistentVolumeClaims L cp ms2) (\<lambda>_.
     orFail L (deploymentExists (cp_Namespace cp) (ms_name ms2)) (\<lambda>alreadyExists.
     orFail L (createDeployment L cp ms2) (\<lambda>_.
       f (restartDB \<or> restartVault) alreadyExists)))))))))))"

text \<open>Where the router is reached: its load balancer, or the ingress of the spec.\<close>

definition routerProxyOf :: "ControlPlane \<Rightarrow> (GoError + RouterIngress) prog" where
  "routerProxyOf cp =
     (if equalFold (svc_Type (svcs_Router (spec_Services (cp_Spec cp)))) ''LoadBalancer''
      then tryE (waitForLoadBalancer (cp_Namespace cp) routerName) (\<lambda>routerAddr.
             Done (Inr \<lparr>ri_Address = routerAddr, ri_MessagePort = MessagePort,
                        ri_InteriorPort = InteriorPort, ri_EdgePort = EdgePort\<rparr>))
      else if ri_Address (ing_Router (spec_Ingresses (cp_Spec cp))) \<noteq> []
      then Done (Inr (ing_Router (spec_Ingresses (cp_Spec cp))))
      else Done (Inl (new_error (''reconcile Controller failed: '' @ errProxyRouterMissing))))"

definition natsIngressOf :: "ControlPlane \<Rightarrow> (GoError + NatsIngress) prog" where
  "natsIngressOf cp =
     (let natsIngress = ing_Nats (spec_Ingresses (cp_Spec cp)) in
      if equalFold (svc_Type (svcs_Nats (spec_Services (cp_Spec cp)))) ''LoadBalancer''
      then tryE (waitForLoadBalancer (cp_Namespace cp) ClientServiceName) (\<lambda>natsAddr.
             Done (Inr (natsIngress\<lparr>ni_Address := natsAddr\<rparr>)))
      else Done (Inr natsIngress))"

definition registerNatsHub ::
    "Lib \<Rightarrow> ControlPlane \<Rightarrow> IofogClient \<Rightarrow> Reconciliation prog \<Rightarrow> Reconciliation prog" where
  "registerNatsHub L cp iofogClient rest =
     (if isNatsEnabled cp then
        orFail L (natsIngressOf cp) (\<lambda>natsIngress.
          if ni_Address natsIngress \<noteq> [] then
            orElseErr (\<lambda>e. op_ReconcileWithRequeue (lib_op L) 10)
              (createDefaultNatsHub iofogClient natsIngress) (\<lambda>_. rest)
          else rest)
      else rest)"

text \<open>The viewer's endpoint over a load balancer, which has to answer, and over an ingress.\<close>

definition loadBalancerEndpoint ::
    "Lib \<Rightarrow> ControlPlane \<Rightarrow> int \<Rightarrow> (string \<Rightarrow> Reconciliation prog) \<Rightarrow> Reconciliation prog" where
  "loadBalancerEndpoint L cp ctrlPort f =
     (if equalFold (controllerServiceType cp) ''LoadBalancer'' then
        orFail L (waitForLoadBalancer (cp_Namespace cp) controllerName) (\<lambda>host.
          pbind (getIofogClient L (controllerScheme cp) host ctrlPort) (\<lambda>(c, fin).
            if op_IsFinal (lib_op L) fin then Done fin
            else f (controllerScheme cp @ ''://'' @ host)))
      else f [])"

definition ingressEndpoint ::
    "Lib \<Rightarrow> ControlPlane \<Rightarrow> string \<Rightarrow> (string \<Rightarrow> Reconciliation prog) \<Rightarrow> Reconciliation prog" where
  "ingressEndpoint L cp viewerEndpoint f =
     (if equalFold (controllerServiceType cp) ''ClusterIP'' then
        orFail L (wrapped ''failed to get Ingress resource: ''
                   (kget KIngress (cp_Namespace cp) ''pot-controller'')) (\<lambda>ingress.
          if ingress_lb (o_Payload ingress) = []
          then Done (op_ReconcileWithError (lib_op L)
                 (new_error ''no LoadBalancer ingress found for Ingress resource''))
          else f (if ci_Host (ing_Controller (spec_Ingresses (cp_Spec cp))) \<noteq> []
                  then controllerScheme cp @ ''://'' @
                       ci_Host (ing_Controller (spec_Ingresses (cp_Spec cp)))
                  else viewerEndpoint))
      else f viewerEndpoint)"

text \<open>A failed update of the viewer's client is logged and passed over.\<close>

definition finishController ::
    "Lib \<Rightarrow> ControlPlane \<Rightarrow> microservice \<Rightarrow> bool \<Rightarrow> string \<Rightarrow> Reconciliation prog" where
  "finishController L cp ms shouldRestartPods viewerEndpoint =
     orFail L (if shouldRestartPods then restartPodsForDeployment (ms_name ms) (cp_Namespace cp)
               else Done (Inr ())) (\<lambda>_.
       if viewerEndpoint \<noteq> []
       then pbind (UpdateECNViewerClientRootURL L (spec_Auth (cp_Spec cp)) viewerEndpoint)
              (\<lambda>_. Done (op_Continue (lib_op L)))
       else Done (op_Continue (lib_op L)))"

definition registerController ::
    "Lib \<Rightarrow> ControlPlane \<Rightarrow> microservice \<Rightarrow> bool \<Rightarrow> Reconciliation prog" where
  "registerController L cp ms shouldRestartPods =
     (case getControllerPort ms of
        Inl e \<Rightarrow> Done (op_ReconcileWithError (lib_op L) e)
      | Inr ctrlPort \<Rightarrow>
        with_client L (getIofogClient L (controllerScheme cp)
                        (ms_name ms @ ''.'' @ cp_Namespace cp @ ''.svc.cluster.local'') ctrlPort) (\<lambda>c0.
        logged_in L cp c0 (\<lambda>iofogClient.
        orFail L newK8sClient (\<lambda>_.
        orFail L (routerProxyOf cp) (\<lambda>routerProxy.
        orFail L (createDefaultRouter iofogClient routerProxy) (\<lambda>_.
        registerNatsHub L cp iofogClient
          (pbind (ImportCertificates L cp iofogClient) (\<lambda>recon.
             if op_IsFinal (lib_op L) recon then Done recon
             else loadBalancerEndpoint L cp ctrlPort (\<lambda>lbEndpoint.
                  ingressEndpoint L cp lbEndpoint (\<lambda>viewerEndpoint.
                  finishController L cp ms shouldRestartPods viewerEndpoint))))))))))"

definition reconcileIofogController :: "Lib \<Rightarrow> ControlPlane \<Rightarrow> Reconciliation prog" where
  "reconcileIofogController L cp =
     (let ms = newControllerMicroservice L (cp_Namespace cp) (controllerConfig cp) in
      controllerObjects L cp ms (\<lambda>shouldRestartPods alreadyExists.
        if \<not> alreadyExists then Done (op_ReconcileWithRequeue (lib_op L) 5)
        else registerController L cp ms shouldRestartPods))"

end
