(* ===== verification/States.thy ===== *)
theory States
  imports ControllerRoutine
begin

text \<open>
  The reconciler of a ControlPlane (\<open>controllers/controlplanes/controller.go\<close> and
  \<open>states.go\<close>): the function for the state it is in, and the two states that run the three
  routines as goroutines and collect their results from a channel.

  A reconcile that forks is a start (calls, then the routines with the ControlPlane they share)
  and an end (what the receiver does with the results, in the order they come). Between them the
  routines run as a pool (\<open>Traces\<close>); the receiver takes exactly as many results as there are
  routines, so it starts when all of them have been sent.
\<close>

subsection \<open>Collecting results\<close>

definition collect :: "Reconciliation \<Rightarrow> Reconciliation \<Rightarrow> Reconciliation" where
  "collect finRecon recon =
     (let finRecon =
        (case rc_Err recon of
           None \<Rightarrow> finRecon
         | Some e \<Rightarrow> finRecon\<lparr>rc_Err := Some
             (case rc_Err finRecon of
                None \<Rightarrow> e
              | Some e0 \<Rightarrow> new_error (err_Msg e0 @ [CHR 0x0A] @ err_Msg e))\<rparr>);
          finRecon = (if rc_End recon then finRecon\<lparr>rc_End := True\<rparr> else finRecon)
      in if rc_Requeue recon
         then (let finRecon = finRecon\<lparr>rc_Requeue := True\<rparr>
               in if rc_Delay recon > rc_Delay finRecon
                  then finRecon\<lparr>rc_Delay := rc_Delay recon\<rparr> else finRecon)
         else finRecon)"

definition aggregate :: "Reconciliation list \<Rightarrow> Reconciliation" where
  "aggregate recons = foldl collect zero_Reconciliation recons"

subsection \<open>The states\<close>

text \<open>The pointer \<open>r.cp\<close> takes what the API answers to an update.\<close>

definition update_status :: "ControlPlane \<Rightarrow> (GoError + ControlPlane) prog" where
  "update_status cp =
     KWrite (WStatusUpdate (cp_obj cp)) (\<lambda>r. Done (case r of
       Inl e \<Rightarrow> Inl e | Inr o1 \<Rightarrow> Inr (decode_cp o1 cp)))"

definition update_cp :: "ControlPlane \<Rightarrow> (GoError + ControlPlane) prog" where
  "update_cp cp =
     KWrite (WUpdate (cp_obj cp)) (\<lambda>r. Done (case r of
       Inl e \<Rightarrow> Inl e | Inr o1 \<Rightarrow> Inr (decode_cp o1 cp)))"

definition reconcileReady :: "Lib \<Rightarrow> ControlPlane \<Rightarrow> Reconciliation prog" where
  "reconcileReady L cp = Done (op_Reconcile (lib_op L))"

definition routines :: "Lib \<Rightarrow> ControlPlane \<Rightarrow> Reconciliation prog list" where
  "routines L cp = [reconcileRouter L cp, reconcileNats L cp, reconcileIofogController L cp]"

definition setReady :: "Lib \<Rightarrow> ControlPlane \<Rightarrow> Reconciliation prog" where
  "setReady L cp =
     Now (\<lambda>now.
       orFail L (update_status (SetConditionReady (lib_ssc L) now cp)) (\<lambda>cp2.
       orFail L (update_cp cp2) (\<lambda>_. Done (op_Reconcile (lib_op L)))))"

definition finishDeploying :: "Lib \<Rightarrow> ControlPlane \<Rightarrow> Reconciliation list \<Rightarrow> Reconciliation prog" where
  "finishDeploying L cp recons =
     (let finRecon = aggregate recons in
      if op_IsFinal (lib_op L) finRecon then Done finRecon
      else if IsDeploying cp then setReady L cp
      else Done (op_Continue (lib_op L)))"

definition finishUpdating :: "Lib \<Rightarrow> ControlPlane \<Rightarrow> Reconciliation list \<Rightarrow> Reconciliation prog" where
  "finishUpdating L cp recons =
     (let finRecon = aggregate recons in
      if op_IsFinal (lib_op L) finRecon then Done finRecon
      else if IsUpdating cp then setReady L cp
      else Done (op_Continue (lib_op L)))"

datatype reconcileFunc = ReconcileReady | ReconcileDeploying | ReconcileUpdating

definition getReconcileFunc :: "Lib \<Rightarrow> ControlPlane \<Rightarrow> (GoError + reconcileFunc \<times> ControlPlane) prog" where
  "getReconcileFunc L cp =
     (if IsReady cp then Done (Inr (ReconcileReady, cp))
      else if IsDeploying cp then Done (Inr (ReconcileDeploying, cp))
      else if IsUpdating cp then Done (Inr (ReconcileUpdating, cp))
      else Now (\<lambda>now.
             tryE (update_status (SetConditionDeploying (lib_ssc L) now cp)) (\<lambda>cp2.
               Done (Inr (ReconcileDeploying, cp2)))))"

subsection \<open>One reconcile\<close>

text \<open>What the start comes to: an answer to the manager, or routines to run.\<close>

datatype started = Answer ctrl_return | Fork reconcileFunc ControlPlane

definition startReconcile :: "Lib \<Rightarrow> ControlPlane \<Rightarrow> string \<Rightarrow> string \<Rightarrow> started prog" where
  "startReconcile L cp0 namespace n =
     KGet (KControlPlane, namespace, n) (\<lambda>r. case r of
       Inl e \<Rightarrow>
         Done (Answer (if IsNotFound e then op_DoNotRequeue (lib_op L)
                       else op_RequeueWithError (lib_op L) e))
     | Inr o1 \<Rightarrow>
         pbind (getReconcileFunc L (decode_cp o1 cp0)) (\<lambda>r2. case r2 of
           Inl e \<Rightarrow> Done (Answer (op_RequeueWithError (lib_op L) e))
         | Inr (f, cp) \<Rightarrow>
             if f = ReconcileReady
             then pbind (reconcileReady L cp) (\<lambda>recon. Done (Answer (op_Result (lib_op L) recon)))
             else Done (Fork f cp)))"

definition finishReconcile ::
    "Lib \<Rightarrow> reconcileFunc \<Rightarrow> ControlPlane \<Rightarrow> Reconciliation list \<Rightarrow> ctrl_return prog" where
  "finishReconcile L f cp recons =
     pbind (if f = ReconcileUpdating then finishUpdating L cp recons else finishDeploying L cp recons)
       (\<lambda>recon. Done (op_Result (lib_op L) recon))"

text \<open>
  A complete reconcile: the calls of the start, the interleaved calls of the routines, the calls
  of the end, and the answer. The routines' events carry their index.
\<close>

inductive reconcile ::
    "Lib \<Rightarrow> ControlPlane \<Rightarrow> string \<Rightarrow> string \<Rightarrow> event list \<Rightarrow> (nat \<times> event) list \<Rightarrow> event list \<Rightarrow>
     ctrl_return \<Rightarrow> bool" for L cp0 namespace n where
  answered:
    "runs (startReconcile L cp0 namespace n) tr1 (Returned (Answer a)) \<Longrightarrow>
     reconcile L cp0 namespace n tr1 [] [] a"
| forked:
    "runs (startReconcile L cp0 namespace n) tr1 (Returned (Fork f cp)) \<Longrightarrow>
     pool_run (start_pool (routines L cp)) tr2 s \<Longrightarrow> \<forall>r \<in> set (pl_routines s). r = None \<Longrightarrow>
     runs (finishReconcile L f cp (pl_chan s)) tr3 (Returned a) \<Longrightarrow>
     reconcile L cp0 namespace n tr1 tr2 tr3 a"

end
