(* ===== verification/Orders.thy ===== *)
theory Orders
  imports Traces
begin

text \<open>
  The order of calls in a run: \<open>until A E W Q p\<close> says that the code makes no call of \<open>W\<close> before
  an event of \<open>E\<close>, and that a result it returns without such an event satisfies \<open>Q\<close>. With
  \<open>Q\<close> the error results, it says that success comes after an event of \<open>E\<close>. And \<open>may A p x\<close>:
  some answers among those \<open>A\<close> allows lead the code to return \<open>x\<close>.
\<close>

subsection \<open>Not before an event\<close>

type_synonym evidence = "Call \<Rightarrow> Reply \<Rightarrow> bool"

primrec until :: "allowed \<Rightarrow> evidence \<Rightarrow> (Call \<Rightarrow> bool) \<Rightarrow> ('a \<Rightarrow> bool) \<Rightarrow> 'a prog \<Rightarrow> bool" where
  "until A E W Q (Done x) = Q x"
| "until A E W Q (Crashed c) = True"
| "until A E W Q (KGet k g) = (\<not> W (CGet k) \<and>
     (\<forall>r. A (CGet k) (RObj r) \<longrightarrow> E (CGet k) (RObj r) \<or> until A E W Q (g r)))"
| "until A E W Q (KList k g) = (\<not> W (CList k) \<and>
     (\<forall>r. A (CList k) (RList r) \<longrightarrow> E (CList k) (RList r) \<or> until A E W Q (g r)))"
| "until A E W Q (KWrite w g) = (\<not> W (CWrite w) \<and>
     (\<forall>r. A (CWrite w) (RObj r) \<longrightarrow> E (CWrite w) (RObj r) \<or> until A E W Q (g r)))"
| "until A E W Q (Ext x g) = (\<not> W (CExt x) \<and>
     (\<forall>r. A (CExt x) (RStr r) \<longrightarrow> E (CExt x) (RStr r) \<or> until A E W Q (g r)))"
| "until A E W Q (Http q g) = (\<not> W (CHttp q) \<and>
     (\<forall>r. A (CHttp q) (RHttp r) \<longrightarrow> E (CHttp q) (RHttp r) \<or> until A E W Q (g r)))"
| "until A E W Q (Bootstrap c g) = (\<not> W (CBootstrap c) \<and>
     (\<forall>r. A (CBootstrap c) (RBoot r) \<longrightarrow> E (CBootstrap c) (RBoot r) \<or> until A E W Q (g r)))"
| "until A E W Q (Now g) = (\<not> W CNow \<and>
     (\<forall>r. A CNow (RTime r) \<longrightarrow> E CNow (RTime r) \<or> until A E W Q (g r)))"

lemma until_pbind: "until A E W Q (pbind m f) \<longleftrightarrow> until A E W (\<lambda>x. until A E W Q (f x)) m"
  by (induction m) auto

lemma until_mono:
  assumes "until A E W Q m" and "\<And>x. Q x \<Longrightarrow> R x"
  shows "until A E W R m"
  using assms by (induction m) auto

lemma until_weaken:
  assumes "until A E W Q m" and "\<And>c r. E c r \<Longrightarrow> E' c r" and "\<And>c. W' c \<Longrightarrow> W c"
  shows "until A E' W' Q m"
  using assms by (induction m) fastforce+

lemma until_every:
  assumes "every A P Q m" and "\<And>c. P c \<Longrightarrow> \<not> W c"
  shows "until A E W Q m"
  using assms by (induction m) auto

lemma until_tryE:
  assumes "until A E W (\<lambda>r. case r of Inl e \<Rightarrow> Q (Inl e) | Inr x \<Rightarrow> R x) m"
    and "\<And>x. R x \<Longrightarrow> until A E W Q (f x)"
  shows "until A E W Q (tryE m f)"
  unfolding tryE_def until_pbind
  by (rule until_mono [OF assms(1)]) (auto split: sum.splits intro: assms(2))

lemma until_orElseErr:
  assumes "until A E W (\<lambda>r. case r of Inl e \<Rightarrow> Q (h e) | Inr x \<Rightarrow> R x) m"
    and "\<And>x. R x \<Longrightarrow> until A E W Q (f x)"
  shows "until A E W Q (orElseErr h m f)"
  unfolding orElseErr_def until_pbind
  by (rule until_mono [OF assms(1)]) (auto split: sum.splits intro: assms(2))

lemma until_recovering:
  assumes "until A E W Q p" and "\<And>m. Q (h m)"
  shows "until A E W Q (recovering h p)"
  using assms by (induction p) (auto split: Crash.splits)

lemma until_and:
  assumes "until A E W Q m" and "every A P R m"
  shows "until A E W (\<lambda>x. Q x \<and> R x) m"
  using assms by (induction m) auto

text \<open>Code that cannot crash: \<open>recover\<close> has nothing to do.\<close>

primrec crash_free :: "'a prog \<Rightarrow> bool" where
  "crash_free (Done x) = True"
| "crash_free (Crashed c) = False"
| "crash_free (KGet k g) = (\<forall>r. crash_free (g r))"
| "crash_free (KList k g) = (\<forall>r. crash_free (g r))"
| "crash_free (KWrite w g) = (\<forall>r. crash_free (g r))"
| "crash_free (Ext x g) = (\<forall>r. crash_free (g r))"
| "crash_free (Http q g) = (\<forall>r. crash_free (g r))"
| "crash_free (Bootstrap c g) = (\<forall>r. crash_free (g r))"
| "crash_free (Now g) = (\<forall>r. crash_free (g r))"

lemma crash_free_pbind: "crash_free m \<Longrightarrow> (\<And>x. crash_free (f x)) \<Longrightarrow> crash_free (pbind m f)"
  by (induction m) auto

lemma recovering_crash_free: "crash_free p \<Longrightarrow> recovering h p = p"
  by (induction p) auto

text \<open>Success is an event, so nothing is asked of what follows.\<close>

lemma until_done_after:
  assumes "until A E W is_err m" and "\<And>e. Q (h e)"
  shows "until A E W Q (orElseErr h m f)"
  by (rule until_orElseErr [where R = "\<lambda>_. False"])
    (auto intro: until_mono [OF assms(1)] assms(2) split: sum.splits)

lemma until_step:
  "step p e p' \<Longrightarrow> until A E W Q p \<Longrightarrow> A (fst e) (snd e) \<Longrightarrow>
     \<not> W (fst e) \<and> (E (fst e) (snd e) \<or> until A E W Q p')"
  by (cases p) auto

lemma until_before:
  assumes "runs p tr out" and "until A E W Q p" and "\<forall>(c, r) \<in> set tr. A c r"
    and "tr = tr1 @ (c, r) # tr2" and "W c"
  shows "\<exists>(c', r') \<in> set tr1. E c' r'"
  using assms
proof (induction arbitrary: tr1 rule: runs.induct)
  case (call p e p' tr out)
  have "A (fst e) (snd e)" using call.prems(2) by (cases e) auto
  then have s: "\<not> W (fst e) \<and> (E (fst e) (snd e) \<or> until A E W Q p')"
    by (rule until_step [OF call.hyps(1) call.prems(1)])
  show ?case
  proof (cases tr1)
    case Nil
    with call.prems s show ?thesis by auto
  next
    case (Cons x xs)
    with call.prems have x: "e = x" "tr = xs @ (c, r) # tr2" by auto
    show ?thesis
    proof (cases "E (fst e) (snd e)")
      case True
      with Cons x show ?thesis by (intro bexI [of _ e]) (auto split: prod.splits)
    next
      case False
      with call.IH [of xs] call.prems s x show ?thesis by (auto simp: Cons)
    qed
  qed
qed auto

lemma until_success:
  assumes "runs p tr (Returned x)" and "until A E W Q p" and "\<forall>(c, r) \<in> set tr. A c r" and "\<not> Q x"
  shows "\<exists>(c', r') \<in> set tr. E c' r'"
  using assms
proof (induction p tr "Returned x" rule: runs.induct)
  case (call p e p' tr)
  have "A (fst e) (snd e)" using call.prems(2) by (cases e) auto
  then have "\<not> W (fst e) \<and> (E (fst e) (snd e) \<or> until A E W Q p')"
    by (rule until_step [OF call.hyps(1) call.prems(1)])
  with call show ?case by (auto split: prod.splits)
qed auto

subsection \<open>What the code can return\<close>

definition may :: "allowed \<Rightarrow> 'a prog \<Rightarrow> 'a \<Rightarrow> bool" where
  "may A p x \<longleftrightarrow> (\<exists>tr. runs p tr (Returned x) \<and> (\<forall>(c, r) \<in> set tr. A c r))"

lemma may_Done [simp]: "may A (Done x) y \<longleftrightarrow> x = y"
  by (auto simp: may_def)

lemma may_step:
  assumes "step p (c, r) p'" and "A c r" and "may A p' x"
  shows "may A p x"
proof -
  obtain tr where "runs p' tr (Returned x)" "\<forall>(c, r) \<in> set tr. A c r"
    using assms(3) by (auto simp: may_def)
  with assms(1,2) show ?thesis
    unfolding may_def by (intro exI [of _ "(c, r) # tr"]) (auto intro: runs.call)
qed

lemma may_KGet: "may A (g r) x \<Longrightarrow> A (CGet k) (RObj r) \<Longrightarrow> may A (KGet k g) x"
  by (rule may_step) auto

lemma may_KWrite: "may A (g r) x \<Longrightarrow> A (CWrite w) (RObj r) \<Longrightarrow> may A (KWrite w g) x"
  by (rule may_step) auto

lemma may_Ext: "may A (g r) x \<Longrightarrow> A (CExt c) (RStr r) \<Longrightarrow> may A (Ext c g) x"
  by (rule may_step) auto

lemma may_Http: "may A (g r) x \<Longrightarrow> A (CHttp q) (RHttp r) \<Longrightarrow> may A (Http q g) x"
  by (rule may_step) auto

lemma may_Bootstrap: "may A (g r) x \<Longrightarrow> A (CBootstrap c) (RBoot r) \<Longrightarrow> may A (Bootstrap c g) x"
  by (rule may_step) auto

lemma may_Now: "may A (g r) x \<Longrightarrow> A CNow (RTime r) \<Longrightarrow> may A (Now g) x"
  by (rule may_step) auto

lemma may_pbind:
  assumes "may A m y" and "may A (f y) x"
  shows "may A (pbind m f) x"
proof -
  obtain tr1 tr2 where "runs m tr1 (Returned y)" "runs (f y) tr2 (Returned x)"
    "\<forall>(c, r) \<in> set tr1. A c r" "\<forall>(c, r) \<in> set tr2. A c r"
    using assms unfolding may_def by blast
  then show ?thesis
    unfolding may_def by (intro exI [of _ "tr1 @ tr2"]) (auto intro: runs_pbindI)
qed

lemma may_orElseErr: "may A m (Inr y) \<Longrightarrow> may A (f y) x \<Longrightarrow> may A (orElseErr h m f) x"
  unfolding orElseErr_def by (rule may_pbind) auto

lemma may_tryE: "may A m (Inr y) \<Longrightarrow> may A (f y) x \<Longrightarrow> may A (tryE m f) x"
  unfolding tryE_def by (rule may_pbind) auto

lemma runs_recovering:
  "runs p tr (Returned x) \<Longrightarrow> runs (recovering h p) tr (Returned x)"
  by (induction p arbitrary: tr) auto

lemma may_recovering: "may A p x \<Longrightarrow> may A (recovering h p) x"
  by (auto simp: may_def intro: runs_recovering)

subsection \<open>From complete runs to a pool\<close>

text \<open>Goroutines that can each return can do so together: one after another is one schedule.\<close>

lemma pool_run_one:
  assumes "runs p tr out" and "out = Returned x" and "pool_run s0 tr0 s"
    and "i < length (pl_routines s)" and "pl_routines s ! i = Some p"
  shows "pool_run s0 (tr0 @ map (Pair i) tr)
           \<lparr>pl_routines = (pl_routines s)[i := None], pl_chan = pl_chan s @ [x]\<rparr>"
  using assms
proof (induction arbitrary: s tr0 rule: runs.induct)
  case (returned y)
  have "pool_step s [] (s\<lparr>pl_routines := (pl_routines s)[i := None], pl_chan := pl_chan s @ [y]\<rparr>)"
    using returned by (intro pool_step.send) auto
  with returned have "pool_run s0 (tr0 @ [])
      (s\<lparr>pl_routines := (pl_routines s)[i := None], pl_chan := pl_chan s @ [y]\<rparr>)"
    by (intro pool_run.move)
  with returned show ?case by (cases s) simp
next
  case (call p e p' tr out)
  let ?s = "s\<lparr>pl_routines := (pl_routines s)[i := Some p']\<rparr>"
  have "pool_step s [(i, e)] ?s"
    using call by (intro pool_step.routine_call) auto
  then have "pool_run s0 (tr0 @ [(i, e)]) ?s"
    using call.prems by (intro pool_run.move)
  from call.IH [OF _ this] call.prems show ?case by simp
qed auto

lemma pool_run_all:
  assumes "\<forall>i < length ps. may A (ps ! i) (xs ! i)" and "n \<le> length ps"
  shows "\<exists>tr. pool_run (start_pool ps) tr
           \<lparr>pl_routines = replicate n None @ map Some (drop n ps), pl_chan = map ((!) xs) [0..<n]\<rparr> \<and>
           (\<forall>(i, c, r) \<in> set tr. A c r)"
  using assms(2)
proof (induction n)
  case 0
  then show ?case by (auto simp: start_pool_def intro!: exI [of _ "[]"] pool_run.stop)
next
  case (Suc n)
  then obtain tr where tr: "pool_run (start_pool ps) tr
           \<lparr>pl_routines = replicate n None @ map Some (drop n ps), pl_chan = map ((!) xs) [0..<n]\<rparr>"
    "\<forall>(i, c, r) \<in> set tr. A c r"
    by auto
  obtain tr2 where tr2: "runs (ps ! n) tr2 (Returned (xs ! n))" "\<forall>(c, r) \<in> set tr2. A c r"
    using assms(1) Suc.prems unfolding may_def by (meson Suc_le_lessD)
  from pool_run_one [OF tr2(1) HOL.refl tr(1), of n] Suc.prems have
    "pool_run (start_pool ps) (tr @ map (Pair n) tr2)
       \<lparr>pl_routines = (replicate n None @ map Some (drop n ps))[n := None],
        pl_chan = map ((!) xs) [0..<n] @ [xs ! n]\<rparr>"
    by (auto simp: nth_append)
  moreover have "(replicate n None @ map Some (drop n ps))[n := None]
      = replicate (Suc n) None @ map Some (drop (Suc n) ps)"
    using Suc.prems
    by (simp add: list_update_append Cons_nth_drop_Suc [symmetric] replicate_append_same [symmetric])
  moreover have "\<forall>(i, c, r) \<in> set (tr @ map (Pair n) tr2). A c r"
    using tr(2) tr2(2) by auto
  ultimately show ?case by (intro exI [of _ "tr @ map (Pair n) tr2"]) simp
qed

end
