(* ===== verification/Footprints.thy ===== *)
theory Footprints
  imports States Orders
begin

text \<open>
  What each operation touches: the objects it reads and writes lie in the ControlPlane's
  namespace, are of the kinds the operation is for, and belong to the ControlPlane when they are
  created. The API server is assumed to answer with the object that was asked for.
\<close>

subsection \<open>The contract\<close>

fun honest :: allowed where
  "honest (CGet k) (RObj (Inr o1)) = (okey o1 = k)"
| "honest (CWrite w) (RObj (Inr o1)) = (okey o1 = write_key w)"
| "honest _ _ = True"

text \<open>
  A write the ControlPlane may make: of one of the kinds \<open>K\<close>, in its namespace; what is created
  has it for its controller; and only the two server certificates of the hub are ever deleted.
\<close>

fun own_write :: "ControlPlane \<Rightarrow> KWrite \<Rightarrow> bool" where
  "own_write cp (WCreate o1) = owned_by ''ControlPlane'' (cp_Meta cp) (o_Meta o1)"
| "own_write cp (WUpdate o1) = True"
| "own_write cp (WStatusUpdate o1) = False"
| "own_write cp (WDelete k) =
     (k \<in> {(KSecret, cp_Namespace cp, NatsSiteServerSecret),
            (KSecret, cp_Namespace cp, NatsMqttServerSecret)})"

fun touches :: "ControlPlane \<Rightarrow> Kind set \<Rightarrow> Call \<Rightarrow> bool" where
  "touches cp K (CGet k) = (fst (snd k) = cp_Namespace cp)"
| "touches cp K (CWrite w) =
     (fst (write_key w) \<in> K \<and> fst (snd (write_key w)) = cp_Namespace cp \<and> own_write cp w)"
| "touches cp K (CList k) = False"
| "touches cp K _ = True"

abbreviation safe :: "ControlPlane \<Rightarrow> Kind set \<Rightarrow> ('a \<Rightarrow> bool) \<Rightarrow> 'a prog \<Rightarrow> bool" where
  "safe cp K Q p \<equiv> every honest (touches cp K) Q p"

abbreviation within :: "ControlPlane \<Rightarrow> Kind set \<Rightarrow> 'a prog \<Rightarrow> bool" where
  "within cp K p \<equiv> safe cp K (\<lambda>x. True) p"

lemma touches_mono: "touches cp K c \<Longrightarrow> K \<subseteq> K' \<Longrightarrow> touches cp K' c"
  by (cases c) auto

lemma safe_more: "safe cp K Q p \<Longrightarrow> K \<subseteq> K' \<Longrightarrow> safe cp K' Q p"
  by (erule every_call_mono) (erule touches_mono)

lemma within_safe: "safe cp K Q p \<Longrightarrow> within cp K p"
  by (erule every_mono) simp

lemma safe_orElseErr:
  assumes "safe cp K R m" and "\<And>e. R (Inl e) \<Longrightarrow> Q (h e)" and "\<And>x. R (Inr x) \<Longrightarrow> safe cp K Q (f x)"
  shows "safe cp K Q (orElseErr h m f)"
  by (rule every_orElseErr [where R = "\<lambda>x. R (Inr x)"], rule every_mono [OF assms(1)])
    (auto intro: assms split: sum.splits)

lemma safe_orFail:
  assumes "safe cp K R m" and "\<And>x. R (Inr x) \<Longrightarrow> within cp K (f x)"
  shows "within cp K (orFail L m f)"
  unfolding orFail_def by (rule safe_orElseErr [OF assms(1)]) (simp_all add: assms(2))

lemma safe_tryE:
  assumes "safe cp K R m" and "\<And>e. R (Inl e) \<Longrightarrow> Q (Inl e)" and "\<And>x. R (Inr x) \<Longrightarrow> safe cp K Q (f x)"
  shows "safe cp K Q (tryE m f)"
  by (rule every_tryE [where R = "\<lambda>x. R (Inr x)"], rule every_mono [OF assms(1)])
    (auto intro: assms split: sum.splits)

lemma within_orElseErr:
  "within cp K m \<Longrightarrow> (\<And>x. within cp K (f x)) \<Longrightarrow> within cp K (orElseErr h m f)"
  by (rule safe_orElseErr)

lemma within_orFail:
  "within cp K m \<Longrightarrow> (\<And>x. within cp K (f x)) \<Longrightarrow> within cp K (orFail L m f)"
  unfolding orFail_def by (rule safe_orElseErr)

lemma within_tryE: "within cp K m \<Longrightarrow> (\<And>x. within cp K (f x)) \<Longrightarrow> within cp K (tryE m f)"
  by (rule safe_tryE)

lemma within_pbind: "within cp K m \<Longrightarrow> (\<And>x. within cp K (f x)) \<Longrightarrow> within cp K (pbind m f)"
  by (rule every_bindI)

lemma within_for_each:
  "(\<And>x. x \<in> set xs \<Longrightarrow> within cp K (f x)) \<Longrightarrow> within cp K (for_each f xs)"
  by (induction xs) (auto intro: within_tryE)

lemma safe_kget: "ns = cp_Namespace cp \<Longrightarrow> (\<And>r. honest (CGet (k, ns, n)) (RObj r) \<Longrightarrow> Q r) \<Longrightarrow>
    safe cp K Q (kget k ns n)"
  by (simp add: kget_def)

lemma within_ext: "within cp K (ext_call c)"
  by (simp add: ext_call_def)

lemma within_wait: "within cp K (waitForLoadBalancer ns n)"
  by (simp add: waitForLoadBalancer_def)

lemma within_wrapped: "within cp K p \<Longrightarrow> within cp K (wrapped m p)"
  unfolding wrapped_def by (erule within_pbind) simp

lemma within_kwrite: "touches cp K (CWrite w) \<Longrightarrow> within cp K (kwrite w)"
  by (simp add: kwrite_def)

subsection \<open>Owned objects\<close>

definition mine :: "ControlPlane \<Rightarrow> Kind set \<Rightarrow> KObj \<Rightarrow> bool" where
  "mine cp K o1 \<longleftrightarrow> kind_of (o_Payload o1) \<in> K \<and> m_namespace (o_Meta o1) = cp_Namespace cp"

lemma mine_iff: "mine cp K o1 \<longleftrightarrow> fst (okey o1) \<in> K \<and> fst (snd (okey o1)) = cp_Namespace cp"
  by (simp add: mine_def okey_def)

lemma mine_built [simp]:
  "mine cp K (newDeployment (cp_Namespace cp) i ms) \<longleftrightarrow> KDeployment \<in> K"
  "mine cp K (newStatefulSet (cp_Namespace cp) i ms) \<longleftrightarrow> KStatefulSet \<in> K"
  "mine cp K (newServiceAccount (cp_Namespace cp) i ms) \<longleftrightarrow> KServiceAccount \<in> K"
  "mine cp K (newRole (cp_Namespace cp) i ms) \<longleftrightarrow> KRole \<in> K"
  "mine cp K (newRoleBinding (cp_Namespace cp) i ms) \<longleftrightarrow> KRoleBinding \<in> K"
  "mine cp K (newRouterConfigMap (cp_Namespace cp) i) \<longleftrightarrow> KConfigMap \<in> K"
  "mine cp K (NewNatsConfigMap (cp_Namespace cp) i l c) \<longleftrightarrow> KConfigMap \<in> K"
  "mine cp K (NewJWTBundleConfigMap (cp_Namespace cp) l js) \<longleftrightarrow> KConfigMap \<in> K"
  "mine cp K (newControllerIngress (cp_Namespace cp) i icfg) \<longleftrightarrow> KIngress \<in> K"
  "mine cp K (newPVC cp ms n q) \<longleftrightarrow> KPVC \<in> K"
  "mine cp K (dataSecret n (cp_Namespace cp) l d) \<longleftrightarrow> KSecret \<in> K"
  "mine cp K (relabel l o1) \<longleftrightarrow> mine cp K o1"
  by (simp_all add: mine_def newDeployment_def newStatefulSet_def newServiceAccount_def newRole_def
      newRoleBinding_def newRouterConfigMap_def NewNatsConfigMap_def NewJWTBundleConfigMap_def
      newControllerIngress_def newPVC_def dataSecret_def relabel_def new_meta_def Let_def)

lemma mine_service: "s \<in> set (newServices (cp_Namespace cp) i ms) \<Longrightarrow> mine cp {KService} s"
  by (auto simp: newServices_def newService_def mine_def new_meta_def)

context library
begin

lemma setOwner_Inr:
  assumes "setOwner L cp o1 = Inr o2"
  shows "okey o2 = okey o1" and "o_Payload o2 = o_Payload o1"
    and "owned_by ''ControlPlane'' (cp_Meta cp) (o_Meta o2)"
  using assms reference_keeps reference_set
  by (auto simp: setOwner_def okey_def split: sum.splits)

text \<open>The rule for every object that is given its owner before it is written.\<close>

lemma with_owner_rule:
  assumes "\<And>o2. okey o2 = okey o1 \<Longrightarrow> o_Payload o2 = o_Payload o1 \<Longrightarrow>
      owned_by ''ControlPlane'' (cp_Meta cp) (o_Meta o2) \<Longrightarrow> every A P Q (f o2)"
    and "\<And>e. Q (Inl e)"
  shows "every A P Q (with_owner L cp o1 f)"
  using assms setOwner_Inr by (auto simp: with_owner_def split: sum.splits)

lemma within_with_owner:
  assumes "mine cp K o1"
    and "\<And>o2. mine cp K o2 \<Longrightarrow> owned_by ''ControlPlane'' (cp_Meta cp) (o_Meta o2) \<Longrightarrow> within cp K (f o2)"
  shows "within cp K (with_owner L cp o1 f)"
proof (rule with_owner_rule)
  fix o2
  assume "okey o2 = okey o1" "owned_by ''ControlPlane'' (cp_Meta cp) (o_Meta o2)"
  with assms show "within cp K (f o2)" by (simp add: mine_iff)
qed simp

lemma within_ensure [intro]:
  assumes "mine cp K o1" and "owned_by ''ControlPlane'' (cp_Meta cp) (o_Meta o1)"
  shows "within cp K (create_if_missing o1)" and "within cp K (create_or_update o1)"
    and "within cp K (ensure_account o1)"
  using assms
  by (auto simp: create_if_missing_def create_or_update_def ensure_account_def kwrite_def mine_iff
      split: sum.splits)

lemma within_operations:
  "within cp {KDeployment} (createDeployment L cp ms)"
  "within cp {KStatefulSet} (createStatefulSet L cp ms)"
  "within cp {KService} (createService L cp ms)"
  "within cp {KIngress} (createIngress L cp icfg)"
  "within cp {KRole} (createRole L cp ms)"
  "within cp {KRoleBinding} (createRoleBinding L cp ms)"
  "within cp {KPVC} (createPersistentVolumeClaims L cp ms)"
  unfolding createDeployment_def createStatefulSet_def createService_def createIngress_def
    createRole_def createRoleBinding_def createPersistentVolumeClaims_def
  by (auto intro!: within_with_owner within_for_each mine_service split: option.split)

lemma within_account: "within cp {KServiceAccount} (createServiceAccount L cp ms)"
proof -
  have "mine cp {KServiceAccount} (newServiceAccount (cp_Namespace cp) (cp_Name cp) ms
      \<lparr>o_Payload := PServiceAccount ns\<rparr>)" for ns
    by (simp add: mine_def newServiceAccount_def new_meta_def)
  then show ?thesis
    by (auto simp: createServiceAccount_def Let_def kget_def
        intro!: within_pbind within_with_owner split: sum.split)
qed

lemma within_secrets:
  assumes "\<And>s. s \<in> set (ms_secrets ms) \<Longrightarrow> mine cp {KSecret} s"
  shows "within cp {KSecret} (createSecrets L cp ms)"
  unfolding createSecrets_def createOrUpdateSecrets_def
  by (rule every_recovering, rule within_for_each, rule within_with_owner)
    (auto simp: assms)

lemma within_update_found:
  "okey o1 = (k, cp_Namespace cp, n) \<Longrightarrow> k \<in> K \<Longrightarrow> touches cp K (CWrite (WUpdate o1))"
  by simp

lemma okey_kept [simp]:
  "okey (o1\<lparr>o_Meta := (o_Meta o1)\<lparr>m_labels := l\<rparr>\<rparr>) = okey o1"
  "okey (o1\<lparr>o_Meta := (o_Meta o1)\<lparr>m_labels := l\<rparr>, o_Payload := p\<rparr>) =
     (kind_of p, m_namespace (o_Meta o1), m_name (o_Meta o1))"
  "okey (default_replicas o1) = okey o1"
  by (auto simp: okey_def default_replicas_def split: Payload.split)

lemma within_configmap: "within cp {KConfigMap} (createConfigMap L cp)"
  unfolding createConfigMap_def
  by (rule within_with_owner)
    (auto simp: merged_configmap_def crash_or_def mine_iff okey_def newRouterConfigMap_def new_meta_def intro!: within_kwrite split: sum.split)

lemma within_restart: "within cp {KDeployment} (restartPodsForDeployment n (cp_Namespace cp))"
  unfolding restartPodsForDeployment_def
  by (rule safe_tryE [OF safe_kget [where Q = "\<lambda>r. honest (CGet (KDeployment, cp_Namespace cp, n)) (RObj r)"]])
    (auto simp: kwrite_def split: sum.split)

subsection \<open>Credentials\<close>

lemma safe_reconcile_secret:
  assumes "mine cp {KSecret} s"
  shows "safe cp {KSecret} (\<lambda>r. case r of Inl e \<Rightarrow> True | Inr (b, s2) \<Rightarrow> mine cp {KSecret} s2)
           (reconcile_secret L cp s)"
  unfolding reconcile_secret_def
  by (rule with_owner_rule)
    (use assms in \<open>auto simp: mine_iff okey_def relabel_def split: sum.split\<close>)

lemma safe_reconcile_named:
  "list_all (mine cp {KSecret}) ss \<Longrightarrow>
   safe cp {KSecret} (\<lambda>r. case r of Inl e \<Rightarrow> True | Inr (b, ss2) \<Rightarrow> list_all (mine cp {KSecret}) ss2)
     (reconcile_named L cp n ss)"
proof (induction ss)
  case (Cons s ss)
  then have "mine cp {KSecret} s" by simp
  with Cons show ?case
    by (auto intro!: safe_tryE [OF safe_reconcile_secret] safe_tryE [OF Cons.IH])
qed simp

lemma safe_credentials:
  assumes "list_all (mine cp {KSecret}) (ms_secrets ms)"
  shows "safe cp {KSecret} (\<lambda>r. case r of Inl e \<Rightarrow> True
           | Inr (b, ms2) \<Rightarrow> list_all (mine cp {KSecret}) (ms_secrets ms2)) (reconcileDBCredentialsSecret L cp ms)"
    and "safe cp {KSecret} (\<lambda>r. case r of Inl e \<Rightarrow> True
           | Inr (b, ms2) \<Rightarrow> list_all (mine cp {KSecret}) (ms_secrets ms2)) (reconcileVaultCredentialsSecret L cp ms)"
  unfolding reconcileDBCredentialsSecret_def reconcileVaultCredentialsSecret_def
  by (rule safe_tryE [OF safe_reconcile_named [OF assms]]; auto)+

end

end
