(* ===== verification/Confinement.thy ===== *)
theory Confinement
  imports Footprints
begin

text \<open>
  The three routines stay within the ControlPlane's namespace: the footprints of the operations
  put together, for the secrets that are generated and for each routine.
\<close>

subsection \<open>Generated secrets\<close>

lemma mine_generated:
  "generated n s \<Longrightarrow> mine cp {KSecret} (in_namespace (cp_Namespace cp) l s)"
  by (auto simp: generated_def tlsSecret_def mine_def in_namespace_def)

lemma mine_annotate [simp]: "mine cp K (annotate k v s) \<longleftrightarrow> mine cp K s"
  by (simp add: mine_def annotate_def)

lemma safe_GenerateSecret: "safe cp K (generated n) (GenerateSecret L n subject hosts expiration ca)"
proof -
  have "crypto_call c \<Longrightarrow> touches cp K c" for c
    by (cases c rule: crypto_call.cases) simp_all
  then show ?thesis by (rule every_call_mono [OF GenerateSecret_every])
qed

abbreviation all_mine :: "ControlPlane \<Rightarrow> KObj list \<Rightarrow> bool" where
  "all_mine cp ss \<equiv> list_all (mine cp {KSecret}) ss"

lemma safe_ca:
  assumes "\<And>s. found = Some s \<Longrightarrow> mine cp {KSecret} s"
  shows "safe cp {KSecret} (\<lambda>(s, out). all_mine cp out) (router_ca L n (cp_Namespace cp) l found)"
    and "safe cp {KSecret} (\<lambda>(s, out). all_mine cp out) (ensure_ca L n (cp_Namespace cp) l found)"
  using assms
  by (auto simp: router_ca_def ensure_ca_def Let_def split: option.split
      intro!: every_bindI [OF safe_GenerateSecret] mine_generated)

lemma safe_server:
  assumes "\<And>s. found = Some s \<Longrightarrow> mine cp {KSecret} s"
  shows "safe cp {KSecret} (all_mine cp) (router_server L n sub hosts (cp_Namespace cp) l ca found)"
    and "safe cp {KSecret} (all_mine cp) (ensure_server L n sub hosts (cp_Namespace cp) l k ca found)"
  using assms
  by (auto simp: router_server_def ensure_server_def split: option.split
      intro!: every_bindI [OF safe_GenerateSecret] mine_generated)

lemma safe_lookup:
  assumes "\<And>found. (\<And>s. found = Some s \<Longrightarrow> mine cp {KSecret} s) \<Longrightarrow> safe cp {KSecret} Q (f found)"
  shows "safe cp {KSecret} Q (lookup_secret (cp_Namespace cp) n f)"
proof -
  have "safe cp {KSecret} Q (f None)" by (rule assms) simp
  moreover have "safe cp {KSecret} Q (f (Some s))" if "okey s = (KSecret, cp_Namespace cp, n)" for s
    using that by (intro assms) (auto simp: mine_iff)
  ultimately show ?thesis by (simp add: lookup_secret_def split: sum.split)
qed

lemma every_bind_pair:
  assumes "every A P (\<lambda>(x, y). R x y) m" and "\<And>x y. R x y \<Longrightarrow> every A P Q (f x y)"
  shows "every A P Q (pbind m (\<lambda>(x, y). f x y))"
  by (rule every_bindI [OF assms(1)]) (auto intro: assms(2))

lemma safe_routerSecrets:
  assumes "ms_secrets ms = []"
  shows "safe cp {KSecret} (\<lambda>r. case r of Inl e \<Rightarrow> True | Inr ms2 \<Rightarrow> all_mine cp (ms_secrets ms2))
           (createRouterSecrets L cp (cp_Namespace cp) ms address)"
proof -
  show ?thesis
    unfolding createRouterSecrets_def Let_def
  proof (rule every_recovering, rule safe_lookup, rule safe_lookup, rule safe_lookup, rule safe_lookup)
    fix a b c d :: "KObj option"
    assume found: "\<And>s. a = Some s \<Longrightarrow> mine cp {KSecret} s" "\<And>s. b = Some s \<Longrightarrow> mine cp {KSecret} s"
      "\<And>s. c = Some s \<Longrightarrow> mine cp {KSecret} s" "\<And>s. d = Some s \<Longrightarrow> mine cp {KSecret} s"
    let ?l = "getStandardLabels ''router'' (cp_Name cp)"
    let ?Q = "\<lambda>r. case r of Inl e \<Rightarrow> True | Inr ms2 \<Rightarrow> all_mine cp (ms_secrets ms2)"
    have "safe cp {KSecret} ?Q
      (pbind (router_ca L SiteCaSecret (cp_Namespace cp) ?l a) (\<lambda>(siteCA, out1).
       pbind (router_ca L LocalCaSecret (cp_Namespace cp) ?l b) (\<lambda>(localCA, out2).
       pbind (router_server L SiteServerSecret ''iofog-router'' h (cp_Namespace cp) ?l siteCA c) (\<lambda>out3.
       pbind (router_server L LocalServerSecret ''iofog-router-local'' h (cp_Namespace cp) ?l localCA d) (\<lambda>out4.
         Done (Inr (ms\<lparr>ms_secrets := ms_secrets ms @ out1 @ out2 @ out3 @ out4\<rparr>)))))))" for h
      by (rule every_bind_pair [OF safe_ca(1) [OF found(1)]], assumption,
          rule every_bind_pair [OF safe_ca(1) [OF found(2)]], assumption,
          rule every_bindI [OF safe_server(1) [OF found(3)]], assumption,
          rule every_bindI [OF safe_server(1) [OF found(4)]], assumption)
        (simp add: assms)
    with found assms show "safe cp {KSecret} ?Q
       (if a \<noteq> None \<and> b \<noteq> None \<and> c \<noteq> None \<and> d \<noteq> None
        then Done (Inr (ms\<lparr>ms_secrets := ms_secrets ms @ [the c, the d]\<rparr>))
        else pbind (router_ca L SiteCaSecret (cp_Namespace cp) ?l a) (\<lambda>(siteCA, out1).
          pbind (router_ca L LocalCaSecret (cp_Namespace cp) ?l b) (\<lambda>(localCA, out2).
          pbind (router_server L SiteServerSecret ''iofog-router''
                   (routerSecretAddress (ms_name ms) (cp_Namespace cp) address) (cp_Namespace cp) ?l siteCA c) (\<lambda>out3.
          pbind (router_server L LocalServerSecret ''iofog-router-local''
                   (routerSecretAddress (ms_name ms) (cp_Namespace cp) address) (cp_Namespace cp) ?l localCA d) (\<lambda>out4.
            Done (Inr (ms\<lparr>ms_secrets := ms_secrets ms @ out1 @ out2 @ out3 @ out4\<rparr>)))))))"
      by auto
  qed simp
qed

context library
begin

lemma within_router: "within cp UNIV (reconcileRouter L cp)"
proof -
  have ms: "ms_secrets (hd (newRouterMicroservices L (routerConfig cp))) = []"
    by (simp add: newRouterMicroservices_def newRouterMicroservice_def Let_def empty_microservice_def)
  have all: "within cp UNIV p" if "within cp K p" for K and p :: "'a prog"
    using that by (rule safe_more) simp
  have addr: "within cp UNIV (routerAddress cp n)" for n
    by (simp add: routerAddress_def within_wait)
  have secrets: "safe cp UNIV (\<lambda>r. case r of Inl e \<Rightarrow> True | Inr ms2 \<Rightarrow> all_mine cp (ms_secrets ms2))
      (createRouterSecrets L cp (cp_Namespace cp) (hd (newRouterMicroservices L (routerConfig cp))) a)" for a
    by (rule safe_more [OF safe_routerSecrets [OF ms]]) simp
  have deploy: "within cp UNIV (for_each (createDeployment L cp) mss)" for mss
    by (rule all [OF within_for_each]) (rule within_operations(1))
  show ?thesis
    unfolding reconcileRouter_def Let_def newK8sClient_def
    by (rule within_orFail [OF all [OF within_account]], rule within_orFail [OF all [OF within_operations(5)]],
        rule within_orFail [OF all [OF within_operations(6)]], rule within_orFail [OF all [OF within_operations(3)]],
        rule within_orFail [OF within_ext], rule within_orFail [OF addr], unfold orFail_def,
        rule safe_orElseErr [OF secrets], simp, rule within_orElseErr [OF all [OF within_secrets]],
        simp add: list_all_iff, rule within_orElseErr [OF all [OF within_configmap]],
        rule within_orElseErr [OF deploy]) simp
qed

subsection \<open>The hub\<close>

lemma within_any: "within cp K p \<Longrightarrow> within cp UNIV p"
  by (erule safe_more) simp

lemma within_client: "within cp K (getIofogClient L scheme host port)"
  by (simp add: getIofogClient_def Let_def split: option.split)

lemma within_with_client:
  "within cp K p \<Longrightarrow> (\<And>c. within cp K (f c)) \<Longrightarrow> within cp K (with_client L p f)"
  unfolding with_client_def by (erule within_pbind) (auto split: option.split)

lemma within_logged_in: "(\<And>c. within cp K (f c)) \<Longrightarrow> within cp K (logged_in L cp2 c0 f)"
  unfolding logged_in_def
  by (rule within_pbind) (auto simp: loginIofogClient_def Let_def split: option.split sum.split)

lemma within_create_secret:
  assumes "mine cp {KSecret} s"
  shows "within cp {KSecret} (createOrUpdateSecret L cp l s)" and "within cp {KSecret} (createOwned L cp s)"
proof -
  show "within cp {KSecret} (createOrUpdateSecret L cp l s)"
    unfolding createOrUpdateSecret_def
  proof (rule within_with_owner [OF assms])
    fix o2
    assume o2: "mine cp {KSecret} o2" "owned_by ''ControlPlane'' (cp_Meta cp) (o_Meta o2)"
    then have "within cp {KSecret} (kwrite (WUpdate (existing
          \<lparr>o_Payload := PSecret d, o_Meta := (o_Meta existing)\<lparr>m_labels := m\<rparr>\<rparr>)))"
      if "okey existing = okey o2" for existing d m
      using that by (intro within_kwrite) (simp add: mine_iff okey_def)
    with o2 show "within cp {KSecret} (KWrite (WCreate o2) (\<lambda>r. case r of
         Inr s1 \<Rightarrow> Done (Inr ())
       | Inl e \<Rightarrow>
           if \<not> IsAlreadyExists e then Done (Inl e)
           else KGet (okey o2) (\<lambda>r2. case r2 of
             Inl e2 \<Rightarrow> Done (Inl e2)
           | Inr existing \<Rightarrow>
               let d = the_secret (o_Payload existing) in
               kwrite (WUpdate (existing
                 \<lparr>o_Payload := PSecret (d\<lparr>sec_Data := sec_Data (the_secret (o_Payload o2))\<rparr>),
                  o_Meta := (o_Meta existing)\<lparr>m_labels :=
                    mergeLabels l (m_labels (o_Meta existing))\<rparr>\<rparr>)))))"
      by (auto simp: mine_iff Let_def split: sum.split)
  qed
  show "within cp {KSecret} (createOwned L cp s)"
    unfolding createOwned_def
    by (rule within_with_owner [OF assms], rule within_kwrite) (simp add: mine_iff)
qed

lemma within_createIfAbsent:
  assumes "mine cp K o1"
  shows "within cp K (createIfAbsent L cp o1)"
  unfolding createIfAbsent_def
  by (rule within_with_owner [OF assms]) (simp add: mine_iff)

lemma within_bootstrap:
  assumes "\<And>boot. within cp UNIV (f boot)"
  shows "within cp UNIV (bootstrapNats L cp c f)"
proof -
  let ?l = "getStandardLabels ''nats'' (cp_Name cp)"
  have resp: "within cp UNIV (wrapped m (Bootstrap c Done))" for m
    by (rule within_wrapped) simp
  have secret: "within cp UNIV (wrapped m (createOrUpdateSecret L cp l (dataSecret n (cp_Namespace cp) l2 d)))"
    for m l n l2 d
    by (rule within_wrapped, rule within_any, rule within_create_secret) simp
  have boot: "within cp UNIV (EnsureNatsBootstrapFromController L (createOrUpdateSecret L cp ?l)
      (cp_Namespace cp) ?l r)" for r
    unfolding EnsureNatsBootstrapFromController_def
    by (auto split: option.split intro!: within_tryE secret)
  have key: "within cp UNIV (EnsureJetStreamKeySecret (kget KSecret) (createOwned L cp) (cp_Namespace cp)
      (cp_Name cp) ?l)"
    unfolding EnsureJetStreamKeySecret_def Let_def
    by (rule within_pbind)
      (auto simp: kget_def split: sum.split intro!: within_tryE within_any [OF within_create_secret(2)])
  show ?thesis
    unfolding bootstrapNats_def Let_def
    by (rule within_orFail [OF resp], rule within_orFail [OF boot], rule within_orFail [OF key], rule assms)
qed

lemma safe_tls:
  "safe cp {KSecret} (\<lambda>r. case r of Inl e \<Rightarrow> True | Inr ss \<Rightarrow> all_mine cp ss)
     (EnsureNatsSecrets L (kget KSecret) (cp_Namespace cp) i h k a l)" (is "safe _ _ ?Q _")
proof -
  have found: "safe cp {KSecret} (\<lambda>r. case r of Inl e \<Rightarrow> True | Inr f \<Rightarrow> (\<forall>s. f = Some s \<longrightarrow> mine cp {KSecret} s))
      (find_secret (kget KSecret) (cp_Namespace cp) n)" for n
    by (auto simp: find_secret_def kget_def mine_iff split: sum.split)
  have next1: "safe cp {KSecret} ?Q (tryE (find_secret (kget KSecret) (cp_Namespace cp) n) f)"
    if "\<And>found. (\<And>s. found = Some s \<Longrightarrow> mine cp {KSecret} s) \<Longrightarrow> safe cp {KSecret} ?Q (f found)" for n f
    by (rule safe_tryE [OF found]) (auto intro: that)
  show ?thesis
    unfolding EnsureNatsSecrets_def Let_def
    by ((rule next1)+, rule every_bind_pair [OF safe_ca(2)], assumption, rule every_bind_pair [OF safe_ca(2)],
        assumption, rule every_bindI [OF safe_server(2)], assumption, rule every_bindI [OF safe_server(2)],
        assumption) simp
qed

lemma within_stale: "within cp {KSecret} (dropStaleCertificates (cp_Namespace cp) k)"
  by (auto simp: dropStaleCertificates_def deleteSecret_def split: sum.split intro!: within_tryE)

lemma within_maps: "within cp {KConfigMap} (natsConfigMaps L cp l boot a)"
proof -
  have wr: "within cp {KConfigMap} (writeNatsConfigMap l2 o1)"
    if "mine cp {KConfigMap} o1" "owned_by ''ControlPlane'' (cp_Meta cp) (o_Meta o1)" for l2 o1
    using that by (auto simp: writeNatsConfigMap_def mine_iff kwrite_def okey_def split: sum.split)
  show ?thesis
    unfolding natsConfigMaps_def Let_def
    by (rule within_tryE) (auto simp: kget_def intro!: within_with_owner within_tryE wr within_createIfAbsent)
qed

lemma within_deploy: "within cp UNIV (deployNats L cp boot ms)"
proof -
  have addr: "within cp UNIV (natsAddressOf cp)"
    by (auto simp: natsAddressOf_def newK8sClient_def intro: within_tryE within_ext within_wait)
  have ann: "within cp UNIV (podAnnotations L (cp_Namespace cp) k f)" if "\<And>a. within cp UNIV (f a)" for k f
    using that by (simp add: podAnnotations_def Let_def split: sum.split)
  have tls: "safe cp UNIV (\<lambda>r. case r of Inl e \<Rightarrow> True | Inr ss \<Rightarrow> all_mine cp ss)
     (EnsureNatsSecrets L (kget KSecret) (cp_Namespace cp) i h k a l)" for i h k a l
    by (rule safe_more [OF safe_tls]) simp
  have create: "within cp UNIV (for_each (createIfAbsent L cp) ss)" if "all_mine cp ss" for ss
    using that by (intro within_any [OF within_for_each [where K = "{KSecret}"]] within_createIfAbsent)
      (simp add: list_all_iff)
  show ?thesis
    unfolding deployNats_def Let_def
    by (rule within_orFail [OF within_any [OF within_account]],
        rule within_orFail [OF within_any [OF within_operations(5)]],
        rule within_orFail [OF within_any [OF within_operations(6)]],
        rule within_orFail [OF within_any [OF within_operations(3)]], rule within_orFail [OF addr],
        rule within_orFail [OF within_any [OF within_stale]], unfold orFail_def,
        rule safe_orElseErr [OF tls], simp, rule within_orElseErr [OF create], simp,
        rule within_orElseErr [OF within_any [OF within_maps]], rule ann,
        rule within_orElseErr [OF within_any [OF within_operations(2)]]) simp
qed

lemma within_nats: "within cp UNIV (reconcileNats L cp)"
  unfolding reconcileNats_def getControllerClientForNats_def Let_def
  by (auto intro!: within_with_client within_client within_logged_in within_bootstrap
      simp: crash_or_def within_deploy split: sum.split)

subsection \<open>The controller\<close>

lemma within_objects:
  assumes "all_mine cp (ms_secrets ms)" and "\<And>b e. within cp UNIV (f b e)"
  shows "within cp UNIV (controllerObjects L cp ms f)"
proof -
  let ?Q = "\<lambda>r :: GoError + bool \<times> microservice.
    case r of Inl e \<Rightarrow> True | Inr (b, ms2) \<Rightarrow> all_mine cp (ms_secrets ms2)"
  have db: "safe cp UNIV ?Q (reconcileDBCredentialsSecret L cp m)"
    and vault: "safe cp UNIV ?Q (reconcileVaultCredentialsSecret L cp m)"
    if "all_mine cp (ms_secrets m)" for m
    using safe_more [OF safe_credentials(1) [OF that]] safe_more [OF safe_credentials(2) [OF that]] by auto
  have exists: "within cp UNIV (deploymentExists (cp_Namespace cp) n)" for n
    unfolding deploymentExists_def by (rule within_pbind) (simp_all add: kget_def)
  note ops = within_any [OF within_operations(1)] within_any [OF within_operations(3)]
    within_any [OF within_operations(4)] within_any [OF within_operations(7)]
  have rest: "within cp UNIV
    (orFail L (createSecrets L cp m) (\<lambda>_. orFail L (createService L cp m) (\<lambda>_.
     orFail L ing (\<lambda>_.
     orFail L (createPersistentVolumeClaims L cp m) (\<lambda>_.
     orFail L (deploymentExists (cp_Namespace cp) (ms_name m)) (\<lambda>e.
     orFail L (createDeployment L cp m) (\<lambda>_. f r e)))))))"
    if "all_mine cp (ms_secrets m)" "within cp UNIV ing" for m r and ing :: "(GoError + unit) prog"
    by (rule within_orFail [OF within_any [OF within_secrets]])
      (use that in \<open>auto simp: list_all_iff assms(2) intro!: within_orFail ops exists\<close>)
  show ?thesis
    unfolding controllerObjects_def
    by (rule within_orFail [OF within_any [OF within_account]],
        rule within_orFail [OF within_any [OF within_operations(5)]],
        rule within_orFail [OF within_any [OF within_operations(6)]],
        rule safe_orFail [OF db [OF assms(1)]])
      (auto intro!: safe_orFail [OF vault] rest ops)
qed

lemma within_controller: "within cp UNIV (reconcileIofogController L cp)"
proof -
  let ?ms = "newControllerMicroservice L (cp_Namespace cp) (controllerConfig cp)"
  have "ms_secrets ?ms = buildControllerSecrets (cp_Namespace cp) (filterControllerConfig L (controllerConfig cp))"
    by (simp add: newControllerMicroservice_def Let_def withTls_def withSqlite_def addEnv_def
        addMount_def addVolume_def controllerBase_def first_container_def)
  then have secrets: "all_mine cp (ms_secrets ?ms)"
    by (auto simp: buildControllerSecrets_def buildVaultCredentialsSecret_def opaqueSecret_def mine_def
        new_meta_def split: option.splits)
  have import_: "within cp UNIV (import_all L c ns)" for c ns
    by (induction ns) (auto simp: ImportRouterCACertificate_def ext_call_def split: sum.split
        intro!: within_orElseErr)
  have certs: "within cp UNIV (ImportCertificates L cp c)" for c
    unfolding ImportCertificates_def by (rule import_)
  have proxy: "within cp UNIV (routerProxyOf cp)" "within cp UNIV (natsIngressOf cp)"
    by (auto simp: routerProxyOf_def natsIngressOf_def Let_def intro!: within_tryE within_wait)
  have viewer: "within cp UNIV (UpdateECNViewerClientRootURL L a u)" for a u
    by (auto simp: UpdateECNViewerClientRootURL_def prefixed_def getKeycloakClientID_def
        updateClientRootURL_def Let_def split: option.split sum.split
        intro!: within_tryE within_pbind)
  have finish: "within cp UNIV (finishController L cp m b e)" for m b e
    using within_any [OF within_restart] viewer
    by (auto simp: finishController_def intro!: within_orFail within_pbind)
  have lb: "within cp UNIV (loadBalancerEndpoint L cp p f)" if "\<And>e. within cp UNIV (f e)" for p f
    using that by (auto simp: loadBalancerEndpoint_def intro!: within_orFail within_wait within_pbind within_client)
  have ing: "within cp UNIV (ingressEndpoint L cp e f)" if "\<And>e. within cp UNIV (f e)" for e f
    using that by (auto simp: ingressEndpoint_def kget_def intro!: within_orFail within_wrapped)
  have nats: "within cp UNIV (registerNatsHub L cp c rest)" if "within cp UNIV rest" for c rest
    using that proxy(2)
    by (auto simp: registerNatsHub_def createDefaultNatsHub_def ext_call_def
        intro!: within_orFail within_orElseErr)
  have "within cp UNIV (registerController L cp m b)" for m b
    by (auto simp: registerController_def newK8sClient_def createDefaultRouter_def
        split: sum.split intro!: within_with_client within_client within_logged_in within_orFail
        within_ext proxy nats within_pbind certs lb ing finish)
  then show ?thesis
    unfolding reconcileIofogController_def Let_def
    by (intro within_objects [OF secrets]) simp
qed

end

lemma routines_touch:
  assumes "library L" and "p \<in> set (routines L cp)" and "runs p tr out"
    and "\<forall>(c, r) \<in> set tr. honest c r"
  shows "\<forall>(c, r) \<in> set tr. touches cp UNIV c"
proof -
  have "within cp UNIV p"
    using assms(2) library.within_router [OF assms(1)] library.within_nats [OF assms(1)]
      library.within_controller [OF assms(1)] by (auto simp: routines_def)
  from every_runs [OF assms(3) this assms(4)] show ?thesis by auto
qed

text \<open>
  C5: The routines of a reconcile keep to themselves: every object they read or write is in the
  namespace of their ControlPlane, what they create has it as its controlling owner, so that it
  is collected with it, they never write a status, never list, and the only objects they ever
  delete are the hub's two server certificates.
\<close>

theorem routines_confined:
  assumes "library L" and "p \<in> set (routines L cp)" and "runs p tr out"
    and "\<forall>(c, r) \<in> set tr. honest c r"
  shows "\<forall>(c, r) \<in> set tr. touches cp UNIV c"
  using routines_touch [OF assms] .

lemma router_pull_secret [simp]: "rr_imagePullSecret (filterRouterConfig L cfg) = rr_imagePullSecret cfg"
  by (simp add: filterRouterConfig_def Let_def if_distrib [of rr_imagePullSecret] cong: if_cong)

lemma account_first:
  fixes cp
  defines "ms \<equiv> hd (newRouterMicroservices lib_ref (routerConfig cp))"
  assumes "img_PullSecret (spec_Images (cp_Spec cp)) = []"
  shows "\<exists>o1 a. runs (reconcileRouter lib_ref cp)
      [(CGet (okey o1), RObj (Inl \<lparr>err_Reason = NotFound, err_Msg = []\<rparr>)),
       (CWrite (WCreate o1), RObj (Inl (new_error ''forbidden'')))] (Returned a)"
proof -
  have "ms_imagePullSecret ms = []"
    using assms(2) by (simp add: ms_def newRouterMicroservices_def newRouterMicroservice_def
        routerConfig_def Let_def empty_microservice_def)
  moreover have "\<exists>m. lib_setref lib_ref ''ControlPlane'' (cp_Meta cp)
      (o_Meta (newServiceAccount (cp_Namespace cp) (cp_Name cp) ms)) = Inr m"
    by (simp add: lib_ref_def setref_ref_def newServiceAccount_def new_meta_def Let_def)
  then obtain m where "lib_setref lib_ref ''ControlPlane'' (cp_Meta cp)
      (o_Meta (newServiceAccount (cp_Namespace cp) (cp_Name cp) ms)) = Inr m" ..
  ultimately show ?thesis
    by (intro exI [of _ "newServiceAccount (cp_Namespace cp) (cp_Name cp) ms\<lparr>o_Meta := m\<rparr>"] exI)
      (simp add: reconcileRouter_def Let_def orFail_def orElseErr_def createServiceAccount_def
        with_owner_def setOwner_def ensure_account_def new_error_def ms_def [symmetric])
qed

lemma routines_confined_witness:
  "\<exists>o1 a. runs (reconcileRouter lib_ref empty_cp)
      [(CGet (okey o1), RObj (Inl \<lparr>err_Reason = NotFound, err_Msg = []\<rparr>)),
       (CWrite (WCreate o1), RObj (Inl (new_error ''forbidden'')))] (Returned a) \<and>
     touches empty_cp UNIV (CWrite (WCreate o1))"
proof -
  have no_secret: "img_PullSecret (spec_Images (cp_Spec empty_cp)) = []"
    by (simp add: empty_cp_def empty_spec_def Let_def)
  from account_first [OF this] obtain o1 a where
    r: "runs (reconcileRouter lib_ref empty_cp)
      [(CGet (okey o1), RObj (Inl \<lparr>err_Reason = NotFound, err_Msg = []\<rparr>)),
       (CWrite (WCreate o1), RObj (Inl (new_error ''forbidden'')))] (Returned a)" by blast
  have "reconcileRouter lib_ref empty_cp \<in> set (routines lib_ref empty_cp)" by (simp add: routines_def)
  from routines_confined [OF lib_ref.library_axioms this r] r show ?thesis by auto
qed

end
