(* ===== verification/Ensure.thy ===== *)
theory Ensure
  imports Footprints
begin

text \<open>
  The interface of the operations that make sure an object is there: whichever of them is used,
  success means the API server has confirmed the object, and no other object is touched. On it
  rest the order of the steps in the routines: what a workload needs is there before it is.
\<close>

subsection \<open>The contract\<close>

text \<open>The answers that show an object of the key to exist.\<close>

fun present :: "okey \<Rightarrow> evidence" where
  "present k (CGet k') (RObj (Inr o1)) = (k' = k)"
| "present k (CWrite (WCreate o2)) (RObj (Inr o1)) = (okey o2 = k)"
| "present k (CWrite (WCreate o2)) (RObj (Inl e)) = (okey o2 = k \<and> IsAlreadyExists e)"
| "present k (CWrite (WUpdate o2)) (RObj (Inr o1)) = (okey o2 = k)"
| "present k _ _ = False"

fun elsewhere :: "okey \<Rightarrow> Call \<Rightarrow> bool" where
  "elsewhere k (CGet k') = (k' \<noteq> k)"
| "elsewhere k (CWrite w) = (write_key w \<noteq> k)"
| "elsewhere k _ = True"

fun writes_kind :: "Kind \<Rightarrow> Call \<Rightarrow> bool" where
  "writes_kind D (CWrite w) = (fst (write_key w) = D)"
| "writes_kind D _ = False"

fun updates :: "Call \<Rightarrow> bool" where
  "updates (CWrite (WCreate o1)) = False"
| "updates (CWrite w) = True"
| "updates _ = False"

lemma writes_kind_elsewhere: "writes_kind D c \<Longrightarrow> fst k \<noteq> D \<Longrightarrow> elsewhere k c"
  by (cases c) auto

locale ensurer =
  fixes ensure :: "KObj \<Rightarrow> (GoError + unit) prog"
  assumes success_present: "until A (present (okey o1)) (elsewhere (okey o1)) is_err (ensure o1)"
    and only_there: "every A (\<lambda>c. \<not> elsewhere (okey o1) c) (\<lambda>x. True) (ensure o1)"

text \<open>One that leaves an object alone that is there already.\<close>

locale keeper = ensurer +
  assumes never_updates: "every A (\<lambda>c. \<not> updates c) (\<lambda>x. True) (ensure o1)"

locale owned_ensurer = library L + ensurer ensure for L ensure
begin

lemma owned_rule:
  assumes "\<And>o2. okey o2 = okey o1 \<Longrightarrow> until A E W Q (f o2)" and "\<And>e. Q (Inl e)"
  shows "until A E W Q (with_owner L cp o1 f)"
  using assms setOwner_Inr(1) by (auto simp: with_owner_def split: sum.splits)

lemma owned_present:
  assumes "fst (okey o1) \<noteq> D"
  shows "until A (present (okey o1)) (writes_kind D) is_err (with_owner L cp o1 ensure)"
proof (rule owned_rule)
  fix o2 assume o2: "okey o2 = okey o1"
  show "until A (present (okey o1)) (writes_kind D) is_err (ensure o2)"
    by (rule until_weaken [OF success_present [of A o2]])
      (use assms in \<open>auto simp: o2 intro: writes_kind_elsewhere\<close>)
qed simp

lemma owned_elsewhere:
  assumes "fst (okey o1) \<noteq> D"
  shows "until A E (writes_kind D) (\<lambda>x. True) (with_owner L cp o1 ensure)"
proof (rule owned_rule)
  fix o2 assume "okey o2 = okey o1"
  then show "until A E (writes_kind D) (\<lambda>x. True) (ensure o2)"
    using assms by (intro until_every [OF only_there]) (auto dest: writes_kind_elsewhere)
qed simp

text \<open>After a loop over objects each of them is there.\<close>

lemma all_present:
  assumes "o1 \<in> set os" and "\<forall>o2 \<in> set os. fst (okey o2) \<noteq> D"
  shows "until A (present (okey o1)) (writes_kind D) is_err
           (for_each (\<lambda>o2. with_owner L cp o2 ensure) os)"
  using assms
proof (induction os)
  case (Cons o2 os)
  show ?case
  proof (cases "o2 = o1")
    case True
    with Cons.prems have "until A (present (okey o1)) (writes_kind D) is_err (with_owner L cp o2 ensure)"
      by (auto intro: owned_present)
    then show ?thesis
      by (auto intro!: until_tryE [where R = "\<lambda>_. False"] elim!: until_mono split: sum.splits)
  next
    case False
    with Cons have "until A (present (okey o1)) (writes_kind D) is_err
        (for_each (\<lambda>o2. with_owner L cp o2 ensure) os)" by auto
    moreover have "until A (present (okey o1)) (writes_kind D) (\<lambda>x. True) (with_owner L cp o2 ensure)"
      using Cons.prems by (intro owned_elsewhere) auto
    ultimately show ?thesis
      by (auto intro!: until_tryE [where R = "\<lambda>_. True"] elim!: until_mono split: sum.splits)
  qed
qed simp

end

subsection \<open>The operations that keep it\<close>

interpretation if_missing: keeper create_if_missing
  by unfold_locales (auto simp: create_if_missing_def kwrite_def split: sum.split)

interpretation account: keeper ensure_account
  by unfold_locales (auto simp: ensure_account_def split: sum.split)

interpretation overwrite: ensurer create_or_update
  by unfold_locales (auto simp: create_or_update_def kwrite_def split: sum.split)

sublocale library \<subseteq> missing: owned_ensurer L create_if_missing
  by (intro owned_ensurer.intro library_axioms if_missing.ensurer_axioms)

sublocale library \<subseteq> accounts: owned_ensurer L ensure_account
  by (intro owned_ensurer.intro library_axioms account.ensurer_axioms)

sublocale library \<subseteq> overwriting: owned_ensurer L create_or_update
  by (intro owned_ensurer.intro library_axioms overwrite.ensurer_axioms)

lemma with_owner_every:
  assumes "\<And>o2. every A P Q (f o2)" and "\<And>e. Q (Inl e)"
  shows "every A P Q (with_owner L cp o1 f)"
  using assms by (auto simp: with_owner_def split: sum.split)

lemma for_each_every:
  assumes "\<And>x. x \<in> set xs \<Longrightarrow> every A P (\<lambda>r. True) (f x)"
  shows "every A P (\<lambda>r. True) (for_each f xs)"
  using assms by (induction xs) (auto intro!: every_tryE [where R = "\<lambda>_. True"] elim!: every_mono split: sum.splits)

text \<open>
  C25: Whatever exists is left as it is by the operations that only create: services, secrets,
  roles, role bindings, service accounts and volume claims that were edited by hand are never
  overwritten, whatever the API server answers.
\<close>

theorem creators_never_overwrite:
  "list_all (every any_reply (\<lambda>c. \<not> updates c) (\<lambda>r. True))
     [createService L cp ms, createSecrets L cp ms, createRole L cp ms, createRoleBinding L cp ms,
      createServiceAccount L cp ms, createPersistentVolumeClaims L cp ms]"
  by (auto simp: createService_def createSecrets_def createOrUpdateSecrets_def createRole_def
      createRoleBinding_def createServiceAccount_def createPersistentVolumeClaims_def Let_def kget_def
      intro!: with_owner_every for_each_every if_missing.never_updates account.never_updates
        every_recovering every_bindI [where R = "\<lambda>_. True"] split: option.split sum.split)

end
