(* ===== verification/Reconciling.thy ===== *)
theory Reconciling
  imports States Orders
begin

text \<open>
  One reconcile of a ControlPlane as a whole: what the results of the routines come to in
  whatever order they arrive, when the ControlPlane is called ready, and what is done in each
  of its states.
\<close>

subsection \<open>The results of the routines\<close>

lemma collect_fields [simp]:
  "rc_Requeue (collect f r) \<longleftrightarrow> rc_Requeue f \<or> rc_Requeue r"
  "rc_End (collect f r) \<longleftrightarrow> rc_End f \<or> rc_End r"
  "rc_Delay (collect f r) = (if rc_Requeue r then max (rc_Delay f) (rc_Delay r) else rc_Delay f)"
  "rc_Err (collect f r) =
     (case rc_Err r of None \<Rightarrow> rc_Err f
      | Some e \<Rightarrow> Some (case rc_Err f of None \<Rightarrow> e
                        | Some e0 \<Rightarrow> new_error (err_Msg e0 @ [CHR 0x0A] @ err_Msg e)))"
  by (auto simp: collect_def Let_def split: option.splits)

definition errors_of :: "Reconciliation list \<Rightarrow> GoError list" where
  "errors_of rs = map the (filter (\<lambda>e. e \<noteq> None) (map rc_Err rs))"

lemma errors_of_simps [simp]:
  "errors_of [] = []"
  "errors_of (r # rs) = (case rc_Err r of None \<Rightarrow> errors_of rs | Some e \<Rightarrow> e # errors_of rs)"
  by (auto simp: errors_of_def split: option.splits)

lemma errors_of_empty: "errors_of rs = [] \<longleftrightarrow> (\<forall>r \<in> set rs. rc_Err r = None)"
  by (induction rs) (auto split: option.splits)

lemma join_merge: "join sep ((a @ sep @ b) # xs) = join sep (a # b # xs)"
  by (cases xs) auto

lemma fold_flags:
  "rc_Requeue (foldl collect f rs) \<longleftrightarrow> rc_Requeue f \<or> (\<exists>r \<in> set rs. rc_Requeue r)"
  "rc_End (foldl collect f rs) \<longleftrightarrow> rc_End f \<or> (\<exists>r \<in> set rs. rc_End r)"
  by (induction rs arbitrary: f) auto

lemma Max_insert_max:
  "finite S \<Longrightarrow> Max (insert (max a b) S) = Max (insert a (insert b S))" for a b :: int
  by (cases "S = {}") (simp_all add: max.assoc)

lemma fold_delay:
  "rc_Delay (foldl collect f rs) = Max (insert (rc_Delay f) (rc_Delay ` {r \<in> set rs. rc_Requeue r}))"
proof (induction rs arbitrary: f)
  case (Cons r rs)
  have fin: "finite (rc_Delay ` {x \<in> set rs. rc_Requeue x})" by simp
  show ?case
  proof (cases "rc_Requeue r")
    case True
    then have "{x \<in> set (r # rs). rc_Requeue x} = insert r {x \<in> set rs. rc_Requeue x}" by auto
    with True Cons [of "collect f r"] Max_insert_max [OF fin] show ?thesis
      by (simp del: Max_insert)
  next
    case False
    then have "{x \<in> set (r # rs). rc_Requeue x} = {x \<in> set rs. rc_Requeue x}" by auto
    with False Cons [of "collect f r"] show ?thesis by simp
  qed
qed simp

lemma fold_error:
  "map_option err_Msg (rc_Err (foldl collect f rs)) =
     (let es = (case rc_Err f of None \<Rightarrow> errors_of rs | Some e \<Rightarrow> e # errors_of rs) in
      if es = [] then None else Some (join [CHR 0x0A] (map err_Msg es)))"
proof (induction rs arbitrary: f)
  case Nil
  then show ?case by (simp split: option.split)
next
  case (Cons r rs)
  show ?case
    using Cons [of "collect f r"] join_merge [where sep = "[CHR 0x0A]"]
    by (auto simp: Let_def new_error_def split: option.splits)
qed

text \<open>
  C26: The result of a reconcile asks for a requeue, or ends, when one of the routines does; the
  delay is the longest one asked for; and no error is lost: the messages are joined by newlines
  in the order the results came.
\<close>

theorem aggregate_spec:
  "(rc_Requeue (aggregate rs) \<longleftrightarrow> list_ex rc_Requeue rs) \<and>
   (rc_End (aggregate rs) \<longleftrightarrow> list_ex rc_End rs) \<and>
   rc_Delay (aggregate rs) = Max (insert 0 (rc_Delay ` set (filter rc_Requeue rs))) \<and>
   map_option err_Msg (rc_Err (aggregate rs)) =
     (if errors_of rs = [] then None
      else Some (join [CHR 0x0A] (map err_Msg (errors_of rs))))"
  unfolding aggregate_def
  by (auto simp: fold_flags fold_delay fold_error zero_Reconciliation_def Let_def list_ex_iff)

lemma aggregate_message:
  "map_option err_Msg (rc_Err (aggregate rs)) =
     (if errors_of rs = [] then None else Some (join [CHR 0x0A] (map err_Msg (errors_of rs))))"
  by (simp add: aggregate_def fold_error zero_Reconciliation_def Let_def)

text \<open>What does not depend on the order.\<close>

definition same_answer :: "Reconciliation \<Rightarrow> Reconciliation \<Rightarrow> bool" where
  "same_answer a b \<longleftrightarrow> rc_Requeue a = rc_Requeue b \<and> rc_End a = rc_End b \<and>
     rc_Delay a = rc_Delay b \<and> (rc_Err a = None \<longleftrightarrow> rc_Err b = None)"

lemma fold_err_None:
  "rc_Err (foldl collect f rs) = None \<longleftrightarrow> rc_Err f = None \<and> (\<forall>r \<in> set rs. rc_Err r = None)"
  by (induction rs arbitrary: f) (auto split: option.splits)

lemma aggregate_set_cong:
  assumes "set rs = set rs'"
  shows "same_answer (aggregate rs) (aggregate rs')"
  using assms by (simp add: same_answer_def aggregate_def fold_flags fold_delay fold_err_None)

context library
begin

lemma final_aggregate:
  "op_IsFinal (lib_op L) (aggregate rs) \<longleftrightarrow> (\<exists>r \<in> set rs. op_IsFinal (lib_op L) r)"
  unfolding IsFinal aggregate_def fold_flags fold_err_None
  by (auto simp: zero_Reconciliation_def)

end

end
