(* ===== verification/Completing.thy ===== *)
theory Completing
  imports Reconciling Workloads Footprints
begin

text \<open>
  Nothing in the routines stands in the way of becoming ready: for every spec that can be
  deployed, some answers of the API and of the controller lead all three routines to their end.
\<close>

subsection \<open>A library that sets references\<close>

text \<open>
  \<open>SetControllerReference\<close> succeeds on an object of the owner's namespace that nobody owns.
\<close>

definition free_in :: "string \<Rightarrow> KObj \<Rightarrow> bool" where
  "free_in namespace o1 \<longleftrightarrow> m_namespace (o_Meta o1) = namespace \<and> m_owners (o_Meta o1) = []"

locale cooperative = library +
  assumes reference_ok:
    "m_namespace own = m_namespace m \<Longrightarrow> m_owners m = [] \<Longrightarrow> \<exists>m'. lib_setref L kind own m = Inr m'"

interpretation lib_ref_coop: cooperative lib_ref
  by unfold_locales (auto simp: lib_ref_def setref_ref_def Let_def)

text \<open>The controller's service as the operator calls it.\<close>

definition serviceURL :: "ControlPlane \<Rightarrow> string" where
  "serviceURL cp =
     controllerScheme cp @ ''://'' @ (''controller.'' @ cp_Namespace cp @ ''.svc.cluster.local'') @
     '':'' @ itoa 51121 @ ''/api/v3''"

text \<open>
  A spec that can be deployed: the router is reachable, the addresses parse as URLs, and the
  storage sizes are quantities.
\<close>

definition router_reachable :: "ControlPlane \<Rightarrow> bool" where
  "router_reachable cp \<longleftrightarrow>
     equalFold (svc_Type (svcs_Router (spec_Services (cp_Spec cp)))) ''LoadBalancer'' \<or>
     ri_Address (ing_Router (spec_Ingresses (cp_Spec cp))) \<noteq> []"

definition deployable :: "Lib \<Rightarrow> ControlPlane \<Rightarrow> bool" where
  "deployable L cp \<longleftrightarrow>
     router_reachable cp \<and>
     lib_urlError L (serviceURL cp) = None \<and>
     lib_urlError L (hr_URL (login_request (spec_Auth (cp_Spec cp)))) = None \<and>
     lib_parseQuantity L ''1Gi'' \<noteq> None \<and>
     (isNatsEnabled cp \<longrightarrow> \<not> is_err (newNatsMicroservice L (natsConfig L cp)))"

subsection \<open>The operations\<close>

lemma free_in_simps [simp]:
  "free_in ns \<lparr>o_Meta = new_meta n ns l a, o_Payload = p\<rparr>"
  "free_in ns (o1\<lparr>o_Payload := p\<rparr>) \<longleftrightarrow> free_in ns o1"
  "free_in ns (relabel l o1) \<longleftrightarrow> free_in ns o1"
  "free_in ns (dataSecret n ns l d)"
  by (simp_all add: free_in_def new_meta_def relabel_def dataSecret_def)

lemma free_in_built [simp]:
  "free_in ns (newDeployment ns i ms)" "free_in ns (newStatefulSet ns i ms)"
  "free_in ns (newServiceAccount ns i ms)" "free_in ns (newRole ns i ms)"
  "free_in ns (newRoleBinding ns i ms)" "free_in ns (newRouterConfigMap ns i)"
  "free_in ns (NewNatsConfigMap ns i l c)" "free_in ns (NewJWTBundleConfigMap ns l js)"
  "free_in ns (newControllerIngress ns i icfg)"
  by (simp_all add: newDeployment_def newStatefulSet_def newServiceAccount_def newRole_def
      newRoleBinding_def newRouterConfigMap_def NewNatsConfigMap_def NewJWTBundleConfigMap_def
      newControllerIngress_def Let_def)

lemma free_in_services: "s \<in> set (newServices ns i ms) \<Longrightarrow> free_in ns s"
  by (auto simp: newServices_def newService_def)

lemma free_in_controller_secrets: "s \<in> set (buildControllerSecrets ns cfg) \<Longrightarrow> free_in ns s"
  by (auto simp: buildControllerSecrets_def buildVaultCredentialsSecret_def opaqueSecret_def
      split: option.splits if_splits)

text \<open>
  The answers of an API server that has everything but the config maps already: what is read is
  there, what is created exists, what is updated is stored.
\<close>

fun settled :: allowed where
  "settled (CGet k) (RObj (Inr o1)) \<longleftrightarrow> okey o1 = k"
| "settled (CGet k) (RObj (Inl e)) \<longleftrightarrow> fst k = KConfigMap \<and> IsNotFound e"
| "settled (CWrite (WCreate o1)) (RObj (Inr o2)) \<longleftrightarrow> fst (okey o1) = KConfigMap \<and> okey o2 = okey o1"
| "settled (CWrite (WCreate o1)) (RObj (Inl e)) \<longleftrightarrow> IsAlreadyExists e"
| "settled (CWrite (WDelete k)) r \<longleftrightarrow> False"
| "settled (CWrite (WUpdate o1)) (RObj (Inr o2)) \<longleftrightarrow> okey o2 = okey o1"
| "settled (CWrite (WUpdate o1)) (RObj (Inl e)) \<longleftrightarrow> False"
| "settled (CWrite (WStatusUpdate o1)) (RObj (Inr o2)) \<longleftrightarrow> okey o2 = okey o1"
| "settled (CWrite (WStatusUpdate o1)) (RObj (Inl e)) \<longleftrightarrow> False"
| "settled c r \<longleftrightarrow> True"

lemma settled_honest: "settled c r \<Longrightarrow> honest c r"
  by (cases "(c, r)" rule: settled.cases) auto

text \<open>Some of these answers lead to the result.\<close>

abbreviation can :: "'a prog \<Rightarrow> 'a \<Rightarrow> bool" where
  "can p x \<equiv> may settled p x"

abbreviation exists_already :: "GoError + KObj" where
  "exists_already \<equiv> Inl \<lparr>err_Reason = AlreadyExists, err_Msg = []\<rparr>"

abbreviation missing_object :: "GoError + KObj" where
  "missing_object \<equiv> Inl \<lparr>err_Reason = NotFound, err_Msg = []\<rparr>"

lemma okey_surj: "\<exists>o1. okey o1 = k"
proof -
  obtain kind ns n where k: "k = (kind, ns, n)" by (cases k)
  have "\<exists>p. kind_of p = kind"
    by (cases kind) (metis kind_of.simps)+
  then obtain p where "kind_of p = kind" ..
  then have "okey \<lparr>o_Meta = new_meta n ns Map.empty Map.empty, o_Payload = p\<rparr> = k"
    by (simp add: okey_def new_meta_def k)
  then show ?thesis ..
qed

lemma okey_dataSecret [simp]: "okey (dataSecret n ns l d) = (KSecret, ns, n)"
  by (simp add: okey_def dataSecret_def new_meta_def)

lemma can_kwrite [simp]:
  "fst (okey o1) = KConfigMap \<Longrightarrow> can (kwrite (WCreate o1)) (Inr ())" "can (kwrite (WUpdate o1)) (Inr ())"
  unfolding kwrite_def by (rule may_KWrite [where r = "Inr o1"]; simp)+

lemma can_read:
  assumes "\<And>o1. okey o1 = k \<Longrightarrow> can (g (Inr o1)) x"
  shows "can (KGet k g) x"
proof -
  obtain o1 where "okey o1 = k" using okey_surj by blast
  then show ?thesis using assms by (intro may_KGet [where r = "Inr o1"]) simp_all
qed

lemma can_ext_call [simp]: "can (ext_call c) (Inr ())"
  unfolding ext_call_def by (rule may_Ext [where r = "Inr []"]) simp_all

lemma can_create_if_missing [simp]: "can (create_if_missing o1) (Inr ())"
  unfolding create_if_missing_def by (rule can_read) simp

lemma can_create_or_update [simp]: "can (create_or_update o1) (Inr ())"
  unfolding create_or_update_def by (rule can_read) simp

lemma can_ensure_account [simp]: "can (ensure_account o1) (Inr ())"
  unfolding ensure_account_def by (rule can_read) simp

lemma can_for_each: "(\<And>x. x \<in> set xs \<Longrightarrow> can (f x) (Inr ())) \<Longrightarrow> can (for_each f xs) (Inr ())"
  by (induction xs) (auto intro: may_tryE)

lemma can_kget: "settled (CGet (k, ns, n)) (RObj r) \<Longrightarrow> can (kget k ns n) r"
  unfolding kget_def by (rule may_KGet) simp_all

lemma can_waitForLoadBalancer: "can (waitForLoadBalancer ns n) (Inr host)"
  unfolding waitForLoadBalancer_def by (rule may_Ext [where r = "Inr host"]) simp_all

context cooperative
begin

lemma can_with_owner:
  assumes "free_in (cp_Namespace cp) o1" and "\<And>o2. okey o2 = okey o1 \<Longrightarrow> can (f o2) x"
  shows "can (with_owner L cp o1 f) x"
proof -
  obtain m where "lib_setref L ''ControlPlane'' (cp_Meta cp) (o_Meta o1) = Inr m"
    using reference_ok [of "cp_Meta cp" "o_Meta o1"] assms(1) by (auto simp: free_in_def)
  then obtain o2 where o2: "setOwner L cp o1 = Inr o2" by (simp add: setOwner_def)
  then show ?thesis using assms(2) setOwner_Inr(1) [OF o2] by (simp add: with_owner_def)
qed

lemma can_orFail: "can m (Inr y) \<Longrightarrow> can (f y) x \<Longrightarrow> can (orFail L m f) x"
  unfolding orFail_def by (rule may_orElseErr)

lemma can_accounts [simp]:
  "can (createServiceAccount L cp ms) (Inr ())" "can (createRole L cp ms) (Inr ())"
  "can (createRoleBinding L cp ms) (Inr ())" "can (createDeployment L cp ms) (Inr ())"
  "can (createStatefulSet L cp ms) (Inr ())" "can (createIngress L cp icfg) (Inr ())"
proof -
  have "can (kget KSecret ns n) (Inr (dataSecret n ns Map.empty Map.empty))" for ns n
    by (rule can_kget) simp
  then show "can (createServiceAccount L cp ms) (Inr ())"
    by (auto simp: createServiceAccount_def Let_def dataSecret_def dockerConfigJson_def
        intro!: can_with_owner may_pbind)
qed (simp_all add: createRole_def createRoleBinding_def createDeployment_def createStatefulSet_def
    createIngress_def can_with_owner)

lemma can_services [simp]: "can (createService L cp ms) (Inr ())"
  unfolding createService_def
  by (rule can_for_each, rule can_with_owner) (simp_all add: free_in_services)

lemma can_secrets:
  assumes "\<And>s. s \<in> set (ms_secrets ms) \<Longrightarrow> free_in (cp_Namespace cp) s"
  shows "can (createSecrets L cp ms) (Inr ())"
  unfolding createSecrets_def createOrUpdateSecrets_def
  by (rule may_recovering, rule can_for_each, rule can_with_owner) (simp_all add: assms)

lemma can_configmap [simp]: "can (createConfigMap L cp) (Inr ())"
  unfolding createConfigMap_def
  by (rule can_with_owner, simp, rule may_KGet [where r = missing_object])
    (simp_all add: okey_def newRouterConfigMap_def)

lemma can_createOrUpdateSecret:
  "free_in (cp_Namespace cp) s \<Longrightarrow> can (createOrUpdateSecret L cp l s) (Inr ())"
  unfolding createOrUpdateSecret_def
  by (erule can_with_owner, rule may_KWrite [where r = exists_already])
    (auto simp: Let_def intro!: can_read)

lemma can_createIfAbsent:
  "free_in (cp_Namespace cp) s \<Longrightarrow> can (createIfAbsent L cp s) (Inr ())"
  unfolding createIfAbsent_def
  by (erule can_with_owner, rule may_KWrite [where r = exists_already]) simp_all

subsection \<open>The router\<close>

lemma can_routerSecrets:
  "ms_secrets ms = [] \<Longrightarrow> \<exists>ms2. can (createRouterSecrets L cp (cp_Namespace cp) ms address) (Inr ms2) \<and>
     (\<forall>s \<in> set (ms_secrets ms2). free_in (cp_Namespace cp) s)"
proof -
  let ?s = "\<lambda>n. dataSecret n (cp_Namespace cp) Map.empty Map.empty"
  assume ms: "ms_secrets ms = []"
  have "can (createRouterSecrets L cp (cp_Namespace cp) ms address)
      (Inr (ms\<lparr>ms_secrets := [?s SiteServerSecret, ?s LocalServerSecret]\<rparr>))"
    unfolding createRouterSecrets_def lookup_secret_def Let_def
    by (rule may_recovering, rule may_KGet [where r = "Inr (?s SiteCaSecret)"],
        rule may_KGet [where r = "Inr (?s LocalCaSecret)"],
        rule may_KGet [where r = "Inr (?s SiteServerSecret)"],
        rule may_KGet [where r = "Inr (?s LocalServerSecret)"]) (simp_all add: ms)
  then show ?thesis by (intro exI conjI) auto
qed

lemma can_router:
  assumes "router_reachable cp"
  shows "can (reconcileRouter L cp) (op_Continue (lib_op L))"
proof -
  let ?ms = "hd (newRouterMicroservices L (routerConfig cp))"
  have "can (routerAddress cp (ms_name ?ms)) (Inr (if equalFold (svc_Type (svcs_Router (spec_Services (cp_Spec cp)))) ''LoadBalancer''
      then [] else ri_Address (ing_Router (spec_Ingresses (cp_Spec cp)))))" (is "can _ (Inr ?a)")
    using assms by (auto simp: routerAddress_def router_reachable_def can_waitForLoadBalancer)
  moreover have "ms_secrets ?ms = []"
    by (simp add: newRouterMicroservices_def newRouterMicroservice_def Let_def empty_microservice_def)
  then obtain ms2 where "can (createRouterSecrets L cp (cp_Namespace cp) ?ms ?a) (Inr ms2)"
    "\<forall>s \<in> set (ms_secrets ms2). free_in (cp_Namespace cp) s"
    using can_routerSecrets by blast
  ultimately show ?thesis
    unfolding reconcileRouter_def Let_def newK8sClient_def
    by (intro can_orFail) (auto intro!: can_secrets can_for_each simp del: for_each.simps)
qed

subsection \<open>The hub\<close>

lemma can_client:
  assumes "lib_urlError L (scheme @ ''://'' @ host @ '':'' @ itoa port @ ''/api/v3'') = None"
  shows "\<exists>c. can (getIofogClient L scheme host port) (Some c, op_Continue (lib_op L))"
  using assms unfolding getIofogClient_def Let_def
  by (intro exI, simp) (rule may_Ext [where r = "Inr []"], simp_all)

lemma can_with_client:
  assumes "\<exists>c. can p (Some c, op_Continue (lib_op L))" and "\<And>c. can (f c) x"
  shows "can (with_client L p f) x"
  unfolding with_client_def using assms by (auto intro: may_pbind)

lemma can_logged_in:
  assumes "lib_urlError L (hr_URL (login_request (spec_Auth (cp_Spec cp)))) = None"
    and "\<And>c. can (f c) x"
  shows "can (logged_in L cp c0 f) x"
proof -
  let ?e = "new_error ''invalid credentials''"
  have "contains (toLower ''invalid credentials'') ''invalid credentials''"
    by (simp add: contains_def lowerByte_def)
  moreover have "can (loginIofogClient L cp c0) (Inl ?e)"
    using assms(1) unfolding loginIofogClient_def Let_def
    by simp (rule may_Http [where r = "Inl ?e"], simp_all)
  ultimately show ?thesis
    unfolding logged_in_def using assms(2) by (auto intro!: may_pbind simp: new_error_def)
qed

lemma can_bootstrap:
  assumes "\<And>boot. can (f boot) x"
  shows "can (bootstrapNats L cp c f) x"
proof -
  let ?resp = "\<lparr>bs_OperatorJwt = [], bs_OperatorPublicKey = [], bs_OperatorSeed = [],
    bs_SystemAccountJwt = [], bs_SystemAccountPublicKey = [], bs_SysUserCredsBase64 = EncodeToString []\<rparr>"
  let ?key = "dataSecret (JetStreamKeySecretName (cp_Name cp)) (cp_Namespace cp) Map.empty [''jsk'' \<mapsto> ''k'']"
  let ?l = "getStandardLabels ''nats'' (cp_Name cp)"
  have resp: "can (wrapped p (Bootstrap c Done)) (Inr ?resp)" for p
    unfolding wrapped_def by (rule may_pbind [where y = "Inr ?resp"])
      (auto intro: may_Bootstrap)
  have wrap: "can (wrapped p (createOrUpdateSecret L cp ?l (dataSecret n (cp_Namespace cp) ?l d))) (Inr ())"
    for p n d
    unfolding wrapped_def
    by (rule may_pbind [OF can_createOrUpdateSecret]) simp_all
  have "\<exists>boot. can (EnsureNatsBootstrapFromController L (createOrUpdateSecret L cp ?l)
      (cp_Namespace cp) ?l (Some ?resp)) (Inr boot)"
    unfolding EnsureNatsBootstrapFromController_def
    by (simp add: DecodeString_EncodeToString)
      (rule exI, rule may_tryE [OF wrap], rule may_tryE [OF wrap], rule may_Done [THEN iffD2], rule HOL.refl)
  then obtain boot where boot: "can (EnsureNatsBootstrapFromController L (createOrUpdateSecret L cp ?l)
      (cp_Namespace cp) ?l (Some ?resp)) (Inr boot)" by blast
  have key: "can (EnsureJetStreamKeySecret (kget KSecret) (createOwned L cp) (cp_Namespace cp)
      (cp_Name cp) ?l) (Inr False)"
    unfolding EnsureJetStreamKeySecret_def Let_def
    by (rule may_pbind [OF can_kget [where r = "Inr ?key"]]) (simp_all add: mget_def, simp add: dataSecret_def)
  show ?thesis
    unfolding bootstrapNats_def Let_def
    by (rule can_orFail [OF resp], rule can_orFail [OF boot], rule can_orFail [OF key]) (rule assms)
qed

lemma can_deploy: "can (deployNats L cp boot ms) (op_Continue (lib_op L))"
proof -
  let ?l = "getStandardLabels ''nats'' (cp_Name cp)"
  have "\<exists>addr. can (natsAddressOf cp) (Inr addr)"
    using may_tryE [OF can_ext_call [of NewK8sClient], where f = "\<lambda>_. waitForLoadBalancer (cp_Namespace cp) ClientServiceName",
        OF can_waitForLoadBalancer]
    unfolding natsAddressOf_def newK8sClient_def by auto
  then obtain addr where addr: "can (natsAddressOf cp) (Inr addr)" by blast
  have stale: "can (dropStaleCertificates ns n) (Inr ())" for ns n
  proof -
    let ?s = "annotate ''datasance.com/nats-replicas'' (itoa n) (dataSecret NatsSiteServerSecret ns Map.empty Map.empty)"
    have "okey ?s = (KSecret, ns, NatsSiteServerSecret)"
      by (simp add: okey_def annotate_def dataSecret_def new_meta_def)
    then show ?thesis
      unfolding dropStaleCertificates_def
      by (intro may_KGet [where r = "Inr ?s"]) (simp_all add: annotate_def mget_def)
  qed
  let ?s = "\<lambda>ns n. dataSecret n ns Map.empty Map.empty"
  have found: "can (find_secret (kget KSecret) ns n) (Inr (Some (?s ns n)))" for ns n
    unfolding find_secret_def
    by (rule may_pbind [OF can_kget [where r = "Inr (?s ns n)"]]) simp_all
  have tls: "can (EnsureNatsSecrets L (kget KSecret) ns n h k a l) (Inr [])" for ns n h k a l
    unfolding EnsureNatsSecrets_def
    by (rule may_tryE [OF found])+ (simp add: ensure_ca_def ensure_server_def)
  have cm: "can (writeNatsConfigMap l o1) (Inr ())" if "fst (okey o1) = KConfigMap" for l o1
    unfolding writeNatsConfigMap_def by (rule may_KGet [where r = missing_object]) (simp_all add: that)
  have maps: "can (natsConfigMaps L cp ?l boot addr) (Inr ())"
    unfolding natsConfigMaps_def Let_def
    by (rule may_tryE [OF can_kget [where r = "Inr (?s ns n)" for ns n]], simp,
        rule may_KGet [where r = missing_object], rule can_with_owner,
        simp, rule may_tryE [OF cm], simp add: okey_def NewNatsConfigMap_def,
        rule can_createIfAbsent) simp_all
  have ann: "can (podAnnotations L ns n f) x" if "\<And>a. can (f a) x" for ns n f x
    unfolding podAnnotations_def Let_def using that by (auto intro!: can_read may_Now)
  show ?thesis
    unfolding deployNats_def Let_def
    by (rule can_orFail [OF can_accounts(1)], rule can_orFail [OF can_accounts(2)],
        rule can_orFail [OF can_accounts(3)], rule can_orFail [OF can_services],
        rule can_orFail [OF addr], rule can_orFail [OF stale], rule can_orFail [OF tls],
        rule can_orFail [OF can_for_each], simp, rule can_orFail [OF maps], rule ann,
        rule can_orFail [OF can_accounts(5)]) simp
qed

lemma can_nats:
  assumes "isNatsEnabled cp \<Longrightarrow> \<not> is_err (newNatsMicroservice L (natsConfig L cp))"
    and "lib_urlError L (serviceURL cp) = None"
    and "lib_urlError L (hr_URL (login_request (spec_Auth (cp_Spec cp)))) = None"
  shows "can (reconcileNats L cp) (op_Continue (lib_op L))"
proof (cases "isNatsEnabled cp")
  case True
  then obtain ms where ms: "newNatsMicroservice L (natsConfig L cp) = Inr ms"
    using assms(1) by (auto simp: not_is_err_iff)
  have "controllerScheme cp = (if ctl_Https (spec_Controller (cp_Spec cp)) = Some True then ''https'' else ''http'')"
    by (cases "ctl_Https (spec_Controller (cp_Spec cp))") (auto simp: controllerScheme_def)
  then have "\<exists>c. can (getControllerClientForNats L cp) (Some c, op_Continue (lib_op L))"
    using assms(2) can_client [of "controllerScheme cp" "''controller.'' @ cp_Namespace cp @ ''.svc.cluster.local''" 51121]
    by (simp add: getControllerClientForNats_def serviceURL_def)
  with True ms show ?thesis
    unfolding reconcileNats_def
    by (auto simp: crash_or_def assms
        intro!: can_with_client can_logged_in can_bootstrap can_deploy)
qed (simp add: reconcileNats_def)

subsection \<open>The controller\<close>

lemma can_reconcile_secret:
  assumes "free_in (cp_Namespace cp) s"
  shows "can (reconcile_secret L cp s) (Inr (True, s))"
proof -
  obtain m where "lib_setref L ''ControlPlane'' (cp_Meta cp)
      (o_Meta (relabel (getStandardLabels ''controller'' (cp_Name cp)) s)) = Inr m"
    using reference_ok [of "cp_Meta cp" "o_Meta (relabel (getStandardLabels ''controller'' (cp_Name cp)) s)"] assms
    by (auto simp: free_in_def relabel_def)
  then obtain o2 where o2: "setOwner L cp (relabel (getStandardLabels ''controller'' (cp_Name cp)) s) = Inr o2"
    by (simp add: setOwner_def)
  have "okey o2 = okey s" using setOwner_Inr(1) [OF o2] by (simp add: okey_def relabel_def)
  then show ?thesis
    unfolding reconcile_secret_def with_owner_def o2 sum.case
    by (intro can_read) (simp add: may_KWrite [where r = "Inr s"])
qed

lemma can_reconcile_named:
  assumes "\<And>s. s \<in> set ss \<Longrightarrow> free_in (cp_Namespace cp) s"
  shows "\<exists>b. can (reconcile_named L cp n ss) (Inr (b, ss))"
  using assms
proof (induction ss)
  case (Cons s ss)
  then obtain b where "can (reconcile_named L cp n ss) (Inr (b, ss))" by auto
  moreover have "can (reconcile_secret L cp s) (Inr (True, s))"
    using Cons.prems by (intro can_reconcile_secret) simp
  ultimately have "can (reconcile_named L cp n (s # ss)) (Inr (if m_name (o_Meta s) = n then True else b, s # ss))"
    by (auto intro: may_tryE)
  then show ?case by blast
qed auto

lemma can_credentials:
  assumes "\<And>s. s \<in> set (ms_secrets ms) \<Longrightarrow> free_in (cp_Namespace cp) s"
  shows "\<exists>b. can (reconcileDBCredentialsSecret L cp ms) (Inr (b, ms))"
    and "\<exists>b. can (reconcileVaultCredentialsSecret L cp ms) (Inr (b, ms))"
proof -
  have *: "\<exists>b. can (tryE (reconcile_named L cp n (ms_secrets ms))
      (\<lambda>(restart, ss). Done (Inr (restart, ms\<lparr>ms_secrets := ss\<rparr>)))) (Inr (b, ms))" for n
  proof -
    obtain b where "can (reconcile_named L cp n (ms_secrets ms)) (Inr (b, ms_secrets ms))"
      using can_reconcile_named [of "ms_secrets ms" cp n] assms by blast
    then show ?thesis by (intro exI, elim may_tryE) simp
  qed
  show "\<exists>b. can (reconcileDBCredentialsSecret L cp ms) (Inr (b, ms))"
    and "\<exists>b. can (reconcileVaultCredentialsSecret L cp ms) (Inr (b, ms))"
    unfolding reconcileDBCredentialsSecret_def reconcileVaultCredentialsSecret_def by (rule *)+
qed

lemma can_claims:
  assumes "lib_parseQuantity L ''1Gi'' = Some q"
  shows "can (createPersistentVolumeClaims L cp ms) (Inr ())"
  unfolding createPersistentVolumeClaims_def
  by (rule can_for_each) (auto simp: assms newPVC_def intro: can_with_owner)

lemma can_objects:
  assumes "\<And>s. s \<in> set (ms_secrets ms) \<Longrightarrow> free_in (cp_Namespace cp) s"
    and "lib_parseQuantity L ''1Gi'' \<noteq> None"
    and "\<And>b. can (f b True) x"
  shows "can (controllerObjects L cp ms f) x"
proof -
  obtain q where q: "lib_parseQuantity L ''1Gi'' = Some q" using assms(2) by blast
  obtain b1 where b1: "can (reconcileDBCredentialsSecret L cp ms) (Inr (b1, ms))"
    using can_credentials(1) [OF assms(1)] by blast
  obtain b2 where b2: "can (reconcileVaultCredentialsSecret L cp ms) (Inr (b2, ms))"
    using can_credentials(2) [OF assms(1)] by blast
  have ing: "can (if b then createIngress L cp i else Done (Inr ())) (Inr ())" for b i by simp
  have ex: "can (deploymentExists ns n) (Inr True)" for ns n
  proof -
    obtain d where "okey d = (KDeployment, ns, n)" using okey_surj by blast
    then show ?thesis
      unfolding deploymentExists_def by (intro may_pbind [OF can_kget [where r = "Inr d"]]) simp_all
  qed
  show ?thesis
    unfolding controllerObjects_def
    by (rule can_orFail [OF can_accounts(1)], rule can_orFail [OF can_accounts(2)],
        rule can_orFail [OF can_accounts(3)], rule can_orFail [OF b1],
        simp only: prod.case, rule can_orFail [OF b2], simp only: prod.case,
        rule can_orFail [OF can_secrets [OF assms(1)]], assumption,
        rule can_orFail [OF can_services], rule can_orFail [OF ing],
        rule can_orFail [OF can_claims [OF q]], rule can_orFail [OF ex],
        rule can_orFail [OF can_accounts(4)]) (rule assms(3))
qed

lemma can_import: "can (import_all L c ns) (op_Continue (lib_op L))"
proof (induction ns)
  case (Cons n ns)
  have "can (ImportRouterCACertificate c n) (Inr ())"
    unfolding ImportRouterCACertificate_def by (rule may_Ext [where r = "Inr []"]) simp_all
  with Cons show ?case by (auto intro: may_orElseErr)
qed simp

lemma can_viewer: "\<exists>r. can (UpdateECNViewerClientRootURL L a u) r"
proof -
  have "can (prefixed p (Ext c Done)) (Inl (plain_error p undefined))" for p c
    unfolding prefixed_def by (rule may_pbind [OF may_Ext [where r = "Inl undefined"]]) auto
  then have "can (tryE (prefixed p (Ext c Done)) f) (Inl (plain_error p undefined))" for p c f
    unfolding tryE_def by (rule may_pbind) simp
  then show ?thesis by (auto simp: UpdateECNViewerClientRootURL_def)
qed

lemma can_finish: "can (finishController L cp ms b e) (op_Continue (lib_op L))"
proof -
  have "can (restartPodsForDeployment n ns) (Inr ())" for n ns
  proof -
    obtain d where d: "okey d = (KDeployment, ns, n)" using okey_surj by blast
    then show ?thesis
      unfolding restartPodsForDeployment_def
      by (intro may_tryE [OF can_kget [where r = "Inr d"]] may_KWrite [where r = "Inr d"]) simp_all
  qed
  then have restart: "can (if b then restartPodsForDeployment (ms_name ms) (cp_Namespace cp)
      else Done (Inr ())) (Inr ())" by simp
  obtain r where "can (UpdateECNViewerClientRootURL L (spec_Auth (cp_Spec cp)) e) r"
    using can_viewer by blast
  then show ?thesis
    unfolding finishController_def by (intro can_orFail [OF restart]) (auto intro: may_pbind)
qed

lemma can_endpoints:
  assumes "lib_urlError L (serviceURL cp) = None" and "\<And>e. can (f e) x"
  shows "can (loadBalancerEndpoint L cp 51121 f) x" and "can (ingressEndpoint L cp e0 f) x"
proof -
  let ?host = "''controller.'' @ cp_Namespace cp @ ''.svc.cluster.local''"
  obtain c where "can (getIofogClient L (controllerScheme cp) ?host 51121) (Some c, op_Continue (lib_op L))"
    using assms(1) can_client [of "controllerScheme cp" ?host 51121] by (auto simp: serviceURL_def)
  then show "can (loadBalancerEndpoint L cp 51121 f) x"
    unfolding loadBalancerEndpoint_def
    by (auto intro!: can_orFail [OF can_waitForLoadBalancer [where host = ?host]] may_pbind assms(2))
  let ?i = "\<lparr>o_Meta = new_meta ''pot-controller'' (cp_Namespace cp) Map.empty Map.empty, o_Payload = PIngress \<lparr>is_IngressClassName = None, is_TLSHosts = [],
      is_TLSSecretName = [], is_Host = [], is_Paths = [], is_LoadBalancer = [[]]\<rparr>\<rparr>"
  have "okey ?i = (KIngress, cp_Namespace cp, ''pot-controller'')" by (simp add: okey_def new_meta_def)
  then have "can (wrapped p (kget KIngress (cp_Namespace cp) ''pot-controller'')) (Inr ?i)" for p
    unfolding wrapped_def by (intro may_pbind [OF can_kget [where r = "Inr ?i"]]) simp_all
  then show "can (ingressEndpoint L cp e0 f) x"
    unfolding ingressEndpoint_def by (auto intro!: can_orFail assms(2))
qed

lemma can_nats_hub:
  assumes "can rest x"
  shows "can (registerNatsHub L cp c rest) x"
proof -
  have "\<exists>i. can (natsIngressOf cp) (Inr i)"
    using may_tryE [OF can_waitForLoadBalancer [of "cp_Namespace cp" ClientServiceName "[]"],
        where f = "\<lambda>a. Done (Inr ((ing_Nats (spec_Ingresses (cp_Spec cp)))\<lparr>ni_Address := a\<rparr>))"]
    by (auto simp: natsIngressOf_def Let_def)
  then obtain i where "can (natsIngressOf cp) (Inr i)" by blast
  with assms show ?thesis
    by (auto simp: registerNatsHub_def createDefaultNatsHub_def intro!: can_orFail may_orElseErr)
qed

lemma can_router_proxy:
  assumes "router_reachable cp"
  shows "\<exists>p. can (routerProxyOf cp) (Inr p)"
  using assms may_tryE [OF can_waitForLoadBalancer [of "cp_Namespace cp" routerName "[]"],
      where f = "\<lambda>a. Done (Inr \<lparr>ri_Address = a, ri_MessagePort = MessagePort,
                        ri_InteriorPort = InteriorPort, ri_EdgePort = EdgePort\<rparr>)"]
  by (auto simp: routerProxyOf_def router_reachable_def)

lemma can_controller:
  assumes "deployable L cp"
  shows "can (reconcileIofogController L cp) (op_Continue (lib_op L))"
proof -
  let ?ms = "newControllerMicroservice L (cp_Namespace cp) (controllerConfig cp)"
  have port: "getControllerPort ?ms = Inr 51121" and name: "ms_name ?ms = ''controller''"
    by (simp_all add: getControllerPort_def newControllerMicroservice_parts controllerServices_def
        tcpPort_def)
  have free: "free_in (cp_Namespace cp) s" if "s \<in> set (ms_secrets ?ms)" for s
    using that free_in_controller_secrets by (auto simp: newControllerMicroservice_parts(3))
  obtain p where p: "can (routerProxyOf cp) (Inr p)"
    using can_router_proxy assms by (auto simp: deployable_def)
  have url: "lib_urlError L (serviceURL cp) = None" using assms by (simp add: deployable_def)
  have client: "\<exists>c. can (getIofogClient L (controllerScheme cp)
      (ms_name ?ms @ ''.'' @ cp_Namespace cp @ ''.svc.cluster.local'') 51121) (Some c, op_Continue (lib_op L))"
    using url unfolding name by (intro can_client) (simp add: serviceURL_def)
  have certs: "can (ImportCertificates L cp c) (op_Continue (lib_op L))" for c
    unfolding ImportCertificates_def by (rule can_import)
  have "can (registerController L cp ?ms b) (op_Continue (lib_op L))" for b
    unfolding registerController_def port sum.case newK8sClient_def createDefaultRouter_def
    by (intro can_with_client [OF client] can_logged_in can_orFail [OF can_ext_call] can_orFail [OF p]
        can_nats_hub may_pbind [OF certs])
      (use assms in \<open>auto simp: deployable_def intro!: can_endpoints url can_finish\<close>)
  then show ?thesis
    unfolding reconcileIofogController_def Let_def
    by (intro can_objects free) (use assms in \<open>auto simp: deployable_def\<close>)
qed

lemma can_routines:
  assumes "deployable L cp"
  shows "list_all (\<lambda>p. can p (op_Continue (lib_op L))) (routines L cp)"
  using assms can_controller can_router can_nats by (simp add: routines_def deployable_def)

lemma routines_can_end:
  assumes "deployable L cp"
  shows "\<exists>tr s. pool_run (start_pool (routines L cp)) tr s \<and> (\<forall>(i, c, r) \<in> set tr. settled c r) \<and>
           (\<forall>r \<in> set (pl_routines s). r = None) \<and>
           pl_chan s = [op_Continue (lib_op L), op_Continue (lib_op L), op_Continue (lib_op L)]"
proof -
  let ?C = "op_Continue (lib_op L)"
  have each: "\<forall>i < length (routines L cp). can (routines L cp ! i) ([?C, ?C, ?C] ! i)"
    using can_routines [OF assms] by (auto simp: routines_def less_Suc_eq)
  have "length (routines L cp) = 3" by (simp add: routines_def)
  with pool_run_all [OF each order_refl] obtain tr where
    "pool_run (start_pool (routines L cp)) tr
       \<lparr>pl_routines = replicate 3 None, pl_chan = map ((!) [?C, ?C, ?C]) [0..<3]\<rparr>"
    "\<forall>(i, c, r) \<in> set tr. settled c r"
    by auto
  then show ?thesis by (intro exI conjI) (auto simp: upt_rec)
qed

end

end
