(* ===== verification/Ordering.thy ===== *)
theory Ordering
  imports Confinement Ensure Completing
begin

text \<open>
  The order of the steps in the routines: a workload is written only when the API server has
  confirmed what its pods need.
\<close>

subsection \<open>Rules\<close>

text \<open>A step that writes nothing of the kind, and a step that provides the evidence.\<close>

lemma no_write_kind: "touches cp K c \<Longrightarrow> D \<notin> K \<Longrightarrow> \<not> writes_kind D c"
  by (cases c) auto

lemma within_not_kind:
  assumes "within cp K m" and "D \<notin> K"
  shows "until honest E (writes_kind D) (\<lambda>x. True) m"
  by (rule until_every [OF assms(1)]) (erule no_write_kind [OF _ assms(2)])

lemma until_orFail:
  assumes "until A E W R m" and "\<And>x. R (Inr x) \<Longrightarrow> until A E W (\<lambda>x. True) (f x)"
  shows "until A E W (\<lambda>x. True) (orFail L m f)"
  unfolding orFail_def
  by (rule until_orElseErr [where R = "\<lambda>x. R (Inr x)"])
    (auto intro: until_mono [OF assms(1)] assms(2) split: sum.splits)

lemma until_skip:
  assumes "until A E W (\<lambda>x. True) m" and "\<And>x. until A E W (\<lambda>x. True) (f x)"
  shows "until A E W (\<lambda>x. True) (orFail L m f)"
  using assms by (rule until_orFail)

lemma until_provided:
  assumes "until A E W is_err m"
  shows "until A E W (\<lambda>x. True) (orFail L m f)"
  unfolding orFail_def by (rule until_done_after [OF assms]) simp

lemma until_skip_within:
  assumes "within cp K m" and "D \<notin> K" and "\<And>x. until honest E (writes_kind D) (\<lambda>x. True) (f x)"
  shows "until honest E (writes_kind D) (\<lambda>x. True) (orFail L m f)"
  by (rule until_skip [OF within_not_kind [OF assms(1,2)] assms(3)])

text \<open>
  The service account of a workload is shown to exist, or the pull secret that is configured was
  read and has another type: then \<open>createServiceAccount\<close> ends without an error and without the
  account.
\<close>

fun other_pull_secret :: "ControlPlane \<Rightarrow> evidence" where
  "other_pull_secret cp (CGet k) (RObj (Inr o1)) \<longleftrightarrow> img_PullSecret (spec_Images (cp_Spec cp)) \<noteq> [] \<and>
     k = (KSecret, cp_Namespace cp, img_PullSecret (spec_Images (cp_Spec cp))) \<and>
     sec_Type (the_secret (o_Payload o1)) \<noteq> dockerConfigJson"
| "other_pull_secret cp c r \<longleftrightarrow> False"

definition account_shown :: "ControlPlane \<Rightarrow> string \<Rightarrow> evidence" where
  "account_shown cp n c r \<longleftrightarrow> present (KServiceAccount, cp_Namespace cp, n) c r \<or> other_pull_secret cp c r"

lemma account_shown_plain:
  "img_PullSecret (spec_Images (cp_Spec cp)) = [] \<Longrightarrow>
    account_shown cp n c r \<longleftrightarrow> present (KServiceAccount, cp_Namespace cp, n) c r"
  by (cases "(cp, c, r)" rule: other_pull_secret.cases) (auto simp: account_shown_def)

text \<open>The evidence of a written config map or secret is a successful write of its key.\<close>

context library
begin

lemma provides:
  "D \<noteq> KRole \<Longrightarrow> until honest (present (KRole, cp_Namespace cp, ms_name ms)) (writes_kind D) is_err
     (createRole L cp ms)"
  "D \<noteq> KRoleBinding \<Longrightarrow> until honest (present (KRoleBinding, cp_Namespace cp, ms_name ms)) (writes_kind D) is_err
     (createRoleBinding L cp ms)"
  using missing.owned_present [of "newRole (cp_Namespace cp) (cp_Name cp) ms" D honest cp]
    missing.owned_present [of "newRoleBinding (cp_Namespace cp) (cp_Name cp) ms" D honest cp]
  by (simp_all add: createRole_def createRoleBinding_def newRole_def newRoleBinding_def okey_def new_meta_def)

lemma provides_account:
  assumes "D \<noteq> KServiceAccount" and "ms_imagePullSecret ms = img_PullSecret (spec_Images (cp_Spec cp))"
  shows "until honest (account_shown cp (ms_name ms)) (writes_kind D) is_err (createServiceAccount L cp ms)"
proof -
  have made: "until honest (account_shown cp (ms_name ms)) (writes_kind D) is_err (with_owner L cp o1 ensure_account)"
    if "okey o1 = (KServiceAccount, cp_Namespace cp, ms_name ms)" for o1
    by (rule until_weaken [OF accounts.owned_present [of o1 D]])
      (use assms(1) that in \<open>simp_all add: account_shown_def\<close>)
  have key: "okey (newServiceAccount (cp_Namespace cp) (cp_Name cp) ms) = (KServiceAccount, cp_Namespace cp, ms_name ms)"
    by (simp add: newServiceAccount_def okey_def new_meta_def)
  then have key2: "okey (newServiceAccount (cp_Namespace cp) (cp_Name cp) ms\<lparr>o_Payload := PServiceAccount ps\<rparr>) =
      (KServiceAccount, cp_Namespace cp, ms_name ms)" for ps
    by (simp add: okey_def)
  show ?thesis
    using assms(2) made [OF key] made [OF key2]
    by (auto simp: createServiceAccount_def Let_def kget_def account_shown_def split: sum.split)
qed

lemma provides_service:
  assumes "s \<in> set (ms_services ms)" and "D \<noteq> KService"
  shows "until honest (present (KService, cp_Namespace cp, s_name s)) (writes_kind D) is_err
           (createService L cp ms)"
proof -
  let ?o = "newService (cp_Namespace cp) (msLabels (cp_Name cp) ms) s"
  have "?o \<in> set (newServices (cp_Namespace cp) (cp_Name cp) ms)"
    using assms(1) by (simp add: newServices_def)
  moreover have "\<forall>o2 \<in> set (newServices (cp_Namespace cp) (cp_Name cp) ms). fst (okey o2) \<noteq> D"
    using assms(2) by (auto simp: newServices_def newService_def okey_def)
  ultimately have "until honest (present (okey ?o)) (writes_kind D) is_err (createService L cp ms)"
    unfolding createService_def by (rule missing.all_present)
  then show ?thesis by (simp add: okey_def newService_def new_meta_def)
qed

lemma provides_configmap:
  assumes "D \<noteq> KConfigMap"
  shows "until honest (present (KConfigMap, cp_Namespace cp, ''iofog-router'')) (writes_kind D) is_err
           (createConfigMap L cp)"
  unfolding createConfigMap_def
proof (rule missing.owned_rule)
  fix o2
  assume "okey o2 = okey (newRouterConfigMap (cp_Namespace cp) (cp_Name cp))"
  then have k: "okey o2 = (KConfigMap, cp_Namespace cp, ''iofog-router'')"
    by (simp add: okey_def newRouterConfigMap_def new_meta_def)
  have "okey existing = okey o2 \<Longrightarrow> okey (merged_configmap existing o2 m) = okey o2" for existing m
    using k by (auto simp: merged_configmap_def okey_def)
  with k assms show "until honest (present (KConfigMap, cp_Namespace cp, ''iofog-router'')) (writes_kind D) is_err
    (KGet (okey o2) (\<lambda>r. case r of
         Inl e \<Rightarrow> if IsNotFound e then kwrite (WCreate o2) else Done (Inl e)
       | Inr existing \<Rightarrow>
           crash_or (mergeConfigs L (configData existing) (configData o2)) (\<lambda>m. case m of
             Inl e \<Rightarrow> Done (Inl (wrap_error ''failed to merge configs: '' e))
           | Inr merged \<Rightarrow> kwrite (WUpdate (merged_configmap existing o2 merged)))))"
    by (auto simp: kwrite_def crash_or_def split: sum.split)
qed simp

end

subsection \<open>Secrets\<close>

lemma okey_relabel [simp]: "okey (relabel l s) = okey s"
  by (simp add: okey_def relabel_def)

lemma crash_free_create_secrets:
  "crash_free (for_each (\<lambda>s. with_owner L cp (relabel l s) create_if_missing) ss)"
proof -
  have one: "crash_free (with_owner L cp o1 create_if_missing)" for o1
    by (simp add: with_owner_def create_if_missing_def kwrite_def split: sum.split)
  show ?thesis
    by (induction ss) (auto simp: tryE_def split: sum.split intro!: crash_free_pbind one)
qed

context library
begin

lemma provides_secret:
  assumes "s \<in> set (ms_secrets ms)" and "\<forall>s \<in> set (ms_secrets ms). fst (okey s) \<noteq> D"
  shows "until honest (present (okey s)) (writes_kind D) is_err (createSecrets L cp ms)"
proof -
  let ?l = "getStandardLabels (getComponentFromMicroservice ms) (cp_Name cp)"
  have map: "for_each (\<lambda>s. with_owner L cp (relabel ?l s) create_if_missing) ss
      = for_each (\<lambda>o2. with_owner L cp o2 create_if_missing) (map (relabel ?l) ss)" for ss
    by (induction ss) simp_all
  have "until honest (present (okey (relabel ?l s))) (writes_kind D) is_err
      (for_each (\<lambda>o2. with_owner L cp o2 create_if_missing) (map (relabel ?l) (ms_secrets ms)))"
    using assms by (intro missing.all_present) auto
  then show ?thesis
    using recovering_crash_free [OF crash_free_create_secrets, of "\<lambda>m. Inr ()" L cp ?l "ms_secrets ms"]
    by (simp add: createSecrets_def createOrUpdateSecrets_def map [symmetric])
qed

end

definition has_secret :: "okey \<Rightarrow> KObj list \<Rightarrow> bool" where
  "has_secret k ss \<longleftrightarrow> list_ex (\<lambda>s. okey s = k) ss"

lemma generated_has_secret:
  "generated n s \<Longrightarrow> okey (in_namespace ns l s) = (KSecret, ns, n)"
  by (auto simp: generated_def tlsSecret_def okey_def in_namespace_def new_meta_def)

lemma server_provided:
  assumes "\<And>s. found = Some s \<Longrightarrow> okey s = (KSecret, ns, n)"
  shows "every A (\<lambda>c. \<not> writes_kind D c) (has_secret (KSecret, ns, n)) (router_server L n sub hosts ns l ca found)"
proof (cases found)
  case None
  have "every A (\<lambda>c. \<not> writes_kind D c) (generated n) (GenerateSecret L n sub hosts 0 (Some ca))"
    by (rule every_call_mono [OF GenerateSecret_every]) (auto elim: crypto_call.elims)
  with None show ?thesis
    by (auto simp: router_server_def has_secret_def generated_has_secret elim!: every_bindI)
qed (simp add: router_server_def has_secret_def assms)

lemma until_lookup:
  assumes "\<And>f'. (\<And>s. f' = Some s \<Longrightarrow> okey s = (KSecret, ns, n)) \<Longrightarrow> until honest E (writes_kind D) Q (f f')"
  shows "until honest E (writes_kind D) Q (lookup_secret ns n f)"
proof -
  have "until honest E (writes_kind D) Q (f None)" by (rule assms) simp
  moreover have "until honest E (writes_kind D) Q (f (Some s))" if "okey s = (KSecret, ns, n)" for s
    using that by (intro assms) auto
  ultimately show ?thesis by (simp add: lookup_secret_def split: sum.split)
qed

lemma no_kind_ca: "every A (\<lambda>c. \<not> writes_kind D c) (\<lambda>x. True) (router_ca L n ns l found)"
proof -
  have "every A (\<lambda>c. \<not> writes_kind D c) (\<lambda>x. True) (GenerateSecret L n n n 0 None)"
    by (rule every_weaken [OF GenerateSecret_every]) (auto elim: crypto_call.elims)
  then show ?thesis
    by (auto simp: router_ca_def Let_def split: option.split elim!: every_bindI)
qed

text \<open>The server certificates of the router are among the secrets of the microservice afterwards.\<close>

lemma routerSecrets_provide:
  "until honest E (writes_kind D)
     (\<lambda>r. case r of Inl e \<Rightarrow> True | Inr ms2 \<Rightarrow>
        has_secret (KSecret, ns, SiteServerSecret) (ms_secrets ms2) \<and>
        has_secret (KSecret, ns, LocalServerSecret) (ms_secrets ms2))
     (createRouterSecrets L cp ns ms address)"
  unfolding createRouterSecrets_def Let_def
proof (rule until_recovering, rule until_lookup, rule until_lookup, rule until_lookup, rule until_lookup)
  fix a b c d :: "KObj option"
  assume c: "\<And>s. c = Some s \<Longrightarrow> okey s = (KSecret, ns, SiteServerSecret)"
    and d: "\<And>s. d = Some s \<Longrightarrow> okey s = (KSecret, ns, LocalServerSecret)"
  let ?l = "getStandardLabels ''router'' (cp_Name cp)"
  let ?h = "routerSecretAddress (ms_name ms) ns address"
  let ?Q = "\<lambda>r. case r of Inl e \<Rightarrow> True | Inr ms2 \<Rightarrow>
        has_secret (KSecret, ns, SiteServerSecret) (ms_secrets ms2) \<and>
        has_secret (KSecret, ns, LocalServerSecret) (ms_secrets ms2)"
  have pair: "until honest E (writes_kind D) ?Q (pbind m (\<lambda>(x, y). f x y))"
    if "every honest (\<lambda>c. \<not> writes_kind D c) (\<lambda>x. True) m" "\<And>x y. until honest E (writes_kind D) ?Q (f x y)"
    for m :: "(KObj \<times> KObj list) prog" and f
    unfolding until_pbind by (rule until_mono [OF until_every [OF that(1)]]) (auto intro: that(2))
  have one: "until honest E (writes_kind D) ?Q (pbind m f)"
    if "every honest (\<lambda>c. \<not> writes_kind D c) (has_secret k) m"
      "\<And>out. has_secret k out \<Longrightarrow> until honest E (writes_kind D) ?Q (f out)" for m k f
    unfolding until_pbind by (rule until_mono [OF until_every [OF that(1)]]) (auto intro: that(2))
  have "until honest E (writes_kind D) ?Q
    (pbind (router_ca L SiteCaSecret ns ?l a) (\<lambda>(siteCA, out1).
     pbind (router_ca L LocalCaSecret ns ?l b) (\<lambda>(localCA, out2).
     pbind (router_server L SiteServerSecret ''iofog-router'' ?h ns ?l siteCA c) (\<lambda>out3.
     pbind (router_server L LocalServerSecret ''iofog-router-local'' ?h ns ?l localCA d) (\<lambda>out4.
       Done (Inr (ms\<lparr>ms_secrets := ms_secrets ms @ out1 @ out2 @ out3 @ out4\<rparr>)))))))"
    by (rule pair [OF no_kind_ca], rule pair [OF no_kind_ca], rule one [OF server_provided [OF c]],
        assumption, rule one [OF server_provided [OF d]], assumption) (simp add: has_secret_def)
  then show "until honest E (writes_kind D) ?Q
     (if a \<noteq> None \<and> b \<noteq> None \<and> c \<noteq> None \<and> d \<noteq> None
      then Done (Inr (ms\<lparr>ms_secrets := ms_secrets ms @ [the c, the d]\<rparr>))
      else pbind (router_ca L SiteCaSecret ns ?l a) (\<lambda>(siteCA, out1).
        pbind (router_ca L LocalCaSecret ns ?l b) (\<lambda>(localCA, out2).
        pbind (router_server L SiteServerSecret ''iofog-router'' ?h ns ?l siteCA c) (\<lambda>out3.
        pbind (router_server L LocalServerSecret ''iofog-router-local'' ?h ns ?l localCA d) (\<lambda>out4.
          Done (Inr (ms\<lparr>ms_secrets := ms_secrets ms @ out1 @ out2 @ out3 @ out4\<rparr>)))))))"
  proof (cases "a \<noteq> None \<and> b \<noteq> None \<and> c \<noteq> None \<and> d \<noteq> None")
    case True
    with c d show ?thesis by (auto simp: has_secret_def)
  qed (simp only: if_False)
qed simp

subsection \<open>The router\<close>

text \<open>What the router's pods need, by kind and name.\<close>

definition router_needs :: "ControlPlane \<Rightarrow> okey list" where
  "router_needs cp =
     [(KRole, cp_Namespace cp, ''router''), (KRoleBinding, cp_Namespace cp, ''router''),
      (KService, cp_Namespace cp, ''router''), (KConfigMap, cp_Namespace cp, ''iofog-router''),
      (KSecret, cp_Namespace cp, SiteServerSecret), (KSecret, cp_Namespace cp, LocalServerSecret)]"

lemma router_ms:
  fixes L cp
  defines "ms \<equiv> hd (newRouterMicroservices L (routerConfig cp))"
  shows "ms_name ms = ''router''" "ms_secrets ms = []"
    "ms_imagePullSecret ms = img_PullSecret (spec_Images (cp_Spec cp))"
    "''router'' \<in> s_name ` set (ms_services ms)"
  by (simp_all add: ms_def newRouterMicroservices_def newRouterMicroservice_def Let_def
      empty_microservice_def routerConfig_def routerServices_def routerName_def)

context library
begin

lemma within_address: "within cp {} (routerAddress cp n)"
  by (simp add: routerAddress_def within_wait)

text \<open>The steps from the secrets on: each of the secrets is there before a deployment.\<close>

lemma secrets_before_deployment:
  assumes "k \<in> {(KSecret, cp_Namespace cp, SiteServerSecret), (KSecret, cp_Namespace cp, LocalServerSecret)}"
    and "ms_secrets ms = []"
  shows "until honest (present k) (writes_kind KDeployment) (\<lambda>x. True)
           (orFail L (createRouterSecrets L cp (cp_Namespace cp) ms address)
              (\<lambda>ms2. orFail L (createSecrets L cp ms2) (f ms2)))"
proof -
  let ?P = "\<lambda>r. case r of Inl e \<Rightarrow> True | Inr ms2 \<Rightarrow>
        has_secret (KSecret, cp_Namespace cp, SiteServerSecret) (ms_secrets ms2) \<and>
        has_secret (KSecret, cp_Namespace cp, LocalServerSecret) (ms_secrets ms2)"
  let ?R = "\<lambda>r. case r of Inl e \<Rightarrow> True | Inr ms2 \<Rightarrow> all_mine cp (ms_secrets ms2)"
  have both: "until honest (present k) (writes_kind KDeployment) (\<lambda>r. ?P r \<and> ?R r)
      (createRouterSecrets L cp (cp_Namespace cp) ms address)"
    by (rule until_and [OF routerSecrets_provide safe_routerSecrets [OF assms(2)]])
  show ?thesis
  proof (rule until_orFail [OF both])
    fix ms2 :: microservice
    assume "?P (Inr ms2) \<and> ?R (Inr ms2)"
    then have ms2: "has_secret (KSecret, cp_Namespace cp, SiteServerSecret) (ms_secrets ms2)"
      "has_secret (KSecret, cp_Namespace cp, LocalServerSecret) (ms_secrets ms2)"
      "all_mine cp (ms_secrets ms2)" by simp_all
    from ms2 obtain s where s: "s \<in> set (ms_secrets ms2)" "okey s = k"
      using assms(1) by (auto simp: has_secret_def list_ex_iff)
    have "\<forall>s \<in> set (ms_secrets ms2). fst (okey s) \<noteq> KDeployment"
      using ms2 by (auto simp: list_all_iff mine_iff)
    from until_provided [OF provides_secret [OF s(1) this]] s(2)
    show "until honest (present k) (writes_kind KDeployment) (\<lambda>x. True) (orFail L (createSecrets L cp ms2) (f ms2))"
      by simp
  qed
qed

lemma router_until:
  "list_all (\<lambda>k. until honest (present k) (writes_kind KDeployment) (\<lambda>x. True) (reconcileRouter L cp))
     (router_needs cp)"
  "until honest (account_shown cp ''router'') (writes_kind KDeployment) (\<lambda>x. True) (reconcileRouter L cp)"
proof -
  let ?ms = "hd (newRouterMicroservices L (routerConfig cp))" and ?n = "cp_Namespace cp"
  let ?until = "\<lambda>k. until honest (present k) (writes_kind KDeployment) (\<lambda>x. True) (reconcileRouter L cp)"
  note ms = router_ms [of L cp]
  note account = until_skip_within [OF within_account]
  note role = until_skip_within [OF within_operations(5)]
  note binding = until_skip_within [OF within_operations(6)]
  note service = until_skip_within [OF within_operations(3)]
  note client = until_skip_within [OF within_ext [where K = "{}"]]
  note address = until_skip_within [OF within_address]
  show "until honest (account_shown cp ''router'') (writes_kind KDeployment) (\<lambda>x. True) (reconcileRouter L cp)"
    unfolding reconcileRouter_def Let_def
    using provides_account [of KDeployment ?ms cp] ms by (intro until_provided) simp
  have "?until (KRole, ?n, ''router'')"
    unfolding reconcileRouter_def Let_def
    by (rule account, simp, rule until_provided)
      (use provides(1) [of KDeployment cp ?ms] ms in simp)
  moreover have "?until (KRoleBinding, ?n, ''router'')"
    unfolding reconcileRouter_def Let_def
    by (rule account, simp, rule role, simp, rule until_provided)
      (use provides(2) [of KDeployment cp ?ms] ms in simp)
  moreover obtain s where "s \<in> set (ms_services ?ms)" "s_name s = ''router''" using ms(4) by auto
  then have "?until (KService, ?n, ''router'')"
    unfolding reconcileRouter_def Let_def
    by (intro account role binding until_provided)
      (use provides_service [of s ?ms KDeployment cp] in simp_all)
  moreover have "?until (KConfigMap, ?n, ''iofog-router'')"
  proof -
    have config: "until honest (present (KConfigMap, ?n, ''iofog-router'')) (writes_kind KDeployment) (\<lambda>x. True)
        (orFail L (createConfigMap L cp) f)" for f
      by (rule until_provided [OF provides_configmap]) simp
    have secrets: "safe cp {KSecret} (\<lambda>r. case r of Inl e \<Rightarrow> True | Inr ms2 \<Rightarrow> all_mine cp (ms_secrets ms2))
        (createRouterSecrets L cp ?n ?ms a)" for a
      by (rule safe_routerSecrets [OF ms(2)])
    show ?thesis
      unfolding reconcileRouter_def Let_def newK8sClient_def
      by (rule account, simp, rule role, simp, rule binding, simp, rule service, simp, rule client, simp,
          rule address, simp, rule until_orFail [OF until_every [OF secrets]], erule no_write_kind, simp,
          rule until_skip_within [OF within_secrets], simp add: list_all_iff, simp, rule config)
  qed
  moreover have "?until k"
    if "k \<in> {(KSecret, ?n, SiteServerSecret), (KSecret, ?n, LocalServerSecret)}" for k
    unfolding reconcileRouter_def Let_def newK8sClient_def
    by (rule account, simp, rule role, simp, rule binding, simp, rule service, simp, rule client, simp,
        rule address, simp, rule secrets_before_deployment [OF that ms(2)])
  ultimately show "list_all ?until (router_needs cp)" by (simp add: router_needs_def)
qed

end

text \<open>A ControlPlane whose router is reached by an address of the spec.\<close>

definition sample_router :: ControlPlane where
  "sample_router =
     empty_cp\<lparr>cp_Spec := empty_spec\<lparr>spec_Ingresses := (spec_Ingresses empty_spec)
       \<lparr>ing_Router := (ing_Router (spec_Ingresses empty_spec))\<lparr>ri_Address := ''router.example''\<rparr>\<rparr>\<rparr>\<rparr>"

text \<open>
  C7: The router's deployment is written last: when a deployment is written, the API server has
  confirmed before that its role, its role binding, its service, its configuration and the
  secrets with its two server certificates exist. Its service account was confirmed too, but for
  one case: a pull secret is configured, was read and has another type than it should, and then
  the deployment is written without the account.
\<close>

theorem router_deployed_last:
  assumes "library L" and "runs (reconcileRouter L cp) tr out" and "\<forall>(c, r) \<in> set tr. honest c r"
    and "tr = before @ (CWrite w, r) # after" and "fst (write_key w) = KDeployment"
  shows "(\<forall>k \<in> set (router_needs cp). \<exists>(c', r') \<in> set before. present k c' r') \<and>
    (\<exists>(c', r') \<in> set before. present (KServiceAccount, cp_Namespace cp, ''router'') c' r' \<or>
       other_pull_secret cp c' r')"
proof -
  note router = library.router_until [OF assms(1), of cp, unfolded list_all_iff]
  have deploys: "writes_kind KDeployment (CWrite w)" using assms(5) by simp
  show ?thesis
    using until_before [OF assms(2) bspec [OF router(1)] assms(3,4) deploys]
      until_before [OF assms(2) router(2) assms(3,4) deploys]
    unfolding account_shown_def by blast
qed

text \<open>A router that is reconciled without an error has written its deployment.\<close>

lemma createDeployment_writes:
  "until honest (\<lambda>c r. writes_kind KDeployment c) (\<lambda>c. False) is_err (createDeployment L cp ms)"
proof -
  have "until honest (\<lambda>c r. writes_kind KDeployment c) (\<lambda>c. False) is_err (create_or_update o1)"
    if "fst (okey o1) = KDeployment" for o1
    using that by (auto simp: create_or_update_def kwrite_def split: sum.split)
  then show ?thesis
    by (auto simp: createDeployment_def with_owner_def setOwner_def okey_def newDeployment_def Let_def
        split: sum.split)
qed

lemma router_writes:
  assumes "library L"
  shows "until honest (\<lambda>c r. writes_kind KDeployment c) (\<lambda>c. False) (\<lambda>x. x \<noteq> op_Continue (lib_op L))
           (reconcileRouter L cp)"
proof -
  have err: "op_ReconcileWithError (lib_op L) e \<noteq> op_Continue (lib_op L)" for e
    by (rule operator_sdk.error_not_continue [OF library.sdk [OF assms]])
  have any: "until honest E (\<lambda>c. False) (\<lambda>x. True) m" for E and m :: "'b prog"
    by (induction m) simp_all
  have skip: "until honest E (\<lambda>c. False) (\<lambda>x. x \<noteq> op_Continue (lib_op L)) (orFail L m f)"
    if "\<And>x. until honest E (\<lambda>c. False) (\<lambda>x. x \<noteq> op_Continue (lib_op L)) (f x)" for E f and m :: "(GoError + 'b) prog"
    unfolding orFail_def
    by (rule until_orElseErr [where R = "\<lambda>_. True"]) (auto intro: until_mono [OF any] that simp: err split: sum.split)
  have "until honest (\<lambda>c r. writes_kind KDeployment c) (\<lambda>c. False) is_err
      (for_each (createDeployment L cp) (ms # mss))" for ms mss
    unfolding for_each.simps
    by (rule until_tryE [where R = "\<lambda>_. False"], rule until_mono [OF createDeployment_writes])
      (auto split: sum.splits)
  then have last: "until honest (\<lambda>c r. writes_kind KDeployment c) (\<lambda>c. False) (\<lambda>x. x \<noteq> op_Continue (lib_op L))
      (orFail L (for_each (createDeployment L cp) (ms # mss)) f)" for ms mss f
    unfolding orFail_def by (rule until_done_after) (rule err)
  show ?thesis
    unfolding reconcileRouter_def Let_def by (intro skip last)
qed

lemma router_deployed_last_witness:
  "\<exists>before w r after.
     runs (reconcileRouter lib_ref sample_router) (before @ (CWrite w, r) # after)
       (Returned (op_Continue (lib_op lib_ref))) \<and> fst (write_key w) = KDeployment \<and>
     (\<forall>k \<in> set (router_needs sample_router). \<exists>(c', r') \<in> set before. present k c' r') \<and>
     (\<exists>(c', r') \<in> set before. present (KServiceAccount, ''ns'', ''router'') c' r')"
proof -
  have "may settled (reconcileRouter lib_ref sample_router) (op_Continue (lib_op lib_ref))"
    by (rule lib_ref_coop.can_router) (simp add: router_reachable_def sample_router_def)
  then obtain tr where tr: "runs (reconcileRouter lib_ref sample_router) tr (Returned (op_Continue (lib_op lib_ref)))"
    "\<forall>(c, r) \<in> set tr. honest c r"
    unfolding may_def using settled_honest by blast
  obtain c r where "(c, r) \<in> set tr" "writes_kind KDeployment c"
    using until_success [OF tr(1) router_writes [OF lib_ref.library_axioms] tr(2)] by auto
  moreover from this(2) obtain w where w: "c = CWrite w" "fst (write_key w) = KDeployment"
    by (cases c) auto
  ultimately obtain before after where split: "tr = before @ (CWrite w, r) # after"
    by (auto dest: split_list)
  have plain: "img_PullSecret (spec_Images (cp_Spec sample_router)) = []" "cp_Namespace sample_router = ''ns''"
    by (simp_all add: sample_router_def empty_cp_def empty_spec_def new_meta_def Let_def)
  have "\<not> other_pull_secret sample_router c r" for c r
    using plain(1) by (cases "(sample_router, c, r)" rule: other_pull_secret.cases) auto
  with router_deployed_last [OF lib_ref.library_axioms tr split w(2)] tr(1) split w(2) plain(2)
  show ?thesis by auto
qed

end
