(* ===== verification/Readiness.thy ===== *)
theory Readiness
  imports Completing
begin

text \<open>
  When a ControlPlane is called ready, and what a reconcile does in each of its states: the
  properties of whole reconciles, over every interleaving of the routines.
\<close>

subsection \<open>An example\<close>

text \<open>A ControlPlane whose router has a load balancer and that is being deployed.\<close>

definition sample_cp :: ControlPlane where
  "sample_cp =
     empty_cp
       \<lparr>cp_Spec := empty_spec
          \<lparr>spec_Services := (spec_Services empty_spec)
             \<lparr>svcs_Router := (svcs_Router (spec_Services empty_spec))\<lparr>svc_Type := ''LoadBalancer''\<rparr>\<rparr>\<rparr>,
        cp_Conditions := [new_condition 1 0 conditionDeploying]\<rparr>"

lemma sample_deployable: "deployable lib_ref sample_cp"
  by (simp add: deployable_def router_reachable_def sample_cp_def empty_cp_def empty_spec_def Let_def
      equalFold_def lowerByte_def lib_ref_def serviceURL_def controllerScheme_def new_meta_def
      contains_def itoa_def itoa_nat.simps digit_def login_request_def isNatsEnabled_def
      natsConfig_def newNatsMicroservice_def storageQuantity_def DefaultStorageSizePVC_def)
    (simp add: char_of_def bit_0)

subsection \<open>Schedules\<close>

lemma errors_of_mset:
  "mset rs = mset rs' \<Longrightarrow> mset (errors_of rs) = mset (errors_of rs')"
  by (simp only: errors_of_def mset_map mset_filter)

lemma routines_results:
  assumes "pool_run (start_pool (routines L cp)) tr s" and "\<forall>r \<in> set (pl_routines s). r = None"
  shows "\<exists>router nats controller.
           runs (reconcileRouter L cp) (proj 0 tr) (Returned router) \<and>
           runs (reconcileNats L cp) (proj 1 tr) (Returned nats) \<and>
           runs (reconcileIofogController L cp) (proj 2 tr) (Returned controller) \<and>
           mset (pl_chan s) = mset [router, nats, controller]"
proof -
  obtain xs where xs: "length xs = length (routines L cp)" "mset (pl_chan s) = mset xs"
    "\<forall>i < length (routines L cp). runs (routines L cp ! i) (proj i tr) (Returned (xs ! i))"
    using pool_run_complete [OF assms] by blast
  then obtain a b c where abc: "xs = [a, b, c]"
    by (auto simp: routines_def length_Suc_conv numeral_3_eq_3)
  have "runs (reconcileRouter L cp) (proj 0 tr) (Returned a)"
    using xs(3) abc by (auto simp: routines_def dest: spec [of _ 0])
  moreover have "runs (reconcileNats L cp) (proj 1 tr) (Returned b)"
    using xs(3) abc by (auto simp: routines_def dest: spec [of _ 1])
  moreover have "runs (reconcileIofogController L cp) (proj 2 tr) (Returned c)"
    using xs(3) abc by (auto simp: routines_def dest: spec [of _ 2])
  ultimately show ?thesis using xs(2) abc by blast
qed

text \<open>
  C4: The goroutines may interleave and send their results in any way: the channel holds the
  results of complete runs of the three routines, each on its own calls, in some order; and what
  they come to is what they come to in the fixed order, but for the order of the messages: the
  same requeue, end and delay, and an error whose text joins the messages of all their errors,
  each as often as it occurs.
\<close>

theorem aggregate_any_schedule:
  assumes "pool_run (start_pool (routines L cp)) tr s" and "\<forall>r \<in> set (pl_routines s). r = None"
  shows "\<exists>router nats controller.
           runs (reconcileRouter L cp) (proj 0 tr) (Returned router) \<and>
           runs (reconcileNats L cp) (proj 1 tr) (Returned nats) \<and>
           runs (reconcileIofogController L cp) (proj 2 tr) (Returned controller) \<and>
           mset (pl_chan s) = mset [router, nats, controller] \<and>
           same_answer (aggregate (pl_chan s)) (aggregate [router, nats, controller]) \<and>
           (\<exists>es. mset es = mset (errors_of [router, nats, controller]) \<and>
              map_option err_Msg (rc_Err (aggregate (pl_chan s))) =
                (if es = [] then None else Some (join [CHR 0x0A] (map err_Msg es))))"
proof -
  obtain router nats controller where
    "runs (reconcileRouter L cp) (proj 0 tr) (Returned router)"
    "runs (reconcileNats L cp) (proj 1 tr) (Returned nats)"
    "runs (reconcileIofogController L cp) (proj 2 tr) (Returned controller)"
    and chan: "mset (pl_chan s) = mset [router, nats, controller]"
    using routines_results [OF assms] by blast
  moreover have "same_answer (aggregate (pl_chan s)) (aggregate [router, nats, controller])"
    by (rule aggregate_set_cong [OF mset_eq_setD [OF chan]])
  ultimately show ?thesis using errors_of_mset [OF chan] aggregate_message [of "pl_chan s"] by blast
qed

lemma aggregate_any_schedule_witness:
  "\<exists>tr s router nats controller es.
     pool_run (start_pool (routines lib_ref sample_cp)) tr s \<and>
     runs (reconcileRouter lib_ref sample_cp) (proj 0 tr) (Returned router) \<and>
     mset (pl_chan s) = mset [router, nats, controller] \<and>
     mset es = mset (errors_of [router, nats, controller]) \<and>
     map_option err_Msg (rc_Err (aggregate (pl_chan s))) =
       (if es = [] then None else Some (join [CHR 0x0A] (map err_Msg es)))"
  using lib_ref_coop.routines_can_end [OF sample_deployable] aggregate_any_schedule by metis

subsection \<open>From routines to ready\<close>

context library
begin

lemma same_answer_final:
  "same_answer a b \<Longrightarrow> op_IsFinal (lib_op L) a = op_IsFinal (lib_op L) b"
  by (auto simp: same_answer_def IsFinal)

text \<open>What the end of a reconcile can be.\<close>

lemma runs_setReady:
  assumes "runs (setReady L cp) tr (Returned a)"
  shows "\<exists>now r rest. tr = (CNow, RTime now) #
           (CWrite (WStatusUpdate (cp_obj (SetConditionReady (lib_ssc L) now cp))), r) # rest"
  using assms by (auto simp: setReady_def orFail_def orElseErr_def update_status_def)

lemma runs_finish:
  assumes "runs (finishReconcile L f cp recons) tr (Returned a)"
  shows "(if op_IsFinal (lib_op L) (aggregate recons)
          then tr = [] \<and> a = op_Result (lib_op L) (aggregate recons)
          else if (if f = ReconcileUpdating then IsUpdating cp else IsDeploying cp)
          then \<exists>now r rest. tr = (CNow, RTime now) #
                 (CWrite (WStatusUpdate (cp_obj (SetConditionReady (lib_ssc L) now cp))), r) # rest
          else tr = [])"
proof -
  obtain tr1 tr2 recon where tr: "tr = tr1 @ tr2"
    "runs (if f = ReconcileUpdating then finishUpdating L cp recons else finishDeploying L cp recons)
       tr1 (Returned recon)" "tr2 = []" "a = op_Result (lib_op L) recon"
    using assms unfolding finishReconcile_def runs_pbind_Returned by auto
  then show ?thesis
    using runs_setReady [of cp tr1 recon]
    by (auto simp: finishUpdating_def finishDeploying_def Let_def split: if_splits)
qed

lemma ready_after: "IsReady (SetConditionReady (lib_ssc L) now cp)"
  by (simp add: IsReady_def SetConditionReady_def get_set)

end

text \<open>A reconcile that writes at its end: all of its parts.\<close>

lemma ready_parts:
  assumes "library L" and "reconcile L cp0 namespace n tr1 tr2 tr3 a" and "tr3 \<noteq> []"
  obtains f cp s router nats controller now r rest where
    "runs (startReconcile L cp0 namespace n) tr1 (Returned (Fork f cp))"
    "pool_run (start_pool (routines L cp)) tr2 s"
    "runs (finishReconcile L f cp (pl_chan s)) tr3 (Returned a)"
    "runs (reconcileRouter L cp) (proj 0 tr2) (Returned router)"
    "runs (reconcileNats L cp) (proj 1 tr2) (Returned nats)"
    "runs (reconcileIofogController L cp) (proj 2 tr2) (Returned controller)"
    "list_all (\<lambda>x. \<not> op_IsFinal (lib_op L) x) [router, nats, controller]"
    "tr3 = (CNow, RTime now) #
       (CWrite (WStatusUpdate (cp_obj (SetConditionReady (lib_ssc L) now cp))), r) # rest"
  using assms(2)
proof (cases rule: reconcile.cases)
  case answered
  with assms(3) show ?thesis by simp
next
  case (forked f cp s)
  note fin = library.runs_finish [OF assms(1) forked(4)]
  from assms(3) fin have nf: "\<not> op_IsFinal (lib_op L) (aggregate (pl_chan s))" by (auto split: if_splits)
  obtain now r rest where tr3: "tr3 = (CNow, RTime now) #
      (CWrite (WStatusUpdate (cp_obj (SetConditionReady (lib_ssc L) now cp))), r) # rest"
    using assms(3) fin nf by (auto split: if_splits)
  obtain x y z where xyz: "runs (reconcileRouter L cp) (proj 0 tr2) (Returned x)"
    "runs (reconcileNats L cp) (proj 1 tr2) (Returned y)"
    "runs (reconcileIofogController L cp) (proj 2 tr2) (Returned z)"
    "mset (pl_chan s) = mset [x, y, z]"
    using routines_results [OF forked(2,3)] by blast
  then have "\<not> op_IsFinal (lib_op L) (aggregate [x, y, z])"
    using nf library.same_answer_final [OF assms(1) aggregate_set_cong [OF mset_eq_setD]] by blast
  then have "list_all (\<lambda>x. \<not> op_IsFinal (lib_op L) x) [x, y, z]"
    using library.final_aggregate [OF assms(1), of "[x, y, z]"] by auto
  from that [OF forked(1,2,4) xyz(1-3) this tr3] show ?thesis .
qed

text \<open>
  C2: Nothing is written at the end of a reconcile unless each of the three routines has run to
  its end with a result that is neither an error nor a requeue; and then the first write makes
  the ControlPlane they all worked on ready, at its generation.
\<close>

theorem ready_only_after_routines:
  assumes "library L" and "reconcile L cp0 namespace n tr1 tr2 tr3 a" and "tr3 \<noteq> []"
  shows "\<exists>f cp router nats controller now r rest.
           runs (startReconcile L cp0 namespace n) tr1 (Returned (Fork f cp)) \<and>
           runs (reconcileRouter L cp) (proj 0 tr2) (Returned router) \<and>
           runs (reconcileNats L cp) (proj 1 tr2) (Returned nats) \<and>
           runs (reconcileIofogController L cp) (proj 2 tr2) (Returned controller) \<and>
           list_all (\<lambda>x. \<not> op_IsFinal (lib_op L) x) [router, nats, controller] \<and>
           tr3 = (CNow, RTime now) #
             (CWrite (WStatusUpdate (cp_obj (SetConditionReady (lib_ssc L) now cp))), r) # rest \<and>
           IsReady (SetConditionReady (lib_ssc L) now cp)"
  by (rule ready_parts [OF assms]) (use library.ready_after [OF assms(1)] in blast)

subsection \<open>Becoming ready\<close>

lemma spec_only [simp]:
  "serviceURL (cp\<lparr>cp_Conditions := cs\<rparr>) = serviceURL cp"
  "router_reachable (cp\<lparr>cp_Conditions := cs\<rparr>) = router_reachable cp"
  "isNatsEnabled (cp\<lparr>cp_Conditions := cs\<rparr>) = isNatsEnabled cp"
  "natsConfig L (cp\<lparr>cp_Conditions := cs\<rparr>) = natsConfig L cp"
  by (simp_all add: router_reachable_def serviceURL_def controllerScheme_def isNatsEnabled_def)
    (simp add: natsConfig_def natsReplicas_def Let_def)

lemma deployable_conditions [simp]:
  "deployable L (cp\<lparr>cp_Conditions := cs\<rparr>) = deployable L cp"
  by (simp add: deployable_def)

lemma set_conditions_only:
  "SetConditionReady ssc now cp = cp\<lparr>cp_Conditions := cp_Conditions (SetConditionReady ssc now cp)\<rparr>"
  "SetConditionDeploying ssc now cp = cp\<lparr>cp_Conditions := cp_Conditions (SetConditionDeploying ssc now cp)\<rparr>"
  by (simp_all add: SetConditionReady_def SetConditionDeploying_def setCondition_def)

lemma deployable_set [simp]: "deployable L (SetConditionDeploying ssc now cp) = deployable L cp"
  by (subst set_conditions_only) simp

lemma not_two_states [simp]:
  "IsReady cp \<Longrightarrow> \<not> IsDeploying cp" "IsReady cp \<Longrightarrow> \<not> IsUpdating cp"
  "IsDeploying cp \<Longrightarrow> \<not> IsUpdating cp"
  by (simp_all add: IsReady_def IsDeploying_def IsUpdating_def conditionReady_def
      conditionDeploying_def conditionUpdating_def)

text \<open>
  The state in which the routines run: the one read, or deploying when the one read is none of
  the three.
\<close>

definition answered_as :: "allowed \<Rightarrow> event list \<Rightarrow> bool" where
  "answered_as A tr \<longleftrightarrow> (\<forall>(c, r) \<in> set tr. A c r)"

abbreviation answered_honestly :: "event list \<Rightarrow> bool" where
  "answered_honestly \<equiv> answered_as honest"

lemma answered_as_simps [simp]:
  "answered_as A []"
  "answered_as A ((c, r) # tr) \<longleftrightarrow> A c r \<and> answered_as A tr"
  "answered_as A (tr @ tr') \<longleftrightarrow> answered_as A tr \<and> answered_as A tr'"
  by (auto simp: answered_as_def)

lemma settled_honestly: "answered_as settled tr \<Longrightarrow> answered_honestly tr"
  by (auto simp: answered_as_def dest: settled_honest)

lemma start_forks:
  assumes "status_condition (lib_ssc L)" and "\<not> IsReady cp"
  shows "\<exists>f cp' tr. runs (startReconcile L cp0 namespace n)
             ((CGet (KControlPlane, namespace, n), RObj (Inr (cp_obj cp))) # tr) (Returned (Fork f cp')) \<and>
           answered_as settled tr \<and> f \<noteq> ReconcileReady \<and> (f = ReconcileUpdating \<longleftrightarrow> IsUpdating cp') \<and>
           (f = ReconcileDeploying \<longleftrightarrow> IsDeploying cp') \<and>
           (cp' = cp \<or> cp' = SetConditionDeploying (lib_ssc L) 0 cp)"
proof -
  let ?g = "(CGet (KControlPlane, namespace, n), RObj (Inr (cp_obj cp)))"
  consider (d) "IsDeploying cp" | (u) "IsUpdating cp" | (other) "\<not> IsDeploying cp" "\<not> IsUpdating cp"
    by blast
  then show ?thesis
  proof cases
    case d
    with assms(2) have "runs (startReconcile L cp0 namespace n) [?g] (Returned (Fork ReconcileDeploying cp))"
      by (simp add: startReconcile_def getReconcileFunc_def)
    with d show ?thesis by (intro exI conjI) auto
  next
    case u
    moreover from u have "\<not> IsDeploying cp" using not_two_states(3) by blast
    ultimately have "runs (startReconcile L cp0 namespace n) [?g] (Returned (Fork ReconcileUpdating cp))"
      using assms(2) by (simp add: startReconcile_def getReconcileFunc_def)
    with u \<open>\<not> IsDeploying cp\<close> show ?thesis by (intro exI conjI) auto
  next
    case other
    let ?cp = "SetConditionDeploying (lib_ssc L) 0 cp"
    have dep: "IsDeploying ?cp"
      by (simp add: IsDeploying_def SetConditionDeploying_def status_condition.get_set [OF assms(1)])
    have "runs (startReconcile L cp0 namespace n)
        [?g, (CNow, RTime 0), (CWrite (WStatusUpdate (cp_obj ?cp)), RObj (Inr (cp_obj ?cp)))]
        (Returned (Fork ReconcileDeploying ?cp))"
      using other assms(2)
      by (simp add: startReconcile_def getReconcileFunc_def tryE_def update_status_def)
    with dep not_two_states(3) [OF dep] show ?thesis by (intro exI conjI) auto
  qed
qed

lemma becomes_ready:
  assumes "cooperative L" and "deployable L cp" and "\<not> IsReady cp"
  shows "\<exists>tr1 tr2 tr3 ready r a.
           reconcile L cp0 namespace n
             ((CGet (KControlPlane, namespace, n), RObj (Inr (cp_obj cp))) # tr1) tr2
             (tr3 @ [(CWrite (WUpdate (cp_obj ready)), r)]) a \<and>
           answered_as settled (tr1 @ map snd tr2 @ tr3 @ [(CWrite (WUpdate (cp_obj ready)), r)]) \<and>
           snd a = None \<and> IsReady ready \<and> cp_Meta ready = cp_Meta cp \<and> cp_Spec ready = cp_Spec cp"
proof -
  have lib: "library L" using assms(1) by (simp add: cooperative_def)
  then have ssc: "status_condition (lib_ssc L)" by (rule library.conditions)
  from start_forks [OF ssc assms(3), of cp0 namespace n] obtain f cp' tr1 where start:
    "runs (startReconcile L cp0 namespace n)
       ((CGet (KControlPlane, namespace, n), RObj (Inr (cp_obj cp))) # tr1) (Returned (Fork f cp'))"
    "answered_as settled tr1" "f \<noteq> ReconcileReady" "f = ReconcileUpdating \<longleftrightarrow> IsUpdating cp'"
    "f = ReconcileDeploying \<longleftrightarrow> IsDeploying cp'"
    "cp' = cp \<or> cp' = SetConditionDeploying (lib_ssc L) 0 cp" by blast
  note start(1) start(3-6)
  then have "deployable L cp'" using assms(2) by auto
  then obtain tr2 s where pool: "pool_run (start_pool (routines L cp')) tr2 s"
    "\<forall>r \<in> set (pl_routines s). r = None" "\<forall>(i, c, r) \<in> set tr2. settled c r"
    "pl_chan s = [op_Continue (lib_op L), op_Continue (lib_op L), op_Continue (lib_op L)]"
    using cooperative.routines_can_end [OF assms(1)] by blast
  let ?ready = "SetConditionReady (lib_ssc L) 0 cp'"
  let ?tr3 = "[(CNow, RTime 0), (CWrite (WStatusUpdate (cp_obj ?ready)), RObj (Inr (cp_obj ?ready)))]"
  let ?w = "(CWrite (WUpdate (cp_obj ?ready)), RObj (Inr (cp_obj ?ready)))"
  have "\<not> op_IsFinal (lib_op L) (aggregate (pl_chan s))"
    using library.final_aggregate [OF lib] operator_sdk.continue_not_final [OF library.sdk [OF lib]] pool(4)
    by simp
  moreover have "f = ReconcileUpdating \<or> f = ReconcileDeploying" using start(3) by (cases f) auto
  ultimately have "runs (finishReconcile L f cp' (pl_chan s)) (?tr3 @ [?w])
      (Returned (op_Result (lib_op L) (op_Reconcile (lib_op L))))"
    using start(4,5)
    by (auto simp: finishReconcile_def finishUpdating_def finishDeploying_def setReady_def orFail_def
        orElseErr_def update_status_def update_cp_def pbind_assoc)
  with start(1) pool(1,2) have rec: "reconcile L cp0 namespace n
      ((CGet (KControlPlane, namespace, n), RObj (Inr (cp_obj cp))) # tr1) tr2 (?tr3 @ [?w])
      (op_Result (lib_op L) (op_Reconcile (lib_op L)))"
    by (intro reconcile.forked)
  have err: "snd (op_Result (lib_op L) (op_Reconcile (lib_op L))) = None"
    using operator_sdk.Result [OF library.sdk [OF lib]] operator_sdk.Reconcile [OF library.sdk [OF lib]] by simp
  have same: "cp_Meta ?ready = cp_Meta cp" "cp_Spec ?ready = cp_Spec cp"
    using start(6) by (auto simp: SetConditionReady_def SetConditionDeploying_def setCondition_def)
  have "answered_as settled (tr1 @ map snd tr2 @ ?tr3 @ [?w])"
    using start(2) pool(3) by (auto simp: answered_as_def)
  then show ?thesis using rec err same library.ready_after [OF lib] by blast
qed

text \<open>
  C3: Readiness is within reach of every spec that can be deployed, from whatever state: some
  answers an honest API server and controller can give make the reconcile end without an error,
  and its last write is of the same spec, in the state ready.
\<close>

theorem can_become_ready:
  assumes "cooperative L" and "deployable L cp" and "\<not> IsReady cp"
  shows "\<exists>tr1 tr2 tr3 ready r a.
           reconcile L cp0 namespace n
             ((CGet (KControlPlane, namespace, n), RObj (Inr (cp_obj cp))) # tr1) tr2
             (tr3 @ [(CWrite (WUpdate (cp_obj ready)), r)]) a \<and>
           answered_honestly (tr1 @ map snd tr2 @ tr3 @ [(CWrite (WUpdate (cp_obj ready)), r)]) \<and>
           snd a = None \<and> IsReady ready \<and> cp_Meta ready = cp_Meta cp \<and> cp_Spec ready = cp_Spec cp"
  using becomes_ready [OF assms, of cp0 namespace n] settled_honestly by blast

lemma sample_not_ready: "\<not> IsReady sample_cp"
  by (simp add: sample_cp_def empty_cp_def new_meta_def IsReady_def GetCondition_def new_condition_def
      conditionReady_def conditionDeploying_def)

lemma can_become_ready_witness:
  "\<exists>tr1 tr2 tr3 ready r a.
     reconcile lib_ref empty_cp ''ns'' ''pot''
       ((CGet (KControlPlane, ''ns'', ''pot''), RObj (Inr (cp_obj sample_cp))) # tr1) tr2
       (tr3 @ [(CWrite (WUpdate (cp_obj ready)), r)]) a \<and> snd a = None \<and> IsReady ready"
  using can_become_ready [OF lib_ref_coop.cooperative_axioms sample_deployable sample_not_ready] by blast

lemma ready_only_after_routines_witness:
  "\<exists>tr1 tr2 f cp router nats controller.
     runs (startReconcile lib_ref empty_cp ''ns'' ''pot'') tr1 (Returned (Fork f cp)) \<and>
     runs (reconcileRouter lib_ref cp) (proj 0 tr2) (Returned router) \<and>
     runs (reconcileNats lib_ref cp) (proj 1 tr2) (Returned nats) \<and>
     runs (reconcileIofogController lib_ref cp) (proj 2 tr2) (Returned controller) \<and>
     list_all (\<lambda>x. \<not> op_IsFinal (lib_op lib_ref) x) [router, nats, controller]"
proof -
  obtain tr1 tr2 tr3 a where "reconcile lib_ref empty_cp ''ns'' ''pot'' tr1 tr2 tr3 a" "tr3 \<noteq> []"
    using becomes_ready [OF lib_ref_coop.cooperative_axioms sample_deployable sample_not_ready] by blast
  from ready_only_after_routines [OF lib_ref.library_axioms this] show ?thesis by blast
qed

end
