(* ===== verification/ApiOrder.thy ===== *)
theory ApiOrder
  imports Ordering Readiness
begin

text \<open>
  The calls of the ioFog controller's REST API: they all go to the controller's own service, but
  for one request of the status through its load balancer, and none is made before the
  controller has answered for its status.
\<close>

subsection \<open>Calls of the API\<close>

fun api_client :: "Call \<Rightarrow> IofogClient option" where
  "api_client (CExt (GetStatus c)) = Some c"
| "api_client (CExt (PutDefaultRouter c a i e m)) = Some c"
| "api_client (CExt (UpsertNatsHub c i)) = Some c"
| "api_client (CExt (GetCA c n)) = Some c"
| "api_client (CExt (CreateCA c n t s)) = Some c"
| "api_client (CBootstrap c) = Some c"
| "api_client _ = None"

text \<open>Requests of the status, and every call but the request of the status at the given URL.\<close>

fun is_status :: "Call \<Rightarrow> bool" where
  "is_status (CExt (GetStatus c)) = True"
| "is_status _ = False"

definition status_at :: "string \<Rightarrow> Call \<Rightarrow> bool" where
  "status_at url c \<longleftrightarrow> is_status c \<and> map_option ic_BaseURL (api_client c) = Some url"

definition is_api :: "string \<Rightarrow> Call \<Rightarrow> bool" where
  "is_api url c \<longleftrightarrow> api_client c \<noteq> None \<and> \<not> status_at url c"

fun status_answered :: "string \<Rightarrow> evidence" where
  "status_answered url (CExt (GetStatus c)) (RStr (Inr s)) = (ic_BaseURL c = url)"
| "status_answered url _ _ = False"

text \<open>The API through the load balancer of the controller's service, at the host it was given.\<close>

definition balancerURL :: "ControlPlane \<Rightarrow> string \<Rightarrow> string" where
  "balancerURL cp host = controllerScheme cp @ ''://'' @ host @ '':'' @ itoa 51121 @ ''/api/v3''"

fun balancer_answered :: "ControlPlane \<Rightarrow> string \<Rightarrow> evidence" where
  "balancer_answered cp url (CExt (WaitForLoadBalancer ns n t)) (RStr (Inr host)) \<longleftrightarrow>
     ns = cp_Namespace cp \<and> n = controllerName \<and> url = balancerURL cp host"
| "balancer_answered cp url _ _ \<longleftrightarrow> False"

text \<open>
  Code that makes no such call, and code that makes those that are not for the status to one URL
  only.
\<close>

abbreviation no_api :: "'a prog \<Rightarrow> bool" where
  "no_api p \<equiv> every any_reply (\<lambda>c. api_client c = None) (\<lambda>x. True) p"

definition calls_only :: "string \<Rightarrow> Call \<Rightarrow> bool" where
  "calls_only url c \<longleftrightarrow>
     is_status c \<or> (case api_client c of None \<Rightarrow> True | Some cl \<Rightarrow> ic_BaseURL cl = url)"

abbreviation api_to :: "string \<Rightarrow> 'a prog \<Rightarrow> bool" where
  "api_to url p \<equiv> every any_reply (calls_only url) (\<lambda>x. True) p"

lemma no_api_to: "no_api p \<Longrightarrow> api_to url p"
  by (erule every_call_mono) (simp add: calls_only_def)

text \<open>Both notions go through sequencing; \<open>P\<close> is either.\<close>

abbreviation keeps :: "(Call \<Rightarrow> bool) \<Rightarrow> 'a prog \<Rightarrow> bool" where
  "keeps P p \<equiv> every any_reply P (\<lambda>x. True) p"

lemma keeps_orElseErr: "keeps P m \<Longrightarrow> (\<And>x. keeps P (f x)) \<Longrightarrow> keeps P (orElseErr h m f)"
  by (rule every_orElseErr [where R = "\<lambda>_. True"]) (auto elim!: every_mono split: sum.splits)

lemma keeps_orFail: "keeps P m \<Longrightarrow> (\<And>x. keeps P (f x)) \<Longrightarrow> keeps P (orFail L m f)"
  unfolding orFail_def by (rule keeps_orElseErr)

lemma keeps_tryE: "keeps P m \<Longrightarrow> (\<And>x. keeps P (f x)) \<Longrightarrow> keeps P (tryE m f)"
  by (rule every_tryE [where R = "\<lambda>_. True"]) (auto elim!: every_mono split: sum.splits)

lemma keeps_pbind: "keeps P m \<Longrightarrow> (\<And>x. keeps P (f x)) \<Longrightarrow> keeps P (pbind m f)"
  by (rule every_bindI)

lemmas keeps_rules = keeps_orElseErr keeps_orFail keeps_tryE keeps_pbind with_owner_every for_each_every
  every_recovering

subsection \<open>Operations without them\<close>

lemma no_api_ensure [simp]:
  "no_api (create_if_missing o1)" "no_api (create_or_update o1)" "no_api (ensure_account o1)"
  "no_api (kget k ns n)" "no_api (kwrite w)" "no_api newK8sClient" "no_api (waitForLoadBalancer ns n)"
  by (simp_all add: create_if_missing_def create_or_update_def ensure_account_def kget_def kwrite_def
      newK8sClient_def ext_call_def waitForLoadBalancer_def split: sum.split)

lemma no_api_objects [simp]:
  "no_api (createDeployment L cp ms)" "no_api (createStatefulSet L cp ms)" "no_api (createService L cp ms)"
  "no_api (createIngress L cp icfg)" "no_api (createRole L cp ms)" "no_api (createRoleBinding L cp ms)"
  "no_api (createServiceAccount L cp ms)" "no_api (createSecrets L cp ms)"
  "no_api (createPersistentVolumeClaims L cp ms)" "no_api (createConfigMap L cp)"
  "no_api (createIfAbsent L cp o1)" "no_api (createOrUpdateSecret L cp l o1)" "no_api (createOwned L cp o1)"
  by (auto simp: createDeployment_def createStatefulSet_def createService_def createIngress_def
      createRole_def createRoleBinding_def createServiceAccount_def createSecrets_def
      createOrUpdateSecrets_def createPersistentVolumeClaims_def createConfigMap_def crash_or_def
      createIfAbsent_def createOrUpdateSecret_def createOwned_def Let_def
      intro!: keeps_rules split: option.split sum.split)

lemma no_api_generate: "no_api (GenerateSecret L n s h x ca)"
  by (rule every_weaken [OF GenerateSecret_every]) (auto elim: crypto_call.elims)

lemma no_api_certificates [simp]:
  "no_api (router_ca L n ns l found)" "no_api (ensure_ca L n ns l found)"
  "no_api (router_server L n s h ns l ca found)" "no_api (ensure_server L n s h ns l k ca found)"
  by (auto simp: router_ca_def ensure_ca_def router_server_def ensure_server_def Let_def
      intro!: keeps_pbind no_api_generate split: option.split)

lemma no_api_secrets [simp]:
  "no_api (createRouterSecrets L cp ns ms a)" "no_api (EnsureNatsSecrets L (kget KSecret) ns i h k a l)"
  "no_api (EnsureNatsBootstrapFromController L (createOrUpdateSecret L cp l) ns l r)"
  "no_api (EnsureJetStreamKeySecret (kget KSecret) (createOwned L cp) ns n l)"
  by (auto simp: createRouterSecrets_def lookup_secret_def EnsureNatsSecrets_def find_secret_def Let_def
      EnsureNatsBootstrapFromController_def wrapped_def EnsureJetStreamKeySecret_def
      intro!: keeps_rules split: prod.split option.split sum.split)

lemma no_api_router: "no_api (reconcileRouter L cp)"
  by (auto simp: reconcileRouter_def routerAddress_def Let_def intro!: keeps_rules simp del: for_each.simps)

lemma no_api_hub [simp]:
  "no_api (natsAddressOf cp)" "no_api (dropStaleCertificates ns k)" "no_api (natsConfigMaps L cp l boot a)"
  by (auto simp: natsAddressOf_def dropStaleCertificates_def deleteSecret_def natsConfigMaps_def
      writeNatsConfigMap_def Let_def intro!: keeps_rules split: sum.split)

lemma no_api_deploy: "no_api (deployNats L cp boot ms)"
proof -
  have ann: "no_api (podAnnotations L ns k f)" if "\<And>a. no_api (f a)" for ns k f
    using that by (simp add: podAnnotations_def Let_def split: sum.split)
  show ?thesis
    by (auto simp: deployNats_def Let_def intro!: keeps_rules ann simp del: for_each.simps)
qed

lemma no_api_credentials [simp]:
  "no_api (reconcileDBCredentialsSecret L cp ms)" "no_api (reconcileVaultCredentialsSecret L cp ms)"
proof -
  have "no_api (reconcile_named L cp n ss)" for n ss
    by (induction ss) (auto simp: reconcile_secret_def intro!: keeps_rules split: sum.split)
  then show "no_api (reconcileDBCredentialsSecret L cp ms)" "no_api (reconcileVaultCredentialsSecret L cp ms)"
    by (auto simp: reconcileDBCredentialsSecret_def reconcileVaultCredentialsSecret_def intro!: keeps_rules)
qed

lemma no_api_viewer [simp]:
  "no_api (UpdateECNViewerClientRootURL L a u)" "no_api (restartPodsForDeployment n ns)"
  "no_api (deploymentExists ns n)"
  by (auto simp: UpdateECNViewerClientRootURL_def prefixed_def getKeycloakClientID_def
      updateClientRootURL_def Let_def restartPodsForDeployment_def deploymentExists_def
      split: option.split sum.split intro!: keeps_rules)

subsection \<open>Status requests elsewhere\<close>

text \<open>Code that asks for no status, and code that asks at \<open>u\<close> only when a balancer led there.\<close>

abbreviation no_status :: "'a prog \<Rightarrow> bool" where
  "no_status p \<equiv> every any_reply (\<lambda>c. \<not> is_status c) (\<lambda>x. True) p"

abbreviation probes :: "ControlPlane \<Rightarrow> string \<Rightarrow> 'a prog \<Rightarrow> bool" where
  "probes cp u p \<equiv> until any_reply (balancer_answered cp u) (status_at u) (\<lambda>x. True) p"

lemma api_client_status: "api_client c = None \<Longrightarrow> \<not> is_status c"
  by (cases c rule: is_status.cases) auto

lemma no_api_no_status: "no_api p \<Longrightarrow> no_status p"
  by (erule every_call_mono) (rule api_client_status)

lemma no_status_probes: "no_status p \<Longrightarrow> probes cp u p"
  by (erule until_every) (simp add: status_at_def)

lemmas no_api_probes = no_status_probes [OF no_api_no_status]

lemma probes_pbind: "probes cp u m \<Longrightarrow> (\<And>x. probes cp u (f x)) \<Longrightarrow> probes cp u (pbind m f)"
  unfolding until_pbind by (erule until_mono)

lemma probes_orElseErr: "probes cp u m \<Longrightarrow> (\<And>x. probes cp u (f x)) \<Longrightarrow> probes cp u (orElseErr h m f)"
  unfolding orElseErr_def by (rule probes_pbind) (simp_all split: sum.split)

lemma probes_orFail: "probes cp u m \<Longrightarrow> (\<And>x. probes cp u (f x)) \<Longrightarrow> probes cp u (orFail L m f)"
  unfolding orFail_def by (rule probes_orElseErr)

subsection \<open>After the status\<close>

context library
begin

text \<open>
  A client is only handed on after its status was answered, and it is of the URL; the login
  keeps the URL.
\<close>

lemma client_url:
  "every any_reply (calls_only url)
     (\<lambda>(c, fin). \<forall>cl. c = Some cl \<longrightarrow> ic_BaseURL cl = scheme @ ''://'' @ host @ '':'' @ itoa port @ ''/api/v3'')
     (getIofogClient L scheme host port)"
  by (simp add: getIofogClient_def Let_def calls_only_def split: option.split sum.split)

lemma client_answered:
  "until any_reply (status_answered (scheme @ ''://'' @ host @ '':'' @ itoa port @ ''/api/v3''))
     (is_api (scheme @ ''://'' @ host @ '':'' @ itoa port @ ''/api/v3'')) (\<lambda>(c, fin). op_IsFinal (lib_op L) fin) (getIofogClient L scheme host port)"
  by (simp add: getIofogClient_def Let_def is_api_def status_at_def split: option.split sum.split)

lemma with_client_answered:
  assumes "until any_reply E W (\<lambda>(c, fin). op_IsFinal (lib_op L) fin) p"
  shows "until any_reply E W (\<lambda>x. True) (with_client L p f)"
  unfolding with_client_def until_pbind by (rule until_mono [OF assms]) auto

lemma with_client_url:
  assumes "every any_reply (calls_only url) (\<lambda>(c, fin). \<forall>cl. c = Some cl \<longrightarrow> ic_BaseURL cl = url) p"
    and "\<And>c. ic_BaseURL c = url \<Longrightarrow> api_to url (f c)"
  shows "api_to url (with_client L p f)"
  unfolding with_client_def every_pbind
  by (rule every_mono [OF assms(1)]) (auto simp: assms(2) split: option.split)

lemma logged_in_url:
  assumes "\<And>c. ic_BaseURL c = url \<Longrightarrow> api_to url (f c)" and "ic_BaseURL c0 = url"
  shows "api_to url (logged_in L cp c0 f)"
proof -
  have "every any_reply (calls_only url) (\<lambda>r. case r of Inl e \<Rightarrow> True | Inr c \<Rightarrow> ic_BaseURL c = url)
      (loginIofogClient L cp c0)"
    using assms(2) by (simp add: loginIofogClient_def Let_def calls_only_def split: option.split sum.split)
  then show ?thesis
    unfolding logged_in_def by (rule every_bindI) (auto simp: assms split: sum.splits)
qed

lemma no_api_any: "no_api p \<Longrightarrow> until any_reply E (is_api url) (\<lambda>x. True) p"
  by (erule until_every) (simp add: is_api_def)

lemma nats_api:
  "api_to (serviceURL cp) (reconcileNats L cp)"
  "until any_reply (status_answered (serviceURL cp)) (is_api (serviceURL cp)) (\<lambda>x. True) (reconcileNats L cp)"
proof -
  have "controllerScheme cp = (if ctl_Https (spec_Controller (cp_Spec cp)) = Some True then ''https'' else ''http'')"
    by (cases "ctl_Https (spec_Controller (cp_Spec cp))") (auto simp: controllerScheme_def)
  then have client: "getControllerClientForNats L cp =
      getIofogClient L (controllerScheme cp) (''controller.'' @ cp_Namespace cp @ ''.svc.cluster.local'') 51121"
    by (simp add: getControllerClientForNats_def)
  let ?host = "''controller.'' @ cp_Namespace cp @ ''.svc.cluster.local''"
  have url: "controllerScheme cp @ ''://'' @ ?host @ '':'' @ itoa 51121 @ ''/api/v3'' = serviceURL cp"
    by (simp add: serviceURL_def)
  have boot: "api_to (serviceURL cp) (bootstrapNats L cp c f)"
    if "ic_BaseURL c = serviceURL cp" "\<And>b. api_to (serviceURL cp) (f b)" for c f
    unfolding bootstrapNats_def Let_def
    by (rule keeps_orFail, simp add: wrapped_def calls_only_def that(1), rule keeps_orFail, rule no_api_to,
        simp, rule keeps_orFail, rule no_api_to, simp, rule that(2))
  have deploy: "api_to (serviceURL cp) (crash_or x (\<lambda>ms. deployNats L cp b (g ms)))" for x b g
    by (auto simp: crash_or_def intro!: no_api_to no_api_deploy split: sum.split)
  have "api_to (serviceURL cp) (with_client L (getControllerClientForNats L cp) (\<lambda>c. logged_in L cp c
      (\<lambda>c2. bootstrapNats L cp c2 (\<lambda>boot. crash_or (newNatsMicroservice L (natsConfig L cp))
        (\<lambda>ms. deployNats L cp boot (natsOverrides cp ms))))))"
    unfolding client
    by (rule with_client_url, rule client_url [of _ "controllerScheme cp" ?host 51121, unfolded url],
        rule logged_in_url, rule boot, assumption, rule deploy, assumption)
  then show "api_to (serviceURL cp) (reconcileNats L cp)" by (simp add: reconcileNats_def)
  show "until any_reply (status_answered (serviceURL cp)) (is_api (serviceURL cp)) (\<lambda>x. True) (reconcileNats L cp)"
    unfolding reconcileNats_def client
    using with_client_answered [OF client_answered [of "controllerScheme cp" ?host 51121, unfolded url]]
    by (simp only: until.simps split: if_split) simp
qed

lemma api_ext:
  "api_client (CExt c) = None \<or> ic_BaseURL (the (api_client (CExt c))) = url \<Longrightarrow> api_to url (ext_call c)"
  by (auto simp: ext_call_def calls_only_def split: option.split)

lemma register_url:
  assumes "ms_name ms = ''controller''" and "getControllerPort ms = Inr 51121"
  shows "api_to (serviceURL cp) (registerController L cp ms b)"
    and "until any_reply (status_answered (serviceURL cp)) (is_api (serviceURL cp)) (\<lambda>x. True)
           (registerController L cp ms b)"
proof -
  let ?u = "serviceURL cp"
  let ?host = "ms_name ms @ ''.'' @ cp_Namespace cp @ ''.svc.cluster.local''"
  have url: "controllerScheme cp @ ''://'' @ ?host @
      '':'' @ itoa 51121 @ ''/api/v3'' = ?u"
    by (simp add: assms(1) serviceURL_def)
  have import_: "api_to ?u (import_all L c ns)" if "ic_BaseURL c = ?u" for c ns
    using that by (induction ns)
      (auto simp: ImportRouterCACertificate_def calls_only_def split: sum.split intro!: keeps_orElseErr api_ext)
  have finish: "api_to ?u (finishController L cp ms b e)" for e
    by (rule no_api_to) (auto simp: finishController_def intro!: keeps_rules)
  have status: "api_to ?u (getIofogClient L sc h p)" for sc h p
    by (simp add: getIofogClient_def Let_def calls_only_def split: option.split)
  have lb: "api_to ?u (loadBalancerEndpoint L cp p f)" if "\<And>e. api_to ?u (f e)" for p f
    using that status no_api_to [OF no_api_ensure(7)]
    by (auto simp: loadBalancerEndpoint_def intro!: keeps_rules)
  have ing: "api_to ?u (ingressEndpoint L cp e f)" if "\<And>e. api_to ?u (f e)" for e f
    using that by (auto simp: ingressEndpoint_def wrapped_def kget_def calls_only_def intro!: keeps_rules)
  have nats: "api_to ?u (registerNatsHub L cp c rest)" if "api_to ?u rest" "ic_BaseURL c = ?u" for c rest
  proof -
    have "api_to ?u (natsIngressOf cp)"
      by (rule no_api_to) (auto simp: natsIngressOf_def Let_def intro!: keeps_rules)
    with that show ?thesis
      by (auto simp: registerNatsHub_def createDefaultNatsHub_def intro!: keeps_orFail keeps_orElseErr api_ext)
  qed
  have router: "api_to ?u (createDefaultRouter c p)" if "ic_BaseURL c = ?u" for c p
    using that by (auto simp: createDefaultRouter_def intro!: api_ext)
  have proxy: "api_to ?u (routerProxyOf cp)" "api_to ?u newK8sClient"
    by (rule no_api_to; auto simp: routerProxyOf_def intro!: keeps_rules)+
  have certs: "api_to ?u (pbind (ImportCertificates L cp c) (\<lambda>recon.
      if op_IsFinal (lib_op L) recon then Done recon
      else loadBalancerEndpoint L cp 51121 (\<lambda>lbEndpoint.
           ingressEndpoint L cp lbEndpoint (\<lambda>viewerEndpoint. finishController L cp ms b viewerEndpoint))))"
    if "ic_BaseURL c = ?u" for c
  proof -
    have "api_to ?u (ImportCertificates L cp c)"
      unfolding ImportCertificates_def by (rule import_ [OF that])
    then show ?thesis using lb ing finish by (auto intro!: keeps_pbind)
  qed
  show "api_to ?u (registerController L cp ms b)"
    unfolding registerController_def assms(2) sum.case
    by (rule with_client_url, rule client_url [of _ "controllerScheme cp" ?host 51121, unfolded url], rule logged_in_url,
        rule keeps_orFail [OF proxy(2)], rule keeps_orFail [OF proxy(1)], rule keeps_orFail [OF router],
        assumption, rule nats [OF certs])
  show "until any_reply (status_answered ?u) (is_api ?u) (\<lambda>x. True) (registerController L cp ms b)"
    unfolding registerController_def assms(2) sum.case
    by (rule with_client_answered [OF client_answered [of "controllerScheme cp" ?host 51121, unfolded url]])
qed

lemma controller_api:
  "api_to (serviceURL cp) (reconcileIofogController L cp)"
  "until any_reply (status_answered (serviceURL cp)) (is_api (serviceURL cp)) (\<lambda>x. True)
     (reconcileIofogController L cp)"
proof -
  let ?ms = "newControllerMicroservice L (cp_Namespace cp) (controllerConfig cp)"
  let ?u = "serviceURL cp"
  have port: "getControllerPort ?ms = Inr 51121" and name: "ms_name ?ms = ''controller''"
    by (simp_all add: getControllerPort_def newControllerMicroservice_parts controllerServices_def
        tcpPort_def)
  have ingress: "no_api (if b then createIngress L cp c else Done (Inr ()))" for b c by simp
  have "api_to ?u (controllerObjects L cp ms f)" if "\<And>b e. api_to ?u (f b e)" for ms f
    unfolding controllerObjects_def
    by (intro keeps_orFail no_api_to [OF ingress] no_api_to [OF no_api_objects(7)] no_api_to [OF no_api_objects(5)]
        no_api_to [OF no_api_objects(6)] no_api_to [OF no_api_credentials(1)])
      (auto intro!: keeps_orFail no_api_to [OF no_api_credentials(2)] no_api_to [OF no_api_objects(8)]
        no_api_to [OF no_api_objects(3)] no_api_to [OF no_api_objects(4)] no_api_to [OF no_api_objects(9)]
        no_api_to [OF no_api_viewer(3)] no_api_to [OF no_api_objects(1)] that)
  then show "api_to ?u (reconcileIofogController L cp)"
    unfolding reconcileIofogController_def Let_def using register_url(1) [OF name port] by auto
  have skip: "until any_reply E (is_api ?u) (\<lambda>x. True) (orFail L m f)"
    if "no_api m" "\<And>x. until any_reply E (is_api ?u) (\<lambda>x. True) (f x)"
    for E f and m :: "(GoError + 'b) prog"
    by (rule until_skip [OF no_api_any [OF that(1)] that(2)])
  have "until any_reply E (is_api ?u) (\<lambda>x. True) (controllerObjects L cp ms f)"
    if "\<And>b e. until any_reply E (is_api ?u) (\<lambda>x. True) (f b e)" for E ms f
    unfolding controllerObjects_def using that by (auto intro!: skip split: prod.split)
  then show "until any_reply (status_answered ?u) (is_api ?u) (\<lambda>x. True) (reconcileIofogController L cp)"
    unfolding reconcileIofogController_def Let_def using register_url(2) [OF name port] by auto
qed

subsection \<open>Status requests elsewhere: the routines\<close>

lemma probes_with_client: "probes cp u m \<Longrightarrow> (\<And>c. probes cp u (f c)) \<Longrightarrow> probes cp u (with_client L m f)"
  unfolding with_client_def by (rule probes_pbind) (simp_all split: prod.split option.split)

lemma probes_client:
  "u \<noteq> scheme @ ''://'' @ host @ '':'' @ itoa port @ ''/api/v3'' \<Longrightarrow>
    probes cp u (getIofogClient L scheme host port)"
  by (simp add: getIofogClient_def Let_def status_at_def split: option.split sum.split)

lemma no_status_api [simp]:
  "no_status (loginIofogClient L cp c)" "no_status (createDefaultRouter c p)"
  "no_status (createDefaultNatsHub c i)" "no_status (ImportRouterCACertificate c n)"
  by (auto simp: loginIofogClient_def createDefaultRouter_def createDefaultNatsHub_def ext_call_def Let_def
      ImportRouterCACertificate_def intro!: keeps_rules split: option.split sum.split)

lemma probes_login: "(\<And>c. probes cp u (f c)) \<Longrightarrow> probes cp u (logged_in L cp c0 f)"
  unfolding logged_in_def by (rule probes_pbind) (simp_all add: no_status_probes split: sum.split)

lemma nats_probes:
  assumes "u \<noteq> serviceURL cp"
  shows "probes cp u (reconcileNats L cp)"
proof -
  have "controllerScheme cp = (if ctl_Https (spec_Controller (cp_Spec cp)) = Some True then ''https'' else ''http'')"
    by (cases "ctl_Https (spec_Controller (cp_Spec cp))") (auto simp: controllerScheme_def)
  then have client: "probes cp u (getControllerClientForNats L cp)"
    using assms by (simp add: getControllerClientForNats_def probes_client serviceURL_def)
  have boot: "probes cp u (bootstrapNats L cp c f)" if "\<And>b. probes cp u (f b)" for c f
    unfolding bootstrapNats_def Let_def
    by (rule probes_orFail, rule no_status_probes, simp add: wrapped_def, rule probes_orFail,
        rule no_api_probes, simp, rule probes_orFail, rule no_api_probes, simp, rule that)
  have deploy: "probes cp u (crash_or x (\<lambda>ms. deployNats L cp b (g ms)))" for x b g
    by (auto simp: crash_or_def intro!: no_api_probes no_api_deploy split: sum.split)
  show ?thesis
    unfolding reconcileNats_def by (auto intro!: probes_with_client client probes_login boot deploy)
qed

lemma register_probes:
  assumes "ms_name ms = ''controller''" and "getControllerPort ms = Inr 51121" and "u \<noteq> serviceURL cp"
  shows "probes cp u (registerController L cp ms b)"
proof -
  have client: "probes cp u (getIofogClient L (controllerScheme cp)
      (ms_name ms @ ''.'' @ cp_Namespace cp @ ''.svc.cluster.local'') 51121)"
    using assms(1,3) by (intro probes_client) (simp add: serviceURL_def)
  have lb: "probes cp u (loadBalancerEndpoint L cp 51121 f)" if "\<And>e. probes cp u (f e)" for f
  proof -
    have "probes cp u (getIofogClient L (controllerScheme cp) host 51121)"
      if "u \<noteq> balancerURL cp host" for host
      using that by (intro probes_client) (simp add: balancerURL_def)
    then show ?thesis
      using that by (auto simp: loadBalancerEndpoint_def waitForLoadBalancer_def orFail_def orElseErr_def
          status_at_def intro!: probes_pbind split: sum.split)
  qed
  have ing: "probes cp u (ingressEndpoint L cp e f)" if "\<And>e. probes cp u (f e)" for e f
    using that by (auto simp: ingressEndpoint_def wrapped_def kget_def status_at_def intro!: probes_orFail)
  have finish: "probes cp u (finishController L cp ms b e)" for e
    by (rule no_api_probes) (auto simp: finishController_def intro!: keeps_rules)
  have nats: "probes cp u (registerNatsHub L cp c rest)" if "probes cp u rest" for c rest
  proof -
    have "probes cp u (natsIngressOf cp)"
      by (rule no_api_probes) (auto simp: natsIngressOf_def Let_def intro!: keeps_rules)
    moreover have "probes cp u (createDefaultNatsHub c i)" for i by (rule no_status_probes) simp
    ultimately show ?thesis
      using that by (auto simp: registerNatsHub_def intro!: probes_orFail probes_orElseErr)
  qed
  have import_: "no_status (import_all L c ns)" for c ns
    by (induction ns) (auto intro!: keeps_orElseErr)
  have proxy: "probes cp u (routerProxyOf cp)" "probes cp u newK8sClient"
    by (rule no_api_probes; auto simp: routerProxyOf_def intro!: keeps_rules)+
  have router: "probes cp u (createDefaultRouter c p)" for c p by (rule no_status_probes) simp
  have certs: "probes cp u (pbind (ImportCertificates L cp c) (\<lambda>recon.
      if op_IsFinal (lib_op L) recon then Done recon
      else loadBalancerEndpoint L cp 51121 (\<lambda>lbEndpoint.
           ingressEndpoint L cp lbEndpoint (\<lambda>viewerEndpoint. finishController L cp ms b viewerEndpoint))))" for c
  proof (rule probes_pbind)
    show "probes cp u (ImportCertificates L cp c)"
      unfolding ImportCertificates_def by (rule no_status_probes [OF import_])
  qed (auto intro!: lb ing finish)
  show ?thesis
    unfolding registerController_def assms(2) sum.case
    by (intro probes_with_client client probes_login probes_orFail proxy router nats certs)
qed

lemma controller_probes:
  assumes "u \<noteq> serviceURL cp"
  shows "probes cp u (reconcileIofogController L cp)"
proof -
  have "probes cp u (controllerObjects L cp ms f)" if "\<And>b e. probes cp u (f b e)" for ms f
    unfolding controllerObjects_def using that
    by (auto intro!: probes_orFail intro: no_api_probes split: prod.split)
  moreover have "probes cp u (registerController L cp
      (newControllerMicroservice L (cp_Namespace cp) (controllerConfig cp)) b)" for b
    by (rule register_probes [OF _ _ assms])
      (simp_all add: getControllerPort_def newControllerMicroservice_parts controllerServices_def tcpPort_def)
  ultimately show ?thesis unfolding reconcileIofogController_def Let_def by auto
qed

end

text \<open>
  C8: The controller's REST API is called only after the controller has answered, and where it
  should be: every call is to the controller's own service in the ControlPlane's namespace, but
  for the request of the status at the host that the load balancer of that service was reported
  to have earlier in the run; and every call but the request of the status at the service itself
  comes after such a request was answered.
\<close>

theorem api_after_status:
  assumes "library L" and "p \<in> set (routines L cp)" and "runs p tr out"
    and "tr = before @ (c, r) # after" and "api_client c = Some client"
  shows "(ic_BaseURL client = serviceURL cp \<or>
           is_status c \<and> (\<exists>(c', r') \<in> set before. balancer_answered cp (ic_BaseURL client) c' r')) \<and>
         (is_status c \<and> ic_BaseURL client = serviceURL cp \<or>
           (\<exists>(c', r') \<in> set before. status_answered (serviceURL cp) c' r'))"
proof -
  let ?u = "serviceURL cp"
  have api: "api_to ?u p \<and> until any_reply (status_answered ?u) (is_api ?u) (\<lambda>x. True) p \<and>
      (\<forall>u. u \<noteq> ?u \<longrightarrow> probes cp u p)"
    using assms(2) library.nats_api [OF assms(1)] library.controller_api [OF assms(1)]
      library.nats_probes [OF assms(1)] library.controller_probes [OF assms(1)]
      no_api_to [OF no_api_router] library.no_api_any [OF assms(1) no_api_router] no_api_probes [OF no_api_router]
    by (auto simp: routines_def)
  have any: "\<forall>(c, r) \<in> set tr. any_reply c r" by simp
  have "calls_only ?u c"
    using every_runs [OF assms(3) conjunct1 [OF api]] assms(4) by auto
  then have own: "is_status c \<or> ic_BaseURL client = ?u" using assms(5) by (simp add: calls_only_def)
  moreover have "\<exists>(c', r') \<in> set before. balancer_answered cp (ic_BaseURL client) c' r'"
    if "ic_BaseURL client \<noteq> ?u"
    using api own that assms(5)
    by (intro until_before [where W = "status_at (ic_BaseURL client)" and Q = "\<lambda>x. True", OF assms(3) _ any assms(4)]) (auto simp: status_at_def)
  moreover have "\<exists>(c', r') \<in> set before. status_answered ?u c' r'"
    if "\<not> (is_status c \<and> ic_BaseURL client = ?u)"
    using api that assms(5)
    by (intro until_before [where W = "is_api ?u" and Q = "\<lambda>x. True", OF assms(3) _ any assms(4)]) (auto simp: is_api_def status_at_def)
  ultimately show ?thesis by blast
qed

lemma first_calls_of_nats:
  fixes cl
  defines "cl \<equiv> \<lparr>ic_BaseURL = serviceURL sample_cp, ic_Token = []\<rparr>"
  shows "\<exists>a. runs (reconcileNats lib_ref sample_cp)
      ([(CExt (GetStatus cl), RStr (Inr [])),
        (CHttp (login_request (spec_Auth (cp_Spec sample_cp))), RHttp (Inl (new_error ''invalid credentials'')))] @
       (CBootstrap cl, RBoot (Inl (new_error ''refused''))) # []) (Returned a)"
proof -
  have urls: "lib_urlError lib_ref (serviceURL sample_cp) = None"
    "lib_urlError lib_ref (hr_URL (login_request (spec_Auth (cp_Spec sample_cp)))) = None"
    "isNatsEnabled sample_cp"
    using sample_deployable
    by (simp_all add: deployable_def isNatsEnabled_def sample_cp_def empty_cp_def empty_spec_def Let_def)
  have client: "getControllerClientForNats lib_ref sample_cp = getIofogClient lib_ref (controllerScheme sample_cp)
      (''controller.'' @ cp_Namespace sample_cp @ ''.svc.cluster.local'') 51121"
    by (simp add: getControllerClientForNats_def controllerScheme_def sample_cp_def empty_cp_def empty_spec_def Let_def)
  have get: "getIofogClient lib_ref (controllerScheme sample_cp)
      (''controller.'' @ cp_Namespace sample_cp @ ''.svc.cluster.local'') 51121 =
      Ext (GetStatus cl) (\<lambda>r. Done (case r of
            Inl e \<Rightarrow> (None, op_ReconcileWithRequeue (lib_op lib_ref) 3)
          | Inr s \<Rightarrow> (Some cl, op_Continue (lib_op lib_ref))))"
    using urls(1) unfolding getIofogClient_def Let_def cl_def serviceURL_def by simp
  have pass: "contains (toLower ''invalid credentials'') ''invalid credentials''"
    by (simp add: contains_def lowerByte_def)
  show ?thesis
    unfolding reconcileNats_def client get
    by (intro exI) (simp add: urls with_client_def logged_in_def loginIofogClient_def Let_def new_error_def
        pass [simplified] bootstrapNats_def orFail_def orElseErr_def wrapped_def)
qed

lemma api_after_status_witness:
  "\<exists>before after cl a.
     runs (reconcileNats lib_ref sample_cp)
       (before @ (CBootstrap cl, RBoot (Inl (new_error ''refused''))) # after) (Returned a) \<and>
     ic_BaseURL cl = ''http://controller.ns.svc.cluster.local:51121/api/v3'' \<and>
     (\<exists>(c', r') \<in> set before. status_answered (serviceURL sample_cp) c' r')"
proof -
  have p: "reconcileNats lib_ref sample_cp \<in> set (routines lib_ref sample_cp)" by (simp add: routines_def)
  let ?cl = "\<lparr>ic_BaseURL = serviceURL sample_cp, ic_Token = []\<rparr>"
  let ?before = "[(CExt (GetStatus ?cl), RStr (Inr [])),
        (CHttp (login_request (spec_Auth (cp_Spec sample_cp))), RHttp (Inl (new_error ''invalid credentials'')))]"
  obtain a where run: "runs (reconcileNats lib_ref sample_cp)
      (?before @ (CBootstrap ?cl, RBoot (Inl (new_error ''refused''))) # []) (Returned a)"
    using first_calls_of_nats by blast
  have url: "serviceURL sample_cp = ''http://controller.ns.svc.cluster.local:51121/api/v3''"
    by (simp add: serviceURL_def controllerScheme_def sample_cp_def empty_cp_def empty_spec_def Let_def
        new_meta_def itoa_def itoa_nat.simps digit_def) (simp add: char_of_def bit_0)
  from api_after_status [OF lib_ref.library_axioms p run HOL.refl] run url show ?thesis
    by (intro exI [of _ ?before] exI [of _ "[]"] exI [of _ ?cl] exI [of _ a]) simp
qed

end
