(* ===== verification/Lifecycle.thy ===== *)
theory Lifecycle
  imports Readiness Confinement
begin

text \<open>
  The life of a ControlPlane as its status shows it: an abstract machine of three states, and
  the reconciler as its implementation; what a reconcile does with a ControlPlane that is ready,
  with one that is gone, and with errors of the routines.
\<close>

subsection \<open>The abstract machine\<close>

datatype phase = Deploying | Updating | Ready | Unknown

definition phase_of :: "ControlPlane \<Rightarrow> phase" where
  "phase_of cp =
     (if IsReady cp then Ready else if IsDeploying cp then Deploying
      else if IsUpdating cp then Updating else Unknown)"

inductive moves :: "phase \<Rightarrow> phase \<Rightarrow> bool" where
  begins: "moves Unknown Deploying"
| deployed: "moves Deploying Ready"
| updated: "moves Updating Ready"

inductive_simps moves_iff [simp]: "moves p q"

fun path :: "phase \<Rightarrow> phase list \<Rightarrow> bool" where
  "path p [] = True"
| "path p (q # qs) \<longleftrightarrow> moves p q \<and> path q qs"

text \<open>The phases the status is successfully set to in a trace, read off the objects sent.\<close>

fun status_set :: "event \<Rightarrow> phase list" where
  "status_set (CWrite (WStatusUpdate o1), RObj (Inr o2)) = [phase_of (decode_cp o1 undefined)]"
| "status_set _ = []"

definition phases_set :: "event list \<Rightarrow> phase list" where
  "phases_set tr = concat (map status_set tr)"

lemma phases_set_simps [simp]:
  "phases_set [] = []" "phases_set (e # tr) = status_set e @ phases_set tr"
  "phases_set (tr @ tr') = phases_set tr @ phases_set tr'"
  by (simp_all add: phases_set_def)

context library
begin

lemma phase_set:
  "phase_of (SetConditionReady (lib_ssc L) now cp) = Ready"
  "phase_of (SetConditionDeploying (lib_ssc L) now cp) = Deploying"
  by (simp_all add: phase_of_def IsReady_def IsDeploying_def SetConditionReady_def
      SetConditionDeploying_def get_set)

lemma phase_cases:
  "IsReady cp \<longleftrightarrow> phase_of cp = Ready" "IsDeploying cp \<longleftrightarrow> phase_of cp = Deploying"
  "IsUpdating cp \<longleftrightarrow> phase_of cp = Updating"
  by (auto simp: phase_of_def)

text \<open>The start: it sets an unknown phase to deploying, or goes on with the object it read.\<close>

lemma start_phases:
  assumes "runs (startReconcile L cp0 namespace n) tr (Returned x)"
    and "tr = (CGet (KControlPlane, namespace, n), RObj (Inr o1)) # rest"
  shows "phase_of (decode_cp o1 cp0) = Unknown \<and> phases_set tr = [Deploying] \<or>
         phases_set tr = [] \<and> (\<forall>f cp. x = Fork f cp \<longrightarrow> cp = decode_cp o1 cp0)"
  using assms
  by (cases "phase_of (decode_cp o1 cp0)")
    (auto simp: startReconcile_def getReconcileFunc_def reconcileReady_def phase_cases phase_set
      tryE_def update_status_def split: if_splits sum.splits)

lemma finish_phases:
  assumes "runs (finishReconcile L f cp recons) tr (Returned a)"
  shows "phases_set tr = [] \<or> moves (phase_of cp) Ready \<and> phases_set tr = [Ready]"
  using assms
  by (auto simp: finishReconcile_def finishUpdating_def finishDeploying_def setReady_def orFail_def
      orElseErr_def update_status_def update_cp_def phase_cases phase_set Let_def
      split: if_splits sum.splits)

end

lemma pool_run_labels:
  "pool_run s0 tr s \<Longrightarrow> length (pl_routines s) = length (pl_routines s0) \<and>
     (\<forall>x \<in> set tr. fst x < length (pl_routines s0))"
proof (induction rule: pool_run.induct)
  case (move s tr s' l s'')
  from move.hyps(2) move.IH show ?case by cases auto
qed simp

text \<open>The routines leave the status alone.\<close>

lemma routines_no_status:
  assumes "library L" and "pool_run (start_pool (routines L cp)) tr s"
    and "\<forall>r \<in> set (pl_routines s). r = None" and "answered_honestly (map snd tr)"
  shows "phases_set (map snd tr) = []"
proof -
  have "status_set (snd x) = []" if x: "x \<in> set tr" for x
  proof -
    let ?i = "fst x"
    have i: "?i < length (routines L cp)"
      using pool_run_labels [OF assms(2)] x by (auto simp: start_pool_def)
    obtain y where "runs (routines L cp ! ?i) (proj ?i tr) (Returned y)"
      using pool_run_complete [OF assms(2,3)] i by blast
    moreover have "\<forall>(c, r) \<in> set (proj ?i tr). honest c r"
      using assms(4) by (auto simp: answered_as_def proj_def)
    ultimately have "\<forall>(c, r) \<in> set (proj ?i tr). touches cp UNIV c"
      by (rule routines_touch [OF assms(1) nth_mem [OF i]])
    moreover have "snd x \<in> set (proj ?i tr)" using x by (auto simp: proj_def intro: image_eqI [of _ _ x])
    ultimately have "touches cp UNIV (fst (snd x))" by (cases "snd x") auto
    then show ?thesis by (cases "snd x" rule: status_set.cases) auto
  qed
  then show ?thesis by (simp add: phases_set_def)
qed

text \<open>
  C6: The reconciler implements the abstract machine: the phases a reconcile sets the status to,
  through its start, its interleaved routines and its end, are a path of the machine from the
  phase that was read, whatever object the server answers a status update with (in the routines
  it answers with the objects they asked for). So a ControlPlane is never called ready without having been deploying
  or updating, and never falls back by itself.
\<close>

theorem reconcile_refines:
  assumes "library L" and "reconcile L cp0 namespace n tr1 tr2 tr3 a"
    and "tr1 = (CGet (KControlPlane, namespace, n), RObj (Inr o1)) # rest"
    and "answered_honestly (map snd tr2)"
  shows "path (phase_of (decode_cp o1 cp0)) (phases_set (tr1 @ map snd tr2 @ tr3))"
  using assms(2)
proof (cases rule: reconcile.cases)
  case answered
  then show ?thesis
    using library.start_phases [OF assms(1) answered(3) assms(3)] by auto
next
  case (forked f cp s)
  have "phases_set tr3 = [] \<or> moves (phase_of cp) Ready \<and> phases_set tr3 = [Ready]"
    by (rule library.finish_phases [OF assms(1) forked(4)])
  moreover have "phases_set (map snd tr2) = []"
    by (rule routines_no_status [OF assms(1) forked(2,3) assms(4)])
  ultimately show ?thesis
    using library.start_phases [OF assms(1) forked(1) assms(3)] by auto
qed

lemma reconcile_refines_witness:
  "\<exists>tr1 tr2 tr3 a. reconcile lib_ref empty_cp ''ns'' ''pot'' tr1 tr2 tr3 a \<and> tr3 \<noteq> [] \<and>
     path (phase_of sample_cp) (phases_set (tr1 @ map snd tr2 @ tr3))"
proof -
  obtain tr1 tr2 tr3 ready r a where rec: "reconcile lib_ref empty_cp ''ns'' ''pot''
      ((CGet (KControlPlane, ''ns'', ''pot''), RObj (Inr (cp_obj sample_cp))) # tr1) tr2
      (tr3 @ [(CWrite (WUpdate (cp_obj ready)), r)]) a"
    "answered_honestly (tr1 @ map snd tr2 @ tr3 @ [(CWrite (WUpdate (cp_obj ready)), r)])"
    using becomes_ready [OF lib_ref_coop.cooperative_axioms sample_deployable sample_not_ready]
      settled_honestly by blast
  from reconcile_refines [OF lib_ref.library_axioms rec(1) HOL.refl] rec show ?thesis
    by (intro exI conjI) (assumption | simp)+
qed

subsection \<open>Ready, gone, failed\<close>

text \<open>
  C9: A ControlPlane that is ready costs one read: whatever else is in the cluster, the reconcile
  makes no further call and ends without an error or a requeue of its own; so a ready one stays
  as it is until its spec changes.
\<close>

theorem ready_is_quiet:
  assumes "library L" and "reconcile L cp0 namespace n tr1 tr2 tr3 a"
    and "tr1 = (CGet (KControlPlane, namespace, n), RObj (Inr o1)) # rest"
    and "IsReady (decode_cp o1 cp0)"
  shows "rest = [] \<and> tr2 = [] \<and> tr3 = [] \<and> a = op_Result (lib_op L) (op_Reconcile (lib_op L)) \<and> snd a = None"
proof -
  have start: "runs (startReconcile L cp0 namespace n) tr1 (Returned x) \<Longrightarrow>
      rest = [] \<and> x = Answer (op_Result (lib_op L) (op_Reconcile (lib_op L)))" for x
    using assms(3,4) by (auto simp: startReconcile_def getReconcileFunc_def reconcileReady_def)
  have none: "snd (op_Result (lib_op L) (op_Reconcile (lib_op L))) = None"
    using operator_sdk.Result [OF library.sdk [OF assms(1)]] operator_sdk.Reconcile [OF library.sdk [OF assms(1)]]
    by simp
  from assms(2) show ?thesis
  proof (cases rule: reconcile.cases)
    case answered
    with start [OF answered(3)] none show ?thesis by simp
  next
    case (forked f cp s)
    with start [OF forked(1)] show ?thesis by simp
  qed
qed

lemma ready_is_quiet_witness:
  "\<exists>a. reconcile lib_ref empty_cp ''ns'' ''pot''
     [(CGet (KControlPlane, ''ns'', ''pot''),
       RObj (Inr (cp_obj (SetConditionReady (lib_ssc lib_ref) 5 empty_cp))))] [] [] a \<and> snd a = None"
proof -
  let ?cp = "SetConditionReady (lib_ssc lib_ref) 5 empty_cp"
  let ?e = "(CGet (KControlPlane, ''ns'', ''pot''), RObj (Inr (cp_obj ?cp)))"
  have ready: "IsReady ?cp" by (rule lib_ref.ready_after)
  then have "runs (startReconcile lib_ref empty_cp ''ns'' ''pot'') [?e]
      (Returned (Answer (op_Result (lib_op lib_ref) (op_Reconcile (lib_op lib_ref)))))"
    by (simp add: startReconcile_def getReconcileFunc_def reconcileReady_def)
  then have rec: "reconcile lib_ref empty_cp ''ns'' ''pot'' [?e] [] []
      (op_Result (lib_op lib_ref) (op_Reconcile (lib_op lib_ref)))"
    by (rule reconcile.answered)
  have "IsReady (decode_cp (cp_obj ?cp) empty_cp)" using ready by simp
  from ready_is_quiet [OF lib_ref.library_axioms rec HOL.refl this]
  have "snd (op_Result (lib_op lib_ref) (op_Reconcile (lib_op lib_ref))) = None" by (elim conjE)
  with rec show ?thesis by (intro exI conjI)
qed

text \<open>
  C10: No failure is lost and none is hidden by a success: when a routine ended with an error the
  reconcile writes nothing more and returns an error whose text joins all their errors.
\<close>

theorem errors_are_returned:
  assumes "library L" and "runs (finishReconcile L f cp recons) tr (Returned a)"
    and "r \<in> set recons" and "rc_Err r \<noteq> None"
  shows "tr = [] \<and> map_option err_Msg (snd a) = Some (join [CHR 0x0A] (map err_Msg (errors_of recons)))"
proof -
  have "op_IsFinal (lib_op L) r"
    using operator_sdk.IsFinal [OF library.sdk [OF assms(1)]] assms(4) by simp
  then have "op_IsFinal (lib_op L) (aggregate recons)"
    using library.final_aggregate [OF assms(1)] assms(3) by blast
  with library.runs_finish [OF assms(1,2)] have a: "tr = []" "a = op_Result (lib_op L) (aggregate recons)"
    by simp_all
  moreover have "errors_of recons \<noteq> []" using assms(3,4) by (auto simp: errors_of_empty)
  ultimately show ?thesis
    using operator_sdk.Result [OF library.sdk [OF assms(1)]] aggregate_message [of recons] by simp
qed

lemma errors_are_returned_witness:
  "\<exists>a. runs (finishReconcile lib_ref ReconcileDeploying sample_cp
       [zero_Reconciliation, zero_Reconciliation\<lparr>rc_Err := Some (new_error ''no router'')\<rparr>]) [] (Returned a) \<and>
     map_option err_Msg (snd a) = Some ''no router''"
proof -
  let ?rs = "[zero_Reconciliation, zero_Reconciliation\<lparr>rc_Err := Some (new_error ''no router'')\<rparr>]"
  have "op_IsFinal (lib_op lib_ref) (aggregate ?rs)"
    unfolding lib_ref.final_aggregate by (simp add: lib_ref.IsFinal)
  then have run: "runs (finishReconcile lib_ref ReconcileDeploying sample_cp ?rs) []
      (Returned (op_Result (lib_op lib_ref) (aggregate ?rs)))"
    by (simp add: finishReconcile_def finishDeploying_def)
  from errors_are_returned [OF lib_ref.library_axioms this, of "?rs ! 1"] run show ?thesis
    by (intro exI [of _ "op_Result (lib_op lib_ref) (aggregate ?rs)"])
      (simp add: zero_Reconciliation_def new_error_def)
qed

end
