(* ===== verification/Selectors.thy ===== *)
theory Selectors
  imports HubMicroservices Resources
begin

text \<open>
  Labels and selectors of the built objects: a workload owns the pods of its own template, a
  service sends to the pods of its own microservice, and no user label can change that.
\<close>

definition pod_labels :: "KObj \<Rightarrow> smap" where
  "pod_labels w = (case o_Payload w of
      PDeployment d \<Rightarrow> pt_Labels (dep_Template d)
    | PStatefulSet s \<Rightarrow> pt_Labels (sts_Template s)
    | _ \<Rightarrow> Map.empty)"

definition workload_selector :: "KObj \<Rightarrow> smap" where
  "workload_selector w = (case o_Payload w of
      PDeployment d \<Rightarrow> dep_Selector d
    | PStatefulSet s \<Rightarrow> sts_Selector s
    | _ \<Rightarrow> Map.empty)"

definition service_selector :: "KObj \<Rightarrow> smap" where
  "service_selector svc = (case o_Payload svc of PService s \<Rightarrow> ss_Selector s | _ \<Rightarrow> Map.empty)"

text \<open>A selector is a conjunction of equalities of labels.\<close>

abbreviation selects :: "smap \<Rightarrow> KObj \<Rightarrow> bool" where
  "selects sel w \<equiv> sel \<subseteq>\<^sub>m pod_labels w"

lemma labels_of_built [simp]:
  "pod_labels (newDeployment ns i ms) = msLabels i ms" "pod_labels (newStatefulSet ns i ms) = msLabels i ms"
  "workload_selector (newDeployment ns i ms) = msLabels i ms"
  "workload_selector (newStatefulSet ns i ms) = msLabels i ms"
  by (simp_all add: pod_labels_def workload_selector_def newDeployment_def newStatefulSet_def
      deploymentSpec_def statefulSetSpec_def Let_def)

lemma standard_label_wins:
  "getStandardLabels c i k = Some v \<Longrightarrow> mergeLabels (getStandardLabels c i) m k = Some v"
  by (simp add: mergeLabels_def)

lemma component_label:
  "msLabels i ms ''datasance.com/component'' = Some (getComponentFromMicroservice ms)"
  "msLabels i ms ''app.kubernetes.io/instance'' = Some i"
  by (simp_all add: msLabels_def mergeLabels_def getStandardLabels_def)

lemma selects_same:
  assumes "msLabels i ms \<subseteq>\<^sub>m msLabels j other"
  shows "i = j \<and> getComponentFromMicroservice ms = getComponentFromMicroservice other"
proof -
  have "msLabels j other k = msLabels i ms k" if "msLabels i ms k \<noteq> None" for k
    using assms that unfolding map_le_def by (metis domIff)
  from this [of "''datasance.com/component''"] this [of "''app.kubernetes.io/instance''"] show ?thesis
    by (simp add: component_label)
qed

text \<open>C18: A deployment or stateful set selects exactly pods like those of its template, every
  service of a microservice sends to these pods, and neither selects a pod of another component
  or of another ControlPlane, whatever labels the microservices bring along.\<close>

theorem services_select_own_pods:
  assumes "svc \<in> set (newServices ns i ms)"
    and "w \<in> {newDeployment ns i ms, newStatefulSet ns i ms}"
    and "v \<in> {newDeployment ns' j other, newStatefulSet ns' j other}"
    and "i \<noteq> j \<or> getComponentFromMicroservice ms \<noteq> getComponentFromMicroservice other"
  shows "selects (workload_selector w) w \<and> selects (service_selector svc) w \<and>
    \<not> selects (workload_selector w) v \<and> \<not> selects (service_selector svc) v \<and>
    m_namespace (o_Meta svc) = m_namespace (o_Meta w)"
proof -
  obtain s where svc: "svc = newService ns (msLabels i ms) s"
    using assms(1) by (auto simp: newServices_def)
  then have labels: "service_selector svc = msLabels i ms"
    by (simp add: newService_def service_selector_def)
  have svc_ns: "m_namespace (o_Meta svc) = ns" using svc by (simp add: newService_def new_meta_def)
  have w: "pod_labels w = msLabels i ms" "workload_selector w = msLabels i ms" "m_namespace (o_Meta w) = ns"
    and v: "pod_labels v = msLabels j other"
    using assms(2,3) by (auto simp: newDeployment_def newStatefulSet_def new_meta_def Let_def
        pod_labels_def workload_selector_def deploymentSpec_def statefulSetSpec_def)
  have "\<not> msLabels i ms \<subseteq>\<^sub>m msLabels j other" using selects_same assms(4) by blast
  then show ?thesis by (simp add: labels w v svc_ns)
qed

abbreviation sample_hub :: microservice where
  "sample_hub \<equiv> empty_microservice\<lparr>ms_name := ''nats'', ms_services := [empty_service]\<rparr>"

abbreviation sample_other :: microservice where
  "sample_other \<equiv> empty_microservice\<lparr>ms_name := ''controller'', ms_labels := [''app.kubernetes.io/name'' \<mapsto> ''nats'']\<rparr>"

theorem services_select_own_pods_witness:
  "selects (workload_selector (newStatefulSet ''n'' ''cp'' sample_hub)) (newStatefulSet ''n'' ''cp'' sample_hub) \<and>
   selects (service_selector (newService ''n'' (msLabels ''cp'' sample_hub) empty_service)) (newStatefulSet ''n'' ''cp'' sample_hub) \<and>
   \<not> selects (workload_selector (newStatefulSet ''n'' ''cp'' sample_hub)) (newDeployment ''n'' ''cp'' sample_other) \<and>
   \<not> selects (service_selector (newService ''n'' (msLabels ''cp'' sample_hub) empty_service)) (newDeployment ''n'' ''cp'' sample_other) \<and>
   m_namespace (o_Meta (newService ''n'' (msLabels ''cp'' sample_hub) empty_service)) =
     m_namespace (o_Meta (newStatefulSet ''n'' ''cp'' sample_hub))"
  by (rule services_select_own_pods [where ns = "''n''" and ns' = "''n''" and ms = sample_hub and i = "''cp''" and other = sample_other and j = "''cp''"])
    (simp_all add: newServices_def getComponentFromMicroservice_def)

text \<open>
  The two routers of a high-availability setup have the same labels: the selectors of their
  deployments overlap.
\<close>

lemma ha_routers_share_selector:
  assumes "rr_ha cfg"
  shows "\<exists>a b. newRouterMicroservices L cfg = [a, b] \<and> ms_name a \<noteq> ms_name b \<and>
    selects (workload_selector (newDeployment ns i a)) (newDeployment ns i b)"
proof -
  have "rr_ha (filterRouterConfig L cfg) = rr_ha cfg"
    by (simp add: filterRouterConfig_def Let_def)
  then show ?thesis
    using assms by (simp add: newRouterMicroservices_def Let_def newRouterMicroservice_def
        newRouterMicroserviceWithName_def msLabels_def routerName_def empty_microservice_def
        getComponentFromMicroservice_def)
qed

end
