(* ===== verification/SecretContents.thy ===== *)
theory SecretContents
  imports Routines NatsRoutes
begin

text \<open>
  What the generated secrets hold: certificates with their authority, the names a NATS server's
  certificate is for, the secrets that are missing and only these, and the JetStream key.
\<close>

subsection \<open>The names in a certificate\<close>

lemma splitByte_join:
  assumes "xs \<noteq> []" "\<forall>x\<in>set xs. c \<notin> set x"
  shows "splitByte c (join [c] xs @ c # s) = xs @ splitByte c s"
  using assms
proof (induction xs)
  case (Cons x xs)
  then show ?case by (cases xs) (auto simp: splitByte_append)
qed simp

definition clean :: "string \<Rightarrow> bool" where
  "clean s \<longleftrightarrow> CHR '','' \<notin> set s \<and> list_all (\<lambda>c. \<not> isSpace c) s"

lemma clean_append [simp]: "clean (a @ b) \<longleftrightarrow> clean a \<and> clean b"
  by (auto simp: clean_def)

lemma trimSpace_clean: "clean s \<Longrightarrow> trimSpace s = s"
  by (simp add: clean_def trimSpace_def trimBy_none list_all_iff)

lemma digit_clean: "n < 10 \<Longrightarrow> CHR '','' \<noteq> digit n \<and> \<not> isSpace (digit n)"
proof -
  assume "n < 10"
  then have n: "(of_char (digit n) :: nat) = 48 + n" by (simp add: digit_def)
  have "CHR '','' \<noteq> digit n"
  proof
    assume "CHR '','' = digit n"
    then have "(of_char (digit n) :: nat) = of_char (CHR '','')" by (rule arg_cong [OF HOL.sym])
    then show False using n by simp
  qed
  then show ?thesis using n by (auto simp: isSpace_def)
qed

lemma itoa_nat_clean: "clean (itoa_nat n)"
proof (induction n rule: itoa_nat.induct)
  case (1 n)
  then show ?case by (subst itoa_nat.simps) (auto simp: digit_clean clean_def)
qed

lemma itoa_clean: "clean (itoa (int i))"
  by (simp add: itoa_def itoa_nat_clean)

lemma hosts_listed:
  assumes "clean headless" "clean ns" "0 < replicas"
  shows "hostsList (natsSiteServerHosts headless ns replicas address) =
    map (\<lambda>i. ''nats-'' @ itoa (int i) @ ''.'' @ headless) [0..<replicas] @
    [ClientServiceName @ ''.'' @ ns @ ''.svc.cluster.local'',
     ServerServiceName @ ''.'' @ ns @ ''.svc.cluster.local'',
     ''*.'' @ headless @ ''.'' @ ns @ ''.svc.cluster.local'',
     ''nats.'' @ ns @ ''.svc.cluster.local'', ''nats-server.'' @ ns @ ''.svc.cluster.local''] @
    (if address = [] then [] else map trimSpace (splitByte CHR '','' address))"
proof -
  let ?pods = "map (\<lambda>i. ''nats-'' @ itoa (int i) @ ''.'' @ headless) [0..<replicas]"
  let ?fixed = "[ClientServiceName @ ''.'' @ ns @ ''.svc.cluster.local'',
     ServerServiceName @ ''.'' @ ns @ ''.svc.cluster.local'',
     ''*.'' @ headless @ ''.'' @ ns @ ''.svc.cluster.local'',
     ''nats.'' @ ns @ ''.svc.cluster.local'', ''nats-server.'' @ ns @ ''.svc.cluster.local'']"
  let ?last = "if address = [] then [] else splitByte CHR '','' address"
  have pods: "\<forall>p\<in>set ?pods. clean p" using assms itoa_clean by (auto simp: clean_def isSpace_def)
  have fixed: "\<forall>p\<in>set ?fixed. clean p"
    using assms by (auto simp: clean_def isSpace_def ClientServiceName_def ServerServiceName_def)
  have no_comma: "\<forall>p\<in>set (?pods @ ?fixed). CHR '','' \<notin> set p" using pods fixed by (auto simp: clean_def)
  have "splitByte CHR '','' (natsSiteServerHosts headless ns replicas address) = ?pods @ ?fixed @ ?last"
  proof -
    have "natsSiteServerHosts headless ns replicas address =
      join '','' ?pods @ CHR '','' # join '','' ?fixed @ (if address = [] then [] else CHR '','' # address)"
      by (simp add: natsSiteServerHosts_def)
    moreover have "splitByte CHR '','' (join '','' ?pods @ CHR '','' # s) = ?pods @ splitByte CHR '','' s" for s
      using assms(3) no_comma by (intro splitByte_join) auto
    ultimately have "splitByte CHR '','' (natsSiteServerHosts headless ns replicas address) =
      ?pods @ splitByte CHR '','' (join '','' ?fixed @ (if address = [] then [] else CHR '','' # address))"
      by (simp only:)
    also have "splitByte CHR '','' (join '','' ?fixed @ (if address = [] then [] else CHR '','' # address)) = ?fixed @ ?last"
    proof (cases "address = []")
      case True
      have "splitByte CHR '','' (join '','' ?fixed) = ?fixed"
        using no_comma splitByte_join [of "butlast ?fixed" "CHR '',''" "last ?fixed"]
        by (simp add: splitByte_none)
      then show ?thesis using True by simp
    next
      case False
      then show ?thesis using no_comma splitByte_join [of ?fixed "CHR '',''" address] by simp
    qed
    finally show ?thesis .
  qed
  then show ?thesis
    using pods fixed by (simp add: hostsList_def trimSpace_clean cong: map_cong)
qed

subsection \<open>Certificates and their authority\<close>

definition secret_data :: "KObj \<Rightarrow> smap" where
  "secret_data s = sec_Data (the_secret (o_Payload s))"

lemma authority_crt:
  "getCAFromSecret L (Some s) = Inr (Some a) \<Longrightarrow> ca_CrtData a = mget (secret_data s) ''tls.crt''"
  by (auto simp: getCAFromSecret_def secret_data_def Let_def split: sum.splits if_splits)

lemma tlsSecret_data [simp]:
  "mget (secret_data (tlsSecret n crt key ca)) ''tls.crt'' = crt"
  "mget (secret_data (tlsSecret n crt key ca)) ''ca.crt'' = ca"
  by (simp_all add: secret_data_def tlsSecret_def mget_def)

text \<open>How a certificate is asked for, given the authority that signs it, if any.\<close>

fun signed_by :: "CertificateAuthority option \<Rightarrow> string \<Rightarrow> Call \<Rightarrow> bool" where
  "signed_by ca hosts (CExt (CreateCertificate tpl parent pub key)) \<longleftrightarrow>
     parent = map_option ca_Certificate ca \<and>
     key = (case ca of None \<Rightarrow> pub | Some a \<Rightarrow> ca_Key a) \<and>
     tpl_IsCA tpl = (ca = None) \<and> (KeyUsageCertSign \<in> set (tpl_KeyUsage tpl)) = (ca = None) \<and>
     tpl_DNSNames tpl = hostsList hosts \<and> tpl_NotBefore tpl < tpl_NotAfter tpl"
| "signed_by ca hosts _ \<longleftrightarrow> True"

lemma GenerateSecret_signed:
  assumes "getCAFromSecret L ca = Inr a" "0 \<le> expiration"
  shows "every any_reply (signed_by a hosts)
    (\<lambda>s. m_name (o_Meta s) = n \<and> mget (secret_data s) ''ca.crt'' =
       mget (secret_data (case ca of None \<Rightarrow> s | Some c \<Rightarrow> c)) ''tls.crt'')
    (GenerateSecret L n subject hosts expiration ca)"
proof -
  have crt: "ca_CrtData x = mget (secret_data c) ''tls.crt''" if "ca = Some c" "a = Some x" for c x
    using assms(1) that authority_crt by simp
  show ?thesis unfolding GenerateSecret_def assms(1)
    using assms(2) crt
    by (cases ca; cases a)
      (auto simp: Let_def certTemplate_def defaultExpiration_def new_meta_def intro!: every_fatal_or)
qed

text \<open>C19: A generated certificate is signed by the authority of the given secret, with its key, is
  no authority itself and has the authority's certificate as its ca.crt; without an authority it
  signs itself, may sign others, and is its own ca.crt. It is for the hosts asked for and ends
  after it begins.\<close>

theorem certificates_chain:
  assumes "getCAFromSecret L ca = Inr a" "0 \<le> expiration"
  shows "every any_reply (signed_by a hosts)
    (\<lambda>s. m_name (o_Meta s) = n \<and> mget (secret_data s) ''ca.crt'' =
       mget (secret_data (case ca of None \<Rightarrow> s | Some c \<Rightarrow> c)) ''tls.crt'')
    (GenerateSecret L n subject hosts expiration ca)"
  using assms by (rule GenerateSecret_signed)

theorem certificates_chain_witness:
  "every any_reply (signed_by None ''a,b'')
    (\<lambda>s. m_name (o_Meta s) = ''ca'' \<and> mget (secret_data s) ''ca.crt'' =
       mget (secret_data (case None of None \<Rightarrow> s | Some c \<Rightarrow> c)) ''tls.crt'')
    (GenerateSecret lib_ref ''ca'' ''ca'' ''a,b'' 0 None)"
  by (rule certificates_chain) (simp_all add: getCAFromSecret_def)

subsection \<open>The secrets that are missing\<close>

text \<open>A cluster in which exactly the named secrets of a namespace exist.\<close>

fun secrets_are :: "string \<Rightarrow> string list \<Rightarrow> allowed" where
  "secrets_are ns present (CGet (KSecret, ns', n)) (RObj r) \<longleftrightarrow>
     (case r of Inr s \<Rightarrow> ns' = ns \<and> n \<in> set present
      | Inl e \<Rightarrow> IsNotFound e \<and> \<not> (ns' = ns \<and> n \<in> set present))"
| "secrets_are ns present c r \<longleftrightarrow> True"

abbreviation hub_certificates :: "string list" where
  "hub_certificates \<equiv> [NatsSiteCASecret, NatsLocalCASecret, NatsSiteServerSecret, NatsMqttServerSecret]"

definition only_missing :: "string list \<Rightarrow> Call \<Rightarrow> bool" where
  "only_missing present c \<longleftrightarrow> (set hub_certificates \<subseteq> set present \<longrightarrow> \<not> crypto_call c)"

lemma find_secret_every:
  "every (secrets_are ns present) (only_missing present)
    (\<lambda>r. case r of Inl e \<Rightarrow> False | Inr found \<Rightarrow> (found = None) = (n \<notin> set present))
    (find_secret (kget KSecret) ns n)"
  by (auto simp: find_secret_def kget_def only_missing_def split: sum.splits)

lemma every_found:
  assumes "\<And>found. (found = None) = (n \<notin> set present) \<Longrightarrow> every (secrets_are ns present) (only_missing present) Q (f found)"
  shows "every (secrets_are ns present) (only_missing present) Q (tryE (find_secret (kget KSecret) ns n) f)"
  by (rule every_tryE [where R = "\<lambda>found. (found = None) = (n \<notin> set present)", OF every_mono [OF find_secret_every]])
    (auto split: sum.splits intro: assms)

definition built :: "string \<Rightarrow> smap \<Rightarrow> string list \<Rightarrow> KObj list \<Rightarrow> bool" where
  "built ns labels names ss \<longleftrightarrow> map (m_name \<circ> o_Meta) ss = names \<and>
     list_all (\<lambda>s. m_namespace (o_Meta s) = ns \<and> m_labels (o_Meta s) = labels) ss"

lemma built_simps [simp]:
  "built ns labels [] []" "built ns labels [n] [s] \<longleftrightarrow> m_name (o_Meta s) = n \<and>
     m_namespace (o_Meta s) = ns \<and> m_labels (o_Meta s) = labels"
  by (simp_all add: built_def)

lemma built_append: "built ns labels a x \<Longrightarrow> built ns labels b y \<Longrightarrow> built ns labels (a @ b) (x @ y)"
  by (simp add: built_def)

abbreviation missing :: "string list \<Rightarrow> string \<Rightarrow> string list" where
  "missing present n \<equiv> (if n \<in> set present then [] else [n])"

lemma generated_only_missing:
  assumes "n \<in> set hub_certificates" "n \<notin> set present"
  shows "every A (only_missing present) (generated n) (GenerateSecret L n subject hosts expiration ca)"
  by (rule every_call_mono [OF GenerateSecret_every]) (use assms in \<open>auto simp: only_missing_def\<close>)

lemma ensure_ca_every:
  assumes "n \<in> set hub_certificates" "(found = None) = (n \<notin> set present)"
  shows "every A (only_missing present) (\<lambda>(ca, out). built ns labels (missing present n) out)
    (ensure_ca L n ns labels found)"
proof (cases found)
  case None
  then show ?thesis using assms
    by (auto simp: ensure_ca_def Let_def in_namespace_def generated_def new_meta_def
        intro!: every_bindI [OF generated_only_missing])
qed (use assms in \<open>simp add: ensure_ca_def\<close>)

lemma ensure_server_every:
  assumes "n \<in> set hub_certificates" "(found = None) = (n \<notin> set present)"
  shows "every A (only_missing present) (built ns labels (missing present n))
    (ensure_server L n subject hosts ns labels replicas ca found)"
proof (cases found)
  case None
  then show ?thesis using assms
    by (auto simp: ensure_server_def Let_def in_namespace_def annotate_def generated_def new_meta_def
        intro!: every_bindI [OF generated_only_missing])
qed (use assms in \<open>simp add: ensure_server_def\<close>)

text \<open>C20: The hub's certificates that are missing, and only these, are made, in the ControlPlane's
  namespace and with its labels; when all four exist no key and no certificate is generated.\<close>

theorem missing_certificates_made:
  "every (secrets_are ns present) (only_missing present)
    (\<lambda>r. case r of Inl e \<Rightarrow> False
      | Inr ss \<Rightarrow> built ns labels (filter (\<lambda>n. n \<notin> set present) hub_certificates) ss)
    (EnsureNatsSecrets L (kget KSecret) ns i headless replicas address labels)"
proof -
  have names: "filter (\<lambda>n. n \<notin> set present) hub_certificates =
    missing present NatsSiteCASecret @ missing present NatsLocalCASecret @
    missing present NatsSiteServerSecret @ missing present NatsMqttServerSecret" by simp
  show ?thesis unfolding EnsureNatsSecrets_def Let_def names
    apply (intro every_found)
    apply (rule every_bindI [OF ensure_ca_every], simp, assumption, clarify)
    apply (rule every_bindI [OF ensure_ca_every], simp, assumption, clarify)
    apply (rule every_bindI [OF ensure_server_every], simp, assumption)
    apply (rule every_bindI [OF ensure_server_every], simp, assumption)
    apply (simp only: every.simps sum.case)
    apply (intro built_append)
    apply assumption+
    done
qed

subsection \<open>The names of the servers\<close>

fun named_for :: "string list \<Rightarrow> Call \<Rightarrow> bool" where
  "named_for hs (CExt (CreateCertificate tpl parent pub key)) \<longleftrightarrow>
     (tpl_CommonName tpl \<in> {''iofog-nats'', ''iofog-nats-mqtt''} \<longrightarrow> set hs \<subseteq> set (tpl_DNSNames tpl))"
| "named_for hs _ \<longleftrightarrow> True"

text \<open>A server's secret says for how many replicas it is.\<close>

definition annotated :: "nat \<Rightarrow> KObj \<Rightarrow> bool" where
  "annotated n s \<longleftrightarrow> (m_name (o_Meta s) \<in> {NatsSiteServerSecret, NatsMqttServerSecret} \<longrightarrow>
     mget (m_annotations (o_Meta s)) ''datasance.com/nats-replicas'' = itoa (int n))"

lemma GenerateSecret_named:
  assumes "subject \<in> {''iofog-nats'', ''iofog-nats-mqtt''} \<Longrightarrow> set hs \<subseteq> set (hostsList hosts)"
  shows "every A (named_for hs) (generated n) (GenerateSecret L n subject hosts expiration ca)"
  using assms by (auto simp: GenerateSecret_def Let_def certTemplate_def
      intro!: every_fatal_or split: sum.splits option.splits)

lemma ensure_ca_named:
  "n \<in> {NatsSiteCASecret, NatsLocalCASecret} \<Longrightarrow>
    every A (named_for hs) (\<lambda>r. list_all (annotated k) (snd r)) (ensure_ca L n ns labels found)"
  by (auto simp: ensure_ca_def Let_def NatsSiteCASecret_def NatsLocalCASecret_def NatsSiteServerSecret_def
      NatsMqttServerSecret_def annotated_def generated_def in_namespace_def new_meta_def
      intro!: every_bindI [OF GenerateSecret_named] split: option.splits)

lemma ensure_server_named:
  "set hs \<subseteq> set (hostsList hosts) \<Longrightarrow>
    every A (named_for hs) (list_all (annotated k)) (ensure_server L n subject hosts ns labels k ca found)"
  by (auto simp: ensure_server_def Let_def annotated_def annotate_def mget_def
      intro!: every_bindI [OF GenerateSecret_named] split: option.splits)

lemma find_secret_named: "every A (named_for hs) (\<lambda>r. True) (find_secret (kget KSecret) ns n)"
  by (simp add: find_secret_def kget_def)

lemma secrets_named:
  assumes "set hs \<subseteq> set (hostsList (natsSiteServerHosts headless ns k address))"
  shows "every A (named_for hs) (\<lambda>r. case r of Inl e \<Rightarrow> True | Inr ss \<Rightarrow> list_all (annotated k) ss)
    (EnsureNatsSecrets L (kget KSecret) ns i headless k address labels)"
proof -
  let ?Q = "\<lambda>r. case r of Inl e \<Rightarrow> True | Inr ss \<Rightarrow> list_all (annotated k) ss"
  have find: "every A (named_for hs) (\<lambda>r. case r of Inl e \<Rightarrow> ?Q (Inl e) | Inr x \<Rightarrow> True)
      (find_secret (kget KSecret) ns n)" for n
    by (rule every_mono [OF find_secret_named]) (simp split: sum.split)
  show ?thesis unfolding EnsureNatsSecrets_def Let_def
    apply (intro every_tryE [OF find])
    apply (rule every_bindI [OF ensure_ca_named [where k = k]], simp, clarify)
    apply (rule every_bindI [OF ensure_ca_named [where k = k]], simp, clarify)
    apply (rule every_bindI [OF ensure_server_named [OF assms]])
    apply (rule every_bindI [OF ensure_server_named [OF assms]])
    apply simp
    done
qed

text \<open>The host of a server's pod, and what the hub's \<open>server.conf\<close> is built from.\<close>

definition pod_host :: "nat \<Rightarrow> string" where
  "pod_host i = ''nats-'' @ itoa (int i) @ ''.'' @ HeadlessServiceName"

definition hub_params :: "ControlPlane \<Rightarrow> NatsBootstrapSecrets \<Rightarrow> string \<Rightarrow> string \<Rightarrow> ServerConfParams" where
  "hub_params cp boot address key =
     (let leaf = ni_LeafPort (ing_Nats (spec_Ingresses (cp_Spec cp)));
          leafPort = (if leaf > 0 then leaf else DefaultLeafPort)
      in \<lparr>scp_ServerPort = DefaultServerPort, scp_HttpPort = DefaultHttpPort,
          scp_OperatorJWT = nb_OperatorJWT boot, scp_SystemAccount = nb_SystemAccountPubKey boot,
          scp_JetStreamDomain = cp_Namespace cp, scp_JetStreamKey = key, scp_JetStreamPrev = [],
          scp_ClusterRoutes = [], scp_SSLDir = ''/etc/nats/certs'', scp_CertName = NatsSiteServerSecret,
          scp_MqttCertName = NatsMqttServerSecret, scp_LeafPort = DefaultLeafPort,
          scp_LeafAdvertise = (if address \<noteq> [] then address @ '':'' @ itoa leafPort else []),
          scp_ClusterPort = DefaultClusterPort, scp_MqttPort = DefaultMqttPort,
          scp_JWTDir = ''/home/runner/nats/jwt'', scp_ControllerName = cp_Name cp,
          scp_MaxMemoryStore = natsMemoryStore cp, scp_MaxFileStore = natsFileStore cp\<rparr>)"

lemma natsServerConf_wrap:
  "natsServerConf cp boot address key conf = wrap_routes (hub_params cp boot address key)
     (ClusterRoutesMerge HeadlessServiceName (nat (natsReplicas cp)) DefaultClusterPort conf)"
  by (simp add: natsServerConf_def hub_params_def wrap_routes_def Let_def)

lemma own_routes_hosts:
  "own_routes HeadlessServiceName DefaultClusterPort n =
     map (\<lambda>i. ''nats://'' @ pod_host i @ '':'' @ itoa DefaultClusterPort) [0..<n]"
  by (simp add: own_routes_def ordinal_route_def pod_host_def)

text \<open>The routes of a merged text, the present one readable or not.\<close>

lemma merged_routes:
  assumes "conf_fits p n" "\<forall>rs. parseRoutesFromServerConf conf = Some rs \<longrightarrow> list_all route_ok rs"
  shows "\<exists>others. parseRoutesFromServerConf
      (wrap_routes p (ClusterRoutesMerge HeadlessServiceName n DefaultClusterPort conf)) =
        Some (own_routes HeadlessServiceName DefaultClusterPort n @ others) \<and>
    set others = {q. \<not> isK8sOrdinalRoute q HeadlessServiceName DefaultClusterPort \<and>
      (\<exists>rs. parseRoutesFromServerConf conf = Some rs \<and> q \<in> set rs)}"
proof (cases "parseRoutesFromServerConf conf")
  case None
  then have "ClusterRoutesMerge HeadlessServiceName n DefaultClusterPort conf =
      routes_text (own_routes HeadlessServiceName DefaultClusterPort n)"
    by (simp add: ClusterRoutesMerge_def ClusterRoutesFormat_text)
  then show ?thesis
    using parse_wrapped [of p] own_routes_ok [OF HeadlessServiceName_ok] assms(1) None
    by (simp add: conf_fits_def)
next
  case (Some rs)
  then have ok: "\<forall>r \<in> set rs. route_ok r" using assms(2) by (simp add: list_all_iff)
  show ?thesis
    using parse_wrap_merged [OF assms(1) Some ok] Some by (auto simp: set_dedup foreign_def)
qed

text \<open>How a certificate of another replica count is recognized, and what happens to it.\<close>

definition current_or_dropped :: "string \<Rightarrow> int \<Rightarrow> event list \<Rightarrow> bool" where
  "current_or_dropped ns k tr \<longleftrightarrow>
     (\<exists>e. tr = [(CGet (KSecret, ns, NatsSiteServerSecret), RObj (Inl e))]) \<or>
     (\<exists>s. tr = [(CGet (KSecret, ns, NatsSiteServerSecret), RObj (Inr s))] \<and>
        mget (m_annotations (o_Meta s)) ''datasance.com/nats-replicas'' = itoa k) \<or>
     {CWrite (WDelete (KSecret, ns, NatsSiteServerSecret)),
      CWrite (WDelete (KSecret, ns, NatsMqttServerSecret))} \<subseteq> fst ` set tr"

lemma deletes_all:
  "runs (for_each (deleteSecret ns) names) tr (Returned (Inr ())) \<Longrightarrow> n \<in> set names \<Longrightarrow>
    CWrite (WDelete (KSecret, ns, n)) \<in> fst ` set tr"
proof (induction names arbitrary: tr)
  case (Cons m names)
  obtain tr1 tr2 x where tr: "tr = tr1 @ tr2" "runs (deleteSecret ns m) tr1 (Returned x)"
    "runs (case x of Inl e \<Rightarrow> Done (Inl e) | Inr y \<Rightarrow> for_each (deleteSecret ns) names) tr2 (Returned (Inr ()))"
    using Cons.prems(1) by (auto simp: tryE_def runs_pbind_Returned)
  have "CWrite (WDelete (KSecret, ns, m)) \<in> fst ` set tr1"
    using tr(2) by (auto simp: deleteSecret_def)
  then show ?case using Cons tr(1,3) by (cases x) (auto simp: image_Un)
qed simp

lemma stale_dropped:
  assumes "runs (dropStaleCertificates ns k) tr (Returned (Inr ()))"
  shows "current_or_dropped ns k tr"
proof -
  let ?get = "CGet (KSecret, ns, NatsSiteServerSecret)"
  obtain r tr' where tr: "tr = (?get, RObj r) # tr'" "runs (case r of Inl e \<Rightarrow> Done (Inr ())
     | Inr s \<Rightarrow> if mget (m_annotations (o_Meta s)) ''datasance.com/nats-replicas'' \<noteq> itoa k
               then for_each (deleteSecret ns) [NatsSiteServerSecret, NatsMqttServerSecret]
               else Done (Inr ())) tr' (Returned (Inr ()))"
    using assms by (auto simp: dropStaleCertificates_def simp del: for_each.simps)
  show ?thesis
  proof (cases r)
    case (Inl e)
    then show ?thesis using tr by (auto simp: current_or_dropped_def)
  next
    case (Inr s)
    then show ?thesis using tr deletes_all [of ns "[NatsSiteServerSecret, NatsMqttServerSecret]" tr']
      by (auto simp: current_or_dropped_def simp del: for_each.simps split: if_splits)
  qed
qed


definition sample_boot :: NatsBootstrapSecrets where
  "sample_boot = \<lparr>nb_OperatorJWT = ''eyJ0'', nb_SystemAccountJWT = ''eyJ1'',
     nb_SystemAccountPubKey = ''AC1'', nb_CredsContent = ''creds''\<rparr>"


subsection \<open>The key of JetStream\<close>

text \<open>The random source gives \<open>key\<close>.\<close>

fun random_is :: "string \<Rightarrow> allowed" where
  "random_is key (CExt (RandRead n)) (RStr r) \<longleftrightarrow> r = Inr key"
| "random_is key c r \<longleftrightarrow> True"

fun writes_key :: "okey \<Rightarrow> string \<Rightarrow> Call \<Rightarrow> bool" where
  "writes_key k key (CWrite w) \<longleftrightarrow> (\<exists>s. w = WCreate s \<and> okey s = k \<and>
     DecodeString (mget (secret_data s) ''jsk'') = Some key)"
| "writes_key k key c \<longleftrightarrow> True"

text \<open>An existing secret with a key.\<close>

fun key_exists :: allowed where
  "key_exists (CGet k) (RObj r) \<longleftrightarrow> (\<exists>s. r = Inr s \<and> mget (secret_data s) ''jsk'' \<noteq> [])"
| "key_exists c r \<longleftrightarrow> True"

fun only_gets :: "Call \<Rightarrow> bool" where
  "only_gets (CGet k) \<longleftrightarrow> True"
| "only_gets c \<longleftrightarrow> False"

text \<open>C21: The key secret of JetStream is only ever created, never overwritten, and what is stored
  decodes to the random bytes drawn for it; where a key exists it is read and nothing else
  happens.\<close>

theorem jetstream_key_kept:
  assumes "controller_reference (lib_setref L)"
  shows "every (random_is key) (writes_key (KSecret, cp_Namespace cp, JetStreamKeySecretName (cp_Name cp)) key)
      (\<lambda>r. True) (EnsureJetStreamKeySecret (kget KSecret) (createOwned L cp) (cp_Namespace cp) (cp_Name cp) labels) \<and>
    every key_exists only_gets (\<lambda>r. r = Inr False)
      (EnsureJetStreamKeySecret (kget KSecret) (createOwned L cp) (cp_Namespace cp) (cp_Name cp) labels)"
proof -
  note keeps = controller_reference.reference_keeps [OF assms]
  have key: "okey s = okey o1 \<and> secret_data s = secret_data o1" if "setOwner L cp o1 = Inr s" for o1 s
    using that by (auto simp: setOwner_def okey_def secret_data_def keeps split: sum.splits)
  have create: "every A (writes_key (KSecret, ns, n) key) (\<lambda>r. True)
    (tryE (createOwned L cp (dataSecret n ns labels [''jsk'' \<mapsto> EncodeToString key])) (\<lambda>_. Done (Inr True)))"
    for A ns n
    using key [of "dataSecret n ns labels [''jsk'' \<mapsto> EncodeToString key]"]
    by (auto simp: createOwned_def with_owner_def kwrite_def tryE_def dataSecret_def okey_def
        secret_data_def new_meta_def mget_def DecodeString_EncodeToString split: sum.splits)
  show ?thesis
    by (auto simp: EnsureJetStreamKeySecret_def kget_def Let_def secret_data_def split: sum.splits intro: create)
qed

theorem jetstream_key_kept_witness:
  "\<forall>cp. every (random_is ''secret'') (writes_key (KSecret, cp_Namespace cp, JetStreamKeySecretName (cp_Name cp)) ''secret'')
      (\<lambda>r. True)
      (EnsureJetStreamKeySecret (kget KSecret) (createOwned lib_ref cp) (cp_Namespace cp) (cp_Name cp) Map.empty) \<and>
    every key_exists only_gets (\<lambda>r. r = Inr False)
      (EnsureJetStreamKeySecret (kget KSecret) (createOwned lib_ref cp) (cp_Namespace cp) (cp_Name cp) Map.empty)"
  by (intro allI jetstream_key_kept) (simp add: lib_ref_def setref_ref.controller_reference_axioms)

end
