(* ===== verification/Server.thy ===== *)
theory Server
  imports Confinement Ensure
begin

text \<open>
  The API server as a store of objects: what its answers say about the store, with any number of
  steps of others between two calls. On it, an event that shows an object to exist means that the
  object is in the store for as long as nobody deletes it.
\<close>

subsection \<open>The store\<close>

type_synonym store = "okey \<rightharpoonup> KObj"

definition well_keyed :: "store \<Rightarrow> bool" where
  "well_keyed st \<longleftrightarrow> (\<forall>k o1. st k = Some o1 \<longrightarrow> okey o1 = k)"

text \<open>
  One call answered: reading gives the stored object, creating needs a free key, updating an
  existing one, and the answer to a write is the object as it is stored, under the key of the
  one sent. The server may refuse any call; a refusal changes nothing, and its reason is true.
\<close>

fun refused :: "store \<Rightarrow> okey \<Rightarrow> GoError \<Rightarrow> bool" where
  "refused st k e \<longleftrightarrow> (IsNotFound e \<longrightarrow> st k = None) \<and> (IsAlreadyExists e \<longrightarrow> st k \<noteq> None)"

fun answers :: "store \<Rightarrow> Call \<Rightarrow> Reply \<Rightarrow> store \<Rightarrow> bool" where
  "answers st (CGet k) (RObj (Inr o1)) st' \<longleftrightarrow> st k = Some o1 \<and> st' = st"
| "answers st (CGet k) (RObj (Inl e)) st' \<longleftrightarrow> refused st k e \<and> st' = st"
| "answers st (CWrite (WDelete k)) (RObj (Inr o1)) st' \<longleftrightarrow> st k = Some o1 \<and> st' = st(k := None)"
| "answers st (CWrite (WCreate o2)) (RObj (Inr o1)) st' \<longleftrightarrow>
     okey o1 = okey o2 \<and> st (okey o2) = None \<and> st' = st(okey o2 \<mapsto> o1)"
| "answers st (CWrite w) (RObj (Inr o1)) st' \<longleftrightarrow>
     okey o1 = write_key w \<and> st (write_key w) \<noteq> None \<and> st' = st(write_key w \<mapsto> o1)"
| "answers st (CWrite w) (RObj (Inl e)) st' \<longleftrightarrow> refused st (write_key w) e \<and> st' = st"
| "answers st c r st' \<longleftrightarrow> st' = st"

text \<open>
  The operator's events with the steps of others between them. Others may create and change
  objects; \<open>others\<close> are the keys they do not delete.
\<close>

inductive history :: "okey set \<Rightarrow> store \<Rightarrow> event list \<Rightarrow> store \<Rightarrow> bool" for K where
  quiet: "history K st [] st"
| other: "well_keyed st1 \<Longrightarrow> \<forall>k\<in>K. st k \<noteq> None \<longrightarrow> st1 k \<noteq> None \<Longrightarrow> history K st1 tr st' \<Longrightarrow>
    history K st tr st'"
| event: "answers st c r st1 \<Longrightarrow> history K st1 tr st' \<Longrightarrow> history K st ((c, r) # tr) st'"

lemma answers_well_keyed: "answers st c r st' \<Longrightarrow> well_keyed st \<Longrightarrow> well_keyed st'"
  by (cases "(st, c, r, st')" rule: answers.cases) (auto simp: well_keyed_def)

lemma answers_honest: "answers st c r st' \<Longrightarrow> well_keyed st \<Longrightarrow> honest c r"
  by (cases "(st, c, r, st')" rule: answers.cases) (auto simp: well_keyed_def)

lemma history_honest: "history K st tr st' \<Longrightarrow> well_keyed st \<Longrightarrow> \<forall>(c, r) \<in> set tr. honest c r"
  by (induction rule: history.induct) (auto dest: answers_honest answers_well_keyed)

subsection \<open>What is known to exist\<close>

fun removes :: "okey \<Rightarrow> Call \<Rightarrow> bool" where
  "removes k (CWrite (WDelete k')) \<longleftrightarrow> k' = k"
| "removes k c \<longleftrightarrow> False"

definition learn :: "okey \<Rightarrow> Call \<Rightarrow> Reply \<Rightarrow> bool \<Rightarrow> bool" where
  "learn k c r b \<longleftrightarrow> present k c r \<or> (b \<and> \<not> removes k c)"

fun known_after :: "okey \<Rightarrow> bool \<Rightarrow> event list \<Rightarrow> bool" where
  "known_after k b [] = b"
| "known_after k b ((c, r) # tr) = known_after k (learn k c r b) tr"

lemma present_refused: "present k (CWrite w) (RObj (Inl e)) \<Longrightarrow> write_key w = k \<and> IsAlreadyExists e"
  by (cases w) auto

lemma answers_learn:
  "answers st c r st' \<Longrightarrow> well_keyed st \<Longrightarrow> (b \<longrightarrow> st k \<noteq> None) \<Longrightarrow> learn k c r b \<Longrightarrow> st' k \<noteq> None"
  by (cases "(st, c, r, st')" rule: answers.cases) (auto simp: learn_def dest: present_refused)

lemma answers_keep: "answers st c r st' \<Longrightarrow> st k \<noteq> None \<Longrightarrow> \<not> removes k c \<Longrightarrow> st' k \<noteq> None"
  by (cases "(st, c, r, st')" rule: answers.cases) auto

text \<open>
  What one of the interleaved routines knows holds in the store, when no other routine and
  nobody else deletes the object.
\<close>

lemma known_in_store:
  assumes "history K st (map snd tr) st'" "well_keyed st" "k \<in> K" "b \<longrightarrow> st k \<noteq> None"
    and "\<forall>(j, c, r) \<in> set tr. j \<noteq> i \<longrightarrow> \<not> removes k c"
    and "known_after k b (proj i tr)"
  shows "st' k \<noteq> None"
  using assms
proof (induction st "map snd tr" st' arbitrary: tr b rule: history.induct)
  case (other st1 st st')
  have "b \<longrightarrow> st1 k \<noteq> None" using other.hyps(2) other.prems by blast
  then show ?case using other.hyps(1,4) other.prems by blast
next
  case (event st c r st1 evs st')
  then obtain j tr' where tr: "tr = (j, c, r) # tr'" "evs = map snd tr'" by (cases tr) auto
  show ?case
  proof (cases "j = i")
    case True
    then show ?thesis
      using event.hyps(3) [of tr' "learn k c r b"] event.prems tr
        answers_learn [OF event.hyps(1)] answers_well_keyed [OF event.hyps(1)] by auto
  next
    case False
    then show ?thesis
      using event.hyps(3) [of tr' b] event.prems tr
        answers_keep [OF event.hyps(1)] answers_well_keyed [OF event.hyps(1)] by auto
  qed
qed auto

lemma kept_in_store:
  assumes "history K st tr st'" "k \<in> K" "st k \<noteq> None" "\<forall>(c, r) \<in> set tr. \<not> removes k c"
  shows "st' k \<noteq> None"
  using assms by (induction rule: history.induct) (auto dest: answers_keep)

lemma history_append:
  "history K st (a @ b) st' \<Longrightarrow> well_keyed st \<Longrightarrow>
    \<exists>st1. history K st a st1 \<and> history K st1 b st' \<and> well_keyed st1"
proof (induction st "a @ b" st' arbitrary: a rule: history.induct)
  case (quiet st)
  then show ?case by (auto intro: history.quiet)
next
  case (other st1 st st')
  then show ?case by (meson history.other)
next
  case (event st c r st1 tr st')
  show ?case
  proof (cases a)
    case Nil
    then show ?thesis using event by (metis append_Nil history.event history.quiet)
  next
    case (Cons e a')
    then show ?thesis using event by (auto intro: history.event dest: answers_well_keyed)
  qed
qed

subsection \<open>Following one object through the code\<close>

text \<open>
  \<open>track k R b p\<close>: started with the knowledge \<open>b\<close> of whether the object exists, a result of \<open>p\<close> and
  the knowledge it is returned with satisfy \<open>R\<close>, whatever an honest server answers.
\<close>

primrec track :: "okey \<Rightarrow> (bool \<Rightarrow> 'a \<Rightarrow> bool) \<Rightarrow> bool \<Rightarrow> 'a prog \<Rightarrow> bool" where
  "track k R b (Done x) = R b x"
| "track k R b (Crashed c) = True"
| "track k R b (KGet k1 g) =
     (\<forall>r. honest (CGet k1) (RObj r) \<longrightarrow> track k R (learn k (CGet k1) (RObj r) b) (g r))"
| "track k R b (KList kd g) = (\<forall>r. track k R b (g r))"
| "track k R b (KWrite w g) =
     (\<forall>r. honest (CWrite w) (RObj r) \<longrightarrow> track k R (learn k (CWrite w) (RObj r) b) (g r))"
| "track k R b (Ext x g) = (\<forall>r. track k R b (g r))"
| "track k R b (Http q g) = (\<forall>r. track k R b (g r))"
| "track k R b (Bootstrap c g) = (\<forall>r. track k R b (g r))"
| "track k R b (Now g) = (\<forall>r. track k R b (g r))"

lemma track_pbind: "track k R b (pbind m f) \<longleftrightarrow> track k (\<lambda>b x. track k R b (f x)) b m"
  by (induction m arbitrary: b) auto

lemma track_mono: "track k R b m \<Longrightarrow> (\<And>b x. R b x \<Longrightarrow> S b x) \<Longrightarrow> track k S b m"
  by (induction m arbitrary: b) auto

lemma track_any: "(\<And>b x. R b x) \<Longrightarrow> track k R b m"
  by (induction m arbitrary: b) auto

lemma track_step:
  "step p (c, r) p' \<Longrightarrow> track k R b p \<Longrightarrow> honest c r \<Longrightarrow> track k R (learn k c r b) p'"
  by (cases p) (auto simp: learn_def)

lemma track_runs:
  assumes "runs p tr (Returned x)" "track k R b p" "\<forall>(c, r) \<in> set tr. honest c r"
  shows "R (known_after k b tr) x"
  using assms
proof (induction p tr "Returned x" arbitrary: b rule: runs.induct)
  case (call p e p' tr)
  obtain c r where e: "e = (c, r)" by (cases e)
  from call.prems e have h: "honest c r" "\<forall>(c, r) \<in> set tr. honest c r" by simp_all
  from track_step [OF _ call.prems(1) h(1)] call.hyps(1) e
  have "track k R (learn k c r b) p'" by simp
  from call.hyps(3) [OF this h(2)] e show ?case by simp
qed simp

text \<open>Code that keeps the object, and code that shows it to exist.\<close>

abbreviation saves :: "okey \<Rightarrow> 'a prog \<Rightarrow> bool" where
  "saves k m \<equiv> every honest (\<lambda>c. \<not> removes k c) (\<lambda>x. True) m"

lemma saves_track: "every honest (\<lambda>c. \<not> removes k c) Q m \<Longrightarrow> track k (\<lambda>b x. b \<and> Q x) True m"
proof (induction m)
  case (KGet k1 g)
  then show ?case by (simp add: learn_def) 
next
  case (KWrite w g)
  then show ?case by (simp add: learn_def)
qed auto

lemma until_track:
  assumes "until honest (present k) (\<lambda>c. False) Q m" "saves k m"
  shows "track k (\<lambda>b x. b \<or> Q x) b m"
  using assms
proof (induction m arbitrary: b)
  case (KGet k1 g)
  have "track k (\<lambda>b x. b \<or> Q x) True (g r)" if "honest (CGet k1) (RObj r)" for r
    using KGet.prems(2) that by (intro track_mono [OF saves_track [where Q = "\<lambda>x. True"]]) auto
  then show ?case using KGet by (auto simp: learn_def split: if_splits) 
next
  case (KWrite w g)
  have "track k (\<lambda>b x. b \<or> Q x) True (g r)" if "honest (CWrite w) (RObj r)" for r
    using KWrite.prems(2) that by (intro track_mono [OF saves_track [where Q = "\<lambda>x. True"]]) auto
  then show ?case using KWrite by (auto simp: learn_def split: if_splits)
qed auto

end
