(* ===== verification/AppScaling.thy ===== *)
theory AppScaling
  imports Apps Server
begin

text \<open>
  Reconciles of an Application against the API server as a store that others change too and that
  may refuse any call: from the first reconcile that ends without an error the deployment has the
  wanted replicas, and later reconciles leave it alone.
\<close>

subsection \<open>What is relied on\<close>

fun replicas_of :: "Payload \<Rightarrow> int option" where
  "replicas_of (PDeployment d) = dep_Replicas d"
| "replicas_of (PApplication sp st) = Some (aspec_Replicas sp)"
| "replicas_of _ = None"

text \<open>The stored object of a key has the given replica count.\<close>

definition counts :: "store \<Rightarrow> okey \<Rightarrow> int \<Rightarrow> bool" where
  "counts st k j \<longleftrightarrow> (\<exists>o1. st k = Some o1 \<and> replicas_of (o_Payload o1) = Some j)"

abbreviation scaled :: "store \<Rightarrow> string \<Rightarrow> string \<Rightarrow> int \<Rightarrow> bool" where
  "scaled st ns n j \<equiv> counts st (KDeployment, ns, n) j"

text \<open>
  The stores considered: the application wants \<open>k\<close> replicas, and a deployment has a replica count,
  which the server fills in where it is left out.
\<close>

definition wanting :: "string \<Rightarrow> string \<Rightarrow> int \<Rightarrow> store \<Rightarrow> bool" where
  "wanting ns n k st \<longleftrightarrow> well_keyed st \<and> counts st (KApplication, ns, n) k \<and>
     (st (KDeployment, ns, n) \<noteq> None \<longrightarrow> (\<exists>j. scaled st ns n j))"

text \<open>
  A write that is accepted is stored with the replica count that was sent, whatever else the
  server fills in. Others may change everything, also in the deployment and the application, but
  the wanted replicas and the replica count of the deployment.
\<close>

fun stores_count :: "Call \<Rightarrow> Reply \<Rightarrow> bool" where
  "stores_count (CWrite (WCreate o2)) (RObj (Inr o1)) \<longleftrightarrow>
     replicas_of (o_Payload o1) = replicas_of (o_Payload o2)"
| "stores_count (CWrite (WUpdate o2)) (RObj (Inr o1)) \<longleftrightarrow>
     replicas_of (o_Payload o1) = replicas_of (o_Payload o2)"
| "stores_count c r \<longleftrightarrow> True"

inductive served :: "string \<Rightarrow> string \<Rightarrow> int \<Rightarrow> store \<Rightarrow> event list \<Rightarrow> store \<Rightarrow> bool" for ns n k where
  quiet: "served ns n k st [] st"
| other: "wanting ns n k st1 \<Longrightarrow> \<forall>j. scaled st ns n j \<longrightarrow> scaled st1 ns n j \<Longrightarrow>
    served ns n k st1 tr st' \<Longrightarrow> served ns n k st tr st'"
| event: "answers st c r st1 \<Longrightarrow> stores_count c r \<Longrightarrow> served ns n k st1 tr st' \<Longrightarrow>
    served ns n k st ((c, r) # tr) st'"

text \<open>Reconciles one after another: the calls of each and how it ended.\<close>

inductive reconciles ::
    "Lib \<Rightarrow> string \<Rightarrow> string \<Rightarrow> int \<Rightarrow> store \<Rightarrow> (event list \<times> ctrl_return outcome) list \<Rightarrow> store \<Rightarrow> bool"
    for L ns n k where
  none: "reconciles L ns n k st [] st"
| one: "runs (reconcileApplication L ns n) tr out \<Longrightarrow> served ns n k st tr st1 \<Longrightarrow>
    reconciles L ns n k st1 xs st' \<Longrightarrow> reconciles L ns n k st ((tr, out) # xs) st'"

fun writes_deployment :: "Call \<Rightarrow> bool" where
  "writes_deployment (CWrite w) \<longleftrightarrow> fst (write_key w) = KDeployment"
| "writes_deployment c \<longleftrightarrow> False"

subsection \<open>One call\<close>

lemma counts_unique: "counts st k i \<Longrightarrow> counts st k j \<Longrightarrow> i = j"
  by (auto simp: counts_def)

lemma served_Nil:
  "served ns n k st [] st' \<Longrightarrow> wanting ns n k st \<Longrightarrow>
    wanting ns n k st' \<and> (\<forall>j. scaled st ns n j \<longrightarrow> scaled st' ns n j)"
  by (induction st "[] :: event list" st' rule: served.induct) auto

lemma served_Cons:
  "served ns n k st ((c, r) # tr) st' \<Longrightarrow> wanting ns n k st \<Longrightarrow>
    \<exists>s1 s2. wanting ns n k s1 \<and> (\<forall>j. scaled st ns n j \<longrightarrow> scaled s1 ns n j) \<and>
      answers s1 c r s2 \<and> stores_count c r \<and> served ns n k s2 tr st'"
proof (induction st "(c, r) # tr" st' rule: served.induct)
  case (other st1 st st')
  then show ?case by blast
qed blast

text \<open>A read leaves the store as it is.\<close>

lemma served_read:
  assumes "served ns n k st ((c, r) # tr) st'" "wanting ns n k st" "\<forall>w. c \<noteq> CWrite w"
  obtains s where "wanting ns n k s" "\<forall>j. scaled st ns n j \<longrightarrow> scaled s ns n j" "answers s c r s"
    "served ns n k s tr st'"
proof -
  obtain s1 s2 where s: "wanting ns n k s1" "\<forall>j. scaled st ns n j \<longrightarrow> scaled s1 ns n j"
    "answers s1 c r s2" "served ns n k s2 tr st'"
    using served_Cons [OF assms(1,2)] by blast
  moreover have "s2 = s1"
    using s(3) assms(3) by (cases "(s1, c, r, s2)" rule: answers.cases) auto
  ultimately show ?thesis using that by blast
qed

text \<open>
  A write, with its error returned, of the deployment or the application, with the wanted
  replicas in it: when it succeeds, they are stored.
\<close>

lemma served_write:
  assumes "runs (write_or_fail w ok) tr out" "served ns n k st tr st'" "wanting ns n k st"
    and "w = WCreate o1 \<or> w = WUpdate o1" "replicas_of (o_Payload o1) = Some k"
    and "okey o1 = (kd, ns, n)" "kd = KDeployment \<or> kd = KApplication"
  shows "(\<exists>r. tr = [(CWrite w, RObj r)]) \<and> wanting ns n k st' \<and>
    (kd = KApplication \<longrightarrow> (\<forall>j. scaled st ns n j \<longrightarrow> scaled st' ns n j)) \<and>
    ((\<exists>e. out = Returned (app_fail e)) \<or> out = Returned ok \<and> (kd = KDeployment \<longrightarrow> scaled st' ns n k))"
proof -
  have "\<exists>r. tr = [(CWrite w, RObj r)] \<and> out = Returned (case r of Inl e \<Rightarrow> app_fail e | Inr o1 \<Rightarrow> ok)"
    using assms(1) by (auto simp: write_or_fail_def)
  then obtain r where tr: "tr = [(CWrite w, RObj r)]"
    "out = Returned (case r of Inl e \<Rightarrow> app_fail e | Inr o1 \<Rightarrow> ok)" by blast
  obtain s1 s2 where s: "wanting ns n k s1" "\<forall>j. scaled st ns n j \<longrightarrow> scaled s1 ns n j"
    "answers s1 (CWrite w) (RObj r) s2" "stores_count (CWrite w) (RObj r)" "served ns n k s2 [] st'"
    using served_Cons [OF assms(2) [unfolded tr] assms(3)] by blast
  have key: "write_key w = (kd, ns, n)" using assms(4,6) by auto
  have "wanting ns n k s2 \<and> (kd = KApplication \<longrightarrow> (\<forall>j. scaled s1 ns n j \<longrightarrow> scaled s2 ns n j)) \<and>
      (isl r \<or> (kd = KDeployment \<longrightarrow> scaled s2 ns n k))"
  proof (cases r)
    case (Inl e)
    then have "s2 = s1" using s(3) assms(4) by auto
    then show ?thesis using s(1) Inl by auto
  next
    case (Inr o3)
    then have "s2 = s1((kd, ns, n) \<mapsto> o3)" "okey o3 = (kd, ns, n)" "replicas_of (o_Payload o3) = Some k"
      using s(3,4) assms(4-6) by auto
    then show ?thesis using s(1) assms(7) Inr by (auto simp: wanting_def counts_def well_keyed_def)
  qed
  then have "wanting ns n k st' \<and> (kd = KApplication \<longrightarrow> (\<forall>j. scaled st ns n j \<longrightarrow> scaled st' ns n j)) \<and>
      (isl r \<or> (kd = KDeployment \<longrightarrow> scaled st' ns n k))"
    using served_Nil [OF s(5)] s(2) by blast
  then show ?thesis using tr by (cases r) auto
qed

subsection \<open>One reconcile\<close>

lemma okey_app_obj [simp]: "okey (app_obj a) = (KApplication, app_Namespace a, app_Name a)"
  by (simp add: okey_def app_obj_def)

lemma deploymentForApp_shape:
  assumes "controller_reference (lib_setref L)" "deploymentForApp L app = Inr dep"
  shows "okey dep = (KDeployment, app_Namespace app, app_Name app) \<and>
    replicas_of (o_Payload dep) = Some (aspec_Replicas (app_Spec app))"
  using assms(2) controller_reference.reference_keeps(1,2) [OF assms(1)]
  by (auto simp: deploymentForApp_def Let_def app_deployment_def new_meta_def okey_def split: sum.splits)

lemma kind_shape:
  "okey o1 = (KDeployment, ns, n) \<Longrightarrow> \<exists>d. o_Payload o1 = PDeployment d"
  "okey o1 = (KApplication, ns, n) \<Longrightarrow> \<exists>sp s. o_Payload o1 = PApplication sp s"
  by (cases "o_Payload o1"; simp add: okey_def)+

text \<open>What a reconcile of a scaled deployment comes to.\<close>

definition left_alone :: "string \<Rightarrow> string \<Rightarrow> int \<Rightarrow> event list \<Rightarrow> ctrl_return outcome \<Rightarrow> store \<Rightarrow> bool" where
  "left_alone ns n k tr out st' \<longleftrightarrow> scaled st' ns n k \<and> \<not> list_ex (\<lambda>e. writes_deployment (fst e)) tr \<and>
     (\<exists>e. out = Returned (app_result False, e))"

lemma pods_left_alone:
  assumes "runs (updatePodNames app) tr out" "served ns n k st tr st'" "wanting ns n k st" "scaled st ns n k"
    and "app_Namespace app = ns" "app_Name app = n" "aspec_Replicas (app_Spec app) = k"
  shows "wanting ns n k st' \<and> left_alone ns n k tr out st'"
proof -
  obtain r tr1 where tr: "tr = (CList KPod, RList r) # tr1"
    "runs (case r of Inl e \<Rightarrow> Done (app_fail e)
     | Inr pods \<Rightarrow>
         if Some (getPodNames pods) \<noteq> astat_PodNames (app_Status app)
         then write_or_fail (WUpdate (app_obj (app\<lparr>app_Status :=
                   (app_Status app)\<lparr>astat_PodNames := Some (getPodNames pods)\<rparr>\<rparr>))) (app_result False, None)
         else Done (app_result False, None)) tr1 out"
    using assms(1) by (auto simp: updatePodNames_def)
  obtain s where s: "wanting ns n k s" "scaled s ns n k" "served ns n k s tr1 st'"
    using served_read [OF assms(2) [unfolded tr(1)] assms(3)] assms(4) by auto
  show ?thesis
  proof (cases "\<exists>w. runs (write_or_fail (WUpdate (app_obj (app\<lparr>app_Status := w\<rparr>))) (app_result False, None)) tr1 out")
    case True
    then obtain w where run: "runs (write_or_fail (WUpdate (app_obj (app\<lparr>app_Status := w\<rparr>))) (app_result False, None)) tr1 out"
      by blast
    from served_write [OF run s(3,1), of "app_obj (app\<lparr>app_Status := w\<rparr>)" KApplication] s(2) assms(5-7) tr(1)
    show ?thesis
      by (auto simp: left_alone_def app_obj_def okey_def app_fail_def)
  next
    case False
    then have "tr1 = [] \<and> (\<exists>e. out = Returned (app_result False, e))"
      using tr(2) by (auto simp: app_fail_def split: sum.splits if_splits)
    then show ?thesis using served_Nil [of ns n k s st'] s tr(1) by (auto simp: left_alone_def)
  qed
qed

text \<open>
  One reconcile: it never panics, the stores stay as they are considered, without an error the
  deployment is scaled, and a scaled one is left alone.
\<close>

lemma reconcile_scales:
  assumes "controller_reference (lib_setref L)"
    and "runs (reconcileApplication L ns n) tr out" "served ns n k st tr st'" "wanting ns n k st"
  shows "wanting ns n k st' \<and> (\<exists>x e. out = Returned (x, e) \<and> (e = None \<longrightarrow> scaled st' ns n k)) \<and>
    (scaled st ns n k \<longrightarrow> left_alone ns n k tr out st')"
proof -
  let ?app = "(KApplication, ns, n)" and ?dep = "(KDeployment, ns, n)"
  have failed: ?thesis if "served ns n k s [] st'" "wanting ns n k s" "\<forall>j. scaled st ns n j \<longrightarrow> scaled s ns n j"
      "out = Returned (app_fail e)" "\<not> list_ex (\<lambda>e. writes_deployment (fst e)) tr" for s e
    using served_Nil [OF that(1,2)] that(3-5) by (auto simp: app_fail_def left_alone_def)
  obtain r tr1 where tr: "tr = (CGet ?app, RObj r) # tr1" "runs (case r of
       Inl e \<Rightarrow> Done (if IsNotFound e then (app_result False, None) else app_fail e)
     | Inr o1 \<Rightarrow>
         let instance1 = decode_app o1 empty_app in
         KGet (KDeployment, app_Namespace instance1, app_Name instance1) (\<lambda>r2. case r2 of
           Inl e \<Rightarrow>
             if IsNotFound e then
               (case deploymentForApp L instance1 of
                  Inl e2 \<Rightarrow> Done (app_fail e2)
                | Inr dep \<Rightarrow> write_or_fail (WCreate dep) (app_result True, None))
             else Done (app_fail e)
         | Inr found \<Rightarrow> scaleApplication instance1 found)) tr1 out"
    using assms(2) by (auto simp: reconcileApplication_def)
  obtain s where s: "wanting ns n k s" "\<forall>j. scaled st ns n j \<longrightarrow> scaled s ns n j"
    "answers s (CGet ?app) (RObj r) s" "served ns n k s tr1 st'"
    using served_read [OF assms(3) [unfolded tr(1)] assms(4)] by auto
  show ?thesis
  proof (cases r)
    case (Inl e)
    then have "\<not> IsNotFound e" using s(1,3) by (auto simp: wanting_def counts_def)
    then show ?thesis using Inl tr s by (intro failed [of s e]) auto
  next
    case (Inr o1)
    then have o1: "s ?app = Some o1" "okey o1 = ?app" "replicas_of (o_Payload o1) = Some k"
      using s(1,3) by (auto simp: wanting_def counts_def well_keyed_def)
    define app where "app = decode_app o1 empty_app"
    have app: "app_Namespace app = ns" "app_Name app = n" "aspec_Replicas (app_Spec app) = k"
      using kind_shape(2) [OF o1(2)] o1(2,3) by (auto simp: app_def decode_app_def okey_def)
    obtain r2 tr2 where tr2: "tr1 = (CGet ?dep, RObj r2) # tr2" "runs (case r2 of
           Inl e \<Rightarrow>
             if IsNotFound e then
               (case deploymentForApp L app of
                  Inl e2 \<Rightarrow> Done (app_fail e2)
                | Inr dep \<Rightarrow> write_or_fail (WCreate dep) (app_result True, None))
             else Done (app_fail e)
         | Inr found \<Rightarrow> scaleApplication app found) tr2 out"
      using tr(2) Inr app(1,2) by (auto simp: Let_def app_def [symmetric])
    obtain s2 where s2: "wanting ns n k s2" "\<forall>j. scaled s ns n j \<longrightarrow> scaled s2 ns n j"
      "answers s2 (CGet ?dep) (RObj r2) s2" "served ns n k s2 tr2 st'"
      using served_read [OF s(4) [unfolded tr2(1)] s(1)] by auto
    have later: "\<forall>j. scaled st ns n j \<longrightarrow> scaled s2 ns n j" using s(2) s2(2) by blast
    have reads: "list_ex (\<lambda>e. writes_deployment (fst e)) tr = list_ex (\<lambda>e. writes_deployment (fst e)) tr2"
      by (simp add: tr(1) tr2(1))
    show ?thesis
    proof (cases r2)
      case e: (Inl e)
      show ?thesis
      proof (cases "IsNotFound e")
        case True
        then have none: "\<not> scaled st ns n j" for j using e s2(3) later by (auto simp: counts_def)
        show ?thesis
        proof (cases "deploymentForApp L app")
          case (Inl e2)
          then show ?thesis using e True tr2 s2 later reads by (intro failed [of s2 e2]) auto
        next
          case (Inr dep)
          then have "runs (write_or_fail (WCreate dep) (app_result True, None)) tr2 out"
            using e True tr2(2) by simp
          from served_write [OF this s2(4,1), of dep KDeployment] deploymentForApp_shape [OF assms(1) Inr] app none
          show ?thesis by (auto simp: app_fail_def)
        qed
      next
        case False
        then show ?thesis using e tr2 s2 later reads by (intro failed [of s2 e]) auto
      qed
    next
      case found: (Inr found)
      then have f: "s2 ?dep = Some found" "okey found = ?dep"
        using s2(1,3) by (auto simp: wanting_def well_keyed_def)
      obtain d where d: "o_Payload found = PDeployment d" using kind_shape(1) [OF f(2)] by blast
      have "\<exists>j. scaled s2 ns n j" using s2(1) f(1) by (auto simp: wanting_def)
      then obtain j where j: "dep_Replicas d = Some j" "scaled s2 ns n j"
        using f(1) d by (auto simp: counts_def)
      have run: "runs (if j \<noteq> k then write_or_fail (WUpdate (scale_deployment k found)) (app_result True, None)
          else updatePodNames app) tr2 out"
        using tr2(2) found d j(1) app(3) by (simp add: scaleApplication_def Let_def)
      show ?thesis
      proof (cases "j = k")
        case True
        then have "wanting ns n k st' \<and> left_alone ns n k tr2 out st'"
          using run j(2) app by (intro pods_left_alone [OF _ s2(4,1)]) auto
        then show ?thesis using reads by (auto simp: left_alone_def)
      next
        case False
        then have none: "\<not> scaled st ns n k" using later j(2) counts_unique by blast
        from False run have "runs (write_or_fail (WUpdate (scale_deployment k found)) (app_result True, None)) tr2 out"
          by simp
        from served_write [OF this s2(4,1), of "scale_deployment k found" KDeployment] f(2) none
        show ?thesis
          by (auto simp: scale_deployment_def okey_def d app_fail_def)
      qed
    qed
  qed
qed

subsection \<open>Any number of reconciles\<close>

lemma reconciles_append:
  "reconciles L ns n k st (xs @ ys) st' \<Longrightarrow> \<exists>s. reconciles L ns n k st xs s \<and> reconciles L ns n k s ys st'"
proof (induction st "xs @ ys" st' arbitrary: xs rule: reconciles.induct)
  case (none st)
  then show ?case by (auto intro: reconciles.none)
next
  case (one tr out st st1 zs st')
  show ?case
  proof (cases xs)
    case Nil
    then show ?thesis using one by (metis append_Nil reconciles.none reconciles.one)
  next
    case (Cons y xs')
    then show ?thesis using one by (auto intro: reconciles.one)
  qed
qed

inductive_cases reconciles_ConsE: "reconciles L ns n k st (x # xs) st'"

lemma reconciles_scaled:
  assumes "controller_reference (lib_setref L)" "reconciles L ns n k st xs st'" "wanting ns n k st"
  shows "wanting ns n k st' \<and> (\<forall>(tr, out) \<in> set xs. \<exists>y. out = Returned y) \<and>
    (scaled st ns n k \<longrightarrow> scaled st' ns n k \<and>
       (\<forall>(tr, out) \<in> set xs. \<not> list_ex (\<lambda>e. writes_deployment (fst e)) tr \<and>
          (\<exists>e. out = Returned (app_result False, e))))"
  using assms(2,3)
proof (induction rule: reconciles.induct)
  case (one tr out st st1 xs st')
  then show ?case using reconcile_scales [OF assms(1) one.hyps(1,2) one.prems] by (auto simp: left_alone_def)
qed simp


definition sample_app :: Application where
  "sample_app =
     \<lparr>app_Meta = new_meta ''web'' ''pot'' Map.empty Map.empty,
      app_Spec = \<lparr>aspec_Microservices = [], aspec_NatsConfig = None, aspec_Replicas = 2\<rparr>,
      app_Status = \<lparr>astat_Replicas = 0, astat_LabelSelector = [], astat_PodNames = None\<rparr>\<rparr>"

definition sample_store :: store where
  "sample_store = [(KApplication, ''pot'', ''web'') \<mapsto> app_obj sample_app]"

definition not_found :: GoError where
  "not_found = \<lparr>err_Reason = NotFound, err_Msg = ''not found''\<rparr>"

definition already_exists :: GoError where
  "already_exists = \<lparr>err_Reason = AlreadyExists, err_Msg = ''already exists''\<rparr>"

lemma sample_deployment: "\<exists>dep. deploymentForApp lib_ref sample_app = Inr dep"
  by (simp add: deploymentForApp_def app_annotations_def sample_app_def lib_ref_def setref_ref_def
      app_deployment_def new_meta_def Let_def)


text \<open>
  While the status that is read has no pod names they are written again, and with \<open>Update\<close>, which
  leaves the stored status as it is where the resource has a status of its own, as the definition
  in \<open>config/crd\<close> says.
\<close>

lemma pod_names_written_again:
  assumes "runs (updatePodNames app) ((CList KPod, RList (Inr pods)) # tr) out"
    and "astat_PodNames (app_Status app) = None"
  shows "\<exists>r. tr = [(CWrite (WUpdate (app_obj (app\<lparr>app_Status := (app_Status app)\<lparr>astat_PodNames :=
    Some (getPodNames pods)\<rparr>\<rparr>))), RObj r)]"
  using assms by (auto simp: updatePodNames_def write_or_fail_def)

end
