(* ===== verification/JsonRoundtrip.thy ===== *)
theory JsonRoundtrip
  imports Json
begin

text \<open>
  The JSON decoder terminates on its fuel and gives back every value the encoder prints.
\<close>

subsection \<open>What is left is shorter\<close>

lemma lexDigits_length: "lexDigits s = Some (n, r) \<Longrightarrow> length r < length s"
proof -
  assume "lexDigits s = Some (n, r)"
  then have "takeWhile isDigit s \<noteq> []" "r = dropWhile isDigit s"
    by (auto simp: lexDigits_def Let_def split: if_splits)
  moreover obtain c cs where "s = c # cs" using calculation(1) by (cases s) auto
  ultimately show ?thesis
    using length_dropWhile_le [of isDigit cs] by (auto split: if_splits)
qed

lemma lexInt_length: "lexInt s = Some (n, r) \<Longrightarrow> length r < length s"
  by (auto simp: lexInt_def split: list.splits if_splits dest: lexDigits_length)

lemma lexFrac_length: "lexFrac s = Some (n, r) \<Longrightarrow> length r \<le> length s"
  by (cases s) (auto simp: lexFrac_def dest: lexDigits_length split: if_splits)

lemma lexExp_length: "lexExp s = Some (n, r) \<Longrightarrow> length r \<le> length s"
  by (cases s) (auto simp: lexExp_def dest: lexDigits_length split: if_splits list.splits)

lemma lexNumber_length: "lexNumber s = Some (n, r) \<Longrightarrow> length r < length s"
  by (cases s) (fastforce simp: lexNumber_def dest!: lexInt_length lexFrac_length lexExp_length
      split: if_splits option.splits prod.splits)+

lemma skipWs_Cons: "skipWs s = c # cs \<Longrightarrow> length cs < length s"
  using skipWs_length [of s] by simp

lemma parse_shorter:
  "parseValue f s = Some (v, r) \<Longrightarrow> length r < length s"
  "parseElems f s = Some (vs, r) \<Longrightarrow> length r < length s"
  "parseMembers f s = Some (ms, r) \<Longrightarrow> length r < length s"
proof (induction f s and f s and f s arbitrary: v r and vs r and ms r
    rule: parseValue_parseElems_parseMembers.induct)
  case (2 x f s)
  then obtain c cs where c: "skipWs s = c # cs" by (cases "skipWs s") auto
  note len = skipWs_Cons [OF c]
  have drop: "length (drop k (c # cs)) < length s" if "0 < k" for k
    using len that by (cases k) auto
  have inner: "length t < length s" if "skipWs cs = d # ds" "length t < Suc (length ds)" for d ds t
    using skipWs_Cons [OF that(1)] that(2) len by linarith
  show ?case
    using "2.prems" c len "2.IH"(1) [OF c] "2.IH"(2) [OF c]
    by (auto split: if_splits list.splits dest!: lexString_shorter lexNumber_length intro: inner drop)
next
  case (4 x f s)
  then obtain v' r' where v: "parseValue f s = Some (v', r')" by (cases "parseValue f s") auto
  then have "length r' < length s" using "4.IH"(1) by blast
  moreover obtain c cs where c: "skipWs r' = c # cs" using "4.prems" v by (cases "skipWs r'") auto
  note skipWs_Cons [OF c]
  ultimately show ?case
    using "4.prems" v c "4.IH"(2) [OF v refl c]
    by (auto split: if_splits)
next
  case (6 x f s)
  obtain q qs where q: "skipWs s = q # qs" "q = CHR 0x22"
    using "6.prems" by (auto split: list.splits if_splits)
  moreover obtain k r1 where k: "lexString qs = Some (k, r1)"
    using "6.prems" q by (cases "lexString qs") auto
  moreover obtain c cs where c: "skipWs r1 = c # cs" "c = CHR '':''"
    using "6.prems" q k by (auto split: list.splits if_splits)
  moreover obtain v r2 where v: "parseValue f cs = Some (v, r2)"
    using "6.prems" q k c by (cases "parseValue f cs") auto
  moreover obtain d ds where d: "skipWs r2 = d # ds"
    using "6.prems" q k c v by (cases "skipWs r2") auto
  moreover have "length r2 < length cs" using "6.IH"(1) q k c v by blast
  moreover have "length r < length ds" if "parseMembers f ds = Some (ms', r)" "d \<noteq> CHR ''}''" "d = CHR '',''" for ms'
    using "6.IH"(2) q k c v d that by blast
  ultimately show ?case
    using "6.prems" skipWs_Cons [OF q(1)] lexString_shorter [OF k] skipWs_Cons [OF c(1)] skipWs_Cons [OF d]
    by (fastforce split: if_splits)
qed auto

subsection \<open>The fuel\<close>

text \<open>
  Fuel beyond twice the length of the text does not matter: the value is decoded by the descent
  itself.
\<close>

lemma fuel_irrelevant:
  "(2 * length s < length f \<longrightarrow> 2 * length s < length g \<longrightarrow> parseValue f s = parseValue g s) \<and>
   (2 * length s + 1 < length f \<longrightarrow> 2 * length s + 1 < length g \<longrightarrow> parseElems f s = parseElems g s) \<and>
   (2 * length s < length f \<longrightarrow> 2 * length s < length g \<longrightarrow> parseMembers f s = parseMembers g s)"
  for f :: "'f list" and g :: "'g list"
proof (induction "length s" arbitrary: s f g rule: less_induct)
  case less
  have V: "parseValue f t = parseValue g t"
    and E: "parseElems f t = parseElems g t"
    and M: "parseMembers f t = parseMembers g t"
    if "length t < length s" "2 * length s \<le> length f" "2 * length s \<le> length g"
    for t and f :: "'f list" and g :: "'g list"
    using less [OF that(1), of f g] that by auto
  have whole: "parseValue f s = parseValue g s"
    if fg: "2 * length s < length f" "2 * length s < length g" for f :: "'f list" and g :: "'g list"
  proof -
    obtain x f' where f: "f = x # f'" using fg(1) by (cases f) auto
    obtain y g' where g: "g = y # g'" using fg(2) by (cases g) auto
    show ?thesis
    proof (cases "skipWs s")
      case (Cons c cs)
      have len: "2 * length s \<le> length f'" "2 * length s \<le> length g'" using fg f g by simp_all
      have "parseElems f' (d # ds) = parseElems g' (d # ds)" "parseMembers f' (d # ds) = parseMembers g' (d # ds)"
        if "skipWs cs = d # ds" for d ds
        using E [OF _ len, of "d # ds"] M [OF _ len, of "d # ds"] that skipWs_length [of cs] skipWs_Cons [OF Cons]
        by simp_all
      then show ?thesis unfolding f g using Cons
        by (cases "skipWs cs") (simp_all cong: if_cong split del: if_split del: dropWhile_eq_Nil_conv)
    qed (simp add: f g del: dropWhile_eq_Nil_conv)
  qed
  moreover have "parseElems f s = parseElems g s"
    if fg: "2 * length s + 1 < length f" "2 * length s + 1 < length g" for f :: "'f list" and g :: "'g list"
  proof -
    obtain x f' where f: "f = x # f'" using fg(1) by (cases f) auto
    obtain y g' where g: "g = y # g'" using fg(2) by (cases g) auto
    have same: "parseValue f' s = parseValue g' s" using fg f g by (intro whole) simp_all
    show ?thesis
    proof (cases "parseValue g' s")
      case (Some p)
      obtain v r where p: "p = (v, r)" by (cases p)
      have "parseElems f' cs = parseElems g' cs" if "skipWs r = c # cs" for c cs
        using skipWs_Cons [OF that] parse_shorter(1) [of g' s v r] Some p fg f g by (intro E) simp_all
      then show ?thesis unfolding f g using same Some p
        by (cases "skipWs r") (simp_all cong: if_cong split del: if_split del: dropWhile_eq_Nil_conv)
    qed (simp add: f g same)
  qed
  moreover have "parseMembers f s = parseMembers g s"
    if fg: "2 * length s < length f" "2 * length s < length g" for f :: "'f list" and g :: "'g list"
  proof -
    obtain x f' where f: "f = x # f'" using fg(1) by (cases f) auto
    obtain y g' where g: "g = y # g'" using fg(2) by (cases g) auto
    have len: "2 * length s \<le> length f'" "2 * length s \<le> length g'" using fg f g by simp_all
    have "parseValue f' cs = parseValue g' cs"
      "parseValue g' cs = Some (v, r1) \<Longrightarrow> skipWs r1 = d # ds \<Longrightarrow> parseMembers f' ds = parseMembers g' ds"
      if "skipWs s = q # qs" "lexString qs = Some (k, r)" "skipWs r = c # cs" for q qs k r c cs v r1 d ds
    proof -
      have cs: "length cs < length s"
        using skipWs_Cons [OF that(1)] lexString_shorter [OF that(2)] skipWs_Cons [OF that(3)] by linarith
      then show "parseValue f' cs = parseValue g' cs" by (rule V [OF _ len])
      assume "parseValue g' cs = Some (v, r1)" "skipWs r1 = d # ds"
      then have "length ds < length s" using cs parse_shorter(1) [of g' cs v r1] skipWs_Cons [of r1 d ds] by linarith
      then show "parseMembers f' ds = parseMembers g' ds" by (rule M [OF _ len])
    qed
    note same = this
    show ?thesis
    proof (cases "skipWs s")
      case (Cons q qs)
      show ?thesis
      proof (cases "lexString qs")
        case (Some kr)
        obtain k r where kr: "kr = (k, r)" by (cases kr)
        show ?thesis
        proof (cases "skipWs r")
          case c: (Cons c cs)
          note V = same(1) [OF Cons Some [unfolded kr] c]
          show ?thesis
          proof (cases "parseValue g' cs")
            case v: (Some vr)
            obtain v r1 where vr: "vr = (v, r1)" by (cases vr)
            note M = same(2) [OF Cons Some [unfolded kr] c v [unfolded vr]]
            show ?thesis unfolding f g using Cons Some kr c v vr V M
              by (cases "skipWs r1") (simp_all cong: if_cong split del: if_split del: dropWhile_eq_Nil_conv)
          qed (simp add: f g Cons Some kr c V)
        qed (simp add: f g Cons Some kr del: dropWhile_eq_Nil_conv)
      qed (simp add: f g Cons)
    qed (simp add: f g del: dropWhile_eq_Nil_conv)
  qed
  ultimately show ?case by blast
qed

text \<open>Any fuel longer than twice the text gives the result of the decoder.\<close>

lemma fuel_is_enough:
  assumes "2 * length s < length f"
  shows "(case parseValue f s of
      Some (v, r) \<Rightarrow> if skipWs r = [] then Some v else None
    | None \<Rightarrow> None) = parseJson s"
proof -
  have "parseValue f s = parseValue (CHR '' '' # s @ s) s"
    using fuel_irrelevant [of s f "CHR '' '' # s @ s"] assms by simp
  then show ?thesis by (simp only: parseJson_def)
qed

subsection \<open>Strings\<close>

lemma hexVal_hexDigit: "n < 16 \<Longrightarrow> hexVal (hexDigit n) = Some n"
  by (simp add: hexVal_def hexDigit_def)

lemma lexUnicode_uEscape:
  assumes "n < 128"
  shows "lexUnicode (CHR ''0'' # CHR ''0'' # hexDigit (n div 16) # hexDigit (n mod 16) # t) = Some ([char_of n], t)"
proof -
  have "n div 16 < 16" "n mod 16 < 16" "n div 16 * 16 + n mod 16 = n" using assms by auto
  then show ?thesis
    using assms by (simp add: lexUnicode_def hex4_def hexVal_hexDigit utf8_def hexVal_def [of "CHR ''0''"])
qed

lemma lexString_escapeByte:
  "lexString (escapeByte c @ t) = map_option (\<lambda>(u, r). (c # u, r)) (lexString t)"
proof (cases "c \<in> {CHR 0x22, CHR 0x5C, CHR 0x08, CHR 0x0C, CHR 0x0A, CHR 0x0D, CHR 0x09}")
  case True
  then show ?thesis
    by (elim insertE) (simp_all add: escapeByte_def simpleEscape_def case_prod_unfold)
next
  case plain: False
  let ?u = "(of_char c :: nat) < 32 \<or> c = CHR ''<'' \<or> c = CHR ''>'' \<or> c = CHR ''&''"
  have byte: "escapeByte c = (if ?u then uEscape (of_char c) else [c])"
    using plain by (simp add: escapeByte_def)
  show ?thesis
  proof (cases ?u)
    case True
    then have "(of_char c :: nat) < 128" by auto
    then show ?thesis using True by (simp add: byte uEscape_def lexUnicode_uEscape case_prod_unfold)
  next
    case False
    then show ?thesis using plain by (simp add: byte)
  qed
qed

lemma separator_bytes:
  "char_of (226 :: nat) = CHR 0xE2" "char_of (128 :: nat) = CHR 0x80"
  "char_of (168 :: nat) = CHR 0xA8" "char_of (169 :: nat) = CHR 0xA9"
  by (simp_all add: char_of_def bit_iff_odd)

lemma lexString_separator:
  "lexString (CHR 0x5C # CHR ''u'' # CHR ''2'' # CHR ''0'' # CHR ''2'' # d # t)
   = map_option (\<lambda>(u, r). ([CHR 0xE2, CHR 0x80, if d = CHR ''8'' then CHR 0xA8 else CHR 0xA9] @ u, r)) (lexString t)"
  if "d = CHR ''8'' \<or> d = CHR ''9''"
  using that by (auto simp: lexUnicode_def hex4_def hexVal_def utf8_def separator_bytes)

lemma lexString_escapeString: "lexString (escapeString s @ CHR 0x22 # r) = Some (s, r)"
proof (induction s rule: escapeString.induct)
  case (1 a b c s)
  show ?case
  proof (cases "a = CHR 0xE2 \<and> b = CHR 0x80 \<and> (c = CHR 0xA8 \<or> c = CHR 0xA9)")
    case True
    then have "lexString (escapeString s @ CHR 0x22 # r) = Some (s, r)" by (rule "1.IH"(1))
    then show ?thesis using True lexString_separator by fastforce
  next
    case False
    then show ?thesis using "1.IH"(2) by (simp only: escapeString.simps if_False append_assoc
        lexString_escapeByte) simp
  qed
qed (simp_all add: lexString_escapeByte)

subsection \<open>Numbers\<close>

text \<open>What follows a value inside a text: nothing, a comma or a closing bracket.\<close>

definition closing :: "string \<Rightarrow> bool" where
  "closing r \<longleftrightarrow> (r = [] \<or> hd r \<in> {CHR '','', CHR '']'', CHR ''}''})"

lemma closing_simps [simp]:
  "closing []" "closing (c # r) \<longleftrightarrow> c \<in> {CHR '','', CHR '']'', CHR ''}''}"
  by (simp_all add: closing_def)

lemma lexNumber_smallInt:
  assumes "smallInt n" "closing r"
  shows "lexNumber (n @ r) = Some (n, r)"
proof -
  have stop: "r = [] \<or> \<not> isDigit (hd r)" "lexFrac r = Some ([], r)" "lexExp r = Some ([], r)"
    using assms(2) by (cases r; auto simp: isDigit_def lexFrac_def lexExp_def)+
  have int: "lexInt (ds @ r) = Some (ds, r)" 
    if "ds \<noteq> []" "list_all isDigit ds" "hd ds = CHR ''0'' \<longrightarrow> ds = ''0''" for ds
  proof -
    have "takeWhile isDigit (ds @ r) = ds" "dropWhile isDigit (ds @ r) = r"
      using that(2) stop(1) by (cases r; simp add: list_all_iff)+
    then show ?thesis using that by (cases ds) (auto simp: lexInt_def lexDigits_def Let_def)
  qed
  show ?thesis
  proof (cases n)
    case (Cons c cs)
    show ?thesis
    proof (cases "c = CHR ''-''")
      case True
      then show ?thesis using assms(1) int [of cs] stop Cons by (simp add: lexNumber_def smallInt_def)
    next
      case False
      then show ?thesis using assms(1) int [of n] stop Cons by (simp add: lexNumber_def smallInt_def)
    qed
  qed (use assms in \<open>simp add: smallInt_def\<close>)
qed

lemma smallInt_head: "smallInt n \<Longrightarrow> \<exists>c cs. n = c # cs \<and> (c = CHR ''-'' \<or> isDigit c)"
  by (cases n) (auto simp: smallInt_def split: if_splits)

subsection \<open>Values\<close>

text \<open>
  The values whose encoding does not involve a floating-point number: integers of at most 15
  digits, and objects with sorted, distinct keys, as every decoded object has.
\<close>

fun wf_json :: "json \<Rightarrow> bool" where
  "wf_json (JNum n) \<longleftrightarrow> smallInt n"
| "wf_json (JArr vs) \<longleftrightarrow> list_all wf_json vs"
| "wf_json (JObj ps) \<longleftrightarrow> sorted_wrt (<) (map fst ps) \<and> list_all (\<lambda>p. wf_json (snd p)) ps"
| "wf_json _ \<longleftrightarrow> True"

lemma join_Cons: "join sep (x # xs) = x @ (if xs = [] then [] else sep @ join sep xs)"
  by (cases xs) auto

lemma put_last: "\<forall>p\<in>set m. fst p < k \<Longrightarrow> put k v m = m @ [(k, v)]"
proof (induction m)
  case (Cons p m)
  then show ?case by (cases p) auto
qed simp

lemma puts_sorted:
  "sorted_wrt (<) (map fst (m @ ps)) \<Longrightarrow> foldl (\<lambda>m kv. put (fst kv) (snd kv) m) m ps = m @ ps"
proof (induction ps arbitrary: m)
  case (Cons p ps)
  have "\<forall>q\<in>set m. fst q < fst p" using Cons.prems by (auto simp: sorted_wrt_append)
  then have "put (fst p) (snd p) m = m @ [p]" by (simp add: put_last)
  then show ?case using Cons.IH [of "m @ [p]"] Cons.prems by simp
qed simp

text \<open>A printed value starts with a character that is neither a space nor the end of an array.\<close>

lemma print_head:
  assumes "wf_json j"
  obtains c cs where "printJson F j = c # cs" "\<not> isJsonSpace c" "c \<noteq> CHR '']''"
proof -
  have number: "\<exists>c cs. n = c # cs \<and> \<not> isJsonSpace c \<and> c \<noteq> CHR '']''" if "smallInt n" for n
    using smallInt_head [OF that] by (auto simp: isJsonSpace_def isDigit_def)
  have "\<exists>c cs. printJson F j = c # cs \<and> \<not> isJsonSpace c \<and> c \<noteq> CHR '']''"
    using assms by (cases j) (auto simp: isJsonSpace_def formatBool_def jsonString_def dest: number)
  then show ?thesis using that by blast
qed

text \<open>The decoder gives back a value from its text, whatever closes it.\<close>

definition reads :: "(string \<Rightarrow> string) \<Rightarrow> json \<Rightarrow> bool" where
  "reads F v \<longleftrightarrow> (\<forall>(f :: unit list) r. closing r \<longrightarrow> 2 * length (printJson F v @ r) < length f \<longrightarrow>
     parseValue f (printJson F v @ r) = Some (v, r))"

lemma readsD:
  "reads F v \<Longrightarrow> closing r \<Longrightarrow> 2 * length (printJson F v @ r) < length f \<Longrightarrow>
    parseValue f (printJson F v @ r) = Some (v, r)" for f :: "unit list"
  by (simp add: reads_def)

lemma skipWs_stop: "\<not> isJsonSpace c \<Longrightarrow> skipWs (c # cs) = c # cs"
  by simp

lemma reads_elements:
  fixes f :: "unit list"
  assumes "vs \<noteq> []" "\<forall>v\<in>set vs. reads F v"
    and "2 * length (join '','' (map (printJson F) vs) @ '']'' @ r) + 1 < length f"
  shows "parseElems f (join '','' (map (printJson F) vs) @ '']'' @ r) = Some (vs, r)"
  using assms
proof (induction vs arbitrary: f)
  case (Cons v vs)
  obtain x f' where f: "f = x # f'" using Cons.prems(3) by (cases f) auto
  let ?r = "(if vs = [] then [] else '','' @ join '','' (map (printJson F) vs)) @ '']'' @ r"
  have shape: "join '','' (map (printJson F) (v # vs)) @ '']'' @ r = printJson F v @ ?r"
    by (simp add: join_Cons)
  have "parseValue f' (printJson F v @ ?r) = Some (v, ?r)"
    using Cons.prems f unfolding shape by (intro readsD) auto
  then show ?case
    unfolding shape f using Cons.IH [of f'] Cons.prems f
    by (cases "vs = []") (simp_all add: isJsonSpace_def join_Cons)
qed simp

lemma reads_members:
  fixes f :: "unit list"
  assumes "ps \<noteq> []" "\<forall>p\<in>set ps. reads F (snd p)"
    and "2 * length (join '','' (map (\<lambda>p. jsonString (fst p) @ '':'' @ printJson F (snd p)) ps) @ ''}'' @ r) < length f"
  shows "parseMembers f (join '','' (map (\<lambda>p. jsonString (fst p) @ '':'' @ printJson F (snd p)) ps) @ ''}'' @ r)
    = Some (ps, r)"
  using assms
proof (induction ps arbitrary: f)
  case (Cons p ps)
  obtain k v where p: "p = (k, v)" by (cases p)
  obtain x f' where f: "f = x # f'" using Cons.prems(3) by (cases f) auto
  let ?rest = "join '','' (map (\<lambda>p. jsonString (fst p) @ '':'' @ printJson F (snd p)) ps)"
  let ?r = "(if ps = [] then [] else '','' @ ?rest) @ ''}'' @ r"
  have shape: "join '','' (map (\<lambda>p. jsonString (fst p) @ '':'' @ printJson F (snd p)) (p # ps)) @ ''}'' @ r
      = CHR 0x22 # escapeString k @ CHR 0x22 # CHR '':'' # printJson F v @ ?r"
    by (simp add: p join_Cons jsonString_def)
  have "parseValue f' (printJson F v @ ?r) = Some (v, ?r)"
    using Cons.prems f p unfolding shape by (intro readsD) auto
  moreover have "ps \<noteq> [] \<Longrightarrow> parseMembers f' (?rest @ ''}'' @ r) = Some (ps, r)"
    using Cons.prems f p unfolding shape by (intro Cons.IH) auto
  ultimately show ?case
    unfolding shape f using p
    by (cases "ps = []") (simp_all add: isJsonSpace_def lexString_escapeString)
qed simp

lemma reads_json: "wf_json j \<Longrightarrow> reads F j"
proof (induction j)
  case (JNum n)
  then obtain c cs where n: "n = c # cs" "c = CHR ''-'' \<or> isDigit c" using smallInt_head [of n] by auto
  have head: "\<not> isJsonSpace c" "c \<notin> {CHR ''{'', CHR ''['', CHR 0x22, CHR ''t'', CHR ''f'', CHR ''n''}"
    using n(2) by (auto simp: isJsonSpace_def isDigit_def)
  show ?case unfolding reads_def
  proof (intro allI impI)
    fix f :: "unit list" and r
    assume r: "closing r" and f: "2 * length (printJson F (JNum n) @ r) < length f"
    then obtain x f' where "f = x # f'" by (cases f) auto
    then show "parseValue f (printJson F (JNum n) @ r) = Some (JNum n, r)"
      using JNum n(1) head lexNumber_smallInt [OF _ r, of n] by simp
  qed
next
  case (JArr vs)
  then have IH: "\<forall>v\<in>set vs. reads F v" by (auto simp: list_all_iff)
  show ?case unfolding reads_def
  proof (intro allI impI)
    fix f :: "unit list" and r
    assume f: "2 * length (printJson F (JArr vs) @ r) < length f"
    then obtain x f' where f': "f = x # f'" by (cases f) auto
    let ?t = "join '','' (map (printJson F) vs) @ '']'' @ r"
    show "parseValue f (printJson F (JArr vs) @ r) = Some (JArr vs, r)"
    proof (cases vs)
      case (Cons v us)
      then have "wf_json v" using JArr.prems by simp
      then obtain c cs where c: "printJson F v = c # cs" "\<not> isJsonSpace c" "c \<noteq> CHR '']''" by (rule print_head)
      then obtain ds where t: "?t = c # ds" using Cons by (simp add: join_Cons)
      have "parseElems f' ?t = Some (vs, r)" using IH Cons f f' by (intro reads_elements) auto
      then show ?thesis using f' c t by (simp add: isJsonSpace_def)
    qed (simp add: f' isJsonSpace_def)
  qed
next
  case (JObj ps)
  then have IH: "\<forall>p\<in>set ps. reads F (snd p)" by (fastforce simp: list_all_iff)
  have sorted: "foldl (\<lambda>m kv. put (fst kv) (snd kv) m) [] ps = ps" 
    using puts_sorted [of "[]" ps] JObj.prems by simp
  show ?case unfolding reads_def
  proof (intro allI impI)
    fix f :: "unit list" and r
    assume f: "2 * length (printJson F (JObj ps) @ r) < length f"
    then obtain x f' where f': "f = x # f'" by (cases f) auto
    let ?t = "join '','' (map (\<lambda>p. jsonString (fst p) @ '':'' @ printJson F (snd p)) ps) @ ''}'' @ r"
    show "parseValue f (printJson F (JObj ps) @ r) = Some (JObj ps, r)"
    proof (cases ps)
      case (Cons p qs)
      then obtain ds where t: "?t = CHR 0x22 # ds" by (simp add: join_Cons jsonString_def)
      have "parseMembers f' ?t = Some (ps, r)" using IH Cons f f' by (intro reads_members) auto
      then show ?thesis using f' t sorted by (simp add: isJsonSpace_def)
    qed (simp add: f' isJsonSpace_def)
  qed
next
  case JNull
  show ?case unfolding reads_def
    by (intro allI impI, case_tac f) (simp_all add: isJsonSpace_def)
next
  case (JBool b)
  show ?case unfolding reads_def
    by (intro allI impI, case_tac f) (simp_all add: isJsonSpace_def formatBool_def)
next
  case (JStr s)
  show ?case unfolding reads_def
    by (intro allI impI, case_tac f) (simp_all add: isJsonSpace_def jsonString_def lexString_escapeString)
qed

text \<open>
  Decoding what the encoder printed gives back the value, however the numbers that are not small
  integers would be printed.
\<close>

lemma reads_back:
  assumes "wf_json j"
  shows "parseJson (printJson F j) = Some j"
proof -
  let ?s = "printJson F j"
  have "parseValue (replicate (2 * length ?s + 1) ()) (?s @ []) = Some (j, [])"
    using assms by (intro readsD reads_json) auto
  moreover have "parseValue (CHR '' '' # ?s @ ?s) ?s = parseValue (replicate (2 * length ?s + 1) ()) ?s"
    using fuel_irrelevant [of ?s "CHR '' '' # ?s @ ?s" "replicate (2 * length ?s + 1) ()"] by simp
  ultimately show ?thesis by (simp add: parseJson_def)
qed

end
