(* ===== verification/RouterMerge.thy ===== *)
theory RouterMerge
  imports RouterConfig JsonRoundtrip "HOL-Library.Sublist"
begin

text \<open>
  What the merge of a router configuration keeps: the entries the operator does not manage, the
  operator's own ones in their new form, and a text that reads back as the merged entries.
\<close>

subsection \<open>Entries in their text\<close>

lemma all_some_map: "all_some (map (entry_of \<circ> JArr) es) = Some es"
  by (induction es) (simp_all add: entry_of_def)

definition wf_entry :: "ConfigEntry \<Rightarrow> bool" where
  "wf_entry e \<longleftrightarrow> list_all wf_json e"

lemma unmarshal_marshal:
  assumes "list_all wf_entry es"
  shows "unmarshalEntries L (marshalEntries L es) = Inr es"
proof -
  have "wf_json (JArr (map JArr es))" using assms by (auto simp: list_all_iff wf_entry_def)
  then have "parseJson (marshalEntries L es) = Some (JArr (map JArr es))"
    unfolding marshalEntries_def by (rule reads_back)
  then show ?thesis by (simp add: unmarshalEntries_def all_some_map)
qed

text \<open>C31: The entries of a router configuration, encoded as the operator writes them, decode to the
  same entries, whatever strings, arrays, objects and integers of at most 15 digits they hold.\<close>

theorem entries_roundtrip:
  assumes "list_all wf_entry es"
  shows "unmarshalEntries L (marshalEntries L es) = Inr es"
  using assms by (rule unmarshal_marshal)

theorem entries_roundtrip_witness:
  "unmarshalEntries lib_ref (marshalEntries lib_ref
     [[JStr ''listener'', JObj [(''name'', JStr ''a\"b''), (''port'', JNum ''5671'')]], [JStr ''x'', JArr [JNull, JBool True]]])
   = Inr [[JStr ''listener'', JObj [(''name'', JStr ''a\"b''), (''port'', JNum ''5671'')]], [JStr ''x'', JArr [JNull, JBool True]]]"
  by (rule entries_roundtrip) code_simp

subsection \<open>Entries with a type\<close>

definition typed :: "ConfigEntry \<Rightarrow> bool" where
  "typed e \<longleftrightarrow> (case e of JStr k # _ \<Rightarrow> True | _ \<Rightarrow> False)"

definition entry_type :: "ConfigEntry \<Rightarrow> string" where
  "entry_type e = (case e of JStr k # _ \<Rightarrow> k | _ \<Rightarrow> [])"

lemma entry_key_typed: "typed e \<Longrightarrow> entry_key e = Inr (entry_type e)"
  by (cases e) (auto simp: typed_def entry_key_def entry_type_def json_string_def split: json.splits)

text \<open>The last entry of a type, which is the one the Go map keeps.\<close>

fun last_of :: "string \<Rightarrow> ConfigEntry list \<Rightarrow> ConfigEntry option" where
  "last_of k [] = None"
| "last_of k (e # es) =
     (case last_of k es of
        Some x \<Rightarrow> Some x
      | None \<Rightarrow> if entry_type e = k then Some e else None)"

lemma last_of_set: "last_of k es = Some e \<Longrightarrow> e \<in> set es \<and> entry_type e = k"
  by (induction es) (auto split: option.splits if_splits)

lemma existing_map_typed:
  assumes "list_all typed es"
  shows "existing_map es m = Inr (\<lambda>k. case last_of k es of Some e \<Rightarrow> Some e | None \<Rightarrow> m k)"
  using assms
proof (induction es arbitrary: m)
  case (Cons e es)
  then show ?case by (auto simp: entry_key_typed fun_eq_iff split: option.split)
qed simp

text \<open>What becomes of an entry of the new configuration.\<close>

definition renewed :: "ConfigEntry list \<Rightarrow> ConfigEntry \<Rightarrow> ConfigEntry list" where
  "renewed existing e =
     (if shouldUpdate e then [e]
      else case last_of (entry_type e) existing of Some old \<Rightarrow> [old] | None \<Rightarrow> [])"

lemma merge_new_typed:
  assumes "list_all typed new"
  shows "merge_new (\<lambda>k. last_of k existing) new = Inr (concat (map (renewed existing) new))"
  using assms by (induction new) (auto simp: entry_key_typed renewed_def split: option.split)

lemma merge_entries_typed:
  assumes "list_all typed existing" "list_all typed new"
  shows "merge_entries existing new =
    Inr (concat (map (renewed existing) new) @ filter (\<lambda>e. \<not> shouldUpdate e) existing)"
proof -
  have "existing_map existing Map.empty = Inr (\<lambda>k. last_of k existing)"
    using existing_map_typed [OF assms(1), of Map.empty] by (simp add: option.case_eq_if fun_eq_iff)
  then show ?thesis by (simp add: merge_entries_def merge_new_typed [OF assms(2)])
qed

lemma renewed_set: "e \<in> set (renewed existing n) \<Longrightarrow> e = n \<and> shouldUpdate n \<or> e \<in> set existing"
  by (auto simp: renewed_def split: if_splits option.splits dest: last_of_set sym [THEN last_of_set])

lemma renewed_wf:
  "list_all P existing \<Longrightarrow> list_all P new \<Longrightarrow>
    list_all P (concat (map (renewed existing) new) @ filter (\<lambda>e. \<not> shouldUpdate e) existing)"
  by (fastforce simp: list_all_iff dest: renewed_set)

lemma renewed_subseq: "subseq (filter shouldUpdate new) (concat (map (renewed existing) new))"
  by (induction new) (auto simp: renewed_def intro: list_emb_append_mono [of _ "[]", simplified])

subsection \<open>Merging texts\<close>

lemma mergeConfigs_entries:
  assumes "getConfigVersion L c = Inr v" "getConfigVersion L n = Inr w" "v = [] \<or> v \<noteq> w"
    and "unmarshalEntries L c = Inr existing" "unmarshalEntries L n = Inr new"
    and "list_all typed existing" "list_all typed new"
  shows "mergeConfigs L c n = Inr (Inr (marshalEntries L
    (concat (map (renewed existing) new) @ filter (\<lambda>e. \<not> shouldUpdate e) existing)))"
  using assms(3) by (auto simp: mergeConfigs_def assms(1,2,4,5) merge_entries_typed [OF assms(6,7)])

text \<open>C11: A merge of router configurations of different versions keeps every entry that the
  operator does not manage, in order and at the end, and every managed entry of the new
  configuration, in order; the text written reads back as these entries, and nothing else but
  entries of the existing configuration is in it.\<close>

theorem merge_keeps_entries:
  assumes "getConfigVersion L c = Inr v" "getConfigVersion L n = Inr w" "v = [] \<or> v \<noteq> w"
    and "unmarshalEntries L c = Inr existing" "list_all typed existing" "list_all wf_entry existing"
    and "unmarshalEntries L n = Inr new" "list_all typed new" "list_all wf_entry new"
  shows "\<exists>text front. mergeConfigs L c n = Inr (Inr text) \<and>
    unmarshalEntries L text = Inr (front @ filter (\<lambda>e. \<not> shouldUpdate e) existing) \<and>
    subseq (filter shouldUpdate new) front \<and>
    set front \<subseteq> set (filter shouldUpdate new) \<union> set existing"
proof (intro exI conjI)
  let ?front = "concat (map (renewed existing) new)"
  let ?result = "?front @ filter (\<lambda>e. \<not> shouldUpdate e) existing"
  show "mergeConfigs L c n = Inr (Inr (marshalEntries L ?result))"
    using assms by (intro mergeConfigs_entries)
  show "unmarshalEntries L (marshalEntries L ?result) = Inr ?result"
    using assms(6,9) by (intro unmarshal_marshal renewed_wf)
  show "subseq (filter shouldUpdate new) ?front" by (rule renewed_subseq)
  show "set ?front \<subseteq> set (filter shouldUpdate new) \<union> set existing" by (auto dest: renewed_set)
qed

definition named :: "string \<Rightarrow> string \<Rightarrow> ConfigEntry" where
  "named kind name = [JStr kind, JObj [(''name'', JStr name)]]"

definition versioned :: "string \<Rightarrow> ConfigEntry" where
  "versioned v = [JStr ''router'', JObj [(''metadata'', JStr (printJson id (JObj [(''pot-config'', JStr v)])))]]"

lemma config_version_versioned: "config_version L (versioned v # es) = Inr v"
proof -
  have "parseJson (printJson id (JObj [(''pot-config'', JStr v)])) = Some (JObj [(''pot-config'', JStr v)])"
    by (rule reads_back) simp
  then show ?thesis by (simp add: versioned_def json_string_def json_object_def del: printJson.simps)
qed

lemma version_of_entries:
  "list_all wf_entry (versioned v # es) \<Longrightarrow>
    getConfigVersion L (marshalEntries L (versioned v # es)) = Inr v"
  by (simp add: getConfigVersion_def unmarshal_marshal config_version_versioned
      del: config_version.simps list.pred_inject)

lemma wf_versioned [simp]: "wf_entry (versioned v)" "typed (versioned v)"
  by (simp_all add: wf_entry_def versioned_def typed_def)

lemma managed_samples [simp]:
  "shouldUpdate (versioned v)" "entry_type (versioned v) = ''router''" "entry_type (named k n) = k"
  by (simp_all add: shouldUpdate_def entry_type_def named_def versioned_def json_string_def json_object_def)

lemma wf_named [simp]: "wf_entry (named k n)" "typed (named k n)"
  by (simp_all add: wf_entry_def named_def typed_def)

theorem merge_keeps_entries_witness:
  "\<exists>text front. mergeConfigs lib_ref (marshalEntries lib_ref [versioned ''1'', named ''connector'' ''mine''])
      (marshalEntries lib_ref [versioned ''2'', named ''log'' ''new'']) = Inr (Inr text) \<and>
    unmarshalEntries lib_ref text =
      Inr (front @ filter (\<lambda>e. \<not> shouldUpdate e) [versioned ''1'', named ''connector'' ''mine'']) \<and>
    subseq (filter shouldUpdate [versioned ''2'', named ''log'' ''new'']) front \<and>
    set front \<subseteq> set (filter shouldUpdate [versioned ''2'', named ''log'' ''new'']) \<union>
      set [versioned ''1'', named ''connector'' ''mine'']"
  by (rule merge_keeps_entries [where v = "''1''" and w = "''2''"])
    (simp_all add: version_of_entries unmarshal_marshal)

text \<open>An entry of the type router that is managed; the others carry no version.\<close>

definition router_managed :: "ConfigEntry \<Rightarrow> bool" where
  "router_managed e \<longleftrightarrow> (entry_type e = ''router'' \<longrightarrow> shouldUpdate e)"

lemma config_version_skip:
  assumes "entry_type e \<noteq> ''router''"
  shows "config_version L (e # es) = config_version L es"
proof -
  have "\<not> (length e = 2 \<and> json_string (e ! 0) = Some ''router'')"
    using assms by (cases e) (auto simp: entry_type_def json_string_def split: json.splits)
  then show ?thesis by auto
qed

text \<open>An entry decides the version, or the following ones do.\<close>

lemma config_version_verdict:
  "(\<exists>x. \<forall>es. config_version L (e # es) = x) \<or> (\<forall>es. config_version L (e # es) = config_version L es)"
proof (cases "length e = 2 \<and> json_string (e ! 0) = Some ''router''")
  case True
  show ?thesis
  proof (cases "json_object (e ! 1)")
    case data: (Some data)
    show ?thesis
    proof (cases "Option.bind (map_of data ''metadata'') json_string")
      case meta: (Some metadata)
      show ?thesis
      proof (cases "parseJson metadata")
        case json: (Some j)
        show ?thesis
        proof (cases j)
          case (JObj m)
          then show ?thesis using True data meta json
            by (cases "Option.bind (map_of m ''pot-config'') json_string") simp_all
        qed (use True data meta json in simp_all)
      qed (use True data meta in simp)
    qed (use True data in simp)
  qed (use True in simp)
qed auto

lemma config_version_same:
  "config_version L es = Inr w \<Longrightarrow> w \<noteq> [] \<Longrightarrow> config_version L (es @ r) = Inr w"
proof (induction es)
  case (Cons e es)
  then show ?case using config_version_verdict [of L e]
    by (auto simp del: config_version.simps(2))
qed simp

lemma config_version_cong:
  "config_version L (e # es) = Inr w \<Longrightarrow> (config_version L es = Inr w \<Longrightarrow> config_version L es' = Inr w) \<Longrightarrow>
    config_version L (e # es') = Inr w"
  using config_version_verdict [of L e] by (auto simp del: config_version.simps(2))

lemma config_version_renewed:
  "config_version L new = Inr w \<Longrightarrow> w \<noteq> [] \<Longrightarrow> list_all router_managed new \<Longrightarrow>
    config_version L (concat (map (renewed existing) new)) = Inr w"
proof (induction new)
  case (Cons e new)
  show ?case
  proof (cases "shouldUpdate e")
    case True
    then have shape: "concat (map (renewed existing) (e # new)) = e # concat (map (renewed existing) new)"
      by (simp add: renewed_def)
    have rest: "config_version L new = Inr w \<Longrightarrow> config_version L (concat (map (renewed existing) new)) = Inr w"
      using Cons.IH Cons.prems(2,3) by simp
    show ?thesis unfolding shape
      by (rule config_version_cong [OF Cons.prems(1) rest])
  next
    case False
    then have e: "entry_type e \<noteq> ''router''" using Cons.prems(3) by (auto simp: router_managed_def)
    then have "config_version L (concat (map (renewed existing) new)) = Inr w"
      using Cons config_version_skip [OF e] by (simp del: config_version.simps)
    moreover have "entry_type old \<noteq> ''router''" if "last_of (entry_type e) existing = Some old" for old
      using last_of_set [OF that] e by simp
    ultimately show ?thesis
      using False config_version_skip
      by (auto simp: renewed_def [of existing e] simp del: config_version.simps split: option.split)
  qed
qed simp

text \<open>C23: Merging is stable: the text a merge writes is not changed by the next merge with the same
  configuration, and a configuration that already has its version is kept byte by byte.\<close>

theorem merge_is_stable:
  assumes "getConfigVersion L c = Inr v" "getConfigVersion L n = Inr w" "w \<noteq> []"
    and "unmarshalEntries L c = Inr existing" "list_all typed existing" "list_all wf_entry existing"
    and "unmarshalEntries L n = Inr new" "list_all typed new" "list_all wf_entry new"
    and "list_all router_managed new"
  shows "\<exists>text. mergeConfigs L c n = Inr (Inr text) \<and> mergeConfigs L text n = Inr (Inr text) \<and>
    (v = w \<longrightarrow> text = c)"
proof (cases "v = w")
  case True
  then show ?thesis using assms(1-3) by (intro exI [of _ c]) (simp add: mergeConfigs_def)
next
  case False
  let ?result = "concat (map (renewed existing) new) @ filter (\<lambda>e. \<not> shouldUpdate e) existing"
  let ?text = "marshalEntries L ?result"
  have merged: "mergeConfigs L c n = Inr (Inr ?text)"
    using assms False by (intro mergeConfigs_entries) auto
  have "config_version L new = Inr w" using assms(2,7) by (simp add: getConfigVersion_def)
  then have "config_version L ?result = Inr w"
    using assms(3,10) by (intro config_version_same config_version_renewed)
  moreover have "unmarshalEntries L ?text = Inr ?result"
    using assms(6,9) by (intro unmarshal_marshal renewed_wf)
  ultimately have "getConfigVersion L ?text = Inr w" by (simp add: getConfigVersion_def)
  then have "mergeConfigs L ?text n = Inr (Inr ?text)"
    using assms(2,3) by (simp add: mergeConfigs_def)
  then show ?thesis using merged False by blast
qed

theorem merge_is_stable_witness:
  "\<exists>text. mergeConfigs lib_ref (marshalEntries lib_ref [versioned ''1'', named ''connector'' ''mine''])
      (marshalEntries lib_ref [versioned ''2'', named ''log'' ''new'']) = Inr (Inr text) \<and>
    mergeConfigs lib_ref text (marshalEntries lib_ref [versioned ''2'', named ''log'' ''new'']) = Inr (Inr text) \<and>
    (''1'' = ''2'' \<longrightarrow> text = marshalEntries lib_ref [versioned ''1'', named ''connector'' ''mine''])"
  by (rule merge_is_stable [where existing = "[versioned ''1'', named ''connector'' ''mine'']"
        and new = "[versioned ''2'', named ''log'' ''new'']"])
    (simp_all add: version_of_entries unmarshal_marshal router_managed_def managed_samples)

subsection \<open>How often an entry is in the result\<close>

text \<open>
  The entries an unmanaged entry of the new configuration is replaced by: the map of existing
  entries is keyed by the type alone, so it is the last existing entry of the type.
\<close>

definition placeholders :: "ConfigEntry list \<Rightarrow> ConfigEntry list \<Rightarrow> ConfigEntry \<Rightarrow> ConfigEntry list" where
  "placeholders existing new m =
     filter (\<lambda>e. \<not> shouldUpdate e \<and> last_of (entry_type e) existing = Some m) new"

lemma count_renewed:
  "count_list (concat (map (renewed existing) new)) m =
     (if shouldUpdate m then count_list new m else 0) + length (placeholders existing new m)"
  by (induction new) (auto simp: renewed_def placeholders_def split: option.split)

lemma count_filter:
  "count_list (filter P xs) m = (if P m then count_list xs m else 0)"
  by (induction xs) auto


text \<open>SSL profiles by their names as in the default configuration: one managed and one not.\<close>

definition profiles :: "string \<Rightarrow> ConfigEntry list" where
  "profiles v = [versioned v, named ''sslProfile'' ''system-default'', named ''sslProfile'' ''router-local-server'']"


text \<open>An entry without a type stops the merge with a panic.\<close>

lemma untyped_entry_panics:
  "getConfigVersion L n = Inr w \<Longrightarrow> unmarshalEntries L n = Inr new \<Longrightarrow>
    mergeConfigs L ''[[]]'' n = Inl (Panic ''index out of range'')"
proof -
  have "unmarshalEntries L ''[[]]'' = Inr [[]]" by (simp add: unmarshalEntries_def) code_simp
  then show "getConfigVersion L n = Inr w \<Longrightarrow> unmarshalEntries L n = Inr new \<Longrightarrow>
    mergeConfigs L ''[[]]'' n = Inl (Panic ''index out of range'')"
    by (simp add: mergeConfigs_def getConfigVersion_def [of L "''[[]]''"] merge_entries_def entry_key_def)
qed

end
