(* ===== verification/Configs.thy ===== *)
theory Configs
  imports RouterMerge ControllerRoutine Workloads
begin

text \<open>
  Two bounds on what is written: a router configuration that cannot be read is never replaced,
  and no workload is built without replicas.
\<close>

subsection \<open>Unreadable configurations\<close>

text \<open>A cluster whose router configuration is the given text.\<close>

fun router_config_is :: "string \<Rightarrow> allowed" where
  "router_config_is c (CGet (KConfigMap, ns, n)) (RObj r) \<longleftrightarrow> (\<exists>cm. r = Inr cm \<and> configData cm = c)"
| "router_config_is c call r \<longleftrightarrow> True"

fun no_write :: "Call \<Rightarrow> bool" where
  "no_write (CWrite w) \<longleftrightarrow> False"
| "no_write c \<longleftrightarrow> True"

lemma unreadable_merge:
  "unmarshalEntries L c = Inl e \<Longrightarrow> \<exists>e'. mergeConfigs L c n = Inr (Inl e')"
  by (simp add: mergeConfigs_def getConfigVersion_def)

lemma setOwner_config:
  assumes "setOwner L cp (newRouterConfigMap ns i) = Inr o1"
  shows "fst (okey o1) = KConfigMap"
  using assms by (auto simp: setOwner_def newRouterConfigMap_def okey_def split: sum.splits)

text \<open>C22: When the router's config map holds a text that is not an array of arrays, the operator
  returns an error and leaves the config map as it is.\<close>

theorem unreadable_config_kept:
  assumes "unmarshalEntries L c = Inl e"
  shows "every (router_config_is c) no_write (\<lambda>r. \<exists>e'. r = Inl e') (createConfigMap L cp)"
proof (cases "setOwner L cp (newRouterConfigMap (cp_Namespace cp) (cp_Name cp))")
  case (Inr o1)
  obtain ns n where "okey o1 = (KConfigMap, ns, n)"
    using setOwner_config [OF Inr] by (cases "okey o1") auto
  moreover obtain e' where "mergeConfigs L c (configData o1) = Inr (Inl e')"
    using unreadable_merge [OF assms] by blast
  ultimately show ?thesis
    by (auto simp: createConfigMap_def with_owner_def Inr crash_or_def)
qed (simp add: createConfigMap_def with_owner_def)

theorem unreadable_config_kept_witness:
  "\<forall>cp. every (router_config_is ''{}'') no_write (\<lambda>r. \<exists>e'. r = Inl e') (createConfigMap lib_ref cp)"
proof (rule allI, rule unreadable_config_kept)
  have "parseJson ''{}'' = Some (JObj [])" by code_simp
  then show "unmarshalEntries lib_ref ''{}'' = Inl (new_error (lib_jsonError lib_ref ''{}''))"
    by (simp add: unmarshalEntries_def)
qed

subsection \<open>Replicas\<close>

definition built_replicas :: "KObj \<Rightarrow> int option" where
  "built_replicas w = (case o_Payload w of
      PDeployment d \<Rightarrow> dep_Replicas d
    | PStatefulSet s \<Rightarrow> sts_Replicas s
    | _ \<Rightarrow> None)"

lemma built_replicas_simps [simp]:
  "built_replicas (newDeployment ns i ms) = Some (ms_replicas ms)"
  "built_replicas (newStatefulSet ns i ms) = Some (ms_replicas ms)"
  by (simp_all add: built_replicas_def newDeployment_def newStatefulSet_def deploymentSpec_def
      statefulSetSpec_def Let_def)

lemma hub_replicas: "newNatsMicroservice L cfg = Inr ms \<Longrightarrow> ms_replicas ms = nn_replicas cfg"
  by (auto simp: newNatsMicroservice_def split: sum.splits)

lemma natsOverrides_replicas [simp]: "ms_replicas (natsOverrides cp ms) = ms_replicas ms"
  by (simp add: natsOverrides_def Let_def first_container_def split: option.split list.split)

lemma controller_replicas:
  "ms_replicas (newControllerMicroservice L ns cfg) = (if cc_replicas cfg = 0 then 1 else cc_replicas cfg)"
  by (simp add: newControllerMicroservice_parts(4))

text \<open>C24: The hub's stateful set has at least two replicas and never more than asked for or two;
  the controller's deployment has at least one unless a negative number is asked for, and each
  router's deployment has exactly one.\<close>

theorem workload_replicas:
  assumes "newNatsMicroservice L (natsConfig L cp) = Inr hub"
    and "0 \<le> rep_Controller (spec_Replicas (cp_Spec cp))"
    and "router \<in> set (newRouterMicroservices L cfg)"
  shows "(\<exists>n. built_replicas (newStatefulSet ns i (natsOverrides cp hub)) = Some n \<and>
      n = max 2 (rep_Nats (spec_Replicas (cp_Spec cp)))) \<and>
    (\<exists>n. built_replicas (newDeployment ns i (newControllerMicroservice L ns (controllerConfig cp))) = Some n \<and>
      1 \<le> n \<and> n = max 1 (rep_Controller (spec_Replicas (cp_Spec cp)))) \<and>
    built_replicas (newDeployment ns i router) = Some 1"
proof -
  have "ms_replicas router = 1"
    using assms(3) by (auto simp: newRouterMicroservices_def newRouterMicroservice_def
        newRouterMicroserviceWithName_def Let_def empty_microservice_def split: if_splits)
  then show ?thesis
    using hub_replicas [OF assms(1)] assms(2)
    by (simp add: controller_replicas natsConfig_def Let_def natsReplicas_def controllerConfig_def)
qed

lemma sample_hub_built: "\<exists>hub. newNatsMicroservice lib_ref (natsConfig lib_ref empty_cp) = Inr hub"
  by (simp add: empty_cp_def empty_spec_def natsConfig_def newNatsMicroservice_def storageQuantity_def
      DefaultStorageSizePVC_def lib_ref_def Let_def)

theorem workload_replicas_witness:
  "\<exists>hub router cfg. ((\<exists>n. built_replicas (newStatefulSet ''pot'' ''cp'' (natsOverrides empty_cp hub)) = Some n \<and>
      n = max 2 (rep_Nats (spec_Replicas (cp_Spec empty_cp)))) \<and>
    (\<exists>n. built_replicas (newDeployment ''pot'' ''cp''
        (newControllerMicroservice lib_ref ''pot'' (controllerConfig empty_cp))) = Some n \<and>
      1 \<le> n \<and> n = max 1 (rep_Controller (spec_Replicas (cp_Spec empty_cp)))) \<and>
    built_replicas (newDeployment ''pot'' ''cp'' router) = Some 1) \<and>
    router \<in> set (newRouterMicroservices lib_ref cfg)"
proof -
  obtain hub where hub: "newNatsMicroservice lib_ref (natsConfig lib_ref empty_cp) = Inr hub"
    using sample_hub_built by blast
  have router: "newRouterMicroservice lib_ref (filterRouterConfig lib_ref cfg) \<in> set (newRouterMicroservices lib_ref cfg)" for cfg
    by (simp add: newRouterMicroservices_def Let_def)
  have "0 \<le> rep_Controller (spec_Replicas (cp_Spec empty_cp))" by (simp add: empty_cp_def empty_spec_def Let_def)
  then show ?thesis using workload_replicas [OF hub _ router] router by blast
qed

end
