(* ===== verification/Deviations.thy ===== *)
theory Deviations
  imports RouterMerge Selectors SecretContents AppScaling Configs Util
begin

text \<open>
  Places where the code does not do what it is for, each stated on its definitions; the merge of
  the router configuration, the labels of the two routers and the pod names of an application
  have theirs beside the properties they limit.
\<close>

subsection \<open>Restarting pods\<close>

text \<open>A cluster that has the deployment and stores what it is sent.\<close>

fun stores_deployment :: "KObj \<Rightarrow> allowed" where
  "stores_deployment found (CGet k) (RObj r) \<longleftrightarrow> r = Inr found"
| "stores_deployment found (CWrite w) (RObj r) \<longleftrightarrow>
     (case w of WUpdate o1 \<Rightarrow> r = Inr o1 | _ \<Rightarrow> True)"
| "stores_deployment found c r \<longleftrightarrow> True"

definition template_of :: "KObj \<Rightarrow> PodTemplate" where
  "template_of o1 = dep_Template (the_deployment (o_Payload o1))"

fun keeps_template :: "KObj \<Rightarrow> Call \<Rightarrow> bool" where
  "keeps_template found (CWrite w) \<longleftrightarrow> (\<exists>o1. w = WUpdate o1 \<and> template_of o1 = template_of found)"
| "keeps_template found c \<longleftrightarrow> True"

lemma default_replicas_template [simp]: "template_of (default_replicas o1) = template_of o1"
  by (simp add: default_replicas_def template_of_def split: Payload.split)

text \<open>Restarting the pods of a deployment only ever writes the pod template that was read, so the
  API server has no reason to replace a pod.\<close>

theorem restart_keeps_template:
  "every (stores_deployment found) (keeps_template found) (\<lambda>r. True) (restartPodsForDeployment n ns)"
  by (simp add: restartPodsForDeployment_def kget_def kwrite_def tryE_def split: sum.split)

subsection \<open>Secrets of an unexpected shape\<close>

text \<open>A pull secret of another type: the account is silently not created.\<close>

fun pull_secret_is :: "KObj \<Rightarrow> allowed" where
  "pull_secret_is s (CGet (KSecret, ns, n)) (RObj r) \<longleftrightarrow> r = Inr s"
| "pull_secret_is s c r \<longleftrightarrow> True"

lemma wrong_pull_secret_skips_account:
  assumes "ms_imagePullSecret ms \<noteq> []" "sec_Type (the_secret (o_Payload s)) \<noteq> ''kubernetes.io/dockerconfigjson''"
  shows "every (pull_secret_is s) only_gets (\<lambda>r. r = Inr ()) (createServiceAccount L cp ms)"
  using assms by (simp add: createServiceAccount_def Let_def kget_def dockerConfigJson_def)

text \<open>A key secret without a key: it is created again, which the API refuses, at every reconcile.\<close>

fun empty_key_secret :: "KObj \<Rightarrow> allowed" where
  "empty_key_secret s (CGet k) (RObj r) \<longleftrightarrow> r = Inr s"
| "empty_key_secret s (CWrite w) (RObj r) \<longleftrightarrow> r = Inl already_exists"
| "empty_key_secret s c r \<longleftrightarrow> True"

lemma empty_key_secret_blocks:
  assumes "mget (secret_data s) ''jsk'' = []"
  shows "every (empty_key_secret s) (\<lambda>c. True) (\<lambda>r. \<exists>e. r = Inl e)
    (EnsureJetStreamKeySecret (kget KSecret) (createOwned L cp) ns n labels)"
  using assms by (auto simp: EnsureJetStreamKeySecret_def kget_def Let_def secret_data_def tryE_def
      createOwned_def with_owner_def kwrite_def split: sum.split)

text \<open>An authority secret without data: a certificate is made, then nil is dereferenced.\<close>

lemma empty_authority_panics:
  assumes "secret_data s = Map.empty"
  shows "every any_reply (\<lambda>c. True) (\<lambda>r. False) (GenerateSecret L n subject hosts expiration (Some s))"
  using assms by (auto simp: GenerateSecret_def getCAFromSecret_def secret_data_def Let_def fatal_or_def
      split: sum.splits)

subsection \<open>Values of the spec\<close>

lemma bad_storage_size_panics:
  "lib_parseQuantity L (nn_storageSize cfg) = None \<Longrightarrow>
    newNatsMicroservice L cfg = Inl (Panic ''cannot parse quantity'')"
  by (simp add: newNatsMicroservice_def storageQuantity_def)

lemma registry_port_taken_for_tag:
  "TransformImageToARM ''localhost:5000/router:1.0'' = ''localhost-arm:5000/router:1.0''"
  by code_simp

end
