(* ===== verification/Evidence.thy ===== *)
theory Evidence
  imports Server Ordering
begin

text \<open>
  What the end of a routine is evidence of: unless it failed or asks to be called again, the API
  server has shown that what the workload needs exists, and has stored the workload of the present
  spec. The rules for this, the router, and the code that deletes nothing.
\<close>

subsection \<open>Rules\<close>

text \<open>A result that is not final comes after the evidence.\<close>

abbreviation needs :: "Lib \<Rightarrow> evidence \<Rightarrow> Reconciliation prog \<Rightarrow> bool" where
  "needs L E p \<equiv> until honest E (\<lambda>c. False) (op_IsFinal (lib_op L)) p"

abbreviation shows_up :: "evidence \<Rightarrow> (GoError + 'a) prog \<Rightarrow> bool" where
  "shows_up E m \<equiv> until honest E (\<lambda>c. False) is_err m"

lemma until_any: "(\<And>x. Q x) \<Longrightarrow> until A E (\<lambda>c. False) Q m"
  by (induction m) auto

lemma unguarded: "until A E W Q m \<Longrightarrow> until A E (\<lambda>c. False) Q m"
  by (erule until_weaken) auto

lemma needs_pbind: "(\<And>x. needs L E (f x)) \<Longrightarrow> needs L E (pbind m f)"
  unfolding until_pbind by (rule until_any)

lemma needs_crash_or: "(\<And>x. needs L E (f x)) \<Longrightarrow> needs L E (crash_or y f)"
  by (simp add: crash_or_def split: sum.split)

lemma shows_up_tryE: "shows_up E m \<Longrightarrow> shows_up E (tryE m f)"
  by (rule until_tryE [where R = "\<lambda>_. False"]) (auto elim: until_mono split: sum.splits)

lemma shows_up_later: "(\<And>x. shows_up E (f x)) \<Longrightarrow> shows_up E (tryE m f)"
  by (rule until_tryE [where R = "\<lambda>_. True"]) (auto intro: until_any split: sum.splits)

lemma shows_up_wrapped: "shows_up E m \<Longrightarrow> shows_up E (wrapped s m)"
  unfolding wrapped_def until_pbind by (erule until_mono) (auto split: sum.splits)

text \<open>A step that writes an object as it is given, and the evidence of it.\<close>

fun stored :: "(KObj \<Rightarrow> bool) \<Rightarrow> evidence" where
  "stored P (CWrite (WCreate o1)) (RObj (Inr o2)) \<longleftrightarrow> P o1"
| "stored P (CWrite (WUpdate o1)) (RObj (Inr o2)) \<longleftrightarrow> P o1"
| "stored P c r \<longleftrightarrow> False"

definition same_workload :: "KObj \<Rightarrow> KObj \<Rightarrow> bool" where
  "same_workload o1 o2 \<longleftrightarrow> okey o2 = okey o1 \<and> o_Payload o2 = o_Payload o1"

context library
begin

lemma final_error [simp]: "op_IsFinal (lib_op L) (op_ReconcileWithError (lib_op L) e)"
  by (rule error_final)

lemma needs_skip: "(\<And>x. needs L E (f x)) \<Longrightarrow> needs L E (orFail L m f)"
  unfolding orFail_def
  by (rule until_orElseErr [where R = "\<lambda>_. True"]) (auto intro: until_any split: sum.split)

lemma needs_here: "shows_up E m \<Longrightarrow> needs L E (orFail L m f)"
  unfolding orFail_def by (rule until_done_after) simp_all

lemma needs_value:
  assumes "until honest E (\<lambda>c. False) (\<lambda>r. case r of Inl e \<Rightarrow> True | Inr x \<Rightarrow> R x) m"
    and "\<And>x. R x \<Longrightarrow> needs L E (f x)"
  shows "needs L E (orFail L m f)"
  unfolding orFail_def using assms by (intro until_orElseErr [where R = R]) (auto elim: until_mono split: sum.splits)

lemma needs_with_client: "(\<And>x. needs L E (f x)) \<Longrightarrow> needs L E (with_client L m f)"
  unfolding with_client_def by (rule needs_pbind) (auto split: option.split)

lemma needs_logged_in: "(\<And>x. needs L E (f x)) \<Longrightarrow> needs L E (logged_in L cp c f)"
  unfolding logged_in_def by (rule needs_pbind) (auto split: sum.split)

lemma workload_stored:
  "shows_up (stored (same_workload o1)) (with_owner L cp o1 create_or_update)"
proof -
  have "shows_up (stored (same_workload o1)) (create_or_update o2)" if "setOwner L cp o1 = Inr o2" for o2
    using setOwner_Inr [OF that]
    by (auto simp: create_or_update_def kwrite_def same_workload_def split: sum.split)
  then show ?thesis by (auto simp: with_owner_def split: sum.split)
qed

end

subsection \<open>The router\<close>

lemma every_any: "every A (\<lambda>c. True) (\<lambda>x. True) m"
  by (induction m) simp_all

lemma every_some: "(\<And>x. every A (\<lambda>c. True) Q (f x)) \<Longrightarrow> every A (\<lambda>c. True) Q (pbind m f)"
  by (rule every_bindI [OF every_any])

lemma routerSecrets_only:
  "every A (\<lambda>c. True) (\<lambda>r. case r of Inl e \<Rightarrow> True | Inr ms2 \<Rightarrow> \<exists>ss. ms2 = ms\<lparr>ms_secrets := ss\<rparr>)
     (createRouterSecrets L cp ns ms address)"
proof -
  let ?Q = "\<lambda>r. case r of Inl e \<Rightarrow> True | Inr ms2 \<Rightarrow> \<exists>ss. ms2 = ms\<lparr>ms_secrets := ss\<rparr>"
  have lookup: "every A (\<lambda>c. True) ?Q (lookup_secret ns n f)"
    if "\<And>x. every A (\<lambda>c. True) ?Q (f x)" for n and f :: "KObj option \<Rightarrow> (GoError + microservice) prog"
    using that by (simp add: lookup_secret_def)
  have pair: "every A (\<lambda>c. True) ?Q (pbind m (\<lambda>(x, y). f x y))"
    if "\<And>x y. every A (\<lambda>c. True) ?Q (f x y)" for m :: "(KObj \<times> KObj list) prog" and f
    by (rule every_some) (simp add: that split: prod.split)
  have done_: "every A (\<lambda>c. True) ?Q (Done (Inr (ms\<lparr>ms_secrets := ss\<rparr>)))" for ss
    by auto
  show ?thesis
    unfolding createRouterSecrets_def Let_def
    by (rule every_recovering, rule lookup, rule lookup, rule lookup, rule lookup,
        simp only: if_split, intro conjI impI, rule done_,
        rule pair, rule pair, rule every_some, rule every_some, rule done_) simp
qed

lemma newDeployment_secrets [simp]:
  "newDeployment ns i (ms\<lparr>ms_secrets := ss\<rparr>) = newDeployment ns i ms"
  by (simp add: newDeployment_def deploymentSpec_def msLabels_def getComponentFromMicroservice_def)

definition router_deployment :: "Lib \<Rightarrow> ControlPlane \<Rightarrow> KObj" where
  "router_deployment L cp =
     newDeployment (cp_Namespace cp) (cp_Name cp) (hd (newRouterMicroservices L (routerConfig cp)))"

context library
begin

lemma needs_skip_value:
  assumes "every honest (\<lambda>c. True) (\<lambda>r. case r of Inl e \<Rightarrow> True | Inr x \<Rightarrow> R x) m"
    and "\<And>x. R x \<Longrightarrow> needs L E (f x)"
  shows "needs L E (orFail L m f)"
  by (rule needs_value [OF until_every [OF assms(1)] assms(2)]) simp

lemma needs_secret:
  assumes "s \<in> set (ms_secrets ms)" and "all_mine cp (ms_secrets ms)"
  shows "needs L (present (okey s)) (orFail L (createSecrets L cp ms) f)"
proof -
  have "\<forall>s \<in> set (ms_secrets ms). fst (okey s) \<noteq> KDeployment"
    using assms(2) by (auto simp: list_all_iff mine_iff)
  from unguarded [OF provides_secret [OF assms(1) this]] show ?thesis by (rule needs_here)
qed

lemma router_needs_secret:
  assumes "k \<in> {(KSecret, cp_Namespace cp, SiteServerSecret), (KSecret, cp_Namespace cp, LocalServerSecret)}"
    and "ms_secrets ms = []"
  shows "needs L (present k)
           (orFail L (createRouterSecrets L cp (cp_Namespace cp) ms address)
              (\<lambda>ms2. orFail L (createSecrets L cp ms2) (f ms2)))"
proof -
  let ?P = "\<lambda>r. case r of Inl e \<Rightarrow> True | Inr ms2 \<Rightarrow>
        has_secret (KSecret, cp_Namespace cp, SiteServerSecret) (ms_secrets ms2) \<and>
        has_secret (KSecret, cp_Namespace cp, LocalServerSecret) (ms_secrets ms2)"
  have "until honest (present k) (\<lambda>c. False) (\<lambda>r. ?P r \<and>
      (case r of Inl e \<Rightarrow> True | Inr ms2 \<Rightarrow> all_mine cp (ms_secrets ms2)))
      (createRouterSecrets L cp (cp_Namespace cp) ms address)"
    by (rule unguarded [OF until_and [OF routerSecrets_provide safe_routerSecrets [OF assms(2)]]])
  then have "until honest (present k) (\<lambda>c. False) (\<lambda>r. case r of Inl e \<Rightarrow> True | Inr ms2 \<Rightarrow>
        (\<exists>s \<in> set (ms_secrets ms2). okey s = k) \<and> all_mine cp (ms_secrets ms2))
      (createRouterSecrets L cp (cp_Namespace cp) ms address)"
    by (rule until_mono) (use assms(1) in \<open>auto simp: has_secret_def list_ex_iff split: sum.splits\<close>)
  then show ?thesis by (rule needs_value) (auto intro: needs_secret)
qed

lemma router_shows:
  "list_all (\<lambda>k. needs L (present k) (reconcileRouter L cp)) (router_needs cp)"
  "needs L (account_shown cp ''router'') (reconcileRouter L cp)"
proof -
  let ?ms = "hd (newRouterMicroservices L (routerConfig cp))"
  note ms = router_ms [of L cp]
  note operation = needs_here [OF unguarded]
  note skip = needs_skip
  obtain s where s: "s \<in> set (ms_services ?ms)" "s_name s = ''router''" using ms(4) by auto
  show "needs L (account_shown cp ''router'') (reconcileRouter L cp)"
    unfolding reconcileRouter_def Let_def
    using operation [OF provides_account [of KDeployment ?ms cp]] ms by simp
  have role: "needs L (present (KRole, cp_Namespace cp, ''router'')) (orFail L (createRole L cp ?ms) f)" for f
    using operation [OF provides(1) [of KDeployment cp ?ms]] ms by simp
  have binding: "needs L (present (KRoleBinding, cp_Namespace cp, ''router'')) (orFail L (createRoleBinding L cp ?ms) f)" for f
    using operation [OF provides(2) [of KDeployment cp ?ms]] ms by simp
  have service: "needs L (present (KService, cp_Namespace cp, ''router'')) (orFail L (createService L cp ?ms) f)" for f
    using operation [OF provides_service [OF s(1), of KDeployment cp]] s(2) by simp
  have config: "needs L (present (KConfigMap, cp_Namespace cp, ''iofog-router'')) (orFail L (createConfigMap L cp) f)" for f
    by (rule operation [OF provides_configmap [of KDeployment]]) simp
  have secret: "needs L (present k) (reconcileRouter L cp)"
    if "k \<in> {(KSecret, cp_Namespace cp, SiteServerSecret), (KSecret, cp_Namespace cp, LocalServerSecret)}" for k
    unfolding reconcileRouter_def Let_def
    by (rule skip, rule skip, rule skip, rule skip, rule skip, rule skip,
        rule router_needs_secret [OF that ms(2)])
  have "needs L (present (KRole, cp_Namespace cp, ''router'')) (reconcileRouter L cp)"
    unfolding reconcileRouter_def Let_def by (rule skip, rule role)
  moreover have "needs L (present (KRoleBinding, cp_Namespace cp, ''router'')) (reconcileRouter L cp)"
    unfolding reconcileRouter_def Let_def by (rule skip, rule skip, rule binding)
  moreover have "needs L (present (KService, cp_Namespace cp, ''router'')) (reconcileRouter L cp)"
    unfolding reconcileRouter_def Let_def by (rule skip, rule skip, rule skip, rule service)
  moreover have "needs L (present (KConfigMap, cp_Namespace cp, ''iofog-router'')) (reconcileRouter L cp)"
    unfolding reconcileRouter_def Let_def
    by (rule skip, rule skip, rule skip, rule skip, rule skip, rule skip, rule skip, rule skip, rule config)
  ultimately show "list_all (\<lambda>k. needs L (present k) (reconcileRouter L cp)) (router_needs cp)"
    using secret by (simp add: router_needs_def)
qed

lemma router_stores:
  "needs L (stored (same_workload (router_deployment L cp))) (reconcileRouter L cp)"
proof -
  let ?ms = "hd (newRouterMicroservices L (routerConfig cp))" and ?E = "stored (same_workload (router_deployment L cp))"
  note skip = needs_skip
  have one: "shows_up ?E (createDeployment L cp (?ms\<lparr>ms_secrets := ss\<rparr>))" for ss
    unfolding createDeployment_def newDeployment_secrets router_deployment_def by (rule workload_stored)
  have "shows_up ?E (for_each (createDeployment L cp) (?ms\<lparr>ms_secrets := ss\<rparr> # rest))" for ss rest
    unfolding for_each.simps by (rule shows_up_tryE [OF one])
  note last = needs_here [OF this]
  have secrets: "every honest (\<lambda>c. True) (\<lambda>r. case r of Inl e \<Rightarrow> True | Inr ms2 \<Rightarrow> \<exists>ss. ms2 = ?ms\<lparr>ms_secrets := ss\<rparr>)
      (createRouterSecrets L cp (cp_Namespace cp) ?ms a)" for a
    by (rule routerSecrets_only)
  show ?thesis
    unfolding reconcileRouter_def Let_def
    by (rule skip, rule skip, rule skip, rule skip, rule skip, rule skip,
        rule needs_skip_value [OF secrets], erule exE, hypsubst, rule skip, rule skip, rule last)
qed

end

subsection \<open>Nothing is taken away\<close>

text \<open>Code that deletes nothing: all but one step of the hub's routine.\<close>

fun deletes :: "Call \<Rightarrow> bool" where
  "deletes (CWrite (WDelete k)) = True"
| "deletes c = False"

abbreviation keeps :: "'a prog \<Rightarrow> bool" where
  "keeps p \<equiv> every honest (\<lambda>c. \<not> deletes c) (\<lambda>x. True) p"

named_theorems keeping \<open>code that deletes nothing\<close>

lemma keeps_saves: "keeps m \<Longrightarrow> saves k m"
  by (erule every_call_mono) (auto elim!: removes.elims)

lemma keeps_bind [keeping]: "keeps m \<Longrightarrow> (\<And>x. keeps (f x)) \<Longrightarrow> keeps (pbind m f)"
  by (rule every_bindI)

lemma keeps_combinators [keeping]:
  "keeps m \<Longrightarrow> (\<And>x. keeps (g x)) \<Longrightarrow> keeps (tryE m g)"
  "keeps m \<Longrightarrow> (\<And>x. keeps (g2 x)) \<Longrightarrow> keeps (orElseErr h m g2)"
  "keeps m \<Longrightarrow> (\<And>x. keeps (g2 x)) \<Longrightarrow> keeps (orFail L m g2)"
  "(\<And>o2. keeps (g3 o2)) \<Longrightarrow> keeps (with_owner L cp o1 g3)"
  "(\<And>x. keeps (g4 x)) \<Longrightarrow> keeps (for_each g4 xs)"
  "(\<And>x. keeps (g5 x)) \<Longrightarrow> keeps (crash_or y g5)"
  "(\<And>x. keeps (g6 x)) \<Longrightarrow> keeps (lookup_secret ns n g6)"
  "keeps m \<Longrightarrow> keeps (wrapped s m)"
  "keeps p \<Longrightarrow> keeps (recovering h2 p)"
  unfolding tryE_def orElseErr_def orFail_def crash_or_def lookup_secret_def wrapped_def
  by (auto intro!: keeps_bind with_owner_every for_each_every every_recovering split: sum.split)

lemma keeps_calls [keeping]:
  "keeps (kget k ns n)" "\<not> deletes (CWrite w) \<Longrightarrow> keeps (kwrite w)" "keeps (ext_call c)"
  "keeps (waitForLoadBalancer ns n)" "keeps newK8sClient" "keeps (getIofogClient L sch host port)"
  "keeps (loginIofogClient L cp c1)" "keeps (create_if_missing o1)" "keeps (create_or_update o1)"
  "keeps (ensure_account o1)" "keeps (createOwned L cp o1)" "keeps (createIfAbsent L cp o1)"
  "keeps (createOrUpdateSecret L cp l o1)"
  by (auto simp: kget_def kwrite_def ext_call_def waitForLoadBalancer_def newK8sClient_def
      getIofogClient_def loginIofogClient_def create_if_missing_def create_or_update_def
      ensure_account_def createOwned_def createIfAbsent_def createOrUpdateSecret_def Let_def
      intro!: with_owner_every split: sum.split option.split)

lemma keeps_certificate [keeping]: "keeps (GenerateSecret L n subject hosts expiration ca)"
  by (rule every_weaken [OF GenerateSecret_every]) (auto elim!: deletes.elims)

lemma keeps_operations [keeping]:
  "keeps (createDeployment L cp ms)" "keeps (createStatefulSet L cp ms)"
  "keeps (createService L cp ms)" "keeps (createIngress L cp icfg)" "keeps (createRole L cp ms)"
  "keeps (createRoleBinding L cp ms)" "keeps (createPersistentVolumeClaims L cp ms)"
  "keeps (createServiceAccount L cp ms)" "keeps (createSecrets L cp ms)"
  "keeps (createConfigMap L cp)" "keeps (restartPodsForDeployment n ns)"
  "keeps (deploymentExists ns n)"
  unfolding createDeployment_def createStatefulSet_def createService_def createIngress_def
    createRole_def createRoleBinding_def createPersistentVolumeClaims_def createServiceAccount_def
    createSecrets_def createOrUpdateSecrets_def createConfigMap_def restartPodsForDeployment_def
    deploymentExists_def Let_def
  by (auto intro!: keeping split: option.split sum.split)

lemma keeps_router: "keeps (reconcileRouter L cp)"
proof -
  have "keeps (router_ca L n ns l found)" for n ns l found
    by (auto simp: router_ca_def Let_def intro!: keeping split: option.split)
  moreover have "keeps (router_server L n subject hosts ns l ca found)" for n subject hosts ns l ca found
    by (auto simp: router_server_def intro!: keeping split: option.split)
  ultimately have "keeps (createRouterSecrets L cp ns ms address)" for ns ms address
    unfolding createRouterSecrets_def Let_def by (auto intro!: keeping split: prod.split)
  moreover have "keeps (routerAddress cp n)" for n
    by (auto simp: routerAddress_def intro!: keeping)
  ultimately show ?thesis
    unfolding reconcileRouter_def Let_def by (auto intro!: keeping)
qed

lemma keeps_with_client [keeping]:
  "keeps m \<Longrightarrow> (\<And>c. keeps (f c)) \<Longrightarrow> keeps (with_client L m f)"
  "(\<And>c. keeps (f c)) \<Longrightarrow> keeps (logged_in L cp c0 f)"
  unfolding with_client_def logged_in_def by (auto intro!: keeping split: option.split sum.split)

lemma keeps_credentials [keeping]:
  "keeps (reconcileDBCredentialsSecret L cp ms)" "keeps (reconcileVaultCredentialsSecret L cp ms)"
proof -
  have "keeps (reconcile_secret L cp s)" for s
    unfolding reconcile_secret_def by (rule keeping) (auto split: sum.split)
  then have "keeps (reconcile_named L cp n ss)" for n ss
    by (induction ss) (auto intro!: keeping)
  then show "keeps (reconcileDBCredentialsSecret L cp ms)" "keeps (reconcileVaultCredentialsSecret L cp ms)"
    unfolding reconcileDBCredentialsSecret_def reconcileVaultCredentialsSecret_def by (auto intro!: keeping)
qed

lemma keeps_viewer [keeping]: "keeps (UpdateECNViewerClientRootURL L a u)"
  by (auto simp: UpdateECNViewerClientRootURL_def prefixed_def getKeycloakClientID_def
      updateClientRootURL_def Let_def intro!: keeping split: option.split sum.split)

lemma keeps_register: "keeps (registerController L cp ms b)"
proof -
  have "keeps (import_all L c ns)" for c ns
    by (induction ns) (auto simp: ImportRouterCACertificate_def intro!: keeping split: sum.split)
  then have certs: "keeps (ImportCertificates L cp c)" for c unfolding ImportCertificates_def .
  have proxy: "keeps (routerProxyOf cp)" "keeps (natsIngressOf cp)"
    by (auto simp: routerProxyOf_def natsIngressOf_def Let_def intro!: keeping)
  have finish: "keeps (finishController L cp ms b e)" for e
    by (auto simp: finishController_def intro!: keeping)
  have lb: "keeps (loadBalancerEndpoint L cp p f)" if "\<And>e. keeps (f e)" for p f
    using that by (auto simp: loadBalancerEndpoint_def intro!: keeping)
  have ing: "keeps (ingressEndpoint L cp e f)" if "\<And>e. keeps (f e)" for e f
    using that by (auto simp: ingressEndpoint_def intro!: keeping)
  have nats: "keeps (registerNatsHub L cp c rest)" if "keeps rest" for c rest
    using that proxy(2) by (auto simp: registerNatsHub_def createDefaultNatsHub_def intro!: keeping)
  show ?thesis
    by (auto simp: registerController_def createDefaultRouter_def
        intro!: keeping proxy nats certs lb ing finish split: sum.split)
qed

lemma keeps_controller: "keeps (reconcileIofogController L cp)"
  unfolding reconcileIofogController_def controllerObjects_def Let_def
  by (auto intro!: keeping keeps_register split: prod.split)

end
