(* ===== verification/HubEvidence.thy ===== *)
theory HubEvidence
  imports Evidence
begin

text \<open>
  The same evidence for the hub and the controller. The hub's routine may delete two certificates
  before it makes them again, so these are followed from that point on.
\<close>

subsection \<open>The hub\<close>

definition hub_certificates :: "ControlPlane \<Rightarrow> okey list" where
  "hub_certificates cp =
     [(KSecret, cp_Namespace cp, NatsSiteServerSecret), (KSecret, cp_Namespace cp, NatsMqttServerSecret)]"

definition hub_objects :: "ControlPlane \<Rightarrow> okey list" where
  "hub_objects cp =
     [(KRole, cp_Namespace cp, ''nats''), (KRoleBinding, cp_Namespace cp, ''nats''),
      (KService, cp_Namespace cp, HeadlessServiceName), (KService, cp_Namespace cp, ClientServiceName),
      (KService, cp_Namespace cp, ServerServiceName),
      (KConfigMap, cp_Namespace cp, ConfigMapName), (KConfigMap, cp_Namespace cp, JWTBundleCMName),
      (KSecret, cp_Namespace cp, JetStreamKeySecretName (cp_Name cp)),
      (KSecret, cp_Namespace cp, HubSystemUserCredsSecret),
      (KSecret, cp_Namespace cp, OperatorSeedSecretName)]"

definition hub_needs :: "ControlPlane \<Rightarrow> okey list" where
  "hub_needs cp = (if isNatsEnabled cp then hub_objects cp @ hub_certificates cp else [])"

lemma nats_ms:
  assumes "newNatsMicroservice L cfg = Inr ms"
  shows "ms_name (natsOverrides cp ms) = ''nats''"
    "ms_imagePullSecret (natsOverrides cp ms) = nn_imagePullSecret cfg"
    "ms_services (natsOverrides cp ms) = natsServices cfg"
  using assms
  by (auto simp: newNatsMicroservice_def natsOverrides_def first_container_def empty_microservice_def Let_def
      split: sum.splits option.splits)

context library
begin

lemma shows_up_owned:
  assumes "\<And>o2. okey o2 = okey o1 \<Longrightarrow> shows_up E (f o2)"
  shows "shows_up E (with_owner L cp o1 f)"
  by (rule missing.owned_rule) (simp_all add: assms)

lemma secret_shows:
  "shows_up (present (okey o1)) (createOrUpdateSecret L cp l o1)"
  "shows_up (present (okey o1)) (createOwned L cp o1)"
  "shows_up (present (okey o1)) (createIfAbsent L cp o1)"
  unfolding createOrUpdateSecret_def createOwned_def createIfAbsent_def
  by (rule shows_up_owned, auto simp: kwrite_def Let_def split: sum.split)+

lemma absent_shows:
  "s \<in> set ss \<Longrightarrow> shows_up (present (okey s)) (for_each (createIfAbsent L cp) ss)"
proof (induction ss)
  case (Cons s2 ss)
  then show ?case
    unfolding for_each.simps
    by (cases "s2 = s") (auto intro: shows_up_tryE shows_up_later secret_shows)
qed simp

lemma bootstrap_shows:
  assumes "k \<in> {(KSecret, cp_Namespace cp, OperatorSeedSecretName), (KSecret, cp_Namespace cp, HubSystemUserCredsSecret)}"
  shows "shows_up (present k)
    (EnsureNatsBootstrapFromController L (createOrUpdateSecret L cp l) (cp_Namespace cp) l2 (Some api))"
proof -
  have made: "shows_up (present (KSecret, cp_Namespace cp, n))
      (wrapped m (createOrUpdateSecret L cp l (dataSecret n (cp_Namespace cp) l2 d)))" for m n d
    using shows_up_wrapped [OF secret_shows(1) [of "dataSecret n (cp_Namespace cp) l2 d"]]
    by (simp add: okey_def dataSecret_def new_meta_def)
  have "shows_up (present k) (tryE (wrapped m1 (createOrUpdateSecret L cp l (dataSecret OperatorSeedSecretName (cp_Namespace cp) l2 d1)))
      (\<lambda>_. tryE (wrapped m2 (createOrUpdateSecret L cp l (dataSecret HubSystemUserCredsSecret (cp_Namespace cp) l2 d2))) f))"
    for m1 m2 d1 d2 and f :: "unit \<Rightarrow> (GoError + NatsBootstrapSecrets) prog"
    using assms by (elim insertE emptyE; hypsubst) (rule shows_up_tryE made shows_up_later [OF shows_up_tryE [OF made]])+
  then show ?thesis
    unfolding EnsureNatsBootstrapFromController_def by (simp split: option.split)
qed

lemma key_shows:
  "shows_up (present (KSecret, cp_Namespace cp, JetStreamKeySecretName (cp_Name cp)))
     (EnsureJetStreamKeySecret (kget KSecret) (createOwned L cp) (cp_Namespace cp) (cp_Name cp) l)"
proof -
  let ?k = "(KSecret, cp_Namespace cp, JetStreamKeySecretName (cp_Name cp))"
  have "shows_up (present ?k) (createOwned L cp (dataSecret (JetStreamKeySecretName (cp_Name cp)) (cp_Namespace cp) l d))" for d
    using secret_shows(2) [of "dataSecret (JetStreamKeySecretName (cp_Name cp)) (cp_Namespace cp) l d"]
    by (simp add: okey_def dataSecret_def new_meta_def)
  then show ?thesis
    by (auto simp: EnsureJetStreamKeySecret_def kget_def Let_def intro!: shows_up_tryE split: sum.split)
qed

lemma maps_show:
  assumes "k \<in> {(KConfigMap, cp_Namespace cp, ConfigMapName), (KConfigMap, cp_Namespace cp, JWTBundleCMName)}"
  shows "shows_up (present k) (natsConfigMaps L cp l boot a)"
proof -
  have first: "shows_up (present (KConfigMap, cp_Namespace cp, ConfigMapName))
      (tryE (writeNatsConfigMap l o2) f)" if "okey o2 = (KConfigMap, cp_Namespace cp, ConfigMapName)"
    for o2 and f :: "unit \<Rightarrow> (GoError + unit) prog"
  proof (rule shows_up_tryE)
    show "shows_up (present (KConfigMap, cp_Namespace cp, ConfigMapName)) (writeNatsConfigMap l o2)"
      using that by (auto simp: writeNatsConfigMap_def kwrite_def okey_def split: sum.split)
  qed
  have second: "shows_up (present (KConfigMap, cp_Namespace cp, JWTBundleCMName))
      (tryE (writeNatsConfigMap l o2) (\<lambda>_. createIfAbsent L cp (NewJWTBundleConfigMap (cp_Namespace cp) l js)))" for o2 js
    using secret_shows(3) [of "NewJWTBundleConfigMap (cp_Namespace cp) l js" cp]
    by (intro shows_up_later) (simp add: okey_def NewJWTBundleConfigMap_def new_meta_def)
  have "okey (NewNatsConfigMap (cp_Namespace cp) (cp_Name cp) l sc) = (KConfigMap, cp_Namespace cp, ConfigMapName)" for sc
    by (simp add: okey_def NewNatsConfigMap_def new_meta_def)
  then have "shows_up (present k) (with_owner L cp (NewNatsConfigMap (cp_Namespace cp) (cp_Name cp) l sc) (\<lambda>configMap.
           tryE (writeNatsConfigMap l configMap) (\<lambda>_.
             createIfAbsent L cp (NewJWTBundleConfigMap (cp_Namespace cp) l js))))" for sc js
    using assms first second by (intro shows_up_owned) auto
  then show ?thesis
    unfolding natsConfigMaps_def Let_def by (intro shows_up_later) simp
qed

text \<open>The operations of the hub after its certificates, and the stateful set.\<close>

lemma certificates_shown:
  assumes "k \<in> set (hub_certificates cp)"
  shows "until honest (present k) (\<lambda>c. False) (\<lambda>r. case r of Inl e \<Rightarrow> True | Inr ss \<Rightarrow> has_secret k ss)
           (EnsureNatsSecrets L (kget KSecret) (cp_Namespace cp) i h n a l)"
proof -
  let ?Q = "\<lambda>r. case r of Inl e \<Rightarrow> True | Inr ss \<Rightarrow> has_secret k ss"
  let ?u = "\<lambda>m :: (GoError + KObj list) prog. until honest (present k) (\<lambda>c. False) ?Q m"
  have skip: "?u (tryE m f)" if "\<And>x. ?u (f x)" for m :: "(GoError + KObj option) prog" and f
    by (rule until_tryE [where R = "\<lambda>_. True"]) (auto intro: until_any that split: sum.splits)
  have found: "?u (tryE (find_secret (kget KSecret) (cp_Namespace cp) n) f)"
    if "k = (KSecret, cp_Namespace cp, n)" "?u (f None)" for n f
    using that by (auto simp: find_secret_def kget_def tryE_def split: sum.split)
  have pair: "?u (pbind m (\<lambda>(x, y). f x y))" if "\<And>x y. ?u (f x y)" for m :: "(KObj \<times> KObj list) prog" and f
    unfolding until_pbind by (rule until_any) (simp add: that split: prod.split)
  have other: "?u (pbind m f)" if "\<And>out. ?u (f out)" for m :: "KObj list prog" and f
    unfolding until_pbind by (rule until_any) (rule that)
  have made: "?u (pbind (ensure_server L n sub hosts (cp_Namespace cp) l rn ca None) f)"
    if "k = (KSecret, cp_Namespace cp, n)" "\<And>out. has_secret k out \<Longrightarrow> ?u (f out)" for n sub hosts rn ca f
  proof -
    have "every honest (\<lambda>c. True) (has_secret k) (ensure_server L n sub hosts (cp_Namespace cp) l rn ca None)"
      unfolding ensure_server_def option.case
      by (rule every_bindI [OF every_weaken [OF GenerateSecret_every]])
        (auto simp: that(1) has_secret_def annotate_def okey_def dest!: generated_has_secret)
    from until_every [OF this] show ?thesis
      unfolding until_pbind by (rule until_mono) (simp_all add: that(2))
  qed
  consider "k = (KSecret, cp_Namespace cp, NatsSiteServerSecret)" | "k = (KSecret, cp_Namespace cp, NatsMqttServerSecret)"
    using assms by (auto simp: hub_certificates_def)
  then show ?thesis
  proof cases
    case 1
    show ?thesis
      unfolding EnsureNatsSecrets_def Let_def
      by (rule skip, rule skip, rule found [OF 1], rule skip, rule pair, rule pair,
          rule made [OF 1], rule other) (simp add: has_secret_def)
  next
    case 2
    show ?thesis
      unfolding EnsureNatsSecrets_def Let_def
      by (rule skip, rule skip, rule skip, rule found [OF 2], rule pair, rule pair,
          rule other, rule made [OF 2]) (simp add: has_secret_def)
  qed
qed

lemma needs_certificates:
  assumes "k \<in> set (hub_certificates cp)"
  shows "needs L (present k)
    (orFail L (EnsureNatsSecrets L (kget KSecret) (cp_Namespace cp) i h n a l)
       (\<lambda>tlsSecrets. orFail L (for_each (createIfAbsent L cp) tlsSecrets) (f tlsSecrets)))"
proof (rule needs_value [OF certificates_shown [OF assms]])
  fix ss assume "has_secret k ss"
  then obtain s where "s \<in> set ss" "okey s = k" by (auto simp: has_secret_def list_ex_iff)
  with absent_shows [of s ss cp] show "needs L (present k) (orFail L (for_each (createIfAbsent L cp) ss) (f ss))"
    by (auto intro: needs_here)
qed

end

definition hub_statefulset :: "Lib \<Rightarrow> ControlPlane \<Rightarrow> KObj \<Rightarrow> bool" where
  "hub_statefulset L cp o1 \<longleftrightarrow>
     (\<exists>ms ann. newNatsMicroservice L (natsConfig L cp) = Inr ms \<and>
        same_workload (newStatefulSet (cp_Namespace cp) (cp_Name cp)
          ((natsOverrides cp ms)\<lparr>ms_podTemplateAnnotations := ann\<rparr>)) o1)"

context library
begin

lemma needs_annotations: "(\<And>a. needs L E (f a)) \<Longrightarrow> needs L E (podAnnotations L ns r f)"
  by (simp add: podAnnotations_def Let_def split: sum.split)

lemma deploy_shows:
  assumes "ms_name ms = ''nats''" and "ms_services ms = natsServices (natsConfig L cp)"
  shows "k \<in> {(KRole, cp_Namespace cp, ''nats''), (KRoleBinding, cp_Namespace cp, ''nats''),
      (KService, cp_Namespace cp, HeadlessServiceName), (KService, cp_Namespace cp, ClientServiceName),
      (KService, cp_Namespace cp, ServerServiceName),
      (KConfigMap, cp_Namespace cp, ConfigMapName), (KConfigMap, cp_Namespace cp, JWTBundleCMName)} \<Longrightarrow>
    needs L (present k) (deployNats L cp boot ms)"
    and "ms_imagePullSecret ms = img_PullSecret (spec_Images (cp_Spec cp)) \<Longrightarrow>
      needs L (account_shown cp ''nats'') (deployNats L cp boot ms)"
proof -
  note operation = needs_here [OF unguarded]
  note skip = needs_skip
  show "ms_imagePullSecret ms = img_PullSecret (spec_Images (cp_Spec cp)) \<Longrightarrow>
      needs L (account_shown cp ''nats'') (deployNats L cp boot ms)"
    using operation [OF provides_account [of KDeployment ms cp]] assms(1) by (simp add: deployNats_def Let_def)
  have role: "needs L (present (KRole, cp_Namespace cp, ''nats'')) (deployNats L cp boot ms)"
    unfolding deployNats_def Let_def
    by (rule skip) (use operation [OF provides(1) [of KDeployment cp ms]] assms(1) in simp)
  have binding: "needs L (present (KRoleBinding, cp_Namespace cp, ''nats'')) (deployNats L cp boot ms)"
    unfolding deployNats_def Let_def
    by (rule skip, rule skip) (use operation [OF provides(2) [of KDeployment cp ms]] assms(1) in simp)
  have service: "needs L (present (KService, cp_Namespace cp, s_name s)) (deployNats L cp boot ms)"
    if "s \<in> set (natsServices (natsConfig L cp))" for s
    unfolding deployNats_def Let_def
    by (rule skip, rule skip, rule skip)
      (use operation [OF provides_service [of s ms KDeployment cp]] assms(2) that in simp)
  have services: "needs L (present (KService, cp_Namespace cp, n)) (deployNats L cp boot ms)"
    if "n \<in> {HeadlessServiceName, ClientServiceName, ServerServiceName}" for n
  proof -
    have "n \<in> s_name ` set (natsServices (natsConfig L cp))" using that by (simp add: natsServices_def)
    with service show ?thesis by blast
  qed
  have config: "needs L (present k) (deployNats L cp boot ms)"
    if "k \<in> {(KConfigMap, cp_Namespace cp, ConfigMapName), (KConfigMap, cp_Namespace cp, JWTBundleCMName)}" for k
    unfolding deployNats_def Let_def
    by (rule skip, rule skip, rule skip, rule skip, rule skip, rule skip, rule skip, rule skip,
        rule needs_here [OF maps_show [OF that]])
  from role binding services config show "needs L (present k) (deployNats L cp boot ms)"
    if "k \<in> {(KRole, cp_Namespace cp, ''nats''), (KRoleBinding, cp_Namespace cp, ''nats''),
      (KService, cp_Namespace cp, HeadlessServiceName), (KService, cp_Namespace cp, ClientServiceName),
      (KService, cp_Namespace cp, ServerServiceName),
      (KConfigMap, cp_Namespace cp, ConfigMapName), (KConfigMap, cp_Namespace cp, JWTBundleCMName)}" for k
    using that by blast
qed

lemma deploy_stores:
  assumes "newNatsMicroservice L (natsConfig L cp) = Inr ms"
  shows "needs L (stored (hub_statefulset L cp)) (deployNats L cp boot (natsOverrides cp ms))"
proof -
  note skip = needs_skip
  have one: "shows_up (stored (hub_statefulset L cp))
      (createStatefulSet L cp ((natsOverrides cp ms)\<lparr>ms_podTemplateAnnotations := a\<rparr>))" for a
  proof -
    let ?o = "newStatefulSet (cp_Namespace cp) (cp_Name cp) ((natsOverrides cp ms)\<lparr>ms_podTemplateAnnotations := a\<rparr>)"
    have "stored (same_workload ?o) c r \<Longrightarrow> stored (hub_statefulset L cp) c r" for c r
      by (cases "(same_workload ?o, c, r)" rule: stored.cases) (use assms in \<open>auto simp: hub_statefulset_def\<close>)
    from until_weaken [OF workload_stored [of ?o cp] this]
    show ?thesis unfolding createStatefulSet_def by simp
  qed
  show ?thesis
    unfolding deployNats_def Let_def
    by (rule skip, rule skip, rule skip, rule skip, rule skip, rule skip, rule skip, rule skip, rule skip,
        rule needs_annotations, rule needs_here [OF one])
qed

lemma needs_hub:
  assumes "isNatsEnabled cp"
    and "\<And>c. needs L E (bootstrapNats L cp c (\<lambda>boot. crash_or (newNatsMicroservice L (natsConfig L cp))
            (\<lambda>ms. deployNats L cp boot (natsOverrides cp ms))))"
  shows "needs L E (reconcileNats L cp)"
  unfolding reconcileNats_def using assms by (auto intro!: needs_with_client needs_logged_in)

lemma needs_deploy:
  assumes "isNatsEnabled cp"
    and "\<And>boot ms. newNatsMicroservice L (natsConfig L cp) = Inr ms \<Longrightarrow>
      needs L E (deployNats L cp boot (natsOverrides cp ms))"
  shows "needs L E (reconcileNats L cp)"
  by (rule needs_hub [OF assms(1)], unfold bootstrapNats_def Let_def,
      rule needs_skip, rule needs_skip, rule needs_skip)
    (auto simp: crash_or_def assms(2) split: sum.split)

lemma hub_shows:
  assumes "isNatsEnabled cp" and "k \<in> set (hub_objects cp)"
  shows "needs L (present k) (reconcileNats L cp)"
proof -
  note deploy = needs_deploy [OF assms(1)] and ms = nats_ms(1,3)
  have objects: "needs L (present k) (reconcileNats L cp)"
    if "k \<in> {(KRole, cp_Namespace cp, ''nats''), (KRoleBinding, cp_Namespace cp, ''nats''),
      (KService, cp_Namespace cp, HeadlessServiceName), (KService, cp_Namespace cp, ClientServiceName),
      (KService, cp_Namespace cp, ServerServiceName),
      (KConfigMap, cp_Namespace cp, ConfigMapName), (KConfigMap, cp_Namespace cp, JWTBundleCMName)}" for k
    by (rule deploy, rule deploy_shows(1) [OF ms], assumption, assumption, rule that)
  have key: "needs L (present (KSecret, cp_Namespace cp, JetStreamKeySecretName (cp_Name cp))) (reconcileNats L cp)"
    by (rule needs_hub [OF assms(1)], unfold bootstrapNats_def Let_def, rule needs_skip, rule needs_skip,
        rule needs_here [OF key_shows])
  have boot: "needs L (present k) (reconcileNats L cp)"
    if "k \<in> {(KSecret, cp_Namespace cp, OperatorSeedSecretName), (KSecret, cp_Namespace cp, HubSystemUserCredsSecret)}" for k
    by (rule needs_hub [OF assms(1)], unfold bootstrapNats_def Let_def, rule needs_skip,
        rule needs_here [OF bootstrap_shows [OF that]])
  have "list_all (\<lambda>k. needs L (present k) (reconcileNats L cp)) (hub_objects cp)"
    by (simp add: hub_objects_def objects key boot)
  with assms(2) show ?thesis by (simp add: list_all_iff)
qed

lemma hub_account:
  "isNatsEnabled cp \<Longrightarrow> needs L (account_shown cp ''nats'') (reconcileNats L cp)"
  by (rule needs_deploy, assumption, rule deploy_shows(2) [OF nats_ms(1,3)], assumption, assumption)
    (simp add: nats_ms(2) natsConfig_def Let_def)

lemma hub_stores:
  "isNatsEnabled cp \<Longrightarrow> needs L (stored (hub_statefulset L cp)) (reconcileNats L cp)"
  by (rule needs_deploy) (simp_all add: deploy_stores)

subsection \<open>The two certificates\<close>

abbreviation tracks :: "okey \<Rightarrow> bool \<Rightarrow> Reconciliation prog \<Rightarrow> bool" where
  "tracks k b p \<equiv> track k (\<lambda>b x. b \<or> op_IsFinal (lib_op L) x) b p"

lemma tracks_skip: "(\<And>b x. tracks k b (f x)) \<Longrightarrow> tracks k b (orFail L m f)"
  unfolding orFail_def orElseErr_def track_pbind by (rule track_any) (simp split: sum.split)

lemma tracks_bind: "(\<And>b x. tracks k b (f x)) \<Longrightarrow> tracks k b (pbind m f)"
  unfolding track_pbind by (rule track_any) simp

lemma tracks_certificates:
  assumes "k \<in> set (hub_certificates cp)"
  shows "tracks k b (deployNats L cp boot ms)"
proof -
  have keeps_ann: "keeps (podAnnotations L ns r f)" if "\<And>a. keeps (f a)" for ns r f
    using that by (simp add: podAnnotations_def Let_def split: sum.split)
  have maps: "keeps (natsConfigMaps L cp l bt a)" for l bt a
    by (auto simp: natsConfigMaps_def writeNatsConfigMap_def Let_def intro!: keeping split: sum.split)
  have certs: "keeps (EnsureNatsSecrets L (kget KSecret) (cp_Namespace cp) i h n a l)" for i h n a l
    by (auto simp: EnsureNatsSecrets_def find_secret_def ensure_ca_def ensure_server_def Let_def
        intro!: keeping split: option.split sum.split)
  show ?thesis
    unfolding deployNats_def Let_def
    by (rule tracks_skip, rule tracks_skip, rule tracks_skip, rule tracks_skip, rule tracks_skip,
        rule tracks_skip, rule until_track [OF needs_certificates [OF assms] keeps_saves])
      (auto intro!: keeping certs maps keeps_ann)
qed

lemma touches_removes: "touches cp UNIV c \<Longrightarrow> removes k c \<Longrightarrow> k \<in> set (hub_certificates cp)"
  by (cases "(k, c)" rule: removes.cases) (auto simp: hub_certificates_def)

lemma hub_saves: "k \<notin> set (hub_certificates cp) \<Longrightarrow> saves k (reconcileNats L cp)"
  by (rule every_call_mono [OF within_nats]) (auto dest: touches_removes)

lemma hub_tracks:
  assumes "isNatsEnabled cp" and "k \<in> set (hub_needs cp)"
  shows "tracks k b (reconcileNats L cp)"
proof (cases "k \<in> set (hub_certificates cp)")
  case True
  note deploy = tracks_certificates [OF True]
  have "tracks k b (bootstrapNats L cp c (\<lambda>boot. crash_or (newNatsMicroservice L (natsConfig L cp))
            (\<lambda>ms. deployNats L cp boot (natsOverrides cp ms))))" for b c
    unfolding bootstrapNats_def Let_def
    by (rule tracks_skip, rule tracks_skip, rule tracks_skip) (simp add: crash_or_def deploy split: sum.split)
  then show ?thesis
    unfolding reconcileNats_def with_client_def logged_in_def
    by (auto simp: assms(1) intro!: tracks_bind split: option.split sum.split)
next
  case False
  with assms show ?thesis
    by (intro until_track hub_shows hub_saves) (auto simp: hub_needs_def)
qed

end

end
