(* ===== verification/ControllerEvidence.thy ===== *)
theory ControllerEvidence
  imports HubEvidence
begin

text \<open>
  The evidence for the controller: its objects, the secrets of its credentials, the claim of its
  database and its ingress, and its deployment.
\<close>

definition controller_ms :: "Lib \<Rightarrow> ControlPlane \<Rightarrow> microservice" where
  "controller_ms L cp = newControllerMicroservice L (cp_Namespace cp) (controllerConfig cp)"

definition controller_needs :: "ControlPlane \<Rightarrow> okey list" where
  "controller_needs cp =
     [(KRole, cp_Namespace cp, ''controller''), (KRoleBinding, cp_Namespace cp, ''controller''),
      (KService, cp_Namespace cp, ''controller''),
      (KSecret, cp_Namespace cp, controllerDBCredentialsSecretName),
      (KSecret, cp_Namespace cp, controlllerAuthCredentialsSecretName)] @
     (if buildVaultCredentialsSecret (cp_Namespace cp) (getVaultIfConfigured (cp_Spec cp)) \<noteq> None
      then [(KSecret, cp_Namespace cp, controllerVaultCredentialsSecretName)] else []) @
     (if db_Host (spec_Database (cp_Spec cp)) = []
      then [(KPVC, cp_Namespace cp, ''controller-sqlite'')] else []) @
     (if equalFold (controllerServiceType cp) ''ClusterIP''
      then [(KIngress, cp_Namespace cp, ''pot-controller'')] else [])"

definition controller_deployment :: "Lib \<Rightarrow> ControlPlane \<Rightarrow> KObj" where
  "controller_deployment L cp = newDeployment (cp_Namespace cp) (cp_Name cp) (controller_ms L cp)"

lemma controller_ms:
  "ms_name (controller_ms L cp) = ''controller''"
  "ms_imagePullSecret (controller_ms L cp) = img_PullSecret (spec_Images (cp_Spec cp))"
  "s_name ` set (ms_services (controller_ms L cp)) = {''controller''}"
  "db_Host (spec_Database (cp_Spec cp)) = [] \<Longrightarrow>
     \<lparr>vol_Name = ''controller-sqlite'', vol_Source = PVCSource ''controller-sqlite'' False\<rparr>
       \<in> set (ms_volumes (controller_ms L cp))"
  "ms_secrets (controller_ms L cp) =
     buildControllerSecrets (cp_Namespace cp) (filterControllerConfig L (controllerConfig cp))"
  by (simp_all add: controller_ms_def newControllerMicroservice_def Let_def withTls_def withSqlite_def
      addEnv_def addMount_def addVolume_def first_container_def controllerBase_def controllerServices_def
      controllerConfig_def empty_microservice_def)

lemma vault_key:
  "buildVaultCredentialsSecret ns v = Some s \<Longrightarrow> okey s = (KSecret, ns, controllerVaultCredentialsSecretName)"
  by (auto simp: buildVaultCredentialsSecret_def opaqueSecret_def okey_def new_meta_def split: option.splits)

lemma controller_secret_keys:
  "okey ` set (buildControllerSecrets ns cfg) =
     {(KSecret, ns, controllerDBCredentialsSecretName), (KSecret, ns, controlllerAuthCredentialsSecretName)} \<union>
     (if buildVaultCredentialsSecret ns (cc_vault cfg) \<noteq> None
      then {(KSecret, ns, controllerVaultCredentialsSecretName)} else {})"
  by (cases "buildVaultCredentialsSecret ns (cc_vault cfg)")
    (auto simp: buildControllerSecrets_def opaqueSecret_def okey_def new_meta_def dest: vault_key [unfolded okey_def])

text \<open>The secrets keep their keys while the credentials are brought up to date.\<close>

definition same_keys :: "microservice \<Rightarrow> microservice \<Rightarrow> bool" where
  "same_keys ms ms2 \<longleftrightarrow> (\<exists>ss. ms2 = ms\<lparr>ms_secrets := ss\<rparr> \<and> map okey ss = map okey (ms_secrets ms))"

lemma same_keys_refl: "same_keys ms ms"
  by (auto simp: same_keys_def intro: exI [of _ "ms_secrets ms"])

lemma same_keys_trans: "same_keys a b \<Longrightarrow> same_keys b c \<Longrightarrow> same_keys a c"
  by (auto simp: same_keys_def)

context library
begin

lemma named_keys:
  "every honest (\<lambda>c. True) (\<lambda>r. case r of Inl e \<Rightarrow> True | Inr (b, ss2) \<Rightarrow> map okey ss2 = map okey ss)
     (reconcile_named L cp n ss)"
proof (induction ss)
  case (Cons s ss)
  have one: "every honest (\<lambda>c. True) (\<lambda>r. case r of Inl e \<Rightarrow> True | Inr (b, s2) \<Rightarrow> okey s2 = okey s)
      (reconcile_secret L cp s)"
    unfolding reconcile_secret_def by (rule with_owner_rule) (auto split: sum.split)
  show ?case
    by (auto intro!: every_tryE [where R = "\<lambda>(b, s2). okey s2 = okey s"]
        every_tryE [where R = "\<lambda>(b, ss2). map okey ss2 = map okey ss"]
        every_mono [OF one] every_mono [OF Cons.IH] split: sum.splits)
qed simp

lemma credentials_keys:
  "every honest (\<lambda>c. True) (\<lambda>r. case r of Inl e \<Rightarrow> True | Inr (b, ms2) \<Rightarrow> same_keys ms ms2)
     (reconcileDBCredentialsSecret L cp ms)"
  "every honest (\<lambda>c. True) (\<lambda>r. case r of Inl e \<Rightarrow> True | Inr (b, ms2) \<Rightarrow> same_keys ms ms2)
     (reconcileVaultCredentialsSecret L cp ms)"
  unfolding reconcileDBCredentialsSecret_def reconcileVaultCredentialsSecret_def
  by (rule every_tryE [where R = "\<lambda>(b, ss2). map okey ss2 = map okey (ms_secrets ms)"],
      rule every_mono [OF named_keys], auto simp: same_keys_def split: sum.splits)+

lemma needs_credentials:
  assumes "\<And>b c ms2. same_keys ms ms2 \<Longrightarrow> needs L E (f b c ms2)"
  shows "needs L E (orFail L (reconcileDBCredentialsSecret L cp ms) (\<lambda>(b, ms1).
     orFail L (reconcileVaultCredentialsSecret L cp ms1) (\<lambda>(c, ms2). f b c ms2)))"
proof (rule needs_skip_value [where R = "\<lambda>(b, ms2). same_keys ms ms2"])
  show "every honest (\<lambda>c. True) (\<lambda>r. case r of Inl e \<Rightarrow> True | Inr x \<Rightarrow> (case x of (b, ms2) \<Rightarrow> same_keys ms ms2))
      (reconcileDBCredentialsSecret L cp ms)"
    by (rule every_mono [OF credentials_keys(1)]) (auto split: sum.splits)
  fix x :: "bool \<times> microservice"
  assume x: "case x of (b, ms2) \<Rightarrow> same_keys ms ms2"
  obtain b ms1 where [simp]: "x = (b, ms1)" by (cases x)
  have "needs L E (orFail L (reconcileVaultCredentialsSecret L cp ms1) (\<lambda>(c, ms2). f b c ms2))"
  proof (rule needs_skip_value [where R = "\<lambda>(c, ms2). same_keys ms1 ms2"])
    show "every honest (\<lambda>c. True) (\<lambda>r. case r of Inl e \<Rightarrow> True | Inr x \<Rightarrow> (case x of (b, ms2) \<Rightarrow> same_keys ms1 ms2))
        (reconcileVaultCredentialsSecret L cp ms1)"
      by (rule every_mono [OF credentials_keys(2)]) (auto split: sum.splits)
  qed (use x in \<open>auto intro!: assms intro: same_keys_trans\<close>)
  then show "needs L E (case x of (b, ms1) \<Rightarrow>
      orFail L (reconcileVaultCredentialsSecret L cp ms1) (\<lambda>(c, ms2). f b c ms2))" by simp
qed

lemma claims_show:
  assumes "v \<in> set (ms_volumes ms)" and "is_pvc_volume v"
  shows "shows_up (present (KPVC, cp_Namespace cp, vol_Name v)) (createPersistentVolumeClaims L cp ms)"
proof -
  let ?f = "\<lambda>v. if \<not> is_pvc_volume v then Done (Inr ())
       else case lib_parseQuantity L ''1Gi'' of
         None \<Rightarrow> Done (Inl (new_error ''cannot parse quantity''))
       | Some storageSize \<Rightarrow> with_owner L cp (newPVC cp ms (vol_Name v) storageSize) create_if_missing"
  have one: "shows_up (present (KPVC, cp_Namespace cp, vol_Name v)) (?f v)"
  proof -
    have "shows_up (present (KPVC, cp_Namespace cp, vol_Name v))
        (with_owner L cp (newPVC cp ms (vol_Name v) q) create_if_missing)" for q
      using unguarded [OF missing.owned_present [of "newPVC cp ms (vol_Name v) q" KDeployment]]
      by (simp add: okey_def newPVC_def new_meta_def)
    then show ?thesis using assms(2) by (simp split: option.split)
  qed
  have "v \<in> set vs \<Longrightarrow> shows_up (present (KPVC, cp_Namespace cp, vol_Name v)) (for_each ?f vs)" for vs
  proof (induction vs)
    case (Cons w ws)
    show ?case
    proof (cases "w = v")
      case True
      show ?thesis unfolding True for_each.simps by (rule shows_up_tryE [OF one])
    next
      case False
      with Cons show ?thesis unfolding for_each.simps by (intro shows_up_later) simp
    qed
  qed simp
  from this [OF assms(1)] show ?thesis unfolding createPersistentVolumeClaims_def .
qed

lemma ingress_shows:
  "shows_up (present (KIngress, cp_Namespace cp, ''pot-controller'')) (createIngress L cp icfg)"
  using unguarded [OF overwriting.owned_present [of "newControllerIngress (cp_Namespace cp) (cp_Name cp) icfg" KDeployment]]
  by (simp add: createIngress_def okey_def newControllerIngress_def new_meta_def)

text \<open>From the credentials on, the microservice is the one it was but for its secrets.\<close>

lemma same_keys_fields:
  assumes "same_keys ms ms2"
  shows "ms_name ms2 = ms_name ms" "ms_services ms2 = ms_services ms" "ms_volumes ms2 = ms_volumes ms"
    "newDeployment ns i ms2 = newDeployment ns i ms"
  using assms by (auto simp: same_keys_def)

lemma key_kept:
  assumes "same_keys ms ms2" and "all_mine cp (ms_secrets ms)" and "k \<in> okey ` set (ms_secrets ms)"
  obtains s where "s \<in> set (ms_secrets ms2)" "okey s = k" "all_mine cp (ms_secrets ms2)"
proof -
  have "map okey (ms_secrets ms2) = map okey (ms_secrets ms)" using assms(1) by (auto simp: same_keys_def)
  then have set: "okey ` set (ms_secrets ms2) = okey ` set (ms_secrets ms)" by (metis list.set_map)
  from assms(2) have "\<forall>k \<in> okey ` set (ms_secrets ms). fst k = KSecret \<and> fst (snd k) = cp_Namespace cp"
    by (auto simp: list_all_iff mine_iff)
  then have "all_mine cp (ms_secrets ms2)" unfolding set [symmetric] by (simp add: list_all_iff mine_iff)
  moreover from assms(3) obtain s where "s \<in> set (ms_secrets ms2)" "okey s = k" unfolding set [symmetric] by blast
  ultimately show thesis using that by blast
qed

lemma objects_show:
  shows "needs L (present (KRole, cp_Namespace cp, ms_name ms)) (controllerObjects L cp ms f)"
    and "needs L (present (KRoleBinding, cp_Namespace cp, ms_name ms)) (controllerObjects L cp ms f)"
    and "ms_imagePullSecret ms = img_PullSecret (spec_Images (cp_Spec cp)) \<Longrightarrow>
      needs L (account_shown cp (ms_name ms)) (controllerObjects L cp ms f)"
    and "all_mine cp (ms_secrets ms) \<Longrightarrow> k \<in> okey ` set (ms_secrets ms) \<Longrightarrow>
      needs L (present k) (controllerObjects L cp ms f)"
    and "s \<in> set (ms_services ms) \<Longrightarrow>
      needs L (present (KService, cp_Namespace cp, s_name s)) (controllerObjects L cp ms f)"
    and "equalFold (controllerServiceType cp) ''ClusterIP'' \<Longrightarrow>
      needs L (present (KIngress, cp_Namespace cp, ''pot-controller'')) (controllerObjects L cp ms f)"
    and "v \<in> set (ms_volumes ms) \<Longrightarrow> is_pvc_volume v \<Longrightarrow>
      needs L (present (KPVC, cp_Namespace cp, vol_Name v)) (controllerObjects L cp ms f)"
    and "needs L (stored (same_workload (newDeployment (cp_Namespace cp) (cp_Name cp) ms))) (controllerObjects L cp ms f)"
proof -
  note operation = needs_here [OF unguarded]
  note skip = needs_skip
  let ?o = "controllerObjects L cp ms f"
  show "needs L (present (KRole, cp_Namespace cp, ms_name ms)) ?o"
    unfolding controllerObjects_def
    by (rule skip, rule operation [OF provides(1) [of KDeployment cp ms]]) simp
  show "needs L (present (KRoleBinding, cp_Namespace cp, ms_name ms)) ?o"
    unfolding controllerObjects_def
    by (rule skip, rule skip, rule operation [OF provides(2) [of KDeployment cp ms]]) simp
  show "needs L (account_shown cp (ms_name ms)) ?o"
    if "ms_imagePullSecret ms = img_PullSecret (spec_Images (cp_Spec cp))"
    unfolding controllerObjects_def
    by (rule operation [OF provides_account [of KDeployment ms cp]]) (simp_all add: that)
  show "needs L (present k) ?o" if "all_mine cp (ms_secrets ms)" "k \<in> okey ` set (ms_secrets ms)"
    unfolding controllerObjects_def
  proof (rule skip, rule skip, rule skip, rule needs_credentials)
    fix b c ms2 assume "same_keys ms ms2"
    from key_kept [OF this that] obtain s where s: "s \<in> set (ms_secrets ms2)" "okey s = k" "all_mine cp (ms_secrets ms2)" .
    show "needs L (present k) (orFail L (createSecrets L cp ms2) g)" for g
      using needs_secret [OF s(1,3), of g] s(2) by simp
  qed
  show "needs L (present (KService, cp_Namespace cp, s_name s)) ?o" if "s \<in> set (ms_services ms)"
    unfolding controllerObjects_def
  proof (rule skip, rule skip, rule skip, rule needs_credentials, rule skip)
    fix b c ms2 assume "same_keys ms ms2"
    then show "needs L (present (KService, cp_Namespace cp, s_name s)) (orFail L (createService L cp ms2) g)" for g
      using operation [OF provides_service [of s ms2 KDeployment cp], of g] that by (simp add: same_keys_fields)
  qed
  show "needs L (present (KIngress, cp_Namespace cp, ''pot-controller'')) ?o"
    if "equalFold (controllerServiceType cp) ''ClusterIP''"
    unfolding controllerObjects_def
    by (rule skip, rule skip, rule skip, rule needs_credentials, rule skip, rule skip)
      (simp only: that if_True needs_here [OF ingress_shows])
  show "needs L (present (KPVC, cp_Namespace cp, vol_Name v)) ?o" if "v \<in> set (ms_volumes ms)" "is_pvc_volume v"
    unfolding controllerObjects_def
  proof (rule skip, rule skip, rule skip, rule needs_credentials, rule skip, rule skip, rule skip)
    fix b c ms2 assume "same_keys ms ms2"
    with that show "needs L (present (KPVC, cp_Namespace cp, vol_Name v)) (orFail L (createPersistentVolumeClaims L cp ms2) g)" for g
      by (intro needs_here claims_show) (simp_all add: same_keys_fields)
  qed
  show "needs L (stored (same_workload (newDeployment (cp_Namespace cp) (cp_Name cp) ms))) ?o"
    unfolding controllerObjects_def
  proof (rule skip, rule skip, rule skip, rule needs_credentials, rule skip, rule skip, rule skip, rule skip, rule skip)
    fix b c ms2 assume "same_keys ms ms2"
    from workload_stored [of "newDeployment (cp_Namespace cp) (cp_Name cp) ms2" cp, folded createDeployment_def,
        unfolded same_keys_fields(4) [OF this]]
    show "needs L (stored (same_workload (newDeployment (cp_Namespace cp) (cp_Name cp) ms)))
        (orFail L (createDeployment L cp ms2) g)" for g by (rule needs_here)
  qed
qed

lemma controller_shows:
  "list_all (\<lambda>k. needs L (present k) (reconcileIofogController L cp)) (controller_needs cp)"
  "needs L (account_shown cp ''controller'') (reconcileIofogController L cp)"
proof -
  let ?ms = "controller_ms L cp" and ?ns = "cp_Namespace cp"
  note ms = controller_ms [where L = L and cp = cp]
  define rest where "rest = (\<lambda>shouldRestartPods alreadyExists.
    if \<not> alreadyExists then Done (op_ReconcileWithRequeue (lib_op L) 5)
    else registerController L cp ?ms shouldRestartPods)"
  have routine: "reconcileIofogController L cp = controllerObjects L cp ?ms rest"
    unfolding reconcileIofogController_def rest_def controller_ms_def Let_def ..
  note objects = objects_show [where cp = cp and ms = ?ms and f = rest, folded routine, unfolded ms(1)]
  have "\<forall>k \<in> okey ` set (ms_secrets ?ms). fst k = KSecret \<and> fst (snd k) = ?ns"
    unfolding ms(5) controller_secret_keys by (simp split: if_split)
  then have mine: "all_mine cp (ms_secrets ?ms)" unfolding list_all_iff mine_iff by simp
  have secret: "needs L (present (KSecret, ?ns, n)) (reconcileIofogController L cp)"
    if "(KSecret, ?ns, n) \<in> okey ` set (ms_secrets ?ms)" for n
    by (rule objects(4) [OF mine that])
  have service: "needs L (present (KService, ?ns, ''controller'')) (reconcileIofogController L cp)"
  proof -
    have "''controller'' \<in> s_name ` set (ms_services ?ms)" unfolding ms(3) by (rule singletonI)
    then obtain s where "s \<in> set (ms_services ?ms)" "''controller'' = s_name s" by (rule imageE)
    from objects(5) [OF this(1), folded this(2)] show ?thesis .
  qed
  have claim: "needs L (present (KPVC, ?ns, ''controller-sqlite'')) (reconcileIofogController L cp)"
    if "db_Host (spec_Database (cp_Spec cp)) = []"
    using objects(7) [OF ms(4) [OF that]] by (simp add: is_pvc_volume_def)
  have vault: "cc_vault (filterControllerConfig L (controllerConfig cp)) = getVaultIfConfigured (cp_Spec cp)"
    by (simp add: controllerConfig_def Let_def)
  note keys = controller_secret_keys [of ?ns "filterControllerConfig L (controllerConfig cp)", folded ms(5), unfolded vault]
  show "list_all (\<lambda>k. needs L (present k) (reconcileIofogController L cp)) (controller_needs cp)"
    unfolding controller_needs_def
    by (simp add: objects(1,2,6) service claim secret keys)
  show "needs L (account_shown cp ''controller'') (reconcileIofogController L cp)"
    using objects(3) ms(2) by simp
qed

lemma controller_stores:
  "needs L (stored (same_workload (controller_deployment L cp))) (reconcileIofogController L cp)"
  unfolding reconcileIofogController_def Let_def controller_deployment_def controller_ms_def
  by (rule objects_show(8))

end

end
