(* ===== verification/Deployed.thy ===== *)
theory Deployed
  imports ControllerEvidence Readiness
begin

text \<open>
  What it means that a ControlPlane is ready: the objects its workloads need and the workloads
  themselves are in the cluster then, with any steps of others in between, unless others have
  deleted them; the service accounts may be missing where the pull secret is of another type.
\<close>

subsection \<open>What is deployed\<close>

definition workloads :: "ControlPlane \<Rightarrow> okey list" where
  "workloads cp =
     [(KDeployment, cp_Namespace cp, ''router''), (KDeployment, cp_Namespace cp, ''controller'')] @
     (if isNatsEnabled cp then [(KStatefulSet, cp_Namespace cp, ''nats'')] else [])"

text \<open>The accounts the workloads run under.\<close>

definition deployed_accounts :: "ControlPlane \<Rightarrow> okey list" where
  "deployed_accounts cp = map (\<lambda>n. (KServiceAccount, cp_Namespace cp, n))
     ([''router'', ''controller''] @ (if isNatsEnabled cp then [''nats''] else []))"

definition deployed_objects :: "ControlPlane \<Rightarrow> okey list" where
  "deployed_objects cp = router_needs cp @ hub_needs cp @ controller_needs cp @ workloads cp"

definition happened :: "evidence \<Rightarrow> event list \<Rightarrow> bool" where
  "happened E tr \<longleftrightarrow> list_ex (\<lambda>(c, r). E c r) tr"

text \<open>The workloads of the present spec, as they were sent and stored.\<close>

definition workloads_stored :: "Lib \<Rightarrow> ControlPlane \<Rightarrow> event list \<Rightarrow> bool" where
  "workloads_stored L cp tr \<longleftrightarrow>
     happened (stored (same_workload (router_deployment L cp))) tr \<and>
     (isNatsEnabled cp \<longrightarrow> happened (stored (hub_statefulset L cp)) tr) \<and>
     happened (stored (same_workload (controller_deployment L cp))) tr"

lemma stored_present:
  "stored P c r \<Longrightarrow> (\<And>o1. P o1 \<Longrightarrow> okey o1 = k) \<Longrightarrow> present k c r"
  by (cases "(P, c, r)" rule: stored.cases) auto

lemma workload_keys:
  "same_workload (router_deployment L cp) o1 \<Longrightarrow> okey o1 = (KDeployment, cp_Namespace cp, ''router'')"
  "same_workload (controller_deployment L cp) o1 \<Longrightarrow> okey o1 = (KDeployment, cp_Namespace cp, ''controller'')"
  "hub_statefulset L cp o1 \<Longrightarrow> okey o1 = (KStatefulSet, cp_Namespace cp, ''nats'')"
  using router_ms(1) [of L cp] controller_ms(1) [of L cp]
  by (auto simp: same_workload_def router_deployment_def controller_deployment_def hub_statefulset_def
      newDeployment_def newStatefulSet_def okey_def new_meta_def Let_def nats_ms(1))

subsection \<open>Each routine\<close>

context library
begin

lemma router_all:
  "list_all (\<lambda>k. tracks k b (reconcileRouter L cp)) (router_needs cp @ [(KDeployment, cp_Namespace cp, ''router'')])"
proof -
  have "needs L (present (KDeployment, cp_Namespace cp, ''router'')) (reconcileRouter L cp)"
    by (rule until_weaken [OF router_stores]) (auto elim: stored_present dest: workload_keys)
  then show ?thesis
    using router_shows(1) [of cp] by (auto simp: list_all_iff intro: until_track keeps_saves keeps_router)
qed

lemma controller_all:
  "list_all (\<lambda>k. tracks k b (reconcileIofogController L cp))
     (controller_needs cp @ [(KDeployment, cp_Namespace cp, ''controller'')])"
proof -
  have "needs L (present (KDeployment, cp_Namespace cp, ''controller'')) (reconcileIofogController L cp)"
    by (rule until_weaken [OF controller_stores]) (auto elim: stored_present dest: workload_keys)
  then show ?thesis
    using controller_shows(1) [of cp] by (auto simp: list_all_iff intro: until_track keeps_saves keeps_controller)
qed

lemma hub_all:
  assumes "isNatsEnabled cp"
  shows "list_all (\<lambda>k. tracks k b (reconcileNats L cp)) (hub_needs cp @ [(KStatefulSet, cp_Namespace cp, ''nats'')])"
proof -
  have "needs L (present (KStatefulSet, cp_Namespace cp, ''nats'')) (reconcileNats L cp)"
    by (rule until_weaken [OF hub_stores [OF assms]]) (auto elim: stored_present dest: workload_keys)
  moreover have "saves (KStatefulSet, cp_Namespace cp, ''nats'') (reconcileNats L cp)"
    by (rule hub_saves) (simp add: hub_certificates_def)
  ultimately show ?thesis
    using hub_tracks [OF assms] by (auto simp: list_all_iff intro: until_track)
qed

text \<open>What one of the routines knows at its end is not taken away by the two others.\<close>

lemma others_keep:
  assumes "runs (reconcileRouter L cp) (proj 0 tr) (Returned x)"
    and "runs (reconcileNats L cp) (proj 1 tr) (Returned y)"
    and "runs (reconcileIofogController L cp) (proj 2 tr) (Returned z)"
    and "\<forall>(i, e) \<in> set tr. i < 3" and "\<forall>(i, c, r) \<in> set tr. honest c r"
    and "(j, c, r) \<in> set tr" and "removes k c"
  shows "j = 1 \<and> k \<in> set (hub_certificates cp)"
proof -
  have mine: "e \<in> set (proj i tr) \<longleftrightarrow> (i, e) \<in> set tr" for i e
    by (force simp: proj_def)
  have honest: "\<forall>(c, r) \<in> set (proj i tr). honest c r" for i using assms(5) by (auto simp: mine)
  have call: "(c, r) \<in> set (proj j tr)" using assms(6) by (simp add: mine)
  have "\<not> removes k c" if "j = 0"
    using every_runs [OF assms(1) keeps_saves [OF keeps_router] honest] call that by fastforce
  moreover have "\<not> removes k c" if "j = 2"
    using every_runs [OF assms(3) keeps_saves [OF keeps_controller] honest] call that by fastforce
  moreover have "k \<in> set (hub_certificates cp)" if "j = 1"
  proof -
    have "touches cp UNIV c" using every_runs [OF assms(2) within_nats honest] call that by fastforce
    then show ?thesis using assms(7) by (rule touches_removes)
  qed
  moreover have "j < 3" using assms(4,6) by auto
  ultimately show ?thesis using assms(7) by (cases "j = 0"; cases "j = 1"; cases "j = 2") auto
qed

end

lemma not_certificate:
  "k \<in> set (router_needs cp @ controller_needs cp @ workloads cp) \<Longrightarrow> k \<notin> set (hub_certificates cp)"
proof -
  have "list_all (\<lambda>k. k \<notin> set (hub_certificates cp)) (router_needs cp @ controller_needs cp @ workloads cp)"
    by (simp add: router_needs_def controller_needs_def workloads_def hub_certificates_def
        SiteServerSecret_def LocalServerSecret_def NatsSiteServerSecret_def NatsMqttServerSecret_def
        controllerDBCredentialsSecretName_def controlllerAuthCredentialsSecretName_def
        controllerVaultCredentialsSecretName_def)
  then show "k \<in> set (router_needs cp @ controller_needs cp @ workloads cp) \<Longrightarrow> k \<notin> set (hub_certificates cp)"
    unfolding list_all_iff by blast
qed

lemma pool_run_indices:
  "pool_run s0 tr s \<Longrightarrow> (\<forall>(i, e) \<in> set tr. i < length (pl_routines s0)) \<and> length (pl_routines s) = length (pl_routines s0)"
proof (induction rule: pool_run.induct)
  case (move s tr s' l s'')
  from move.hyps(2) have "(\<forall>(i, e) \<in> set l. i < length (pl_routines s')) \<and> length (pl_routines s'') = length (pl_routines s')"
    by (cases rule: pool_step.cases) auto
  with move.IH show ?case by auto
qed simp

text \<open>The start and the end delete nothing, and the start reads the ControlPlane asked for.\<close>

lemma keeps_start: "keeps (startReconcile L cp0 namespace n)"
  by (auto simp: startReconcile_def getReconcileFunc_def reconcileReady_def update_status_def
      intro!: keeping split: sum.split)

lemma keeps_finish: "keeps (finishReconcile L f cp recons)"
  by (auto simp: finishReconcile_def finishUpdating_def finishDeploying_def setReady_def update_status_def
      update_cp_def Let_def intro!: keeping split: sum.split)

lemma start_reads:
  "every honest (\<lambda>c. True) (\<lambda>x. case x of Answer a \<Rightarrow> True | Fork f cp \<Rightarrow> cp_Namespace cp = namespace \<and> cp_Name cp = n)
     (startReconcile L cp0 namespace n)"
proof -
  have "okey o1 = (KControlPlane, namespace, n) \<Longrightarrow>
      cp_Namespace (decode_cp o1 old) = namespace \<and> cp_Name (decode_cp o1 old) = n" for o1 old
    by (auto simp: decode_cp_def okey_def split: Payload.split)
  moreover have "cp_Meta (SetConditionDeploying ssc now cp) = cp_Meta cp" for ssc now cp
    by (simp add: SetConditionDeploying_def setCondition_def)
  ultimately show ?thesis
    by (auto simp: startReconcile_def getReconcileFunc_def reconcileReady_def update_status_def tryE_def
        split: sum.split)
qed

subsection \<open>Ready means deployed\<close>

lemma happened_until:
  assumes "runs m tr (Returned x)" and "until honest E (\<lambda>c. False) Q m" and "\<forall>(c, r) \<in> set tr. honest c r"
    and "\<not> Q x"
  shows "happened E tr"
  using until_success [OF assms(1,2,3)] assms(4) by (auto simp: happened_def list_ex_iff)

lemma happened_proj: "happened E (proj i tr) \<Longrightarrow> happened E (map snd tr)"
  by (force simp: happened_def list_ex_iff proj_def)

text \<open>One object that one of the routines has made sure of.\<close>

lemma known_at_end:
  assumes "runs p (proj i tr) (Returned x)" and "track k (\<lambda>b x. b \<or> Q x) False p" and "\<not> Q x"
    and "history K st (map snd tr) st'" and "well_keyed st" and "k \<in> K"
    and "\<forall>(i, c, r) \<in> set tr. honest c r" and "\<And>j c r. (j, c, r) \<in> set tr \<Longrightarrow> j \<noteq> i \<Longrightarrow> \<not> removes k c"
  shows "st' k \<noteq> None"
proof (rule known_in_store [OF assms(4-6)])
  have "\<forall>(c, r) \<in> set (proj i tr). honest c r" using assms(7) by (auto simp: proj_def)
  from track_runs [OF assms(1,2) this] assms(3) show "known_after k False (proj i tr)" by simp
qed (use assms(8) in auto)

lemma routines_deploy:
  assumes "library L" and runs: "runs (reconcileRouter L cp) (proj 0 tr) (Returned x)"
      "runs (reconcileNats L cp) (proj 1 tr) (Returned y)"
      "runs (reconcileIofogController L cp) (proj 2 tr) (Returned z)"
    and ends: "\<not> op_IsFinal (lib_op L) x" "\<not> op_IsFinal (lib_op L) y" "\<not> op_IsFinal (lib_op L) z"
    and indices: "\<forall>(i, e) \<in> set tr. i < 3" and honest: "\<forall>(i, c, r) \<in> set tr. honest c r"
    and hist: "history K st (map snd tr) st'" "well_keyed st"
    and k: "k \<in> K" "k \<in> set (deployed_objects cp)"
  shows "st' k \<noteq> None"
proof -
  note others = library.others_keep [OF assms(1) runs indices honest]
  note at_end = known_at_end [where Q = "op_IsFinal (lib_op L)", OF _ _ _ hist k(1) honest]
  consider (r) "k \<in> set (router_needs cp @ [(KDeployment, cp_Namespace cp, ''router'')])"
    | (c) "k \<in> set (controller_needs cp @ [(KDeployment, cp_Namespace cp, ''controller'')])"
    | (n) "isNatsEnabled cp" "k \<in> set (hub_needs cp @ [(KStatefulSet, cp_Namespace cp, ''nats'')])"
    using k(2) by (auto simp: deployed_objects_def workloads_def hub_needs_def split: if_splits)
  then show ?thesis
  proof cases
    case r
    have "track k (\<lambda>b x. b \<or> op_IsFinal (lib_op L) x) False (reconcileRouter L cp)"
      using library.router_all [OF assms(1), of False cp] r unfolding list_all_iff by blast
    moreover have "k \<notin> set (hub_certificates cp)" by (rule not_certificate) (use r in \<open>auto simp: workloads_def\<close>)
    ultimately show ?thesis using ends(1) others by (intro at_end [OF runs(1)]) blast+
  next
    case c
    have "track k (\<lambda>b x. b \<or> op_IsFinal (lib_op L) x) False (reconcileIofogController L cp)"
      using library.controller_all [OF assms(1), of False cp] c unfolding list_all_iff by blast
    moreover have "k \<notin> set (hub_certificates cp)" by (rule not_certificate) (use c in \<open>auto simp: workloads_def\<close>)
    ultimately show ?thesis using ends(3) others by (intro at_end [OF runs(3)]) blast+
  next
    case n
    have "track k (\<lambda>b x. b \<or> op_IsFinal (lib_op L) x) False (reconcileNats L cp)"
      using library.hub_all [OF assms(1) n(1), of False] n(2) unfolding list_all_iff by blast
    then show ?thesis using ends(2) others by (intro at_end [OF runs(2)]) blast+
  qed
qed

text \<open>An object that was seen and that nobody deletes.\<close>

lemma seen_known:
  "b \<or> (\<exists>(c, r) \<in> set tr. present k c r) \<Longrightarrow> \<forall>(c, r) \<in> set tr. \<not> removes k c \<Longrightarrow> known_after k b tr"
proof (induction tr arbitrary: b)
  case (Cons e tr)
  obtain c r where e: "e = (c, r)" by (cases e)
  have "learn k c r b \<or> (\<exists>(c, r) \<in> set tr. present k c r)"
    using Cons.prems e by (auto simp: learn_def)
  from Cons.IH [OF this] Cons.prems(2) e show ?case by simp
qed simp

lemma account_at_end:
  assumes "runs p (proj i tr) (Returned x)" and "needs L (account_shown cp n) p" and "\<not> op_IsFinal (lib_op L) x"
    and "history K st (map snd tr) st'" and "well_keyed st" and "(KServiceAccount, cp_Namespace cp, n) \<in> K"
    and "\<forall>(i, c, r) \<in> set tr. honest c r"
    and "\<And>j c r. (j, c, r) \<in> set tr \<Longrightarrow> \<not> removes (KServiceAccount, cp_Namespace cp, n) c"
  shows "st' (KServiceAccount, cp_Namespace cp, n) \<noteq> None \<or> happened (other_pull_secret cp) (map snd tr)"
proof -
  let ?k = "(KServiceAccount, cp_Namespace cp, n)"
  have mine: "e \<in> set (proj i tr) \<Longrightarrow> (i, e) \<in> set tr" for e by (force simp: proj_def)
  then have "\<forall>(c, r) \<in> set (proj i tr). honest c r" using assms(7) by blast
  from happened_until [OF assms(1,2) this] assms(3) have "happened (account_shown cp n) (proj i tr)" by blast
  then obtain c r where c: "(c, r) \<in> set (proj i tr)" "present ?k c r \<or> other_pull_secret cp c r"
    by (auto simp: happened_def list_ex_iff account_shown_def)
  then consider (seen) "present ?k c r" | (other) "other_pull_secret cp c r" by blast
  then show ?thesis
  proof cases
    case seen
    then have "known_after ?k False (proj i tr)" using c(1) assms(8) mine by (intro seen_known) blast+
    then have "st' ?k \<noteq> None"
      using assms(8) by (intro known_in_store [OF assms(4-6), where i = i and b = False]) auto
    then show ?thesis by blast
  next
    case other
    then have "happened (other_pull_secret cp) (proj i tr)" using c(1) by (auto simp: happened_def list_ex_iff)
    then show ?thesis using happened_proj by blast
  qed
qed

lemma routines_accounts:
  assumes "library L" and runs: "runs (reconcileRouter L cp) (proj 0 tr) (Returned x)"
      "runs (reconcileNats L cp) (proj 1 tr) (Returned y)"
      "runs (reconcileIofogController L cp) (proj 2 tr) (Returned z)"
    and ends: "\<not> op_IsFinal (lib_op L) x" "\<not> op_IsFinal (lib_op L) y" "\<not> op_IsFinal (lib_op L) z"
    and indices: "\<forall>(i, e) \<in> set tr. i < 3" and honest: "\<forall>(i, c, r) \<in> set tr. honest c r"
    and hist: "history K st (map snd tr) st'" "well_keyed st"
    and k: "k \<in> K" "k \<in> set (deployed_accounts cp)"
  shows "st' k \<noteq> None \<or> happened (other_pull_secret cp) (map snd tr)"
proof -
  have kept: "\<not> removes (KServiceAccount, cp_Namespace cp, n) c" if "(j, c, r) \<in> set tr" for j c r n
    using library.others_keep [OF assms(1) runs indices honest that] by (auto simp: hub_certificates_def)
  note at_end = account_at_end [OF _ _ _ hist _ honest kept]
  from k(2) consider "k = (KServiceAccount, cp_Namespace cp, ''router'')"
    | "k = (KServiceAccount, cp_Namespace cp, ''controller'')"
    | "isNatsEnabled cp" "k = (KServiceAccount, cp_Namespace cp, ''nats'')"
    by (auto simp: deployed_accounts_def split: if_splits)
  then show ?thesis
    using at_end [OF runs(1) library.router_shows(2) [OF assms(1)] ends(1)]
      at_end [OF runs(2) library.hub_account [OF assms(1)] ends(2)]
      at_end [OF runs(3) library.controller_shows(2) [OF assms(1)] ends(3)] k(1)
    by cases auto
qed

lemma routines_store:
  assumes "library L" and runs: "runs (reconcileRouter L cp) (proj 0 tr) (Returned x)"
      "runs (reconcileNats L cp) (proj 1 tr) (Returned y)"
      "runs (reconcileIofogController L cp) (proj 2 tr) (Returned z)"
    and ends: "\<not> op_IsFinal (lib_op L) x" "\<not> op_IsFinal (lib_op L) y" "\<not> op_IsFinal (lib_op L) z"
    and honest: "\<forall>(i, c, r) \<in> set tr. honest c r"
  shows "workloads_stored L cp (map snd tr)"
proof -
  have "\<forall>(c, r) \<in> set (proj i tr). honest c r" for i using honest by (auto simp: proj_def)
  note store = happened_proj [OF happened_until [OF _ _ this]]
  show ?thesis
    unfolding workloads_stored_def
    using ends store [OF runs(1) library.router_stores [OF assms(1)]]
      store [OF runs(2) library.hub_stores [OF assms(1)]]
      store [OF runs(3) library.controller_stores [OF assms(1)]] by simp
qed


subsection \<open>An example\<close>

text \<open>A cluster in which everything but the config maps is kept by others is one history.\<close>

lemma settled_step:
  assumes "settled c r" and "well_keyed st"
  shows "\<exists>st1 st2. well_keyed st1 \<and> (\<forall>k \<in> {k. fst k \<noteq> KConfigMap}. st k \<noteq> None \<longrightarrow> st1 k \<noteq> None) \<and>
           answers st1 c r st2 \<and> well_keyed st2"
proof -
  let ?P = "\<lambda>st1 st2. well_keyed st1 \<and> (\<forall>k. fst k \<noteq> KConfigMap \<longrightarrow> st k \<noteq> None \<longrightarrow> st1 k \<noteq> None) \<and> answers st1 c r st2"
  have update: "?P (st(okey o1 \<mapsto> o1)) (st(okey o1 \<mapsto> o2))"
    if "c = CWrite (WUpdate o1) \<or> c = CWrite (WStatusUpdate o1)" "r = RObj (Inr o2)" "okey o2 = okey o1" for o1 o2
    using that assms(2) by (auto simp: well_keyed_def)
  have "\<exists>st1 st2. well_keyed st1 \<and> (\<forall>k. fst k \<noteq> KConfigMap \<longrightarrow> st k \<noteq> None \<longrightarrow> st1 k \<noteq> None) \<and> answers st1 c r st2"
    using assms
  proof (cases "(c, r)" rule: settled.cases)
    case (1 k o1)
    then have "?P (st(k \<mapsto> o1)) (st(k \<mapsto> o1))" using assms by (auto simp: well_keyed_def)
    then show ?thesis by blast
  next
    case (2 k e)
    then have "?P (st(k := None)) (st(k := None))" using assms by (auto simp: well_keyed_def)
    then show ?thesis by blast
  next
    case (3 o1 o2)
    then have "?P (st(okey o1 := None)) (st(okey o1 \<mapsto> o2))" using assms by (auto simp: well_keyed_def) (metis fst_conv)
    then show ?thesis by blast
  next
    case (4 o1 e)
    then have "?P (st(okey o1 \<mapsto> o1)) (st(okey o1 \<mapsto> o1))" using assms by (auto simp: well_keyed_def)
    then show ?thesis by blast
  next
    case (6 o1 o2)
    then show ?thesis using update [of o1 o2] assms by auto
  next
    case (8 o1 o2)
    then show ?thesis using update [of o1 o2] assms by auto
  qed (use assms in \<open>auto intro!: exI [of _ st]\<close>)
  then show ?thesis using answers_well_keyed by blast
qed

lemma settled_history:
  "answered_as settled tr \<Longrightarrow> well_keyed st \<Longrightarrow> \<exists>st'. history {k. fst k \<noteq> KConfigMap} st tr st'"
proof (induction tr arbitrary: st)
  case Nil
  show ?case by (rule exI) (rule history.quiet)
next
  case (Cons e tr)
  obtain c r where e: "e = (c, r)" by (cases e)
  with Cons.prems(1) have "settled c r" by simp
  from settled_step [OF this Cons.prems(2)] obtain st1 st2 where step: "well_keyed st1" "answers st1 c r st2"
    "well_keyed st2" "\<forall>k \<in> {k. fst k \<noteq> KConfigMap}. st k \<noteq> None \<longrightarrow> st1 k \<noteq> None" by blast
  from Cons.prems(1) e have "answered_as settled tr" by simp
  from Cons.IH [OF this step(3)] obtain st' where "history {k. fst k \<noteq> KConfigMap} st2 tr st'" ..
  from history.other [OF step(1,4) history.event [OF step(2) this]] e show ?case by blast
qed


end
