(* ===== verification/Credentials.thy ===== *)
theory Credentials
  imports Deployed
begin

text \<open>
  The credentials the controller runs with, and the update of its viewer's client in Keycloak.
\<close>

subsection \<open>The secrets of the controller\<close>

text \<open>What bringing a named secret up to date does to the list of them.\<close>

definition others_same :: "string \<Rightarrow> KObj list \<Rightarrow> KObj list \<Rightarrow> bool" where
  "others_same n ss ss2 \<longleftrightarrow>
     list_all2 (\<lambda>s s2. okey s2 = okey s \<and> (m_name (o_Meta s) \<noteq> n \<longrightarrow> s2 = s)) ss ss2"

lemma others_same_Cons [simp]:
  "others_same n (s # ss) (s2 # ss2) \<longleftrightarrow>
     okey s2 = okey s \<and> (m_name (o_Meta s) \<noteq> n \<longrightarrow> s2 = s) \<and> others_same n ss ss2"
  by (simp add: others_same_def)

lemma others_same_refl [simp]: "others_same n ss ss"
  by (simp add: others_same_def list_all2_refl)

lemma okey_name: "okey o2 = okey o1 \<Longrightarrow> m_name (o_Meta o2) = m_name (o_Meta o1)"
  by (simp add: okey_def)

context library
begin

lemma secret_stored: "shows_up (stored (same_workload s)) (reconcile_secret L cp s)"
proof -
  have "same_workload s o2" if "setOwner L cp (relabel l s) = Inr o2" for l o2
    using setOwner_Inr [OF that] by (simp add: same_workload_def relabel_def okey_def)
  then show ?thesis
    unfolding reconcile_secret_def with_owner_def by (auto split: sum.split)
qed

lemma named_stored:
  "s \<in> set ss \<Longrightarrow> m_name (o_Meta s) = n \<Longrightarrow> distinct (map (\<lambda>s. m_name (o_Meta s)) ss) \<Longrightarrow>
   shows_up (stored (same_workload s)) (reconcile_named L cp n ss)"
proof (induction ss)
  case (Cons s1 ss)
  show ?case
  proof (cases "m_name (o_Meta s1) = n")
    case True
    with Cons.prems have "s1 = s" by force
    with True show ?thesis by (simp add: shows_up_tryE [OF secret_stored])
  next
    case False
    with Cons have "shows_up (stored (same_workload s)) (reconcile_named L cp n ss)" by auto
    with False show ?thesis by (simp add: shows_up_tryE)
  qed
qed simp

lemma named_others:
  "every honest (\<lambda>c. True) (\<lambda>r. case r of Inl e \<Rightarrow> True | Inr (b, ss2) \<Rightarrow> others_same n ss ss2)
     (reconcile_named L cp n ss)"
proof (induction ss)
  case (Cons s ss)
  have one: "every honest (\<lambda>c. True) (\<lambda>r. case r of Inl e \<Rightarrow> True | Inr (b, s2) \<Rightarrow> okey s2 = okey s)
      (reconcile_secret L cp s)"
    unfolding reconcile_secret_def by (rule with_owner_rule) (auto split: sum.split)
  show ?case
    by (auto intro!: every_tryE [where R = "\<lambda>(b, s2). okey s2 = okey s"]
        every_tryE [where R = "\<lambda>(b, ss2). others_same n ss ss2"]
        every_mono [OF one] every_mono [OF Cons.IH] split: sum.splits)
qed simp

lemma needs_db:
  assumes "s \<in> set (ms_secrets ms)" and "m_name (o_Meta s) = controllerDBCredentialsSecretName"
    and "distinct (map (\<lambda>s. m_name (o_Meta s)) (ms_secrets ms))"
  shows "needs L (stored (same_workload s)) (orFail L (reconcileDBCredentialsSecret L cp ms) f)"
  unfolding reconcileDBCredentialsSecret_def
  by (rule needs_here [OF shows_up_tryE [OF named_stored [OF assms]]])

lemma needs_vault:
  assumes "s \<in> set (ms_secrets ms)" and "m_name (o_Meta s) = controllerVaultCredentialsSecretName"
    and "distinct (map (\<lambda>s. m_name (o_Meta s)) (ms_secrets ms))"
  shows "needs L (stored (same_workload s)) (orFail L (reconcileDBCredentialsSecret L cp ms) (\<lambda>(b, ms1).
     orFail L (reconcileVaultCredentialsSecret L cp ms1) (f b)))"
proof (rule needs_skip_value [where R = "\<lambda>(b, ms1). others_same controllerDBCredentialsSecretName (ms_secrets ms) (ms_secrets ms1)"])
  show "every honest (\<lambda>c. True) (\<lambda>r. case r of Inl e \<Rightarrow> True | Inr x \<Rightarrow>
      (case x of (b, ms1) \<Rightarrow> others_same controllerDBCredentialsSecretName (ms_secrets ms) (ms_secrets ms1)))
      (reconcileDBCredentialsSecret L cp ms)"
    unfolding reconcileDBCredentialsSecret_def
    by (rule every_tryE [where R = "\<lambda>(b, ss). others_same controllerDBCredentialsSecretName (ms_secrets ms) ss"],
        rule every_mono [OF named_others]) (auto split: sum.splits)
  fix x :: "bool \<times> microservice"
  assume x: "case x of (b, ms1) \<Rightarrow> others_same controllerDBCredentialsSecretName (ms_secrets ms) (ms_secrets ms1)"
  obtain b ms1 where [simp]: "x = (b, ms1)" by (cases x)
  from x have same: "list_all2 (\<lambda>s s2. okey s2 = okey s \<and> (m_name (o_Meta s) \<noteq> controllerDBCredentialsSecretName \<longrightarrow> s2 = s))
      (ms_secrets ms) (ms_secrets ms1)" by (simp add: others_same_def)
  have "map (\<lambda>s. m_name (o_Meta s)) (ms_secrets ms1) = map (\<lambda>s. m_name (o_Meta s)) (ms_secrets ms)"
    using same by (induction rule: list_all2_induct) (auto dest: okey_name)
  moreover have "s \<in> set (ms_secrets ms1)"
    using same assms(1,2)
    by (induction rule: list_all2_induct)
      (auto simp: controllerVaultCredentialsSecretName_def controllerDBCredentialsSecretName_def)
  ultimately have "needs L (stored (same_workload s)) (orFail L (reconcileVaultCredentialsSecret L cp ms1) (f b))"
    unfolding reconcileVaultCredentialsSecret_def
    by (intro needs_here shows_up_tryE named_stored) (simp_all add: assms)
  then show "needs L (stored (same_workload s)) (case x of (b, ms1) \<Rightarrow>
      orFail L (reconcileVaultCredentialsSecret L cp ms1) (f b))" by simp
qed

lemma controller_credentials:
  assumes "s \<in> set (buildControllerSecrets (cp_Namespace cp) (filterControllerConfig L (controllerConfig cp)))"
    and "m_name (o_Meta s) \<in> {controllerDBCredentialsSecretName, controllerVaultCredentialsSecretName}"
  shows "needs L (stored (same_workload s)) (reconcileIofogController L cp)"
proof -
  let ?ms = "newControllerMicroservice L (cp_Namespace cp) (controllerConfig cp)"
  have secrets: "ms_secrets ?ms = buildControllerSecrets (cp_Namespace cp) (filterControllerConfig L (controllerConfig cp))"
    using controller_ms(5) [of L cp] by (simp add: controller_ms_def)
  have names: "distinct (map (\<lambda>s. m_name (o_Meta s)) (ms_secrets ?ms))"
    unfolding secrets buildControllerSecrets_def
    by (auto simp: opaqueSecret_def new_meta_def okey_def controllerDBCredentialsSecretName_def
        controlllerAuthCredentialsSecretName_def controllerVaultCredentialsSecretName_def
        dest!: vault_key split: option.split)
  note skip = needs_skip
  show ?thesis
  proof (cases "m_name (o_Meta s) = controllerDBCredentialsSecretName")
    case True
    show ?thesis
      unfolding reconcileIofogController_def Let_def controllerObjects_def
      by (rule skip, rule skip, rule skip, rule needs_db [OF _ True names]) (simp add: secrets assms(1))
  next
    case False
    with assms(2) have vault: "m_name (o_Meta s) = controllerVaultCredentialsSecretName" by simp
    show ?thesis
      unfolding reconcileIofogController_def Let_def controllerObjects_def
      by (rule skip, rule skip, rule skip, rule needs_vault [OF _ vault names]) (simp add: secrets assms(1))
  qed
qed

end

text \<open>The secrets of the database and of the vault, with the credentials of the present spec.\<close>

definition database_secret :: "ControlPlane \<Rightarrow> KObj" where
  "database_secret cp =
     opaqueSecret (cp_Namespace cp) controllerDBCredentialsSecretName (dbSecretData (spec_Database (cp_Spec cp)))"

definition vault_secret :: "ControlPlane \<Rightarrow> KObj option" where
  "vault_secret cp = buildVaultCredentialsSecret (cp_Namespace cp) (getVaultIfConfigured (cp_Spec cp))"

text \<open>
  C15: When the controller's routine ends without an error or a requeue, the API server has stored
  in this reconcile the credentials of the database and of the vault as they are in the present
  spec, whatever was there before; so a rotated password reaches the cluster.
\<close>

theorem credentials_current:
  assumes "library L" and "runs (reconcileIofogController L cp) tr (Returned x)"
    and "\<forall>(c, r) \<in> set tr. honest c r" and "\<not> op_IsFinal (lib_op L) x"
  shows "happened (stored (same_workload (database_secret cp))) tr \<and>
    (\<forall>s. vault_secret cp = Some s \<longrightarrow> happened (stored (same_workload s)) tr)"
proof -
  let ?ss = "buildControllerSecrets (cp_Namespace cp) (filterControllerConfig L (controllerConfig cp))"
  have cfg: "cc_db (controllerConfig cp) = spec_Database (cp_Spec cp)"
    "cc_vault (controllerConfig cp) = getVaultIfConfigured (cp_Spec cp)"
    by (simp_all add: controllerConfig_def Let_def)
  note stored = happened_until [OF assms(2) library.controller_credentials [OF assms(1)] assms(3,4)]
  have "database_secret cp \<in> set ?ss"
    by (simp add: buildControllerSecrets_def database_secret_def cfg)
  then have "happened (stored (same_workload (database_secret cp))) tr"
    by (rule stored) (simp add: database_secret_def opaqueSecret_def new_meta_def)
  moreover have "happened (stored (same_workload s)) tr" if "vault_secret cp = Some s" for s
  proof (rule stored)
    show "s \<in> set ?ss" using that by (simp add: buildControllerSecrets_def vault_secret_def cfg)
    show "m_name (o_Meta s) \<in> {controllerDBCredentialsSecretName, controllerVaultCredentialsSecretName}"
      using vault_key [OF that [unfolded vault_secret_def]] by (simp add: okey_def)
  qed
  ultimately show ?thesis by blast
qed

lemma credentials_current_witness:
  "\<exists>tr. runs (reconcileIofogController lib_ref sample_cp) tr (Returned (op_Continue (lib_op lib_ref))) \<and>
     happened (stored (same_workload (database_secret sample_cp))) tr"
proof -
  have "may settled (reconcileIofogController lib_ref sample_cp) (op_Continue (lib_op lib_ref))"
    by (rule lib_ref_coop.can_controller [OF sample_deployable])
  then obtain tr where tr: "runs (reconcileIofogController lib_ref sample_cp) tr (Returned (op_Continue (lib_op lib_ref)))"
    "\<forall>(c, r) \<in> set tr. honest c r"
    unfolding may_def using settled_honest by blast
  have "\<not> op_IsFinal (lib_op lib_ref) (op_Continue (lib_op lib_ref))"
    by (rule operator_sdk.continue_not_final [OF library.sdk [OF lib_ref.library_axioms]])
  with credentials_current [OF lib_ref.library_axioms tr] tr(1) show ?thesis by blast
qed

text \<open>
  Not so the credentials for Keycloak: a secret of that name that exists is never updated by the
  operations that write the controller's secrets.
\<close>

fun updates_named :: "string \<Rightarrow> Call \<Rightarrow> bool" where
  "updates_named n (CWrite (WUpdate o1)) \<longleftrightarrow> m_name (o_Meta o1) = n"
| "updates_named n c \<longleftrightarrow> False"

context library
begin

lemma named_updates:
  assumes "n \<noteq> a"
  shows "every any_reply (\<lambda>c. \<not> updates_named a c) (\<lambda>x. True) (reconcile_named L cp n ss)"
proof (induction ss)
  case (Cons s ss)
  have "m_name (o_Meta o2) = m_name (o_Meta s)" if "okey o2 = okey (relabel l s)" for l o2
    using that by (simp add: okey_def relabel_def)
  with assms have "every any_reply (\<lambda>c. \<not> updates_named a c) (\<lambda>x. True) (reconcile_secret L cp s)"
    if "m_name (o_Meta s) = n"
    unfolding reconcile_secret_def by (intro with_owner_rule) (auto simp: that split: sum.split)
  with Cons show ?case
    by (auto intro!: every_tryE [where R = "\<lambda>_. True"] elim!: every_mono split: sum.splits)
qed simp

lemma keycloak_secret_kept:
  "every any_reply (\<lambda>c. \<not> updates_named controlllerAuthCredentialsSecretName c) (\<lambda>x. True)
     (reconcileDBCredentialsSecret L cp ms)"
  "every any_reply (\<lambda>c. \<not> updates_named controlllerAuthCredentialsSecretName c) (\<lambda>x. True)
     (reconcileVaultCredentialsSecret L cp ms)"
  "every any_reply (\<lambda>c. \<not> updates_named controlllerAuthCredentialsSecretName c) (\<lambda>x. True)
     (createSecrets L cp ms)"
proof -
  have named: "every any_reply (\<lambda>c. \<not> updates_named controlllerAuthCredentialsSecretName c) (\<lambda>x. True)
      (tryE (reconcile_named L cp n ss) f)"
    if "n \<noteq> controlllerAuthCredentialsSecretName" "\<And>x. \<exists>y. f x = Done y"
    for n ss and f :: "bool \<times> KObj list \<Rightarrow> (GoError + bool \<times> microservice) prog"
  proof (rule every_tryE [where R = "\<lambda>_. True"])
    show "every any_reply (\<lambda>c. \<not> updates_named controlllerAuthCredentialsSecretName c)
        (\<lambda>r. case r of Inl e \<Rightarrow> True | Inr x \<Rightarrow> True) (reconcile_named L cp n ss)"
      by (rule every_mono [OF named_updates [OF that(1)]]) (simp split: sum.split)
    show "every any_reply (\<lambda>c. \<not> updates_named controlllerAuthCredentialsSecretName c) (\<lambda>x. True) (f x)" for x
      using that(2) [of x] by auto
  qed
  show "every any_reply (\<lambda>c. \<not> updates_named controlllerAuthCredentialsSecretName c) (\<lambda>x. True)
      (reconcileDBCredentialsSecret L cp ms)"
    and "every any_reply (\<lambda>c. \<not> updates_named controlllerAuthCredentialsSecretName c) (\<lambda>x. True)
      (reconcileVaultCredentialsSecret L cp ms)"
    unfolding reconcileDBCredentialsSecret_def reconcileVaultCredentialsSecret_def
    by (rule named, simp add: controlllerAuthCredentialsSecretName_def controllerDBCredentialsSecretName_def
        controllerVaultCredentialsSecretName_def, simp split: prod.split)+
  have "every any_reply (\<lambda>c. \<not> updates c) (\<lambda>x. True) (createSecrets L cp ms)"
    by (auto simp: createSecrets_def createOrUpdateSecrets_def
        intro!: with_owner_every for_each_every if_missing.never_updates every_recovering)
  then show "every any_reply (\<lambda>c. \<not> updates_named controlllerAuthCredentialsSecretName c) (\<lambda>x. True)
      (createSecrets L cp ms)"
    by (rule every_call_mono) (auto elim!: updates_named.elims)
qed

end

subsection \<open>The viewer's client\<close>

definition token_request :: "Auth \<Rightarrow> ExtCall" where
  "token_request a =
     OAuthToken (auth_URL a @ ''/realms/'' @ auth_Realm a @ ''/protocol/openid-connect/token'')
       (auth_ControllerClient a) (auth_ControllerSecret a) [''openid'', ''profile'', ''email'']"

text \<open>The calls of an update: a token, the clients of the realm, and the client that was found.\<close>

definition viewer_calls :: "Auth \<Rightarrow> string \<Rightarrow> string \<Rightarrow> string \<Rightarrow> HttpResp \<Rightarrow> GoError + HttpResp \<Rightarrow> event list" where
  "viewer_calls a u token i clients answer =
     [(CExt (token_request a), RStr (Inr token)),
      (CHttp (clients_request a token), RHttp (Inr clients)),
      (CHttp (update_request a i u token), RHttp answer)]"

definition viewer_found :: "Auth \<Rightarrow> HttpResp \<Rightarrow> string \<Rightarrow> bool" where
  "viewer_found a clients i \<longleftrightarrow> hs_Status clients = 200 \<and>
     (\<exists>cs. client_list (hs_Body clients) = Some cs \<and> find_client (auth_ViewerClient a) cs = Some i)"

fun is_put :: "Call \<Rightarrow> bool" where
  "is_put (CHttp q) \<longleftrightarrow> hr_Method q = ''PUT''"
| "is_put c \<longleftrightarrow> False"

text \<open>The code as one tree.\<close>

lemma update_tree:
  "prefixed p3 (updateClientRootURL L a i u token) =
     (case lib_urlError L (hr_URL (update_request a i u token)) of
        Some e \<Rightarrow> Done (Inl (plain_error p3 (new_error (''failed to create update client request: '' @ e))))
      | None \<Rightarrow> Http (update_request a i u token) (\<lambda>r. Done (case r of
          Inl e \<Rightarrow> Inl (plain_error p3 (plain_error ''failed to execute update client request: '' e))
        | Inr resp \<Rightarrow>
            if hs_Status resp \<noteq> 204 \<and> hs_Status resp \<noteq> 200
            then Inl (plain_error p3 (new_error (''update client request failed with status '' @
                   itoa (hs_Status resp) @ '': '' @ hs_Body resp)))
            else Inr ())))"
  by (simp add: prefixed_def updateClientRootURL_def Let_def split: option.split sum.split)
    (auto intro!: ext split: sum.split)

lemma update_runs:
  assumes "runs (prefixed p3 (updateClientRootURL L a i u token)) tr (Returned r)"
  shows "tr = [] \<and> is_err r \<or>
    (\<exists>answer. tr = [(CHttp (update_request a i u token), RHttp answer)] \<and>
       (r = Inr () \<longleftrightarrow> (\<exists>resp. answer = Inr resp \<and> hs_Status resp \<in> {200, 204})))"
proof (cases "lib_urlError L (hr_URL (update_request a i u token))")
  case None
  with assms obtain answer where "tr = [(CHttp (update_request a i u token), RHttp answer)]"
    and r: "r = (case answer of
          Inl e \<Rightarrow> Inl (plain_error p3 (plain_error ''failed to execute update client request: '' e))
        | Inr resp \<Rightarrow>
            if hs_Status resp \<noteq> 204 \<and> hs_Status resp \<noteq> 200
            then Inl (plain_error p3 (new_error (''update client request failed with status '' @
                   itoa (hs_Status resp) @ '': '' @ hs_Body resp)))
            else Inr ())"
    unfolding update_tree by auto
  moreover have "r = Inr () \<longleftrightarrow> (\<exists>resp. answer = Inr resp \<and> hs_Status resp \<in> {200, 204})"
    unfolding r by (cases answer) auto
  ultimately show ?thesis by blast
next
  case (Some e)
  with assms show ?thesis unfolding update_tree by auto
qed

lemma lookup_runs:
  assumes "runs (prefixed p2 (getKeycloakClientID L a (auth_ViewerClient a) token)) tr (Returned r)"
  shows "(tr = [] \<and> is_err r) \<or> (\<exists>answer. tr = [(CHttp (clients_request a token), RHttp answer)] \<and>
     (\<forall>i. r = Inr i \<longleftrightarrow> (\<exists>clients. answer = Inr clients \<and> viewer_found a clients i)))"
proof (cases "lib_urlError L (hr_URL (clients_request a token))")
  case None
  have "\<exists>r0. prefixed p2 (case answer of Inl e \<Rightarrow> Done (Inl (plain_error ''failed to execute get client request: '' e))
        | Inr resp \<Rightarrow>
            if hs_Status resp \<noteq> 200
            then Done (Inl (new_error (''get client request failed with status '' @
                   itoa (hs_Status resp) @ '': '' @ hs_Body resp)))
            else (case client_list (hs_Body resp) of
              None \<Rightarrow> Done (Inl (new_error (''failed to decode clients response: '' @
                        lib_jsonError L (hs_Body resp))))
            | Some clients \<Rightarrow>
                (case find_client (auth_ViewerClient a) clients of
                   Some i \<Rightarrow> Done (Inr i)
                 | None \<Rightarrow> Done (Inl (new_error (''client with ID '' @ [CHR 0x27] @ auth_ViewerClient a @
                             [CHR 0x27] @ '' not found'')))))) = Done r0 \<and>
        (\<forall>i. r0 = Inr i \<longleftrightarrow> (\<exists>clients. answer = Inr clients \<and> viewer_found a clients i))"
    for answer :: "GoError + HttpResp"
    by (cases answer) (auto simp: prefixed_def viewer_found_def split: option.split)
  then obtain f where f: "prefixed p2 (getKeycloakClientID L a (auth_ViewerClient a) token) =
      Http (clients_request a token) (\<lambda>answer. Done (f answer))"
    "\<forall>answer i. f answer = Inr i \<longleftrightarrow> (\<exists>clients. answer = Inr clients \<and> viewer_found a clients i)"
    using None unfolding getKeycloakClientID_def prefixed_def Let_def by simp metis
  with assms show ?thesis by auto
next
  case (Some e)
  with assms show ?thesis by (auto simp: prefixed_def getKeycloakClientID_def Let_def)
qed

text \<open>What follows the token, and the whole.\<close>

lemma rest_runs:
  assumes "runs (tryE (prefixed p2 (getKeycloakClientID L a (auth_ViewerClient a) token)) (\<lambda>i.
      prefixed p3 (updateClientRootURL L a i u token))) tr (Returned r)"
  shows "(is_err r \<and> (tr = [] \<or> (\<exists>answer. tr = [(CHttp (clients_request a token), RHttp answer)]))) \<or>
    (\<exists>i clients answer. tr = tl (viewer_calls a u token i clients answer) \<and> viewer_found a clients i \<and>
       (r = Inr () \<longleftrightarrow> (\<exists>resp. answer = Inr resp \<and> hs_Status resp \<in> {200, 204})))"
proof -
  obtain t1 t2 r1 where tr: "tr = t1 @ t2"
    and first: "runs (prefixed p2 (getKeycloakClientID L a (auth_ViewerClient a) token)) t1 (Returned r1)"
    and rest: "runs (case r1 of Inl e \<Rightarrow> Done (Inl e) | Inr i \<Rightarrow> prefixed p3 (updateClientRootURL L a i u token))
      t2 (Returned r)"
    using assms unfolding tryE_def runs_pbind_Returned by blast
  show ?thesis
  proof (cases r1)
    case (Inl e)
    with rest have "t2 = []" "is_err r" by auto
    with lookup_runs [OF first] tr show ?thesis by auto
  next
    case (Inr i)
    with lookup_runs [OF first] obtain clients where
      t1: "t1 = [(CHttp (clients_request a token), RHttp (Inr clients))]" "viewer_found a clients i" by auto
    from rest Inr have "runs (prefixed p3 (updateClientRootURL L a i u token)) t2 (Returned r)" by simp
    from update_runs [OF this] show ?thesis
    proof (elim disjE exE conjE)
      assume "t2 = []" "is_err r"
      with t1 tr show ?thesis by auto
    next
      fix answer
      assume "t2 = [(CHttp (update_request a i u token), RHttp answer)]"
        "r = Inr () \<longleftrightarrow> (\<exists>resp. answer = Inr resp \<and> hs_Status resp \<in> {200, 204})"
      with t1 tr show ?thesis by (intro disjI2 exI [of _ i] exI [of _ clients] exI [of _ answer]) (simp add: viewer_calls_def)
    qed
  qed
qed

lemma viewer_runs:
  assumes "runs (UpdateECNViewerClientRootURL L a u) tr (Returned r)"
  shows "(is_err r \<and> (tr = [] \<or> (\<exists>x. tr = [(CExt (token_request a), x)]) \<or>
      (\<exists>x token answer. tr = [(CExt (token_request a), x), (CHttp (clients_request a token), RHttp answer)]))) \<or>
    (\<exists>token i clients answer. tr = viewer_calls a u token i clients answer \<and> viewer_found a clients i \<and>
       (r = Inr () \<longleftrightarrow> (\<exists>resp. answer = Inr resp \<and> hs_Status resp \<in> {200, 204})))"
proof (cases "[] \<in> {auth_URL a, auth_Realm a, auth_ControllerClient a, auth_ControllerSecret a, auth_ViewerClient a, u}")
  case True
  then have "\<exists>e. UpdateECNViewerClientRootURL L a u = Done (Inl e)"
    by (auto simp: UpdateECNViewerClientRootURL_def)
  with assms show ?thesis by auto
next
  case False
  let ?p3 = "''failed to update client root URL: ''" and ?p2 = "''failed to get client ID: ''"
  have "UpdateECNViewerClientRootURL L a u = Ext (token_request a) (\<lambda>x. case x of
      Inl e \<Rightarrow> Done (Inl (plain_error ''failed to obtain access token: '' e))
    | Inr token \<Rightarrow> tryE (prefixed ?p2 (getKeycloakClientID L a (auth_ViewerClient a) token)) (\<lambda>i.
        prefixed ?p3 (updateClientRootURL L a i u token)))"
    using False by (auto simp: UpdateECNViewerClientRootURL_def token_request_def tryE_def prefixed_def [where p = "Ext c d" for c d]
        intro!: ext split: sum.split)
  with assms obtain x t where tr: "tr = (CExt (token_request a), RStr x) # t"
    and rest: "runs (case x of Inl e \<Rightarrow> Done (Inl (plain_error ''failed to obtain access token: '' e))
    | Inr token \<Rightarrow> tryE (prefixed ?p2 (getKeycloakClientID L a (auth_ViewerClient a) token)) (\<lambda>i.
        prefixed ?p3 (updateClientRootURL L a i u token))) t (Returned r)"
    by auto
  show ?thesis
  proof (cases x)
    case (Inl e)
    with rest tr show ?thesis by auto
  next
    case (Inr token)
    with rest have "runs (tryE (prefixed ?p2 (getKeycloakClientID L a (auth_ViewerClient a) token)) (\<lambda>i.
        prefixed ?p3 (updateClientRootURL L a i u token))) t (Returned r)" by simp
    from rest_runs [OF this] tr Inr show ?thesis by (auto simp: viewer_calls_def)
  qed
qed

text \<open>
  C14: The viewer's root URL is changed only for the client Keycloak lists under the viewer's
  name, with the token the controller's credentials gave, and after both were answered; and the
  operator reports success exactly when Keycloak accepted the change.
\<close>

theorem viewer_update:
  assumes "runs (UpdateECNViewerClientRootURL L a u) tr (Returned r)"
  shows "(r = Inr () \<longleftrightarrow> (\<exists>token i clients resp. tr = viewer_calls a u token i clients (Inr resp) \<and>
             viewer_found a clients i \<and> hs_Status resp \<in> {200, 204})) \<and>
    (list_ex (\<lambda>(c, _). is_put c) tr \<longrightarrow>
       (\<exists>token i clients answer. tr = viewer_calls a u token i clients answer \<and> viewer_found a clients i))"
proof -
  have shape: "viewer_calls a u token i clients answer = viewer_calls a u token' i' clients' answer' \<longleftrightarrow>
      token = token' \<and> update_request a i u token = update_request a i' u token' \<and> clients = clients' \<and> answer = answer'"
    for token i clients answer token' i' clients' answer'
    by (auto simp: viewer_calls_def)
  have short: "viewer_calls a u token i clients answer \<noteq> []" "viewer_calls a u token i clients answer \<noteq> [e]"
    "viewer_calls a u token i clients answer \<noteq> [e, e']" for token i clients answer e e'
    by (simp_all add: viewer_calls_def)
  from viewer_runs [OF assms] show ?thesis
  proof (elim disjE)
    assume failed: "is_err r \<and> (tr = [] \<or> (\<exists>x. tr = [(CExt (token_request a), x)]) \<or>
      (\<exists>x token answer. tr = [(CExt (token_request a), x), (CHttp (clients_request a token), RHttp answer)]))"
    then have "r \<noteq> Inr ()" "\<not> list_ex (\<lambda>(c, _). is_put c) tr" by (auto simp: clients_request_def)
    moreover have "tr \<noteq> viewer_calls a u token i clients answer" for token i clients answer
      using failed short by metis
    ultimately show ?thesis by blast
  next
    assume "\<exists>token i clients answer. tr = viewer_calls a u token i clients answer \<and> viewer_found a clients i \<and>
       (r = Inr () \<longleftrightarrow> (\<exists>resp. answer = Inr resp \<and> hs_Status resp \<in> {200, 204}))"
    then show ?thesis by (auto simp: shape)
  qed
qed

text \<open>An example: Keycloak lists two clients, the viewer's second.\<close>

definition sample_auth :: Auth where
  "sample_auth =
     \<lparr>auth_URL = ''https://kc'', auth_Realm = ''pot'', auth_SSL = [], auth_RealmKey = [],
      auth_ControllerClient = ''ctl'', auth_ControllerSecret = ''s'', auth_ViewerClient = ''view''\<rparr>"

definition sample_clients :: HttpResp where
  "sample_clients = \<lparr>hs_Status = 200, hs_Body = printJson id
     (JArr [JObj [(''id'', JStr ''1''), (''clientId'', JStr ''ctl'')],
            JObj [(''id'', JStr ''2''), (''clientId'', JStr ''view'')]])\<rparr>"

lemma sample_found: "viewer_found sample_auth sample_clients ''2''"
proof -
  have "map_option (find_client ''view'') (client_list (hs_Body sample_clients)) = Some (Some ''2'')" by code_simp
  then show ?thesis by (auto simp: viewer_found_def sample_auth_def) (simp add: sample_clients_def)
qed

lemma viewer_update_witness:
  "let tr = viewer_calls sample_auth ''https://ecn'' ''t'' ''2'' sample_clients (Inr \<lparr>hs_Status = 204, hs_Body = []\<rparr>) in
   runs (UpdateECNViewerClientRootURL lib_ref sample_auth ''https://ecn'') tr (Returned (Inr ())) \<and>
   (\<exists>token i clients answer. tr = viewer_calls sample_auth ''https://ecn'' token i clients answer \<and>
     viewer_found sample_auth clients i)"
proof -
  let ?tr = "viewer_calls sample_auth ''https://ecn'' ''t'' ''2'' sample_clients (Inr \<lparr>hs_Status = 204, hs_Body = []\<rparr>)"
  have url: "lib_urlError lib_ref (hr_URL (clients_request sample_auth ''t'')) = None"
    "lib_urlError lib_ref (hr_URL (update_request sample_auth ''2'' ''https://ecn'' ''t'')) = None" by code_simp+
  obtain cs where cs: "client_list (hs_Body sample_clients) = Some cs" "find_client (auth_ViewerClient sample_auth) cs = Some ''2''"
    and ok: "hs_Status sample_clients = 200"
    using sample_found by (auto simp: viewer_found_def)
  have set: "auth_URL sample_auth \<noteq> []" "auth_Realm sample_auth \<noteq> []" "auth_ControllerClient sample_auth \<noteq> []"
    "auth_ControllerSecret sample_auth \<noteq> []" "auth_ViewerClient sample_auth \<noteq> []" by (simp_all add: sample_auth_def)
  have run: "runs (UpdateECNViewerClientRootURL lib_ref sample_auth ''https://ecn'') ?tr (Returned (Inr ()))"
    using set by (simp add: UpdateECNViewerClientRootURL_def viewer_calls_def token_request_def tryE_def prefixed_def
        getKeycloakClientID_def updateClientRootURL_def url cs ok Let_def)
  from viewer_update [OF run] show ?thesis unfolding Let_def using run by blast
qed

end
