(* ===== verification/Startup.thy ===== *)
theory Startup
  imports Prelude
begin

text \<open>
  The start of the process (\<open>main.go\<close>): its flags and environment, the registration of the two
  resource groups (\<open>groupversion_info.go\<close>, \<open>InitClientScheme\<close>), the manager, and
  \<open>SetupWithManager\<close> of the two reconcilers. The calls of libraries are the nodes of a tree; the
  answer of each is an error or nil.
\<close>

subsection \<open>Groups of resources\<close>

record GroupVersion =
  gv_Group :: string
  gv_Version :: string

record SchemeBuilder =
  sb_GroupVersion :: GroupVersion
  sb_Objects :: "string list"

definition Register :: "string list \<Rightarrow> SchemeBuilder \<Rightarrow> SchemeBuilder" where
  "Register objects b = b\<lparr>sb_Objects := sb_Objects b @ objects\<rparr>"

definition controlplanes_GroupVersion :: GroupVersion where
  "controlplanes_GroupVersion = \<lparr>gv_Group = ''datasance.com'', gv_Version = ''v3''\<rparr>"

definition controlplanes_SchemeBuilder :: SchemeBuilder where
  "controlplanes_SchemeBuilder = \<lparr>sb_GroupVersion = controlplanes_GroupVersion, sb_Objects = []\<rparr>"

definition controlplanes_init :: "SchemeBuilder \<Rightarrow> SchemeBuilder" where
  "controlplanes_init = Register [''ControlPlane'', ''ControlPlaneList'']"

definition apps_GroupVersion :: GroupVersion where
  "apps_GroupVersion = \<lparr>gv_Group = ''datasance.com'', gv_Version = ''v3''\<rparr>"

definition apps_SchemeBuilder :: SchemeBuilder where
  "apps_SchemeBuilder = \<lparr>sb_GroupVersion = apps_GroupVersion, sb_Objects = []\<rparr>"

definition apps_init :: "SchemeBuilder \<Rightarrow> SchemeBuilder" where
  "apps_init = Register [''Application'', ''ApplicationList'']"

text \<open>The builders when every package is initialised.\<close>

abbreviation controlplanes_builder :: SchemeBuilder where
  "controlplanes_builder \<equiv> controlplanes_init controlplanes_SchemeBuilder"

abbreviation apps_builder :: SchemeBuilder where
  "apps_builder \<equiv> apps_init apps_SchemeBuilder"

text \<open>
  A scheme knows kinds of groups. Adding to it is a library's: the types of Kubernetes itself and
  those of a builder; \<open>utilruntime.Must\<close> panics on an error. Imported packages also register
  string flags of their own, \<open>ma_flags\<close>.
\<close>

type_synonym scheme = "(GroupVersion \<times> string) set"

record Machinery =
  ma_clientgo :: "scheme \<Rightarrow> string + scheme"
  ma_AddToScheme :: "SchemeBuilder \<Rightarrow> scheme \<Rightarrow> string + scheme"
  ma_flags :: "string list"

definition bind_scheme :: "string + scheme \<Rightarrow> (scheme \<Rightarrow> string + scheme) \<Rightarrow> string + scheme" where
  "bind_scheme r f = (case r of Inl e \<Rightarrow> Inl e | Inr s \<Rightarrow> f s)"

definition InitClientScheme :: "Machinery \<Rightarrow> string + scheme" where
  "InitClientScheme M =
     bind_scheme (ma_clientgo M {}) (\<lambda>s1.
     bind_scheme (ma_AddToScheme M apps_builder s1) (\<lambda>s2.
       ma_AddToScheme M controlplanes_builder s2))"

text \<open>What \<open>init\<close> of the main package does with its own variable.\<close>

definition main_init :: "Machinery \<Rightarrow> string + scheme" where
  "main_init M =
     bind_scheme (ma_clientgo M {}) (\<lambda>s1.
     bind_scheme (ma_AddToScheme M apps_builder s1) (\<lambda>s2.
       ma_AddToScheme M controlplanes_builder s2))"

subsection \<open>Flags\<close>

record Flags =
  fl_metricsAddr :: string
  fl_enableLeaderElection :: bool

definition default_flags :: Flags where
  "default_flags = \<lparr>fl_metricsAddr = '':8080'', fl_enableLeaderElection = False\<rparr>"

text \<open>\<open>strconv.ParseBool\<close>\<close>

definition ParseBool :: "string \<Rightarrow> bool option" where
  "ParseBool s =
     (if s \<in> {''1'', ''t'', ''T'', ''true'', ''TRUE'', ''True''} then Some True
      else if s \<in> {''0'', ''f'', ''F'', ''false'', ''FALSE'', ''False''} then Some False
      else None)"

text \<open>One argument of \<open>flag.Parse\<close>: no flag, a malformed one, or a name with an optional value.\<close>

datatype flag_arg = NoFlag | Terminator | Malformed | Flag string "string option"

definition split_flag :: "string \<Rightarrow> flag_arg" where
  "split_flag body =
     (if body = [] \<or> hd body = CHR ''-'' \<or> hd body = CHR ''='' then Malformed
      else if CHR ''='' \<in> set body
      then Flag (takeWhile (\<lambda>c. c \<noteq> CHR ''='') body) (Some (tl (dropWhile (\<lambda>c. c \<noteq> CHR ''='') body)))
      else Flag body None)"

definition flag_arg_of :: "string \<Rightarrow> flag_arg" where
  "flag_arg_of a =
     (if length a < 2 \<or> hd a \<noteq> CHR ''-'' then NoFlag
      else if a ! 1 \<noteq> CHR ''-'' then split_flag (drop 1 a)
      else if length a = 2 then Terminator
      else split_flag (drop 2 a))"

text \<open>
  \<open>flag.Parse\<close>: the flags, or the exit code. Besides the operator's two flags there are string
  flags that imported packages register, \<open>extra\<close>. Parsing stops at the first argument that is
  no flag; a request for help exits with 0, an error with 2.
\<close>

fun parse_flags :: "string list \<Rightarrow> string list \<Rightarrow> Flags \<Rightarrow> int + Flags" where
  "parse_flags extra [] fl = Inr fl"
| "parse_flags extra (a # rest) fl =
     (case flag_arg_of a of
        NoFlag \<Rightarrow> Inr fl
      | Terminator \<Rightarrow> Inr fl
      | Malformed \<Rightarrow> Inl 2
      | Flag n v \<Rightarrow>
          if n = ''enable-leader-election'' then
            (case v of
               None \<Rightarrow> parse_flags extra rest (fl\<lparr>fl_enableLeaderElection := True\<rparr>)
             | Some s \<Rightarrow> (case ParseBool s of
                 None \<Rightarrow> Inl 2
               | Some b \<Rightarrow> parse_flags extra rest (fl\<lparr>fl_enableLeaderElection := b\<rparr>)))
          else if n = ''metrics-addr'' \<or> n \<in> set extra then
            (let put = (\<lambda>s. if n = ''metrics-addr'' then fl\<lparr>fl_metricsAddr := s\<rparr> else fl) in
             case v of
               Some s \<Rightarrow> parse_flags extra rest (put s)
             | None \<Rightarrow> (case rest of
                 [] \<Rightarrow> Inl 2
               | s # rest2 \<Rightarrow> parse_flags extra rest2 (put s)))
          else if n = ''help'' \<or> n = ''h'' then Inl 0
          else Inl 2)"

subsection \<open>The manager\<close>

record ManagerOptions =
  mo_Scheme :: scheme
  mo_LeaderElection :: bool
  mo_LeaderElectionID :: string
  mo_MetricsBindAddress :: string
  mo_DefaultNamespaces :: "string list"

record Retries =
  ry_Timeout :: int
  ry_CustomMessage :: "(string \<times> int) list"

datatype StartCall =
    GetConfigOrDie
  | NewManager ManagerOptions
  | SetGlobalRetries Retries
  | CompleteController string
  | StartManager

text \<open>The trees of these calls, and their run against the answers of the libraries.\<close>

datatype 'a startup =
    Finish 'a
  | Ask StartCall "string option \<Rightarrow> 'a startup"

primrec startup_run :: "(StartCall \<Rightarrow> string option) \<Rightarrow> 'a startup \<Rightarrow> StartCall list \<times> 'a" where
  "startup_run h (Finish x) = ([], x)"
| "startup_run h (Ask c f) = (let (cs, x) = startup_run h (f (h c)) in (c # cs, x))"

primrec sbind :: "'a startup \<Rightarrow> ('a \<Rightarrow> 'b startup) \<Rightarrow> 'b startup" where
  "sbind (Finish x) f = f x"
| "sbind (Ask c g) f = Ask c (\<lambda>r. sbind (g r) f)"

text \<open>\<open>ctrl.NewControllerManagedBy(mgr).For(&T{}).Complete(r)\<close>\<close>

definition apps_SetupWithManager :: "string option startup" where
  "apps_SetupWithManager = Ask (CompleteController ''Application'') Finish"

definition controlplanes_SetupWithManager :: "string option startup" where
  "controlplanes_SetupWithManager =
     Ask (SetGlobalRetries \<lparr>ry_Timeout = 0, ry_CustomMessage = [(''timeout'', 0), (''refuse'', 0)]\<rparr>)
       (\<lambda>_. Ask (CompleteController ''ControlPlane'') Finish)"

subsection \<open>The process\<close>

type_synonym environment = "string \<rightharpoonup> string"

definition getWatchNamespace :: "environment \<Rightarrow> string" where
  "getWatchNamespace env = (case env ''WATCH_NAMESPACE'' of Some ns \<Rightarrow> ns | None \<Rightarrow> [])"

datatype exit = ExitCode int | PanicExit string

definition manager_options :: "environment \<Rightarrow> Flags \<Rightarrow> scheme \<Rightarrow> ManagerOptions" where
  "manager_options env fl s =
     \<lparr>mo_Scheme = s, mo_LeaderElection = fl_enableLeaderElection fl,
      mo_LeaderElectionID = ''pot.datasance'', mo_MetricsBindAddress = fl_metricsAddr fl,
      mo_DefaultNamespaces = [getWatchNamespace env]\<rparr>"

definition exit_on :: "string option \<Rightarrow> exit startup \<Rightarrow> exit startup" where
  "exit_on err rest = (case err of Some e \<Rightarrow> Finish (ExitCode 1) | None \<Rightarrow> rest)"

text \<open>\<open>main\<close> after \<open>init\<close>; \<open>GetConfigOrDie\<close> exits with 1 itself. Logging is left out.\<close>

definition main_body :: "string list \<Rightarrow> environment \<Rightarrow> string list \<Rightarrow> scheme \<Rightarrow> exit startup" where
  "main_body extra env args s =
     (case parse_flags extra args default_flags of
        Inl code \<Rightarrow> Finish (ExitCode code)
      | Inr fl \<Rightarrow>
          Ask GetConfigOrDie (\<lambda>err. exit_on err (
          Ask (NewManager (manager_options env fl s)) (\<lambda>err. exit_on err (
          sbind apps_SetupWithManager (\<lambda>err. exit_on err (
          sbind controlplanes_SetupWithManager (\<lambda>err. exit_on err (
          Ask StartManager (\<lambda>err. exit_on err (
          Finish (ExitCode 0))))))))))))"

definition operator_main :: "Machinery \<Rightarrow> environment \<Rightarrow> string list \<Rightarrow> exit startup" where
  "operator_main M env args =
     (case main_init M of Inl e \<Rightarrow> Finish (PanicExit e) | Inr s \<Rightarrow> main_body (ma_flags M) env args s)"

subsection \<open>What the start does\<close>

text \<open>Adding to a scheme, as documented: nothing is lost, and the kinds of the builder are known.\<close>

definition builder_kinds :: "SchemeBuilder \<Rightarrow> scheme" where
  "builder_kinds b = {(sb_GroupVersion b, k) | k. k \<in> set (sb_Objects b)}"

locale scheme_machinery =
  fixes M :: Machinery
  assumes adds_kinds: "ma_AddToScheme M b s = Inr s' \<Longrightarrow> builder_kinds b \<subseteq> s'"
    and keeps_kinds: "ma_AddToScheme M b s = Inr s' \<Longrightarrow> s \<subseteq> s'"
begin

lemma both_groups:
  assumes "main_init M = Inr s"
  shows "builder_kinds apps_builder \<union> builder_kinds controlplanes_builder \<subseteq> s"
proof -
  obtain s1 s2 where "ma_AddToScheme M apps_builder s1 = Inr s2"
    "ma_AddToScheme M controlplanes_builder s2 = Inr s"
    using assms by (auto simp: main_init_def bind_scheme_def split: sum.splits)
  then show ?thesis using adds_kinds keeps_kinds by blast
qed

end

definition machinery_ref :: Machinery where
  "machinery_ref =
     \<lparr>ma_clientgo = (\<lambda>s. Inr (s \<union> {(\<lparr>gv_Group = ''apps'', gv_Version = ''v1''\<rparr>, ''Deployment'')})),
      ma_AddToScheme = (\<lambda>b s. Inr (s \<union> builder_kinds b)),
      ma_flags = [''kubeconfig'']\<rparr>"

interpretation machinery_ref: scheme_machinery machinery_ref
  by unfold_locales (auto simp: machinery_ref_def)

text \<open>The calls of a start that goes well, and the first of them that is answered with an error.\<close>

definition startup_calls :: "ManagerOptions \<Rightarrow> StartCall list" where
  "startup_calls opts =
     [GetConfigOrDie, NewManager opts, CompleteController ''Application'',
      SetGlobalRetries \<lparr>ry_Timeout = 0, ry_CustomMessage = [(''timeout'', 0), (''refuse'', 0)]\<rparr>,
      CompleteController ''ControlPlane'', StartManager]"

fun until_error :: "(StartCall \<Rightarrow> string option) \<Rightarrow> StartCall list \<Rightarrow> StartCall list" where
  "until_error h [] = []"
| "until_error h (c # cs) =
     (if h c \<noteq> None \<and> (\<forall>r. c \<noteq> SetGlobalRetries r) then [c] else c # until_error h cs)"

text \<open>
  C38: The process starts the manager last: with flags that parse, it makes its calls in one order
  up to the first error, on which it exits with 1; it serves with the namespace of the environment,
  leader election and metrics address of the flags, and a scheme that knows both resources.
\<close>

theorem startup_in_order:
  assumes "scheme_machinery M" and "main_init M = Inr s"
    and "parse_flags (ma_flags M) args default_flags = Inr fl"
  shows "let calls = startup_calls (manager_options env fl s) in
           startup_run h (operator_main M env args) =
             (until_error h calls,
              ExitCode (if until_error h calls = calls \<and> h StartManager = None then 0 else 1)) \<and>
           {(controlplanes_GroupVersion, ''ControlPlane''), (apps_GroupVersion, ''Application'')} \<subseteq> s"
proof -
  have "{(controlplanes_GroupVersion, ''ControlPlane''), (apps_GroupVersion, ''Application'')} \<subseteq> s"
    using scheme_machinery.both_groups [OF assms(1,2)]
    by (auto simp: builder_kinds_def controlplanes_SchemeBuilder_def apps_SchemeBuilder_def
        controlplanes_init_def apps_init_def Register_def)
  moreover have "startup_run h (main_body (ma_flags M) env args s) =
      (until_error h (startup_calls (manager_options env fl s)),
       ExitCode (if until_error h (startup_calls (manager_options env fl s)) =
                      startup_calls (manager_options env fl s) \<and> h StartManager = None then 0 else 1))"
    by (simp add: main_body_def assms(3) exit_on_def apps_SetupWithManager_def
        controlplanes_SetupWithManager_def startup_calls_def split: option.split)
  ultimately show ?thesis by (simp add: operator_main_def assms(2))
qed

text \<open>The arguments of the images.\<close>

lemma image_flags:
  "parse_flags extra [''--enable-leader-election''] default_flags =
     Inr \<lparr>fl_metricsAddr = '':8080'', fl_enableLeaderElection = True\<rparr>"
  by (simp add: flag_arg_of_def split_flag_def default_flags_def)

lemma startup_in_order_witness:
  "\<exists>s. startup_run (\<lambda>c. if c = CompleteController ''ControlPlane'' then Some ''no kind'' else None)
         (operator_main machinery_ref [''WATCH_NAMESPACE'' \<mapsto> ''iofog''] [''--enable-leader-election'']) =
       ([GetConfigOrDie,
         NewManager \<lparr>mo_Scheme = s, mo_LeaderElection = True, mo_LeaderElectionID = ''pot.datasance'',
           mo_MetricsBindAddress = '':8080'', mo_DefaultNamespaces = [''iofog'']\<rparr>,
         CompleteController ''Application'',
         SetGlobalRetries \<lparr>ry_Timeout = 0, ry_CustomMessage = [(''timeout'', 0), (''refuse'', 0)]\<rparr>,
         CompleteController ''ControlPlane''], ExitCode 1)"
proof -
  obtain s where "main_init machinery_ref = Inr s"
    by (simp add: main_init_def machinery_ref_def bind_scheme_def)
  from startup_in_order [OF machinery_ref.scheme_machinery_axioms this image_flags] show ?thesis
    by (auto simp: Let_def startup_calls_def manager_options_def getWatchNamespace_def)
qed

end
