(* ===== verification/Memory.thy ===== *)
theory Memory
  imports Prelude "HOL-Library.AList"
begin

text \<open>
  Memory, as far as Go's deep copies need it. An address is an index into a list of objects, so
  allocation appends and an object that exists keeps its address. An object is zeroed memory, a
  variable of some type, or the array behind a slice; \<open>'c\<close> is the sum of the types a package
  keeps in memory. A pointer or map field is an address or \<open>None\<close> for nil, and a
  slice is its array, the index it starts at and its length.

  \<open>new_copy\<close>, \<open>copy_slice\<close> and \<open>copy_map\<close> are the statements that the generator of deep
  copies emits for a field of each kind. The locale \<open>deep_copier\<close> says what a deep copy owes: it
  only allocates, and the copy's contents are those of the original and rest on the new
  objects alone, so that whatever is written to the old objects does not show in the copy, nor the
  other way round.
\<close>

subsection \<open>Objects and addresses\<close>

datatype 'c obj = Zeroed | Obj (the_Obj: 'c) | Array "'c option list"

type_synonym 'c mem = "'c obj list"

record Slice =
  sl_base :: nat
  sl_from :: nat
  sl_len :: nat

definition load :: "('c \<Rightarrow> 'a) \<Rightarrow> 'c mem \<Rightarrow> nat \<Rightarrow> 'a" where
  "load the_v h p = the_v (the_Obj (h ! p))"

definition array_at :: "'c mem \<Rightarrow> nat \<Rightarrow> 'c option list" where
  "array_at h p = (case h ! p of Array xs \<Rightarrow> xs | _ \<Rightarrow> [])"

definition load_elem :: "('c \<Rightarrow> 'a) \<Rightarrow> 'c mem \<Rightarrow> nat \<Rightarrow> nat \<Rightarrow> 'a" where
  "load_elem the_v h p i = the_v (the (array_at h p ! i))"

definition store_elem :: "'c mem \<Rightarrow> nat \<Rightarrow> nat \<Rightarrow> 'c \<Rightarrow> 'c mem" where
  "store_elem h p i c = h[p := Array ((array_at h p)[i := Some c])]"

subsection \<open>What the generator emits\<close>

text \<open>\<open>*out = *in\<close>, where the two are different variables.\<close>

definition assign :: "'a \<Rightarrow> 'c mem \<Rightarrow> 'a \<times> 'c mem" where
  "assign v h = (v, h)"

text \<open>
  For nil, nothing; else \<open>*out = new(T)\<close> and the copy of the variable pointed to. Both a field of
  pointer type and a \<open>DeepCopy\<close> method are of this form.
\<close>

definition new_copy ::
  "('a \<Rightarrow> 'c) \<Rightarrow> ('c \<Rightarrow> 'a) \<Rightarrow> ('a \<Rightarrow> 'c mem \<Rightarrow> 'a \<times> 'c mem) \<Rightarrow> nat option \<Rightarrow> 'c mem \<Rightarrow> nat option \<times> 'c mem"
where
  "new_copy mk the_v copy_into p h =
     (case p of
        None \<Rightarrow> (None, h)
      | Some a \<Rightarrow>
          let out = length h;
              h = h @ [Zeroed];
              (v, h) = copy_into (load the_v h a) h
          in (Some out, h[out := Obj (mk v)]))"

text \<open>\<open>*out = make([]T, len(*in))\<close> and the loop over the indices.\<close>

definition copy_elem ::
  "('a \<Rightarrow> 'c) \<Rightarrow> ('c \<Rightarrow> 'a) \<Rightarrow> ('a \<Rightarrow> 'c mem \<Rightarrow> 'a \<times> 'c mem) \<Rightarrow> Slice \<Rightarrow> nat \<Rightarrow> nat \<Rightarrow> 'c mem \<Rightarrow> 'c mem"
where
  "copy_elem mk the_v copy_into s out i h =
     (let (v, h) = copy_into (load_elem the_v h (sl_base s) (sl_from s + i)) h
      in store_elem h out i (mk v))"

definition copy_slice ::
  "('a \<Rightarrow> 'c) \<Rightarrow> ('c \<Rightarrow> 'a) \<Rightarrow> ('a \<Rightarrow> 'c mem \<Rightarrow> 'a \<times> 'c mem) \<Rightarrow> Slice option \<Rightarrow> 'c mem \<Rightarrow> Slice option \<times> 'c mem"
where
  "copy_slice mk the_v copy_into s0 h =
     (case s0 of
        None \<Rightarrow> (None, h)
      | Some s \<Rightarrow>
          let out = length h;
              h = h @ [Array (replicate (sl_len s) None)];
              h = fold (copy_elem mk the_v copy_into s out) [0..<sl_len s] h
          in (Some \<lparr>sl_base = out, sl_from = 0, sl_len = sl_len s\<rparr>, h))"

text \<open>
  \<open>*out = make(map[string]string, len(*in))\<close> and the loop over the entries, which come in some
  order: a map in memory is the list of its entries in the order of the loop.
\<close>

type_synonym entries = "(string \<times> string) list"

definition put_entry :: "(entries \<Rightarrow> 'c) \<Rightarrow> ('c \<Rightarrow> entries) \<Rightarrow> nat \<Rightarrow> string \<times> string \<Rightarrow> 'c mem \<Rightarrow> 'c mem" where
  "put_entry mk the_v out e h = h[out := Obj (mk (AList.update (fst e) (snd e) (load the_v h out)))]"

definition copy_map ::
  "(entries \<Rightarrow> 'c) \<Rightarrow> ('c \<Rightarrow> entries) \<Rightarrow> nat option \<Rightarrow> 'c mem \<Rightarrow> nat option \<times> 'c mem"
where
  "copy_map mk the_v p h =
     (case p of
        None \<Rightarrow> (None, h)
      | Some a \<Rightarrow>
          let out = length h;
              h = h @ [Obj (mk [])];
              h = fold (put_entry mk the_v out) (load the_v h a) h
          in (Some out, h))"

subsection \<open>Well-formed memory and its contents\<close>

text \<open>
  An address leads to a variable of the type the pointer has, as Go's types promise, and so do the
  elements of a slice, which lies within its array. The contents are read through the addresses.
\<close>

definition ptr_valid ::
  "('c \<Rightarrow> bool) \<Rightarrow> ('c \<Rightarrow> 'a) \<Rightarrow> ('c mem \<Rightarrow> 'a \<Rightarrow> bool) \<Rightarrow> 'c mem \<Rightarrow> nat option \<Rightarrow> bool"
where
  "ptr_valid is_v the_v valid h p =
     (case p of
        None \<Rightarrow> True
      | Some a \<Rightarrow> a < length h \<and> (case h ! a of Obj c \<Rightarrow> is_v c | _ \<Rightarrow> False) \<and>
          valid h (load the_v h a))"

definition ptr_content :: "('c \<Rightarrow> 'a) \<Rightarrow> ('c mem \<Rightarrow> 'a \<Rightarrow> 'b) \<Rightarrow> 'c mem \<Rightarrow> nat option \<Rightarrow> 'b option" where
  "ptr_content the_v content h p = map_option (\<lambda>a. content h (load the_v h a)) p"

definition elem_valid ::
  "('c \<Rightarrow> bool) \<Rightarrow> ('c \<Rightarrow> 'a) \<Rightarrow> ('c mem \<Rightarrow> 'a \<Rightarrow> bool) \<Rightarrow> 'c mem \<Rightarrow> nat \<Rightarrow> nat \<Rightarrow> bool"
where
  "elem_valid is_v the_v valid h p i =
     (case array_at h p ! i of
        None \<Rightarrow> False
      | Some c \<Rightarrow> is_v c \<and> valid h (the_v c))"

definition slice_valid ::
  "('c \<Rightarrow> bool) \<Rightarrow> ('c \<Rightarrow> 'a) \<Rightarrow> ('c mem \<Rightarrow> 'a \<Rightarrow> bool) \<Rightarrow> 'c mem \<Rightarrow> Slice option \<Rightarrow> bool"
where
  "slice_valid is_v the_v valid h s0 =
     (case s0 of
        None \<Rightarrow> True
      | Some s \<Rightarrow> sl_base s < length h \<and> sl_from s + sl_len s \<le> length (array_at h (sl_base s)) \<and>
          (\<forall>i < sl_len s. elem_valid is_v the_v valid h (sl_base s) (sl_from s + i)))"

definition slice_content ::
  "('c \<Rightarrow> 'a) \<Rightarrow> ('c mem \<Rightarrow> 'a \<Rightarrow> 'b) \<Rightarrow> 'c mem \<Rightarrow> Slice option \<Rightarrow> 'b list option"
where
  "slice_content the_v content h s0 =
     map_option (\<lambda>s. map (\<lambda>i. content h (load_elem the_v h (sl_base s) (sl_from s + i))) [0..<sl_len s]) s0"

abbreviation map_valid :: "('c \<Rightarrow> bool) \<Rightarrow> ('c \<Rightarrow> entries) \<Rightarrow> 'c mem \<Rightarrow> nat option \<Rightarrow> bool" where
  "map_valid is_v the_v \<equiv> ptr_valid is_v the_v (\<lambda>h es. distinct (map fst es))"

abbreviation map_content :: "('c \<Rightarrow> entries) \<Rightarrow> 'c mem \<Rightarrow> nat option \<Rightarrow> (string \<rightharpoonup> string) option" where
  "map_content the_v \<equiv> ptr_content the_v (\<lambda>h. map_of)"

lemma load_append [simp]: "p < length h \<Longrightarrow> load the_v (h @ t) p = load the_v h p"
  by (simp add: load_def nth_append)

lemma load_new [simp]: "length g = n \<Longrightarrow> load the_v (g @ Obj c # t) n = the_v c"
  by (auto simp: load_def)

lemma nth_append_length_of: "length g = n \<Longrightarrow> (g @ x # t) ! n = x"
  by auto

lemma update_fresh: "k \<notin> fst ` set es \<Longrightarrow> AList.update k v es = es @ [(k, v)]"
  by (induction es) auto

lemma array_at_append [simp]: "p < length h \<Longrightarrow> array_at (h @ t) p = array_at h p"
  by (simp add: array_at_def nth_append)

lemma array_at_new [simp]: "length g = n \<Longrightarrow> array_at (g @ Array xs # t) n = xs"
  by (auto simp: array_at_def)

lemma load_elem_append [simp]:
  "p < length h \<Longrightarrow> load_elem the_v (h @ t) p i = load_elem the_v h p i"
  by (simp add: load_elem_def)

lemma load_elem_new [simp]:
  "length g = n \<Longrightarrow> load_elem the_v (g @ Array xs # t) n i = the_v (the (xs ! i))"
  by (simp add: load_elem_def)

subsection \<open>The interface of a deep copy\<close>

locale deep_copier =
  fixes valid :: "'c mem \<Rightarrow> 'a \<Rightarrow> bool"
    and content :: "'c mem \<Rightarrow> 'a \<Rightarrow> 'b"
    and copy_into :: "'a \<Rightarrow> 'c mem \<Rightarrow> 'a \<times> 'c mem"
  assumes grows_valid: "valid h v \<Longrightarrow> valid (h @ t) v"
    and grows_content: "valid h v \<Longrightarrow> content (h @ t) v = content h v"
    and copies: "valid h v \<Longrightarrow> \<exists>v' t. copy_into v h = (v', h @ t) \<and>
      (\<forall>g. length g = length h \<longrightarrow> valid (g @ t) v' \<and> content (g @ t) v' = content h v)"
begin

text \<open>
  Whatever is written to the objects that were there (\<open>g\<close>) does not show in the copy, and whatever
  is written to those of the copy (\<open>t'\<close>) does not show in the original.
\<close>

lemma apart:
  assumes "valid h v"
  obtains v' t where "copy_into v h = (v', h @ t)"
    and "valid (h @ t) v'" and "content (h @ t) v' = content h v"
    and "\<And>g. length g = length h \<Longrightarrow> content (g @ t) v' = content h v"
    and "\<And>t'. content (h @ t') v = content h v"
  using copies [OF assms] grows_content [OF assms] by blast

end

lemma assign_copies: "deep_copier (\<lambda>h v. P v) (\<lambda>h. f) assign"
  by unfold_locales (auto simp: assign_def)

interpretation plain: deep_copier "\<lambda>h v. True" "\<lambda>h v. v" assign
  by (rule assign_copies)

subsection \<open>Pointers\<close>

lemma new_copy_copies:
  assumes "deep_copier valid content copy_into"
    and mk: "\<And>v. is_v (mk v)" "\<And>v. the_v (mk v) = v"
  shows "deep_copier (ptr_valid is_v the_v valid) (ptr_content the_v content)
           (new_copy mk the_v copy_into)"
proof (rule deep_copier.intro)
  fix h t and p :: "nat option" assume v: "ptr_valid is_v the_v valid h p"
  then show "ptr_valid is_v the_v valid (h @ t) p"
    by (auto simp: ptr_valid_def nth_append deep_copier.grows_valid [OF assms(1)] split: option.splits)
  show "ptr_content the_v content (h @ t) p = ptr_content the_v content h p"
    using v by (auto simp: ptr_valid_def ptr_content_def deep_copier.grows_content [OF assms(1)]
        split: option.splits)
next
  fix h and p :: "nat option" assume v: "ptr_valid is_v the_v valid h p"
  show "\<exists>p' t. new_copy mk the_v copy_into p h = (p', h @ t) \<and>
      (\<forall>g. length g = length h \<longrightarrow>
        ptr_valid is_v the_v valid (g @ t) p' \<and>
        ptr_content the_v content (g @ t) p' = ptr_content the_v content h p)"
  proof (cases p)
    case None
    then show ?thesis by (auto simp: new_copy_def ptr_valid_def ptr_content_def)
  next
    case (Some a)
    let ?v = "load the_v h a"
    from v Some have a: "a < length h" "valid h ?v" by (auto simp: ptr_valid_def)
    obtain v' t where into: "copy_into ?v (h @ [Zeroed]) = (v', (h @ [Zeroed]) @ t)"
      and new: "\<And>g. length g = length (h @ [Zeroed]) \<Longrightarrow>
        valid (g @ t) v' \<and> content (g @ t) v' = content h ?v"
      using deep_copier.copies [OF assms(1) deep_copier.grows_valid [OF assms(1) a(2)], of "[Zeroed]"]
        deep_copier.grows_content [OF assms(1) a(2)] by auto
    have "valid (g @ Obj (mk v') # t) v' \<and> content (g @ Obj (mk v') # t) v' = content h ?v"
      if "length g = length h" for g
      using new [of "g @ [Obj (mk v')]"] that by simp
    then show ?thesis
      using into a mk Some
      by (intro exI [of _ "Some (length h)"] exI [of _ "Obj (mk v') # t"])
        (auto simp: new_copy_def ptr_valid_def ptr_content_def nth_append_length_of)
  qed
qed

subsection \<open>Maps\<close>

lemma put_entries:
  assumes "\<And>es. the_v (mk es) = es" and "distinct (map fst (done @ es))"
  shows "fold (put_entry mk the_v (length h)) es (h @ [Obj (mk done)]) = h @ [Obj (mk (done @ es))]"
  using assms(2)
proof (induction es arbitrary: "done")
  case (Cons e es)
  then have "AList.update (fst e) (snd e) done = done @ [e]"
    by (auto simp: update_fresh)
  then show ?case
    using Cons.IH [of "done @ [e]"] Cons.prems by (simp add: put_entry_def assms(1))
qed simp

lemma copy_map_copies:
  assumes "\<And>es. is_v (mk es)" "\<And>es. the_v (mk es) = es"
  shows "deep_copier (map_valid is_v the_v) (map_content the_v) (copy_map mk the_v)"
proof (rule deep_copier.intro)
  fix h t and p :: "nat option" assume v: "map_valid is_v the_v h p"
  then show "map_valid is_v the_v (h @ t) p"
    by (auto simp: ptr_valid_def nth_append split: option.splits)
  show "map_content the_v (h @ t) p = map_content the_v h p"
    using v by (auto simp: ptr_valid_def ptr_content_def split: option.splits)
next
  fix h and p :: "nat option" assume v: "map_valid is_v the_v h p"
  show "\<exists>p' t. copy_map mk the_v p h = (p', h @ t) \<and>
      (\<forall>g. length g = length h \<longrightarrow>
        map_valid is_v the_v (g @ t) p' \<and> map_content the_v (g @ t) p' = map_content the_v h p)"
  proof (cases p)
    case None
    then show ?thesis by (auto simp: copy_map_def ptr_valid_def ptr_content_def)
  next
    case (Some a)
    with v have "a < length h" "distinct (map fst (load the_v h a))" by (auto simp: ptr_valid_def)
    then show ?thesis
      using put_entries [of the_v mk "[]" "load the_v h a" h] assms Some
      by (intro exI [of _ "Some (length h)"] exI [of _ "[Obj (mk (load the_v h a))]"])
        (auto simp: copy_map_def ptr_valid_def ptr_content_def nth_append_length_of)
  qed
qed

subsection \<open>Slices\<close>

lemma array_stored:
  "length g = n \<Longrightarrow> store_elem (g @ Array xs # t) n i c = g @ Array (xs[i := Some c]) # t"
  by (auto simp: store_elem_def)

definition elems_stand ::
  "('c mem \<Rightarrow> 'a \<Rightarrow> bool) \<Rightarrow> ('c mem \<Rightarrow> 'a \<Rightarrow> 'b) \<Rightarrow> nat \<Rightarrow> 'c mem \<Rightarrow> 'a list \<Rightarrow> 'b list \<Rightarrow> bool"
where
  "elems_stand valid content n t vs ys \<longleftrightarrow>
     (\<forall>g x. length g = n \<longrightarrow>
        (\<forall>v \<in> set vs. valid (g @ x # t) v) \<and> map (content (g @ x # t)) vs = ys)"

lemma elems_stand_grow:
  assumes "deep_copier valid content copy_into" and "elems_stand valid content n t vs ys"
    and "\<And>g x. length g = n \<Longrightarrow> valid (g @ x # t @ t') v \<and> content (g @ x # t @ t') v = y"
  shows "elems_stand valid content n (t @ t') (vs @ [v]) (ys @ [y])"
proof -
  have "(\<forall>w \<in> set vs. valid (g @ x # t @ t') w) \<and> map (content (g @ x # t @ t')) vs = ys"
    if "length g = n" for g x
    using assms(2) that deep_copier.grows_valid [OF assms(1), of "g @ x # t" _ t']
      deep_copier.grows_content [OF assms(1), of "g @ x # t" _ t']
    by (fastforce simp: elems_stand_def intro: map_cong)
  then show ?thesis using assms(3) by (auto simp: elems_stand_def)
qed

lemma slice_validD:
  "slice_valid is_v the_v valid h (Some s) \<Longrightarrow> i < sl_len s \<Longrightarrow>
     valid h (load_elem the_v h (sl_base s) (sl_from s + i))"
  by (fastforce simp: slice_valid_def elem_valid_def load_elem_def split: option.splits)

lemma copy_elems:
  assumes copier: "deep_copier valid content copy_into"
    and mk: "\<And>v. is_v (mk v)" "\<And>v. the_v (mk v) = v"
    and s: "slice_valid is_v the_v valid h (Some s)" and "k \<le> sl_len s"
  shows "\<exists>vs t. fold (copy_elem mk the_v copy_into s (length h)) [0..<k]
                 (h @ [Array (replicate (sl_len s) None)]) =
               h @ Array (map (\<lambda>v. Some (mk v)) vs @ replicate (sl_len s - k) None) # t \<and>
             length vs = k \<and>
             elems_stand valid content (length h) t vs
               (map (\<lambda>i. content h (load_elem the_v h (sl_base s) (sl_from s + i))) [0..<k])"
  using \<open>k \<le> sl_len s\<close>
proof (induction k)
  case 0
  then show ?case by (auto simp: elems_stand_def)
next
  case (Suc k)
  let ?v = "load_elem the_v h (sl_base s) (sl_from s + k)"
  let ?ys = "map (\<lambda>i. content h (load_elem the_v h (sl_base s) (sl_from s + i))) [0..<k]"
  obtain vs t where IH: "fold (copy_elem mk the_v copy_into s (length h)) [0..<k]
        (h @ [Array (replicate (sl_len s) None)]) =
        h @ Array (map (\<lambda>v. Some (mk v)) vs @ replicate (sl_len s - k) None) # t"
      (is "_ = ?h") and len: "length vs = k"
    and old: "elems_stand valid content (length h) t vs ?ys"
    using Suc by auto
  have v: "valid h ?v" and base: "sl_base s < length h"
    using slice_validD [OF s, of k] s Suc.prems by (auto simp: slice_valid_def)
  obtain v' t' where into: "copy_into ?v ?h = (v', ?h @ t')"
    and new: "\<And>g. length g = length ?h \<Longrightarrow>
      valid (g @ t') v' \<and> content (g @ t') v' = content ?h ?v"
    using deep_copier.copies [OF copier deep_copier.grows_valid [OF copier v]] by blast
  have "valid (g @ x # t @ t') v' \<and> content (g @ x # t @ t') v' = content h ?v"
    if "length g = length h" for g x
    using new [of "g @ x # t"] that deep_copier.grows_content [OF copier v] by simp
  then have stands: "elems_stand valid content (length h) (t @ t') (vs @ [v']) (?ys @ [content h ?v])"
    by (rule elems_stand_grow [OF copier old])
  have "(map (\<lambda>v. Some (mk v)) vs @ replicate (sl_len s - k) None)[k := Some (mk v')] =
      map (\<lambda>v. Some (mk v)) (vs @ [v']) @ replicate (sl_len s - Suc k) None"
    using Suc.prems len
    by (simp add: list_update_append Suc_diff_Suc [symmetric] replicate_Suc [symmetric] del: replicate_Suc)
      (simp add: Suc_diff_Suc [symmetric] Suc_le_eq)
  then have "copy_elem mk the_v copy_into s (length h) k ?h =
      h @ Array (map (\<lambda>v. Some (mk v)) (vs @ [v']) @ replicate (sl_len s - Suc k) None) # t @ t'"
    using into base by (simp add: copy_elem_def array_stored)
  with IH len stands show ?case
    by (intro exI [of _ "vs @ [v']"] exI [of _ "t @ t'"]) simp
qed

lemma stood_slice:
  assumes stand: "elems_stand valid content n t vs ys" and len: "length vs = m"
    and mk: "\<And>v. is_v (mk v)" "\<And>v. the_v (mk v) = v" and g: "length g = n"
  defines "h \<equiv> g @ Array (map (\<lambda>v. Some (mk v)) vs) # t"
    and "s \<equiv> Some \<lparr>sl_base = n, sl_from = 0, sl_len = m\<rparr>"
  shows "slice_valid is_v the_v valid h s \<and> slice_content the_v content h s = Some ys"
proof
  have valid: "\<forall>v \<in> set vs. valid h v" and ys: "map (content h) vs = ys"
    using stand g by (auto simp: elems_stand_def h_def)
  have arr: "array_at h n = map (\<lambda>v. Some (mk v)) vs" using g by (simp add: h_def)
  show "slice_valid is_v the_v valid h s"
    using valid len g mk by (simp add: slice_valid_def s_def elem_valid_def arr) (simp add: h_def)
  have "map (\<lambda>i. content h (load_elem the_v h n i)) [0..<m] = map (\<lambda>i. content h (vs ! i)) [0..<m]"
    using len mk by (simp add: load_elem_def arr)
  also have "\<dots> = ys" using ys len map_nth [of vs] by (metis (no_types) list.map_comp comp_apply map_cong)
  finally show "slice_content the_v content h s = Some ys" by (simp add: slice_content_def s_def)
qed

lemma copy_slice_copies:
  assumes copier: "deep_copier valid content copy_into"
    and mk: "\<And>v. is_v (mk v)" "\<And>v. the_v (mk v) = v"
  shows "deep_copier (slice_valid is_v the_v valid) (slice_content the_v content)
           (copy_slice mk the_v copy_into)"
proof (rule deep_copier.intro)
  fix h t and s :: "Slice option" assume v: "slice_valid is_v the_v valid h s"
  then show "slice_valid is_v the_v valid (h @ t) s"
    by (auto simp: slice_valid_def elem_valid_def deep_copier.grows_valid [OF copier]
        split: option.splits)
  show "slice_content the_v content (h @ t) s = slice_content the_v content h s"
    using v by (auto simp: slice_valid_def slice_content_def elem_valid_def load_elem_def
        deep_copier.grows_content [OF copier] split: option.splits)
next
  fix h and s :: "Slice option" assume v: "slice_valid is_v the_v valid h s"
  show "\<exists>s' t. copy_slice mk the_v copy_into s h = (s', h @ t) \<and>
      (\<forall>g. length g = length h \<longrightarrow> slice_valid is_v the_v valid (g @ t) s' \<and>
        slice_content the_v content (g @ t) s' = slice_content the_v content h s)"
  proof (cases s)
    case None
    then show ?thesis by (auto simp: copy_slice_def slice_valid_def slice_content_def)
  next
    case (Some s1)
    let ?ys = "map (\<lambda>i. content h (load_elem the_v h (sl_base s1) (sl_from s1 + i))) [0..<sl_len s1]"
    let ?s' = "\<lparr>sl_base = length h, sl_from = 0, sl_len = sl_len s1\<rparr>"
    obtain vs t where loop: "fold (copy_elem mk the_v copy_into s1 (length h)) [0..<sl_len s1]
          (h @ [Array (replicate (sl_len s1) None)]) = h @ Array (map (\<lambda>v. Some (mk v)) vs) # t"
      and len: "length vs = sl_len s1" and stand: "elems_stand valid content (length h) t vs ?ys"
      using copy_elems [where is_v = is_v and mk = mk and the_v = the_v and k = "sl_len s1",
          OF copier mk(1) mk(2) v [unfolded Some] order.refl] by auto
    have "slice_valid is_v the_v valid (g @ Array (map (\<lambda>v. Some (mk v)) vs) # t) (Some ?s') \<and>
        slice_content the_v content (g @ Array (map (\<lambda>v. Some (mk v)) vs) # t) (Some ?s') = Some ?ys"
      if "length g = length h" for g
      using stood_slice [where is_v = is_v and mk = mk and the_v = the_v, OF stand len mk that] .
    then show ?thesis
      using loop Some
      by (intro exI [of _ "Some ?s'"] exI [of _ "Array (map (\<lambda>v. Some (mk v)) vs) # t"])
        (auto simp: copy_slice_def slice_content_def)
  qed
qed

subsection \<open>Structs\<close>

text \<open>
  The deep copy of a struct copies its fields with memory of their own one after the other, and the
  rest by assignment. \<open>pair_copies\<close> joins the copies of two fields, and \<open>struct_copies\<close> carries the
  result over to the struct, given how to read these fields and how to set them.
\<close>

definition pair_into ::
  "('a \<Rightarrow> 'c mem \<Rightarrow> 'a \<times> 'c mem) \<Rightarrow> ('b \<Rightarrow> 'c mem \<Rightarrow> 'b \<times> 'c mem) \<Rightarrow>
     'a \<times> 'b \<Rightarrow> 'c mem \<Rightarrow> ('a \<times> 'b) \<times> 'c mem"
where
  "pair_into ia ib v h = (let (a, h) = ia (fst v) h; (b, h) = ib (snd v) h in ((a, b), h))"

definition pair_valid :: "('c mem \<Rightarrow> 'a \<Rightarrow> bool) \<Rightarrow> ('c mem \<Rightarrow> 'b \<Rightarrow> bool) \<Rightarrow> 'c mem \<Rightarrow> 'a \<times> 'b \<Rightarrow> bool" where
  "pair_valid va vb h v \<longleftrightarrow> va h (fst v) \<and> vb h (snd v)"

definition pair_content ::
  "('c mem \<Rightarrow> 'a \<Rightarrow> 'x) \<Rightarrow> ('c mem \<Rightarrow> 'b \<Rightarrow> 'y) \<Rightarrow> 'c mem \<Rightarrow> 'a \<times> 'b \<Rightarrow> 'x \<times> 'y"
where
  "pair_content ca cb h v = (ca h (fst v), cb h (snd v))"

lemma pair_copies:
  assumes a: "deep_copier va ca ia" and b: "deep_copier vb cb ib"
  shows "deep_copier (pair_valid va vb) (pair_content ca cb) (pair_into ia ib)"
proof (rule deep_copier.intro)
  fix h t and v :: "'b \<times> 'd" assume v: "pair_valid va vb h v"
  then show "pair_valid va vb (h @ t) v"
    by (simp add: pair_valid_def deep_copier.grows_valid [OF a] deep_copier.grows_valid [OF b])
  show "pair_content ca cb (h @ t) v = pair_content ca cb h v"
    using v by (simp add: pair_valid_def pair_content_def
        deep_copier.grows_content [OF a] deep_copier.grows_content [OF b])
next
  fix h and v :: "'b \<times> 'd" assume v: "pair_valid va vb h v"
  then have "va h (fst v)" by (simp add: pair_valid_def)
  then obtain x t where x: "ia (fst v) h = (x, h @ t)"
    and standx: "\<And>g. length g = length h \<Longrightarrow> va (g @ t) x \<and> ca (g @ t) x = ca h (fst v)"
    using deep_copier.copies [OF a, of h "fst v"] by blast
  from v have "vb h (snd v)" by (simp add: pair_valid_def)
  then obtain y u where y: "ib (snd v) (h @ t) = (y, (h @ t) @ u)"
    and standy: "\<And>g. length g = length (h @ t) \<Longrightarrow> vb (g @ u) y \<and> cb (g @ u) y = cb h (snd v)"
    using deep_copier.copies [OF b deep_copier.grows_valid [OF b], of h "snd v" t]
      deep_copier.grows_content [OF b] by auto
  have "pair_valid va vb (g @ t @ u) (x, y) \<and>
      pair_content ca cb (g @ t @ u) (x, y) = pair_content ca cb h v"
    if "length g = length h" for g
    using standx [OF that] standy [of "g @ t"] that deep_copier.grows_valid [OF a, of "g @ t"]
      deep_copier.grows_content [OF a, of "g @ t"]
    by (simp add: pair_valid_def pair_content_def)
  with x y show "\<exists>v' t. pair_into ia ib v h = (v', h @ t) \<and>
      (\<forall>g. length g = length h \<longrightarrow>
        pair_valid va vb (g @ t) v' \<and> pair_content ca cb (g @ t) v' = pair_content ca cb h v)"
    by (intro exI [of _ "(x, y)"] exI [of _ "t @ u"]) (simp add: pair_into_def)
qed

lemma struct_copies:
  assumes c: "deep_copier valid content copy_into"
    and valid: "\<And>h s. valid' h s = valid h (get s)"
    and into: "\<And>h s. into' s h = (let (x, h) = copy_into (get s) h in (put x s, h))"
    and get: "\<And>x s. get (put x s) = x" and put: "\<And>s. put (get s) s = s"
    and cong: "\<And>h h' x s. content h x = content h' (get s) \<Longrightarrow> content' h (put x s) = content' h' s"
  shows "deep_copier valid' content' into'"
proof (rule deep_copier.intro)
  fix h t s assume v: "valid' h s"
  then show "valid' (h @ t) s" by (simp add: valid deep_copier.grows_valid [OF c])
  show "content' (h @ t) s = content' h s"
    using cong [of "h @ t" "get s" h s] v by (simp add: put valid deep_copier.grows_content [OF c])
next
  fix h s assume v: "valid' h s"
  then have "valid h (get s)" by (simp add: valid)
  then obtain x t where x: "copy_into (get s) h = (x, h @ t)"
    and stand: "\<And>g. length g = length h \<Longrightarrow> valid (g @ t) x \<and> content (g @ t) x = content h (get s)"
    using deep_copier.copies [OF c, of h "get s"] by blast
  then show "\<exists>s' t. into' s h = (s', h @ t) \<and>
      (\<forall>g. length g = length h \<longrightarrow> valid' (g @ t) s' \<and> content' (g @ t) s' = content' h s)"
    by (intro exI [of _ "put x s"] exI [of _ t]) (auto simp: into valid get intro: cong)
qed

lemmas copies_by_kind = new_copy_copies copy_map_copies copy_slice_copies pair_copies
lemmas pair_defs = pair_into_def pair_valid_def pair_content_def

end
