(* ===== verification/ApiCopies.thy ===== *)
theory ApiCopies
  imports Memory Conditions
begin

text \<open>
  The deep copies of the ControlPlane's types
  (\<open>apis/controlplanes/v3/zz_generated.deepcopy.go\<close>), on the memory of \<open>Memory\<close>. A struct without
  pointers is its record of \<open>ApiTypes\<close>; the others have a record here, with a field's name prefixed
  by \<open>m\<close>, that holds the addresses, and a function \<open>_content\<close> that reads the record of \<open>ApiTypes\<close>
  through them. A \<open>DeepCopyInto\<close> takes the receiver's value and returns the value written to \<open>out\<close>:
  every caller passes two different variables.

  \<open>ObjectMeta\<close>, \<open>ListMeta\<close> and \<open>Condition\<close> are types of Kubernetes with deep copies of their own,
  the record \<open>Foreign\<close>; the locale \<open>foreign_copies\<close> says that they are deep copies.
\<close>

subsection \<open>The structs in memory\<close>

record TypeMeta =
  tm_Kind :: string
  tm_APIVersion :: string

record User =
  user_Name :: string
  user_Surname :: string
  user_Email :: string
  user_Password :: string
  user_SubscriptionKey :: string

record Ingress =
  ig_Address :: string

record MVault =
  mv_Enabled :: "nat option"
  mv_Provider :: string
  mv_BasePath :: string
  mv_Hashicorp :: "nat option"
  mv_Aws :: "nat option"
  mv_Azure :: "nat option"
  mv_Google :: "nat option"

record MService =
  msvc_Type :: string
  msvc_Address :: string
  msvc_Annotations :: "nat option"
  msvc_ExternalTrafficPolicy :: string

record MServices =
  msvcs_Controller :: MService
  msvcs_Router :: MService
  msvcs_Nats :: MService
  msvcs_NatsServer :: MService

record MEvents =
  mevt_AuditEnabled :: "nat option"
  mevt_RetentionDays :: int
  mevt_CleanupInterval :: int
  mevt_CaptureIpAddress :: "nat option"

record MDatabase =
  mdb_Provider :: string
  mdb_Host :: string
  mdb_Port :: int
  mdb_User :: string
  mdb_Password :: string
  mdb_DatabaseName :: string
  mdb_SSL :: "nat option"
  mdb_CA :: "nat option"

record MControllerIngress =
  mci_Annotations :: "nat option"
  mci_IngressClassName :: string
  mci_Host :: string
  mci_SecretName :: string

record MIngresses =
  ming_Controller :: MControllerIngress
  ming_Router :: RouterIngress
  ming_Nats :: NatsIngress

record MController =
  mctl_PidBaseDir :: string
  mctl_EcnViewerPort :: int
  mctl_EcnViewerURL :: string
  mctl_ECNName :: string
  mctl_Https :: "nat option"
  mctl_SecretName :: string
  mctl_LogLevel :: string

record MNats =
  mnats_Enabled :: "nat option"
  mnats_JetStream :: NatsJetStream

record MControlPlaneSpec =
  mspec_Auth :: Auth
  mspec_Database :: MDatabase
  mspec_Ingresses :: MIngresses
  mspec_Services :: MServices
  mspec_Replicas :: Replicas
  mspec_Images :: Images
  mspec_Controller :: MController
  mspec_Events :: MEvents
  mspec_Nats :: "nat option"
  mspec_Vault :: "nat option"

record MControlPlaneStatus =
  mstat_Conditions :: "Slice option"

record 'm MControlPlane =
  mcp_TypeMeta :: TypeMeta
  mcp_ObjectMeta :: 'm
  mcp_Spec :: MControlPlaneSpec
  mcp_Status :: MControlPlaneStatus

record 'l MControlPlaneList =
  mcpl_TypeMeta :: TypeMeta
  mcpl_ListMeta :: 'l
  mcpl_Items :: "Slice option"

text \<open>What a variable or an element of an array may hold; \<open>'f\<close> is what Kubernetes' own types keep.\<close>

datatype ('m, 'l, 'f) cell =
    is_Bool: BoolCell (the_Bool: bool)
  | is_String: StringCell (the_String: string)
  | is_Map: MapCell (the_Map: entries)
  | is_VaultHashicorp: VaultHashicorpCell (the_VaultHashicorp: VaultHashicorp)
  | is_VaultAws: VaultAwsCell (the_VaultAws: VaultAws)
  | is_VaultAzure: VaultAzureCell (the_VaultAzure: VaultAzure)
  | is_VaultGoogle: VaultGoogleCell (the_VaultGoogle: VaultGoogle)
  | is_Vault: VaultCell (the_Vault: MVault)
  | is_Auth: AuthCell (the_Auth: Auth)
  | is_Images: ImagesCell (the_Images: Images)
  | is_Replicas: ReplicasCell (the_Replicas: Replicas)
  | is_User: UserCell (the_User: User)
  | is_Ingress: IngressCell (the_Ingress: Ingress)
  | is_RouterIngress: RouterIngressCell (the_RouterIngress: RouterIngress)
  | is_NatsIngress: NatsIngressCell (the_NatsIngress: NatsIngress)
  | is_NatsJetStream: NatsJetStreamCell (the_NatsJetStream: NatsJetStream)
  | is_Nats: NatsCell (the_Nats: MNats)
  | is_Controller: ControllerCell (the_Controller: MController)
  | is_Events: EventsCell (the_Events: MEvents)
  | is_Database: DatabaseCell (the_Database: MDatabase)
  | is_ControllerIngress: ControllerIngressCell (the_ControllerIngress: MControllerIngress)
  | is_Ingresses: IngressesCell (the_Ingresses: MIngresses)
  | is_Service: ServiceCell (the_Service: MService)
  | is_Services: ServicesCell (the_Services: MServices)
  | is_Condition: ConditionCell (the_Condition: Condition)
  | is_ControlPlaneSpec: ControlPlaneSpecCell (the_ControlPlaneSpec: MControlPlaneSpec)
  | is_ControlPlaneStatus: ControlPlaneStatusCell (the_ControlPlaneStatus: MControlPlaneStatus)
  | is_ControlPlane: ControlPlaneCell (the_ControlPlane: "'m MControlPlane")
  | is_ControlPlaneList: ControlPlaneListCell (the_ControlPlaneList: "'l MControlPlaneList")
  | is_Foreign: ForeignCell (the_Foreign: "'f")

type_synonym ('m, 'l, 'f) memory = "('m, 'l, 'f) cell mem"
type_synonym ('a, 'm, 'l, 'f) copying = "'a \<Rightarrow> ('m, 'l, 'f) cell mem \<Rightarrow> 'a \<times> ('m, 'l, 'f) cell mem"

record ('m, 'l, 'f, 'y) Foreign =
  x_meta_valid :: "('m, 'l, 'f) memory \<Rightarrow> 'm \<Rightarrow> bool"
  x_meta_content :: "('m, 'l, 'f) memory \<Rightarrow> 'm \<Rightarrow> Meta"
  x_meta_DeepCopyInto :: "('m, 'm, 'l, 'f) copying"
  x_list_valid :: "('m, 'l, 'f) memory \<Rightarrow> 'l \<Rightarrow> bool"
  x_list_content :: "('m, 'l, 'f) memory \<Rightarrow> 'l \<Rightarrow> 'y"
  x_list_DeepCopyInto :: "('l, 'm, 'l, 'f) copying"
  x_cond_DeepCopyInto :: "(Condition, 'm, 'l, 'f) copying"

text \<open>Memory such as Go's types allow, and the record of \<open>ApiTypes\<close> that it holds.\<close>

definition or_else :: "'a \<Rightarrow> 'a option \<Rightarrow> 'a" where
  "or_else d x = (case x of None \<Rightarrow> d | Some y \<Rightarrow> y)"

abbreviation ptr_to :: "(('m, 'l, 'f) cell \<Rightarrow> bool) \<Rightarrow> (('m, 'l, 'f) cell \<Rightarrow> 'a) \<Rightarrow>
    ('m, 'l, 'f) memory \<Rightarrow> nat option \<Rightarrow> bool" where
  "ptr_to is_v the_v \<equiv> ptr_valid is_v the_v (\<lambda>h v. True)"

abbreviation pointee :: "(('m, 'l, 'f) cell \<Rightarrow> 'a) \<Rightarrow> ('m, 'l, 'f) memory \<Rightarrow> nat option \<Rightarrow> 'a option" where
  "pointee the_v \<equiv> ptr_content the_v (\<lambda>h v. v)"

definition Vault_valid :: "('m, 'l, 'f) memory \<Rightarrow> MVault \<Rightarrow> bool" where
  "Vault_valid h v \<longleftrightarrow>
     ptr_to is_Bool the_Bool h (mv_Enabled v) \<and>
     ptr_to is_VaultHashicorp the_VaultHashicorp h (mv_Hashicorp v) \<and>
     ptr_to is_VaultAws the_VaultAws h (mv_Aws v) \<and>
     ptr_to is_VaultAzure the_VaultAzure h (mv_Azure v) \<and>
     ptr_to is_VaultGoogle the_VaultGoogle h (mv_Google v)"

definition Vault_content :: "('m, 'l, 'f) memory \<Rightarrow> MVault \<Rightarrow> Vault" where
  "Vault_content h v =
     \<lparr>v_Enabled = pointee the_Bool h (mv_Enabled v),
      v_Provider = mv_Provider v,
      v_BasePath = mv_BasePath v,
      v_Hashicorp = pointee the_VaultHashicorp h (mv_Hashicorp v),
      v_Aws = pointee the_VaultAws h (mv_Aws v),
      v_Azure = pointee the_VaultAzure h (mv_Azure v),
      v_Google = pointee the_VaultGoogle h (mv_Google v)\<rparr>"

definition Service_valid :: "('m, 'l, 'f) memory \<Rightarrow> MService \<Rightarrow> bool" where
  "Service_valid h v \<longleftrightarrow>
     map_valid is_Map the_Map h (msvc_Annotations v)"

definition Service_content :: "('m, 'l, 'f) memory \<Rightarrow> MService \<Rightarrow> Service" where
  "Service_content h v =
     \<lparr>svc_Type = msvc_Type v,
      svc_Address = msvc_Address v,
      svc_Annotations = or_else Map.empty (map_content the_Map h (msvc_Annotations v)),
      svc_ExternalTrafficPolicy = msvc_ExternalTrafficPolicy v\<rparr>"

definition Services_valid :: "('m, 'l, 'f) memory \<Rightarrow> MServices \<Rightarrow> bool" where
  "Services_valid h v \<longleftrightarrow>
     Service_valid h (msvcs_Controller v) \<and>
     Service_valid h (msvcs_Router v) \<and>
     Service_valid h (msvcs_Nats v) \<and>
     Service_valid h (msvcs_NatsServer v)"

definition Services_content :: "('m, 'l, 'f) memory \<Rightarrow> MServices \<Rightarrow> Services" where
  "Services_content h v =
     \<lparr>svcs_Controller = Service_content h (msvcs_Controller v),
      svcs_Router = Service_content h (msvcs_Router v),
      svcs_Nats = Service_content h (msvcs_Nats v),
      svcs_NatsServer = Service_content h (msvcs_NatsServer v)\<rparr>"

definition Events_valid :: "('m, 'l, 'f) memory \<Rightarrow> MEvents \<Rightarrow> bool" where
  "Events_valid h v \<longleftrightarrow>
     ptr_to is_Bool the_Bool h (mevt_AuditEnabled v) \<and>
     ptr_to is_Bool the_Bool h (mevt_CaptureIpAddress v)"

definition Events_content :: "('m, 'l, 'f) memory \<Rightarrow> MEvents \<Rightarrow> Events" where
  "Events_content h v =
     \<lparr>evt_AuditEnabled = pointee the_Bool h (mevt_AuditEnabled v),
      evt_RetentionDays = mevt_RetentionDays v,
      evt_CleanupInterval = mevt_CleanupInterval v,
      evt_CaptureIpAddress = pointee the_Bool h (mevt_CaptureIpAddress v)\<rparr>"

definition Database_valid :: "('m, 'l, 'f) memory \<Rightarrow> MDatabase \<Rightarrow> bool" where
  "Database_valid h v \<longleftrightarrow>
     ptr_to is_Bool the_Bool h (mdb_SSL v) \<and>
     ptr_to is_String the_String h (mdb_CA v)"

definition Database_content :: "('m, 'l, 'f) memory \<Rightarrow> MDatabase \<Rightarrow> Database" where
  "Database_content h v =
     \<lparr>db_Provider = mdb_Provider v,
      db_Host = mdb_Host v,
      db_Port = mdb_Port v,
      db_User = mdb_User v,
      db_Password = mdb_Password v,
      db_DatabaseName = mdb_DatabaseName v,
      db_SSL = pointee the_Bool h (mdb_SSL v),
      db_CA = pointee the_String h (mdb_CA v)\<rparr>"

definition ControllerIngress_valid :: "('m, 'l, 'f) memory \<Rightarrow> MControllerIngress \<Rightarrow> bool" where
  "ControllerIngress_valid h v \<longleftrightarrow>
     map_valid is_Map the_Map h (mci_Annotations v)"

definition ControllerIngress_content ::
  "('m, 'l, 'f) memory \<Rightarrow> MControllerIngress \<Rightarrow> ControllerIngress"
where
  "ControllerIngress_content h v =
     \<lparr>ci_Annotations = or_else Map.empty (map_content the_Map h (mci_Annotations v)),
      ci_IngressClassName = mci_IngressClassName v,
      ci_Host = mci_Host v,
      ci_SecretName = mci_SecretName v\<rparr>"

definition Ingresses_valid :: "('m, 'l, 'f) memory \<Rightarrow> MIngresses \<Rightarrow> bool" where
  "Ingresses_valid h v \<longleftrightarrow>
     ControllerIngress_valid h (ming_Controller v)"

definition Ingresses_content :: "('m, 'l, 'f) memory \<Rightarrow> MIngresses \<Rightarrow> Ingresses" where
  "Ingresses_content h v =
     \<lparr>ing_Controller = ControllerIngress_content h (ming_Controller v),
      ing_Router = ming_Router v,
      ing_Nats = ming_Nats v\<rparr>"

definition Controller_valid :: "('m, 'l, 'f) memory \<Rightarrow> MController \<Rightarrow> bool" where
  "Controller_valid h v \<longleftrightarrow>
     ptr_to is_Bool the_Bool h (mctl_Https v)"

definition Controller_content :: "('m, 'l, 'f) memory \<Rightarrow> MController \<Rightarrow> Controller" where
  "Controller_content h v =
     \<lparr>ctl_PidBaseDir = mctl_PidBaseDir v,
      ctl_EcnViewerPort = mctl_EcnViewerPort v,
      ctl_EcnViewerURL = mctl_EcnViewerURL v,
      ctl_ECNName = mctl_ECNName v,
      ctl_Https = pointee the_Bool h (mctl_Https v),
      ctl_SecretName = mctl_SecretName v,
      ctl_LogLevel = mctl_LogLevel v\<rparr>"

definition Nats_valid :: "('m, 'l, 'f) memory \<Rightarrow> MNats \<Rightarrow> bool" where
  "Nats_valid h v \<longleftrightarrow>
     ptr_to is_Bool the_Bool h (mnats_Enabled v)"

definition Nats_content :: "('m, 'l, 'f) memory \<Rightarrow> MNats \<Rightarrow> Nats" where
  "Nats_content h v =
     \<lparr>nats_Enabled = pointee the_Bool h (mnats_Enabled v),
      nats_JetStream = mnats_JetStream v\<rparr>"

definition ControlPlaneSpec_valid :: "('m, 'l, 'f) memory \<Rightarrow> MControlPlaneSpec \<Rightarrow> bool" where
  "ControlPlaneSpec_valid h v \<longleftrightarrow>
     Database_valid h (mspec_Database v) \<and>
     Ingresses_valid h (mspec_Ingresses v) \<and>
     Services_valid h (mspec_Services v) \<and>
     Controller_valid h (mspec_Controller v) \<and>
     Events_valid h (mspec_Events v) \<and>
     ptr_valid is_Nats the_Nats Nats_valid h (mspec_Nats v) \<and>
     ptr_valid is_Vault the_Vault Vault_valid h (mspec_Vault v)"

definition ControlPlaneSpec_content ::
  "('m, 'l, 'f) memory \<Rightarrow> MControlPlaneSpec \<Rightarrow> ControlPlaneSpec"
where
  "ControlPlaneSpec_content h v =
     \<lparr>spec_Auth = mspec_Auth v,
      spec_Database = Database_content h (mspec_Database v),
      spec_Ingresses = Ingresses_content h (mspec_Ingresses v),
      spec_Services = Services_content h (mspec_Services v),
      spec_Replicas = mspec_Replicas v,
      spec_Images = mspec_Images v,
      spec_Controller = Controller_content h (mspec_Controller v),
      spec_Events = Events_content h (mspec_Events v),
      spec_Nats = ptr_content the_Nats Nats_content h (mspec_Nats v),
      spec_Vault = ptr_content the_Vault Vault_content h (mspec_Vault v)\<rparr>"

definition ControlPlaneStatus_valid :: "('m, 'l, 'f) memory \<Rightarrow> MControlPlaneStatus \<Rightarrow> bool" where
  "ControlPlaneStatus_valid h v = slice_valid is_Condition the_Condition (\<lambda>h c. True) h (mstat_Conditions v)"

definition ControlPlaneStatus_content ::
  "('m, 'l, 'f) memory \<Rightarrow> MControlPlaneStatus \<Rightarrow> Condition list option"
where
  "ControlPlaneStatus_content h v = slice_content the_Condition (\<lambda>h c. c) h (mstat_Conditions v)"

definition ControlPlane_valid ::
  "('m, 'l, 'f, 'y) Foreign \<Rightarrow> ('m, 'l, 'f) memory \<Rightarrow> 'm MControlPlane \<Rightarrow> bool"
where
  "ControlPlane_valid X h v \<longleftrightarrow>
     x_meta_valid X h (mcp_ObjectMeta v) \<and> ControlPlaneSpec_valid h (mcp_Spec v) \<and>
     ControlPlaneStatus_valid h (mcp_Status v)"

definition ControlPlane_content ::
  "('m, 'l, 'f, 'y) Foreign \<Rightarrow> ('m, 'l, 'f) memory \<Rightarrow> 'm MControlPlane \<Rightarrow> TypeMeta \<times> ControlPlane"
where
  "ControlPlane_content X h v =
     (mcp_TypeMeta v,
      \<lparr>cp_Meta = x_meta_content X h (mcp_ObjectMeta v),
       cp_Spec = ControlPlaneSpec_content h (mcp_Spec v),
       cp_Conditions = or_else [] (ControlPlaneStatus_content h (mcp_Status v))\<rparr>)"

definition ControlPlaneList_valid ::
  "('m, 'l, 'f, 'y) Foreign \<Rightarrow> ('m, 'l, 'f) memory \<Rightarrow> 'l MControlPlaneList \<Rightarrow> bool"
where
  "ControlPlaneList_valid X h v \<longleftrightarrow>
     x_list_valid X h (mcpl_ListMeta v) \<and>
     slice_valid is_ControlPlane the_ControlPlane (ControlPlane_valid X) h (mcpl_Items v)"

definition ControlPlaneList_content ::
  "('m, 'l, 'f, 'y) Foreign \<Rightarrow> ('m, 'l, 'f) memory \<Rightarrow> 'l MControlPlaneList \<Rightarrow>
     TypeMeta \<times> 'y \<times> (TypeMeta \<times> ControlPlane) list option"
where
  "ControlPlaneList_content X h v =
     (mcpl_TypeMeta v, x_list_content X h (mcpl_ListMeta v),
      slice_content the_ControlPlane (ControlPlane_content X) h (mcpl_Items v))"

subsection \<open>The code: structs without pointers\<close>

definition Auth_DeepCopyInto :: "(Auth, 'm, 'l, 'f) copying" where
  "Auth_DeepCopyInto = assign"

definition Auth_DeepCopy :: "(nat option, 'm, 'l, 'f) copying" where
  "Auth_DeepCopy = new_copy AuthCell the_Auth Auth_DeepCopyInto"

definition Images_DeepCopyInto :: "(Images, 'm, 'l, 'f) copying" where
  "Images_DeepCopyInto = assign"

definition Images_DeepCopy :: "(nat option, 'm, 'l, 'f) copying" where
  "Images_DeepCopy = new_copy ImagesCell the_Images Images_DeepCopyInto"

definition Ingress_DeepCopyInto :: "(Ingress, 'm, 'l, 'f) copying" where
  "Ingress_DeepCopyInto = assign"

definition Ingress_DeepCopy :: "(nat option, 'm, 'l, 'f) copying" where
  "Ingress_DeepCopy = new_copy IngressCell the_Ingress Ingress_DeepCopyInto"

definition NatsIngress_DeepCopyInto :: "(NatsIngress, 'm, 'l, 'f) copying" where
  "NatsIngress_DeepCopyInto = assign"

definition NatsIngress_DeepCopy :: "(nat option, 'm, 'l, 'f) copying" where
  "NatsIngress_DeepCopy = new_copy NatsIngressCell the_NatsIngress NatsIngress_DeepCopyInto"

definition NatsJetStream_DeepCopyInto :: "(NatsJetStream, 'm, 'l, 'f) copying" where
  "NatsJetStream_DeepCopyInto = assign"

definition NatsJetStream_DeepCopy :: "(nat option, 'm, 'l, 'f) copying" where
  "NatsJetStream_DeepCopy =
     new_copy NatsJetStreamCell the_NatsJetStream NatsJetStream_DeepCopyInto"

definition Replicas_DeepCopyInto :: "(Replicas, 'm, 'l, 'f) copying" where
  "Replicas_DeepCopyInto = assign"

definition Replicas_DeepCopy :: "(nat option, 'm, 'l, 'f) copying" where
  "Replicas_DeepCopy = new_copy ReplicasCell the_Replicas Replicas_DeepCopyInto"

definition RouterIngress_DeepCopyInto :: "(RouterIngress, 'm, 'l, 'f) copying" where
  "RouterIngress_DeepCopyInto = assign"

definition RouterIngress_DeepCopy :: "(nat option, 'm, 'l, 'f) copying" where
  "RouterIngress_DeepCopy =
     new_copy RouterIngressCell the_RouterIngress RouterIngress_DeepCopyInto"

definition User_DeepCopyInto :: "(User, 'm, 'l, 'f) copying" where
  "User_DeepCopyInto = assign"

definition User_DeepCopy :: "(nat option, 'm, 'l, 'f) copying" where
  "User_DeepCopy = new_copy UserCell the_User User_DeepCopyInto"

definition VaultAws_DeepCopyInto :: "(VaultAws, 'm, 'l, 'f) copying" where
  "VaultAws_DeepCopyInto = assign"

definition VaultAws_DeepCopy :: "(nat option, 'm, 'l, 'f) copying" where
  "VaultAws_DeepCopy = new_copy VaultAwsCell the_VaultAws VaultAws_DeepCopyInto"

definition VaultAzure_DeepCopyInto :: "(VaultAzure, 'm, 'l, 'f) copying" where
  "VaultAzure_DeepCopyInto = assign"

definition VaultAzure_DeepCopy :: "(nat option, 'm, 'l, 'f) copying" where
  "VaultAzure_DeepCopy = new_copy VaultAzureCell the_VaultAzure VaultAzure_DeepCopyInto"

definition VaultGoogle_DeepCopyInto :: "(VaultGoogle, 'm, 'l, 'f) copying" where
  "VaultGoogle_DeepCopyInto = assign"

definition VaultGoogle_DeepCopy :: "(nat option, 'm, 'l, 'f) copying" where
  "VaultGoogle_DeepCopy = new_copy VaultGoogleCell the_VaultGoogle VaultGoogle_DeepCopyInto"

definition VaultHashicorp_DeepCopyInto :: "(VaultHashicorp, 'm, 'l, 'f) copying" where
  "VaultHashicorp_DeepCopyInto = assign"

definition VaultHashicorp_DeepCopy :: "(nat option, 'm, 'l, 'f) copying" where
  "VaultHashicorp_DeepCopy =
     new_copy VaultHashicorpCell the_VaultHashicorp VaultHashicorp_DeepCopyInto"

subsection \<open>The code: structs with pointers, maps and slices\<close>

definition Vault_DeepCopyInto :: "(MVault, 'm, 'l, 'f) copying" where
  "Vault_DeepCopyInto inp h =
     (let out = inp;
          (x, h) = new_copy BoolCell the_Bool assign (mv_Enabled inp) h;
          out = out\<lparr>mv_Enabled := x\<rparr>;
          (x, h) = new_copy VaultHashicorpCell the_VaultHashicorp assign (mv_Hashicorp inp) h;
          out = out\<lparr>mv_Hashicorp := x\<rparr>;
          (x, h) = new_copy VaultAwsCell the_VaultAws assign (mv_Aws inp) h;
          out = out\<lparr>mv_Aws := x\<rparr>;
          (x, h) = new_copy VaultAzureCell the_VaultAzure assign (mv_Azure inp) h;
          out = out\<lparr>mv_Azure := x\<rparr>;
          (x, h) = new_copy VaultGoogleCell the_VaultGoogle assign (mv_Google inp) h;
          out = out\<lparr>mv_Google := x\<rparr>
      in (out, h))"

definition Vault_DeepCopy :: "(nat option, 'm, 'l, 'f) copying" where
  "Vault_DeepCopy = new_copy VaultCell the_Vault Vault_DeepCopyInto"

definition Service_DeepCopyInto :: "(MService, 'm, 'l, 'f) copying" where
  "Service_DeepCopyInto inp h =
     (let out = inp;
          (x, h) = copy_map MapCell the_Map (msvc_Annotations inp) h;
          out = out\<lparr>msvc_Annotations := x\<rparr>
      in (out, h))"

definition Service_DeepCopy :: "(nat option, 'm, 'l, 'f) copying" where
  "Service_DeepCopy = new_copy ServiceCell the_Service Service_DeepCopyInto"

definition Services_DeepCopyInto :: "(MServices, 'm, 'l, 'f) copying" where
  "Services_DeepCopyInto inp h =
     (let out = inp;
          (x, h) = Service_DeepCopyInto (msvcs_Controller inp) h;
          out = out\<lparr>msvcs_Controller := x\<rparr>;
          (x, h) = Service_DeepCopyInto (msvcs_Router inp) h;
          out = out\<lparr>msvcs_Router := x\<rparr>;
          (x, h) = Service_DeepCopyInto (msvcs_Nats inp) h;
          out = out\<lparr>msvcs_Nats := x\<rparr>;
          (x, h) = Service_DeepCopyInto (msvcs_NatsServer inp) h;
          out = out\<lparr>msvcs_NatsServer := x\<rparr>
      in (out, h))"

definition Services_DeepCopy :: "(nat option, 'm, 'l, 'f) copying" where
  "Services_DeepCopy = new_copy ServicesCell the_Services Services_DeepCopyInto"

definition Events_DeepCopyInto :: "(MEvents, 'm, 'l, 'f) copying" where
  "Events_DeepCopyInto inp h =
     (let out = inp;
          (x, h) = new_copy BoolCell the_Bool assign (mevt_AuditEnabled inp) h;
          out = out\<lparr>mevt_AuditEnabled := x\<rparr>;
          (x, h) = new_copy BoolCell the_Bool assign (mevt_CaptureIpAddress inp) h;
          out = out\<lparr>mevt_CaptureIpAddress := x\<rparr>
      in (out, h))"

definition Events_DeepCopy :: "(nat option, 'm, 'l, 'f) copying" where
  "Events_DeepCopy = new_copy EventsCell the_Events Events_DeepCopyInto"

definition Database_DeepCopyInto :: "(MDatabase, 'm, 'l, 'f) copying" where
  "Database_DeepCopyInto inp h =
     (let out = inp;
          (x, h) = new_copy BoolCell the_Bool assign (mdb_SSL inp) h;
          out = out\<lparr>mdb_SSL := x\<rparr>;
          (x, h) = new_copy StringCell the_String assign (mdb_CA inp) h;
          out = out\<lparr>mdb_CA := x\<rparr>
      in (out, h))"

definition Database_DeepCopy :: "(nat option, 'm, 'l, 'f) copying" where
  "Database_DeepCopy = new_copy DatabaseCell the_Database Database_DeepCopyInto"

definition ControllerIngress_DeepCopyInto :: "(MControllerIngress, 'm, 'l, 'f) copying" where
  "ControllerIngress_DeepCopyInto inp h =
     (let out = inp;
          (x, h) = copy_map MapCell the_Map (mci_Annotations inp) h;
          out = out\<lparr>mci_Annotations := x\<rparr>
      in (out, h))"

definition ControllerIngress_DeepCopy :: "(nat option, 'm, 'l, 'f) copying" where
  "ControllerIngress_DeepCopy =
     new_copy ControllerIngressCell the_ControllerIngress ControllerIngress_DeepCopyInto"

definition Ingresses_DeepCopyInto :: "(MIngresses, 'm, 'l, 'f) copying" where
  "Ingresses_DeepCopyInto inp h =
     (let out = inp;
          (x, h) = ControllerIngress_DeepCopyInto (ming_Controller inp) h;
          out = out\<lparr>ming_Controller := x\<rparr>;
          out = out\<lparr>ming_Router := ming_Router inp\<rparr>;
          out = out\<lparr>ming_Nats := ming_Nats inp\<rparr>
      in (out, h))"

definition Ingresses_DeepCopy :: "(nat option, 'm, 'l, 'f) copying" where
  "Ingresses_DeepCopy = new_copy IngressesCell the_Ingresses Ingresses_DeepCopyInto"

definition Controller_DeepCopyInto :: "(MController, 'm, 'l, 'f) copying" where
  "Controller_DeepCopyInto inp h =
     (let out = inp;
          (x, h) = new_copy BoolCell the_Bool assign (mctl_Https inp) h;
          out = out\<lparr>mctl_Https := x\<rparr>
      in (out, h))"

definition Controller_DeepCopy :: "(nat option, 'm, 'l, 'f) copying" where
  "Controller_DeepCopy = new_copy ControllerCell the_Controller Controller_DeepCopyInto"

definition Nats_DeepCopyInto :: "(MNats, 'm, 'l, 'f) copying" where
  "Nats_DeepCopyInto inp h =
     (let out = inp;
          (x, h) = new_copy BoolCell the_Bool assign (mnats_Enabled inp) h;
          out = out\<lparr>mnats_Enabled := x\<rparr>;
          out = out\<lparr>mnats_JetStream := mnats_JetStream inp\<rparr>
      in (out, h))"

definition Nats_DeepCopy :: "(nat option, 'm, 'l, 'f) copying" where
  "Nats_DeepCopy = new_copy NatsCell the_Nats Nats_DeepCopyInto"

definition ControlPlaneSpec_DeepCopyInto :: "(MControlPlaneSpec, 'm, 'l, 'f) copying" where
  "ControlPlaneSpec_DeepCopyInto inp h =
     (let out = inp;
          out = out\<lparr>mspec_Auth := mspec_Auth inp\<rparr>;
          (x, h) = Database_DeepCopyInto (mspec_Database inp) h;
          out = out\<lparr>mspec_Database := x\<rparr>;
          (x, h) = Ingresses_DeepCopyInto (mspec_Ingresses inp) h;
          out = out\<lparr>mspec_Ingresses := x\<rparr>;
          (x, h) = Services_DeepCopyInto (mspec_Services inp) h;
          out = out\<lparr>mspec_Services := x\<rparr>;
          out = out\<lparr>mspec_Replicas := mspec_Replicas inp\<rparr>;
          out = out\<lparr>mspec_Images := mspec_Images inp\<rparr>;
          (x, h) = Controller_DeepCopyInto (mspec_Controller inp) h;
          out = out\<lparr>mspec_Controller := x\<rparr>;
          (x, h) = Events_DeepCopyInto (mspec_Events inp) h;
          out = out\<lparr>mspec_Events := x\<rparr>;
          (x, h) = new_copy NatsCell the_Nats Nats_DeepCopyInto (mspec_Nats inp) h;
          out = out\<lparr>mspec_Nats := x\<rparr>;
          (x, h) = new_copy VaultCell the_Vault Vault_DeepCopyInto (mspec_Vault inp) h;
          out = out\<lparr>mspec_Vault := x\<rparr>
      in (out, h))"

definition ControlPlaneSpec_DeepCopy :: "(nat option, 'm, 'l, 'f) copying" where
  "ControlPlaneSpec_DeepCopy =
     new_copy ControlPlaneSpecCell the_ControlPlaneSpec ControlPlaneSpec_DeepCopyInto"

definition ControlPlaneStatus_DeepCopyInto ::
  "('m, 'l, 'f, 'y) Foreign \<Rightarrow> (MControlPlaneStatus, 'm, 'l, 'f) copying"
where
  "ControlPlaneStatus_DeepCopyInto X inp h =
     (let out = inp;
          (x, h) = copy_slice ConditionCell the_Condition (x_cond_DeepCopyInto X) (mstat_Conditions inp) h;
          out = out\<lparr>mstat_Conditions := x\<rparr>
      in (out, h))"

definition ControlPlaneStatus_DeepCopy ::
  "('m, 'l, 'f, 'y) Foreign \<Rightarrow> (nat option, 'm, 'l, 'f) copying"
where
  "ControlPlaneStatus_DeepCopy X =
     new_copy ControlPlaneStatusCell the_ControlPlaneStatus (ControlPlaneStatus_DeepCopyInto X)"

definition ControlPlane_DeepCopyInto ::
  "('m, 'l, 'f, 'y) Foreign \<Rightarrow> ('m MControlPlane, 'm, 'l, 'f) copying"
where
  "ControlPlane_DeepCopyInto X inp h =
     (let out = inp;
          out = out\<lparr>mcp_TypeMeta := mcp_TypeMeta inp\<rparr>;
          (x, h) = x_meta_DeepCopyInto X (mcp_ObjectMeta inp) h;
          out = out\<lparr>mcp_ObjectMeta := x\<rparr>;
          (x, h) = ControlPlaneSpec_DeepCopyInto (mcp_Spec inp) h;
          out = out\<lparr>mcp_Spec := x\<rparr>;
          (x, h) = ControlPlaneStatus_DeepCopyInto X (mcp_Status inp) h;
          out = out\<lparr>mcp_Status := x\<rparr>
      in (out, h))"

definition ControlPlane_DeepCopy ::
  "('m, 'l, 'f, 'y) Foreign \<Rightarrow> (nat option, 'm, 'l, 'f) copying"
where
  "ControlPlane_DeepCopy X =
     new_copy ControlPlaneCell the_ControlPlane (ControlPlane_DeepCopyInto X)"

text \<open>
  \<open>DeepCopyObject\<close> wraps the pointer in an interface, and makes the interface itself nil, not one
  that holds a nil pointer.
\<close>

definition ControlPlane_DeepCopyObject ::
  "('m, 'l, 'f, 'y) Foreign \<Rightarrow> (nat option, 'm, 'l, 'f) copying"
where
  "ControlPlane_DeepCopyObject X inp h =
     (let (c, h) = ControlPlane_DeepCopy X inp h in
      case c of
        Some p \<Rightarrow> (Some p, h)
      | None \<Rightarrow> (None, h))"

definition ControlPlaneList_DeepCopyInto ::
  "('m, 'l, 'f, 'y) Foreign \<Rightarrow> ('l MControlPlaneList, 'm, 'l, 'f) copying"
where
  "ControlPlaneList_DeepCopyInto X inp h =
     (let out = inp;
          out = out\<lparr>mcpl_TypeMeta := mcpl_TypeMeta inp\<rparr>;
          (x, h) = x_list_DeepCopyInto X (mcpl_ListMeta inp) h;
          out = out\<lparr>mcpl_ListMeta := x\<rparr>;
          (x, h) = copy_slice ControlPlaneCell the_ControlPlane (ControlPlane_DeepCopyInto X)
                     (mcpl_Items inp) h;
          out = out\<lparr>mcpl_Items := x\<rparr>
      in (out, h))"

definition ControlPlaneList_DeepCopy ::
  "('m, 'l, 'f, 'y) Foreign \<Rightarrow> (nat option, 'm, 'l, 'f) copying"
where
  "ControlPlaneList_DeepCopy X =
     new_copy ControlPlaneListCell the_ControlPlaneList (ControlPlaneList_DeepCopyInto X)"

definition ControlPlaneList_DeepCopyObject ::
  "('m, 'l, 'f, 'y) Foreign \<Rightarrow> (nat option, 'm, 'l, 'f) copying"
where
  "ControlPlaneList_DeepCopyObject X inp h =
     (let (c, h) = ControlPlaneList_DeepCopy X inp h in
      case c of
        Some p \<Rightarrow> (Some p, h)
      | None \<Rightarrow> (None, h))"

end
