(* ===== verification/DeepCopies.thy ===== *)
theory DeepCopies
  imports ApiCopies
begin

text \<open>
  Every deep copy of the ControlPlane's types (\<open>ApiCopies\<close>) fulfils the contract \<open>deep_copier\<close>, given
  that those of Kubernetes' own types do (\<open>foreign_copies\<close>).
\<close>

subsection \<open>The operator's structs\<close>


lemma Bool_pointer:
  "deep_copier (ptr_to is_Bool the_Bool) (pointee the_Bool) (new_copy BoolCell the_Bool assign)"
  by (rule new_copy_copies [OF assign_copies]) simp_all

lemma String_pointer:
  "deep_copier (ptr_to is_String the_String) (pointee the_String) (new_copy StringCell the_String assign)"
  by (rule new_copy_copies [OF assign_copies]) simp_all

lemmas flat_defs =
  Auth_DeepCopy_def Auth_DeepCopyInto_def Images_DeepCopy_def Images_DeepCopyInto_def
  Ingress_DeepCopy_def Ingress_DeepCopyInto_def NatsIngress_DeepCopy_def NatsIngress_DeepCopyInto_def
  NatsJetStream_DeepCopy_def NatsJetStream_DeepCopyInto_def Replicas_DeepCopy_def Replicas_DeepCopyInto_def
  RouterIngress_DeepCopy_def RouterIngress_DeepCopyInto_def User_DeepCopy_def User_DeepCopyInto_def
  VaultAws_DeepCopy_def VaultAws_DeepCopyInto_def VaultAzure_DeepCopy_def VaultAzure_DeepCopyInto_def
  VaultGoogle_DeepCopy_def VaultGoogle_DeepCopyInto_def VaultHashicorp_DeepCopy_def VaultHashicorp_DeepCopyInto_def

lemma Auth_DeepCopy_copies:
  "deep_copier (ptr_to is_Auth the_Auth) (pointee the_Auth) Auth_DeepCopy"
  unfolding flat_defs by (rule new_copy_copies [OF assign_copies]) simp_all

lemma Images_DeepCopy_copies:
  "deep_copier (ptr_to is_Images the_Images) (pointee the_Images) Images_DeepCopy"
  unfolding flat_defs by (rule new_copy_copies [OF assign_copies]) simp_all

lemma Ingress_DeepCopy_copies:
  "deep_copier (ptr_to is_Ingress the_Ingress) (pointee the_Ingress) Ingress_DeepCopy"
  unfolding flat_defs by (rule new_copy_copies [OF assign_copies]) simp_all

lemma NatsIngress_DeepCopy_copies:
  "deep_copier (ptr_to is_NatsIngress the_NatsIngress) (pointee the_NatsIngress) NatsIngress_DeepCopy"
  unfolding flat_defs by (rule new_copy_copies [OF assign_copies]) simp_all

lemma NatsJetStream_DeepCopy_copies:
  "deep_copier (ptr_to is_NatsJetStream the_NatsJetStream) (pointee the_NatsJetStream) NatsJetStream_DeepCopy"
  unfolding flat_defs by (rule new_copy_copies [OF assign_copies]) simp_all

lemma Replicas_DeepCopy_copies:
  "deep_copier (ptr_to is_Replicas the_Replicas) (pointee the_Replicas) Replicas_DeepCopy"
  unfolding flat_defs by (rule new_copy_copies [OF assign_copies]) simp_all

lemma RouterIngress_DeepCopy_copies:
  "deep_copier (ptr_to is_RouterIngress the_RouterIngress) (pointee the_RouterIngress) RouterIngress_DeepCopy"
  unfolding flat_defs by (rule new_copy_copies [OF assign_copies]) simp_all

lemma User_DeepCopy_copies:
  "deep_copier (ptr_to is_User the_User) (pointee the_User) User_DeepCopy"
  unfolding flat_defs by (rule new_copy_copies [OF assign_copies]) simp_all

lemma VaultAws_DeepCopy_copies:
  "deep_copier (ptr_to is_VaultAws the_VaultAws) (pointee the_VaultAws) VaultAws_DeepCopy"
  unfolding flat_defs by (rule new_copy_copies [OF assign_copies]) simp_all

lemma VaultAzure_DeepCopy_copies:
  "deep_copier (ptr_to is_VaultAzure the_VaultAzure) (pointee the_VaultAzure) VaultAzure_DeepCopy"
  unfolding flat_defs by (rule new_copy_copies [OF assign_copies]) simp_all

lemma VaultGoogle_DeepCopy_copies:
  "deep_copier (ptr_to is_VaultGoogle the_VaultGoogle) (pointee the_VaultGoogle) VaultGoogle_DeepCopy"
  unfolding flat_defs by (rule new_copy_copies [OF assign_copies]) simp_all

lemma VaultHashicorp_DeepCopy_copies:
  "deep_copier (ptr_to is_VaultHashicorp the_VaultHashicorp) (pointee the_VaultHashicorp) VaultHashicorp_DeepCopy"
  unfolding flat_defs by (rule new_copy_copies [OF assign_copies]) simp_all

lemma annotation_map:
  "deep_copier (map_valid is_Map the_Map) (map_content the_Map) (copy_map MapCell the_Map)"
  by (rule copy_map_copies) simp_all

lemma Vault_copies: "deep_copier Vault_valid Vault_content Vault_DeepCopyInto"
  by (rule struct_copies [where get = "\<lambda>s. (mv_Enabled s, mv_Hashicorp s, mv_Aws s,
                      mv_Azure s, mv_Google s)"
      and put = "\<lambda>x s. s\<lparr>mv_Enabled := fst x,
                     mv_Hashicorp := fst (snd x),
                     mv_Aws := fst (snd (snd x)),
                     mv_Azure := fst (snd (snd (snd x))),
                     mv_Google := snd (snd (snd (snd x)))\<rparr>",
      OF pair_copies [OF Bool_pointer
        pair_copies [OF VaultHashicorp_DeepCopy_copies [unfolded flat_defs]
        pair_copies [OF VaultAws_DeepCopy_copies [unfolded flat_defs]
        pair_copies [OF VaultAzure_DeepCopy_copies [unfolded flat_defs]
        VaultGoogle_DeepCopy_copies [unfolded flat_defs]]]]]])
    (auto simp: Vault_valid_def Vault_content_def Vault_DeepCopyInto_def pair_defs Let_def
      split: prod.splits)

lemma Vault_DeepCopy_copies:
  "deep_copier (ptr_valid is_Vault the_Vault Vault_valid)
     (ptr_content the_Vault Vault_content) Vault_DeepCopy"
  unfolding Vault_DeepCopy_def by (rule new_copy_copies [OF Vault_copies]) simp_all

lemma Service_copies: "deep_copier Service_valid Service_content Service_DeepCopyInto"
  by (rule struct_copies [where get = "msvc_Annotations"
      and put = "\<lambda>x s. s\<lparr>msvc_Annotations := x\<rparr>",
      OF annotation_map])
    (auto simp: Service_valid_def Service_content_def Service_DeepCopyInto_def pair_defs Let_def
      split: prod.splits)

lemma Service_DeepCopy_copies:
  "deep_copier (ptr_valid is_Service the_Service Service_valid)
     (ptr_content the_Service Service_content) Service_DeepCopy"
  unfolding Service_DeepCopy_def by (rule new_copy_copies [OF Service_copies]) simp_all

lemma Services_copies: "deep_copier Services_valid Services_content Services_DeepCopyInto"
  by (rule struct_copies [where get = "\<lambda>s. (msvcs_Controller s, msvcs_Router s, msvcs_Nats s,
                      msvcs_NatsServer s)"
      and put = "\<lambda>x s. s\<lparr>msvcs_Controller := fst x,
                     msvcs_Router := fst (snd x),
                     msvcs_Nats := fst (snd (snd x)),
                     msvcs_NatsServer := snd (snd (snd x))\<rparr>",
      OF pair_copies [OF Service_copies
        pair_copies [OF Service_copies
        pair_copies [OF Service_copies
        Service_copies]]]])
    (auto simp: Services_valid_def Services_content_def Services_DeepCopyInto_def pair_defs Let_def
      split: prod.splits)

lemma Services_DeepCopy_copies:
  "deep_copier (ptr_valid is_Services the_Services Services_valid)
     (ptr_content the_Services Services_content) Services_DeepCopy"
  unfolding Services_DeepCopy_def by (rule new_copy_copies [OF Services_copies]) simp_all

lemma Events_copies: "deep_copier Events_valid Events_content Events_DeepCopyInto"
  by (rule struct_copies [where get = "\<lambda>s. (mevt_AuditEnabled s, mevt_CaptureIpAddress s)"
      and put = "\<lambda>x s. s\<lparr>mevt_AuditEnabled := fst x, mevt_CaptureIpAddress := snd x\<rparr>",
      OF pair_copies [OF Bool_pointer
        Bool_pointer]])
    (auto simp: Events_valid_def Events_content_def Events_DeepCopyInto_def pair_defs Let_def
      split: prod.splits)

lemma Events_DeepCopy_copies:
  "deep_copier (ptr_valid is_Events the_Events Events_valid)
     (ptr_content the_Events Events_content) Events_DeepCopy"
  unfolding Events_DeepCopy_def by (rule new_copy_copies [OF Events_copies]) simp_all

lemma Database_copies: "deep_copier Database_valid Database_content Database_DeepCopyInto"
  by (rule struct_copies [where get = "\<lambda>s. (mdb_SSL s, mdb_CA s)"
      and put = "\<lambda>x s. s\<lparr>mdb_SSL := fst x, mdb_CA := snd x\<rparr>",
      OF pair_copies [OF Bool_pointer
        String_pointer]])
    (auto simp: Database_valid_def Database_content_def Database_DeepCopyInto_def pair_defs Let_def
      split: prod.splits)

lemma Database_DeepCopy_copies:
  "deep_copier (ptr_valid is_Database the_Database Database_valid)
     (ptr_content the_Database Database_content) Database_DeepCopy"
  unfolding Database_DeepCopy_def by (rule new_copy_copies [OF Database_copies]) simp_all

lemma ControllerIngress_copies: "deep_copier ControllerIngress_valid ControllerIngress_content ControllerIngress_DeepCopyInto"
  by (rule struct_copies [where get = "mci_Annotations"
      and put = "\<lambda>x s. s\<lparr>mci_Annotations := x\<rparr>",
      OF annotation_map])
    (auto simp: ControllerIngress_valid_def ControllerIngress_content_def ControllerIngress_DeepCopyInto_def pair_defs Let_def
      split: prod.splits)

lemma ControllerIngress_DeepCopy_copies:
  "deep_copier (ptr_valid is_ControllerIngress the_ControllerIngress ControllerIngress_valid)
     (ptr_content the_ControllerIngress ControllerIngress_content) ControllerIngress_DeepCopy"
  unfolding ControllerIngress_DeepCopy_def by (rule new_copy_copies [OF ControllerIngress_copies]) simp_all

lemma Ingresses_copies: "deep_copier Ingresses_valid Ingresses_content Ingresses_DeepCopyInto"
  by (rule struct_copies [where get = "ming_Controller"
      and put = "\<lambda>x s. s\<lparr>ming_Controller := x\<rparr>",
      OF ControllerIngress_copies])
    (auto simp: Ingresses_valid_def Ingresses_content_def Ingresses_DeepCopyInto_def pair_defs Let_def
      split: prod.splits)

lemma Ingresses_DeepCopy_copies:
  "deep_copier (ptr_valid is_Ingresses the_Ingresses Ingresses_valid)
     (ptr_content the_Ingresses Ingresses_content) Ingresses_DeepCopy"
  unfolding Ingresses_DeepCopy_def by (rule new_copy_copies [OF Ingresses_copies]) simp_all

lemma Controller_copies: "deep_copier Controller_valid Controller_content Controller_DeepCopyInto"
  by (rule struct_copies [where get = "mctl_Https"
      and put = "\<lambda>x s. s\<lparr>mctl_Https := x\<rparr>",
      OF Bool_pointer])
    (auto simp: Controller_valid_def Controller_content_def Controller_DeepCopyInto_def pair_defs Let_def
      split: prod.splits)

lemma Controller_DeepCopy_copies:
  "deep_copier (ptr_valid is_Controller the_Controller Controller_valid)
     (ptr_content the_Controller Controller_content) Controller_DeepCopy"
  unfolding Controller_DeepCopy_def by (rule new_copy_copies [OF Controller_copies]) simp_all

lemma Nats_copies: "deep_copier Nats_valid Nats_content Nats_DeepCopyInto"
  by (rule struct_copies [where get = "mnats_Enabled"
      and put = "\<lambda>x s. s\<lparr>mnats_Enabled := x\<rparr>",
      OF Bool_pointer])
    (auto simp: Nats_valid_def Nats_content_def Nats_DeepCopyInto_def pair_defs Let_def
      split: prod.splits)

lemma Nats_DeepCopy_copies:
  "deep_copier (ptr_valid is_Nats the_Nats Nats_valid)
     (ptr_content the_Nats Nats_content) Nats_DeepCopy"
  unfolding Nats_DeepCopy_def by (rule new_copy_copies [OF Nats_copies]) simp_all

lemma ControlPlaneSpec_copies: "deep_copier ControlPlaneSpec_valid ControlPlaneSpec_content ControlPlaneSpec_DeepCopyInto"
  by (rule struct_copies [where get = "\<lambda>s. (mspec_Database s, mspec_Ingresses s, mspec_Services s,
                      mspec_Controller s, mspec_Events s, mspec_Nats s,
                      mspec_Vault s)"
      and put = "\<lambda>x s. s\<lparr>mspec_Database := fst x,
                     mspec_Ingresses := fst (snd x),
                     mspec_Services := fst (snd (snd x)),
                     mspec_Controller := fst (snd (snd (snd x))),
                     mspec_Events := fst (snd (snd (snd (snd x)))),
                     mspec_Nats := fst (snd (snd (snd (snd (snd x))))),
                     mspec_Vault := snd (snd (snd (snd (snd (snd x)))))\<rparr>",
      OF pair_copies [OF Database_copies
        pair_copies [OF Ingresses_copies
        pair_copies [OF Services_copies
        pair_copies [OF Controller_copies
        pair_copies [OF Events_copies
        pair_copies [OF Nats_DeepCopy_copies [unfolded Nats_DeepCopy_def]
        Vault_DeepCopy_copies [unfolded Vault_DeepCopy_def]]]]]]]])
    (auto simp: ControlPlaneSpec_valid_def ControlPlaneSpec_content_def ControlPlaneSpec_DeepCopyInto_def pair_defs Let_def
      split: prod.splits)

lemma ControlPlaneSpec_DeepCopy_copies:
  "deep_copier (ptr_valid is_ControlPlaneSpec the_ControlPlaneSpec ControlPlaneSpec_valid)
     (ptr_content the_ControlPlaneSpec ControlPlaneSpec_content) ControlPlaneSpec_DeepCopy"
  unfolding ControlPlaneSpec_DeepCopy_def by (rule new_copy_copies [OF ControlPlaneSpec_copies]) simp_all

subsection \<open>The resources, given the deep copies of Kubernetes' types\<close>

definition foreign_copiers :: "('m, 'l, 'f, 'y) Foreign \<Rightarrow> bool" where
  "foreign_copiers X \<longleftrightarrow>
     deep_copier (x_meta_valid X) (x_meta_content X) (x_meta_DeepCopyInto X) \<and>
     deep_copier (x_list_valid X) (x_list_content X) (x_list_DeepCopyInto X) \<and>
     deep_copier (\<lambda>h c. True) (\<lambda>h c. c) (x_cond_DeepCopyInto X)"

locale foreign_copies =
  fixes X :: "('m, 'l, 'f, 'y) Foreign"
  assumes foreign: "foreign_copiers X"
begin

lemma meta_copies: "deep_copier (x_meta_valid X) (x_meta_content X) (x_meta_DeepCopyInto X)"
  and list_copies: "deep_copier (x_list_valid X) (x_list_content X) (x_list_DeepCopyInto X)"
  and condition_copies: "deep_copier (\<lambda>h c. True) (\<lambda>h c. c) (x_cond_DeepCopyInto X)"
  using foreign by (simp_all add: foreign_copiers_def)

lemma conditions_copies:
  "deep_copier (slice_valid is_Condition the_Condition (\<lambda>h c. True)) (slice_content the_Condition (\<lambda>h c. c))
     (copy_slice ConditionCell the_Condition (x_cond_DeepCopyInto X))"
  by (rule copy_slice_copies [OF condition_copies]) simp_all

lemma ControlPlaneStatus_copies:
  "deep_copier ControlPlaneStatus_valid ControlPlaneStatus_content (ControlPlaneStatus_DeepCopyInto X)"
  by (rule struct_copies [where get = mstat_Conditions and put = "\<lambda>x s. s\<lparr>mstat_Conditions := x\<rparr>",
      OF conditions_copies])
    (auto simp: ControlPlaneStatus_valid_def ControlPlaneStatus_content_def
      ControlPlaneStatus_DeepCopyInto_def split: prod.splits)

lemma ControlPlane_copies:
  "deep_copier (ControlPlane_valid X) (ControlPlane_content X) (ControlPlane_DeepCopyInto X)"
  by (rule struct_copies [where get = "\<lambda>s. (mcp_ObjectMeta s, mcp_Spec s, mcp_Status s)"
      and put = "\<lambda>x s. s\<lparr>mcp_ObjectMeta := fst x,
                     mcp_Spec := fst (snd x),
                     mcp_Status := snd (snd x)\<rparr>",
      OF pair_copies [OF meta_copies pair_copies [OF ControlPlaneSpec_copies
        ControlPlaneStatus_copies]]])
    (auto simp: ControlPlane_valid_def ControlPlane_content_def ControlPlane_DeepCopyInto_def
      pair_defs Let_def split: prod.splits)

lemma ControlPlane_DeepCopy_copies:
  "deep_copier (ptr_valid is_ControlPlane the_ControlPlane (ControlPlane_valid X))
     (ptr_content the_ControlPlane (ControlPlane_content X)) (ControlPlane_DeepCopy X)"
  unfolding ControlPlane_DeepCopy_def by (rule new_copy_copies [OF ControlPlane_copies]) simp_all

lemma ControlPlane_DeepCopyObject_eq: "ControlPlane_DeepCopyObject X = ControlPlane_DeepCopy X"
  by (auto simp: fun_eq_iff ControlPlane_DeepCopyObject_def split: prod.splits option.splits)

lemma ControlPlaneList_copies:
  "deep_copier (ControlPlaneList_valid X) (ControlPlaneList_content X) (ControlPlaneList_DeepCopyInto X)"
  by (rule struct_copies [where get = "\<lambda>s. (mcpl_ListMeta s, mcpl_Items s)"
      and put = "\<lambda>x s. s\<lparr>mcpl_ListMeta := fst x, mcpl_Items := snd x\<rparr>",
      OF pair_copies [OF list_copies copy_slice_copies [OF ControlPlane_copies,
        where mk = ControlPlaneCell and is_v = is_ControlPlane and the_v = the_ControlPlane]]])
    (auto simp: ControlPlaneList_valid_def ControlPlaneList_content_def
      ControlPlaneList_DeepCopyInto_def pair_defs Let_def split: prod.splits)

lemma ControlPlaneList_DeepCopyObject_copies:
  "deep_copier (ptr_valid is_ControlPlaneList the_ControlPlaneList (ControlPlaneList_valid X))
     (ptr_content the_ControlPlaneList (ControlPlaneList_content X)) (ControlPlaneList_DeepCopyObject X)"
proof -
  have "ControlPlaneList_DeepCopyObject X = ControlPlaneList_DeepCopy X"
    by (auto simp: fun_eq_iff ControlPlaneList_DeepCopyObject_def split: prod.splits option.splits)
  then show ?thesis
    unfolding ControlPlaneList_DeepCopy_def
    by (simp add: new_copy_copies [OF ControlPlaneList_copies])
qed

end

end
