(* ===== verification/MemoryStatus.thy ===== *)
theory MemoryStatus
  imports DeepCopies
begin

text \<open>
  The state of a ControlPlane in memory. The reconciler reads a ControlPlane through a cache
  that hands out deep copies, and \<open>setCondition\<close> (\<open>controlplane_types.go\<close>) then writes to the elements
  of the array behind its conditions. Here this is done on the memory of \<open>Memory\<close>, and related to
  \<open>setCondition\<close> of \<open>Conditions\<close>, which works on values.

  \<open>SetStatusCondition\<close> takes a pointer to the slice: it writes to an element of its array or makes
  the slice one of a new array. The locale \<open>status_in_memory\<close> says so.
\<close>

subsection \<open>The code\<close>

type_synonym ('m, 'l, 'f) ssc_memory =
  "Slice option \<Rightarrow> Condition \<Rightarrow> ('m, 'l, 'f) memory \<Rightarrow> Slice option \<times> ('m, 'l, 'f) memory"

definition mem_clear_condition ::
  "int \<Rightarrow> int \<Rightarrow> string \<Rightarrow> Slice \<Rightarrow> nat \<Rightarrow> ('m, 'l, 'f) memory \<Rightarrow> ('m, 'l, 'f) memory"
where
  "mem_clear_condition now gen ty s idx h =
     store_elem h (sl_base s) (sl_from s + idx)
       (ConditionCell (clear_condition now gen ty
          (load_elem the_Condition h (sl_base s) (sl_from s + idx))))"

definition mem_clear_conditions ::
  "int \<Rightarrow> int \<Rightarrow> string \<Rightarrow> Slice option \<Rightarrow> ('m, 'l, 'f) memory \<Rightarrow> ('m, 'l, 'f) memory"
where
  "mem_clear_conditions now gen ty s0 h =
     (case s0 of
        None \<Rightarrow> h
      | Some s \<Rightarrow> fold (mem_clear_condition now gen ty s) [0..<sl_len s] h)"

definition mem_Generation :: "('m, 'l, 'f, 'y) Foreign \<Rightarrow> ('m, 'l, 'f) memory \<Rightarrow> 'm MControlPlane \<Rightarrow> int" where
  "mem_Generation X h cp = m_generation (x_meta_content X h (mcp_ObjectMeta cp))"

definition mem_setCondition ::
  "('m, 'l, 'f, 'y) Foreign \<Rightarrow> ('m, 'l, 'f) ssc_memory \<Rightarrow> int \<Rightarrow> string \<Rightarrow> nat \<Rightarrow>
     ('m, 'l, 'f) memory \<Rightarrow> ('m, 'l, 'f) memory"
where
  "mem_setCondition X ssc_mem now ty p h =
     (let cp = load the_ControlPlane h p;
          gen = mem_Generation X h cp;
          conditions = mstat_Conditions (mcp_Status cp);
          h = mem_clear_conditions now gen ty conditions h;
          (conditions, h) = ssc_mem conditions (new_condition now gen ty) h
      in h[p := Obj (ControlPlaneCell (cp\<lparr>mcp_Status := \<lparr>mstat_Conditions = conditions\<rparr>\<rparr>))])"

subsection \<open>Reading memory\<close>

abbreviation conditions_valid :: "('m, 'l, 'f) memory \<Rightarrow> Slice option \<Rightarrow> bool" where
  "conditions_valid \<equiv> slice_valid is_Condition the_Condition (\<lambda>h c. True)"

definition conditions_at :: "('m, 'l, 'f) memory \<Rightarrow> Slice option \<Rightarrow> Condition list" where
  "conditions_at h s = or_else [] (slice_content the_Condition (\<lambda>h c. c) h s)"

definition object_at :: "('m, 'l, 'f, 'y) Foreign \<Rightarrow> ('m, 'l, 'f) memory \<Rightarrow> nat \<Rightarrow> bool" where
  "object_at X h p \<longleftrightarrow> ptr_valid is_ControlPlane the_ControlPlane (ControlPlane_valid X) h (Some p)"

definition value_at :: "('m, 'l, 'f, 'y) Foreign \<Rightarrow> ('m, 'l, 'f) memory \<Rightarrow> nat \<Rightarrow> TypeMeta \<times> ControlPlane" where
  "value_at X h p = ControlPlane_content X h (load the_ControlPlane h p)"

locale status_in_memory =
  fixes ssc_mem :: "('m, 'l, 'f) ssc_memory" and ssc :: set_status_condition
  assumes sets: "conditions_valid h s \<Longrightarrow> ssc_mem s c h = (s', h') \<Longrightarrow>
      conditions_valid h' s' \<and> conditions_at h' s' = ssc (conditions_at h s) c"
    and writes_only: "conditions_valid h s \<Longrightarrow> ssc_mem s c h = (s', h') \<Longrightarrow>
      length h \<le> length h' \<and> (\<forall>a < length h. map_option sl_base s \<noteq> Some a \<longrightarrow> h' ! a = h ! a)"
    and new_or_same: "conditions_valid h s \<Longrightarrow> ssc_mem s c h = (Some s1, h') \<Longrightarrow>
      map_option sl_base s = Some (sl_base s1) \<or> length h \<le> sl_base s1"

subsection \<open>The loop over the conditions\<close>

lemma array_at_update: "b < length h \<Longrightarrow> array_at (h[b := Array xs]) a = (if a = b then xs else array_at h a)"
  by (simp add: array_at_def nth_list_update)

text \<open>
  After \<open>k\<close> rounds the memory is that of before but for the array of the slice, where the first \<open>k\<close>
  elements of the slice are cleared.
\<close>

lemma clear_loop:
  fixes h :: "('m, 'l, 'f) memory" and now gen :: int and ty :: string
  assumes "sl_base s < length h" and "sl_from s + sl_len s \<le> length (array_at h (sl_base s))"
    and "k \<le> sl_len s"
  defines "h' \<equiv> fold (mem_clear_condition now gen ty s) [0..<k] h"
  shows "length h' = length h \<and> (\<forall>a. a \<noteq> sl_base s \<longrightarrow> h' ! a = h ! a) \<and>
    length (array_at h' (sl_base s)) = length (array_at h (sl_base s)) \<and>
    (\<forall>i. i < k \<longrightarrow> array_at h' (sl_base s) ! (sl_from s + i) =
       Some (ConditionCell (clear_condition now gen ty (load_elem the_Condition h (sl_base s) (sl_from s + i))))) \<and>
    (\<forall>i. k \<le> i \<longrightarrow> array_at h' (sl_base s) ! (sl_from s + i) = array_at h (sl_base s) ! (sl_from s + i))"
  using assms(3) unfolding h'_def
proof (induction k)
  case (Suc k)
  then have "k \<le> sl_len s" by simp
  from Suc.IH [OF this] show ?case
    using assms(1,2) Suc.prems
    by (auto simp: mem_clear_condition_def store_elem_def array_at_update nth_list_update
        load_elem_def less_Suc_eq)
qed simp

lemma clear_conditions:
  fixes h :: "('m, 'l, 'f) memory" and now gen :: int and ty :: string
  assumes "conditions_valid h s"
  defines "h' \<equiv> mem_clear_conditions now gen ty s h"
  shows "length h' = length h" and "\<And>a. map_option sl_base s \<noteq> Some a \<Longrightarrow> h' ! a = h ! a"
    and "conditions_valid h' s" and "conditions_at h' s = map (clear_condition now gen ty) (conditions_at h s)"
proof -
  show "length h' = length h" "conditions_valid h' s"
    "conditions_at h' s = map (clear_condition now gen ty) (conditions_at h s)"
    "\<And>a. map_option sl_base s \<noteq> Some a \<Longrightarrow> h' ! a = h ! a"
    using assms(1) clear_loop [where h = h and s = "the s" and k = "sl_len (the s)" and now = now and gen = gen and ty = ty]
    by (auto simp: h'_def mem_clear_conditions_def slice_valid_def elem_valid_def conditions_at_def
        slice_content_def or_else_def load_elem_def split: option.splits)
qed

subsection \<open>A copied object\<close>

text \<open>
  In the memory of a copy the conditions come last: what the metadata and the spec need lies before
  their array.
\<close>

definition copied_to ::
  "('m, 'l, 'f, 'y) Foreign \<Rightarrow> ('m, 'l, 'f) memory \<Rightarrow> 'm MControlPlane \<Rightarrow>
     'm MControlPlane \<Rightarrow> ('m, 'l, 'f) memory \<Rightarrow> ('m, 'l, 'f) memory \<Rightarrow> bool"
where
  "copied_to X h v v' t u \<longleftrightarrow>
     mcp_TypeMeta v' = mcp_TypeMeta v \<and>
     (\<forall>g. length g = length h \<longrightarrow>
        x_meta_valid X (g @ t) (mcp_ObjectMeta v') \<and>
        x_meta_content X (g @ t) (mcp_ObjectMeta v') = x_meta_content X h (mcp_ObjectMeta v) \<and>
        ControlPlaneSpec_valid (g @ t) (mcp_Spec v') \<and>
        ControlPlaneSpec_content (g @ t) (mcp_Spec v') = ControlPlaneSpec_content h (mcp_Spec v) \<and>
        conditions_valid (g @ t @ u) (mstat_Conditions (mcp_Status v')) \<and>
        conditions_at (g @ t @ u) (mstat_Conditions (mcp_Status v')) =
          conditions_at h (mstat_Conditions (mcp_Status v))) \<and>
     (\<forall>s. mstat_Conditions (mcp_Status v') = Some s \<longrightarrow> sl_base s = length h + length t)"

context foreign_copies
begin

lemma copied:
  assumes "ControlPlane_valid X h v"
  obtains v' t u where "ControlPlane_DeepCopyInto X v h = (v', h @ t @ u)" and "copied_to X h v v' t u"
proof -
  let ?ms = "(mcp_ObjectMeta v, mcp_Spec v)" and ?s = "mstat_Conditions (mcp_Status v)"
  have ms: "pair_valid (x_meta_valid X) ControlPlaneSpec_valid h ?ms" and s: "conditions_valid h ?s"
    using assms by (simp_all add: ControlPlane_valid_def pair_valid_def ControlPlaneStatus_valid_def)
  obtain m p t where into: "pair_into (x_meta_DeepCopyInto X) ControlPlaneSpec_DeepCopyInto ?ms h =
      ((m, p), h @ t)"
    and stand: "\<And>g. length g = length h \<Longrightarrow>
      pair_valid (x_meta_valid X) ControlPlaneSpec_valid (g @ t) (m, p) \<and>
      pair_content (x_meta_content X) ControlPlaneSpec_content (g @ t) (m, p) =
        pair_content (x_meta_content X) ControlPlaneSpec_content h ?ms"
    using deep_copier.copies [OF pair_copies [OF meta_copies ControlPlaneSpec_copies] ms]
    by (metis surj_pair)
  obtain s' u where slice: "copy_slice ConditionCell the_Condition (x_cond_DeepCopyInto X) ?s (h @ t) =
      (s', (h @ t) @ u)"
    and stands: "\<And>g. length g = length (h @ t) \<Longrightarrow> conditions_valid (g @ u) s' \<and>
      slice_content the_Condition (\<lambda>h c. c) (g @ u) s' = slice_content the_Condition (\<lambda>h c. c) h ?s"
    using deep_copier.copies [OF conditions_copies deep_copier.grows_valid [OF conditions_copies s]]
      deep_copier.grows_content [OF conditions_copies s] by metis
  have base: "sl_base s1 = length h + length t" if "s' = Some s1" for s1
    using slice that by (auto simp: copy_slice_def Let_def split: option.splits)
  let ?v' = "v\<lparr>mcp_ObjectMeta := m, mcp_Spec := p, mcp_Status := (mcp_Status v)\<lparr>mstat_Conditions := s'\<rparr>\<rparr>"
  have "ControlPlane_DeepCopyInto X v h = (?v', h @ t @ u)"
    using into slice
    by (auto simp: ControlPlane_DeepCopyInto_def ControlPlaneStatus_DeepCopyInto_def pair_into_def
        Let_def split: prod.splits)
  moreover have "copied_to X h v ?v' t u"
    using stand stands [of "g @ t" for g] base
    by (simp add: copied_to_def pair_valid_def pair_content_def conditions_at_def)
  ultimately show ?thesis by (rule that)
qed

lemma object_copied:
  assumes "object_at X h p"
  obtains v' t u where "ControlPlane_DeepCopyObject X (Some p) h =
      (Some (length h), h @ Obj (ControlPlaneCell v') # t @ u)"
    and "copied_to X (h @ [Zeroed]) (load the_ControlPlane h p) v' t u"
    and "value_at X (h @ [Zeroed]) p = value_at X h p"
proof -
  let ?v = "load the_ControlPlane h p"
  have p: "p < length h" and v: "ControlPlane_valid X h ?v"
    using assms by (auto simp: object_at_def ptr_valid_def)
  have v': "ControlPlane_valid X (h @ [Zeroed]) ?v"
    using v by (rule deep_copier.grows_valid [OF ControlPlane_copies])
  obtain w t u where "ControlPlane_DeepCopyInto X ?v (h @ [Zeroed]) = (w, (h @ [Zeroed]) @ t @ u)"
    and "copied_to X (h @ [Zeroed]) ?v w t u"
    using copied [OF v'] .
  moreover have "value_at X (h @ [Zeroed]) p = value_at X h p"
    using p deep_copier.grows_content [OF ControlPlane_copies v] by (simp add: value_at_def)
  ultimately show ?thesis
    using p by (intro that [of w t u])
      (simp_all add: ControlPlane_DeepCopyObject_eq ControlPlane_DeepCopy_def new_copy_def)
qed

end

subsection \<open>A transition of a copy\<close>

lemma conditions_at_cong:
  "(\<And>s1. s = Some s1 \<Longrightarrow> array_at h (sl_base s1) = array_at h' (sl_base s1)) \<Longrightarrow>
     conditions_at h s = conditions_at h' s"
  by (cases s) (simp_all add: conditions_at_def slice_content_def load_elem_def)

lemma prefix_kept:
  assumes "length (g @ t) \<le> length h'" and "\<And>a. a < length (g @ t) \<Longrightarrow> h' ! a = (g @ t) ! a"
  shows "h' = g @ t @ drop (length (g @ t)) h'"
proof -
  have "take (length (g @ t)) h' = g @ t"
    using assms by (intro nth_equalityI) auto
  then show ?thesis using append_take_drop_id [of "length (g @ t)" h'] by (metis append.assoc)
qed

context status_in_memory
begin

lemma transition:
  fixes h :: "('m, 'l, 'f) memory" and now gen :: int and ty :: string
  assumes "conditions_valid h s"
    and "ssc_mem s (new_condition now gen ty) (mem_clear_conditions now gen ty s h) = (s', h')"
  shows "length h \<le> length h'"
    and "\<And>a. a < length h \<Longrightarrow> map_option sl_base s \<noteq> Some a \<Longrightarrow> h' ! a = h ! a"
    and "conditions_at h' s' =
           ssc (map (clear_condition now gen ty) (conditions_at h s)) (new_condition now gen ty)"
    and "\<And>s1. s' = Some s1 \<Longrightarrow> map_option sl_base s = Some (sl_base s1) \<or> length h \<le> sl_base s1"
  using clear_conditions [OF assms(1), where now = now and gen = gen and ty = ty] sets [OF _ assms(2)] writes_only [OF _ assms(2)]
    new_or_same [of "mem_clear_conditions now gen ty s h" s "new_condition now gen ty"] assms(2)
  by auto

end

lemma transition_of_copy:
  fixes X :: "('m, 'l, 'f, 'y) Foreign" and now :: int and ty :: string
  assumes X: "foreign_copies X" and ssc: "status_in_memory ssc_mem ssc"
    and copied: "copied_to X (h @ [Zeroed]) v v' t u" and v: "ControlPlane_valid X h v"
  defines "h' \<equiv> mem_setCondition X ssc_mem now ty (length h) (h @ Obj (ControlPlaneCell v') # t @ u)"
  obtains x v'' where "h' = h @ Obj (ControlPlaneCell v'') # t @ x"
    and "ControlPlane_content X h' v'' =
      (fst (ControlPlane_content X h v), setCondition ssc now ty (snd (ControlPlane_content X h v)))"
proof -
  let ?o = "Obj (ControlPlaneCell v')" and ?s = "mstat_Conditions (mcp_Status v')"
  let ?h = "h @ ?o # t @ u"
  have meta_copier: "deep_copier (x_meta_valid X) (x_meta_content X) (x_meta_DeepCopyInto X)"
    using foreign_copies.meta_copies [OF X] .
  have old: "x_meta_valid X h (mcp_ObjectMeta v)" "ControlPlaneSpec_valid h (mcp_Spec v)"
    "conditions_valid h (mstat_Conditions (mcp_Status v))"
    using v by (simp_all add: ControlPlane_valid_def ControlPlaneStatus_valid_def)
  have stands: "x_meta_valid X (g @ t) (mcp_ObjectMeta v')"
      "x_meta_content X (g @ t) (mcp_ObjectMeta v') = x_meta_content X h (mcp_ObjectMeta v)"
      "ControlPlaneSpec_valid (g @ t) (mcp_Spec v')"
      "ControlPlaneSpec_content (g @ t) (mcp_Spec v') = ControlPlaneSpec_content h (mcp_Spec v)"
      "conditions_valid (g @ t @ u) ?s"
      "conditions_at (g @ t @ u) ?s = conditions_at h (mstat_Conditions (mcp_Status v))"
    if "length g = Suc (length h)" for g
    using copied that old deep_copier.grows_content [OF meta_copier]
      deep_copier.grows_content [OF ControlPlaneSpec_copies]
      deep_copier.grows_content [OF foreign_copies.conditions_copies [OF X]]
    by (auto simp: copied_to_def conditions_at_def)
  let ?gen = "m_generation (x_meta_content X h (mcp_ObjectMeta v))"
  have gen: "mem_Generation X ?h v' = ?gen"
    using stands(1,2) [of "h @ [?o]"] deep_copier.grows_content [OF meta_copier, of "(h @ [?o]) @ t"]
    by (simp add: mem_Generation_def)
  obtain s' h3 where ssc_mem: "ssc_mem ?s (new_condition now ?gen ty)
      (mem_clear_conditions now ?gen ty ?s ?h) = (s', h3)"
    by force
  note tr = status_in_memory.transition [OF ssc _ ssc_mem, simplified]
  have cs: "conditions_valid ?h ?s"
    "conditions_at ?h ?s = conditions_at h (mstat_Conditions (mcp_Status v))"
    using stands(5,6) [of "h @ [?o]"] by simp_all
  have base: "sl_base s1 = Suc (length h + length t)" if "?s = Some s1" for s1
    using copied that by (simp add: copied_to_def)
  let ?v'' = "v'\<lparr>mcp_Status := \<lparr>mstat_Conditions = s'\<rparr>\<rparr>"
  let ?o' = "Obj (ControlPlaneCell ?v'')"
  have h': "h' = h3[length h := ?o']"
    using ssc_mem by (simp add: h'_def mem_setCondition_def gen)
  have "h' = (h @ [?o']) @ t @ drop (length ((h @ [?o']) @ t)) h'"
  proof (rule prefix_kept)
    show "length ((h @ [?o']) @ t) \<le> length h'" using tr(1) [OF cs(1)] by (simp add: h')
    show "h' ! a = ((h @ [?o']) @ t) ! a" if a: "a < length ((h @ [?o']) @ t)" for a
    proof (cases "a = length h")
      case False
      then have "h' ! a = ?h ! a"
        using tr(2) [OF cs(1), of a] a base by (cases ?s) (auto simp: h')
      also have "\<dots> = ((h @ [?o']) @ t) ! a"
        using a False by (auto simp: nth_append nth_Cons split: nat.splits)
      finally show ?thesis .
    qed (use tr(1) [OF cs(1)] in \<open>simp add: h'\<close>)
  qed
  then obtain x where x: "h' = h @ ?o' # t @ x" by auto
  show ?thesis
  proof (rule that [OF x])
    show "ControlPlane_content X h' ?v'' =
      (fst (ControlPlane_content X h v), setCondition ssc now ty (snd (ControlPlane_content X h v)))"
  proof -
    let ?g = "(h @ [?o']) @ t"
    have "x_meta_content X h' (mcp_ObjectMeta v') = x_meta_content X h (mcp_ObjectMeta v)"
      using stands(1,2) [of "h @ [?o']"] deep_copier.grows_content [OF meta_copier, of ?g _ x]
      by (simp add: x)
    moreover have "ControlPlaneSpec_content h' (mcp_Spec v') = ControlPlaneSpec_content h (mcp_Spec v)"
      using stands(3,4) [of "h @ [?o']"] deep_copier.grows_content [OF ControlPlaneSpec_copies, of ?g _ x]
      by (simp add: x)
    moreover have "conditions_at h' s' = conditions_at h3 s'"
      using tr(4) [OF cs(1)] base
      by (intro conditions_at_cong) (fastforce simp: h' array_at_def nth_list_update)
    moreover have "mcp_TypeMeta v' = mcp_TypeMeta v" using copied by (simp add: copied_to_def)
    ultimately show ?thesis
      using tr(3) [OF cs(1)] cs(2)
      by (simp add: ControlPlane_content_def ControlPlaneStatus_content_def setCondition_def
          conditions_at_def)
  qed
  qed
qed

subsection \<open>Kubernetes' part, as documented\<close>

text \<open>
  Metadata with its labels in memory, and \<open>SetStatusCondition\<close> that writes in place when the list
  keeps its length and makes a new array otherwise.
\<close>

record RefMeta =
  rm_fields :: Meta
  rm_labels :: "nat option"

definition ref_meta_content :: "(RefMeta, string, entries) memory \<Rightarrow> RefMeta \<Rightarrow> Meta" where
  "ref_meta_content h m =
     (rm_fields m)\<lparr>m_labels := or_else Map.empty (map_content the_Foreign h (rm_labels m))\<rparr>"

definition ref_meta_DeepCopyInto :: "(RefMeta, RefMeta, string, entries) copying" where
  "ref_meta_DeepCopyInto m h =
     (let (x, h) = copy_map ForeignCell the_Foreign (rm_labels m) h in (m\<lparr>rm_labels := x\<rparr>, h))"

definition ref_foreign :: "(RefMeta, string, entries, string) Foreign" where
  "ref_foreign =
     \<lparr>x_meta_valid = \<lambda>h m. map_valid is_Foreign the_Foreign h (rm_labels m),
      x_meta_content = ref_meta_content, x_meta_DeepCopyInto = ref_meta_DeepCopyInto,
      x_list_valid = \<lambda>h l. True, x_list_content = \<lambda>h l. l, x_list_DeepCopyInto = assign,
      x_cond_DeepCopyInto = assign\<rparr>"

lemma ref_meta_copies:
  "deep_copier (\<lambda>h m. map_valid is_Foreign the_Foreign h (rm_labels m)) ref_meta_content
     ref_meta_DeepCopyInto"
  by (rule struct_copies [where get = rm_labels and put = "\<lambda>x m. m\<lparr>rm_labels := x\<rparr>",
      OF copy_map_copies [where mk = ForeignCell and is_v = is_Foreign and the_v = the_Foreign]])
    (auto simp: ref_meta_content_def ref_meta_DeepCopyInto_def)

interpretation ref_copies: foreign_copies ref_foreign
  by unfold_locales (simp add: foreign_copiers_def ref_foreign_def ref_meta_copies assign_copies)

definition ref_ssc_memory :: "('m, 'l, 'f) ssc_memory" where
  "ref_ssc_memory s0 c h =
     (let cs = set_status_condition_ref (conditions_at h s0) c;
          cells = map (\<lambda>c. Some (ConditionCell c)) cs;
          fresh = (Some \<lparr>sl_base = length h, sl_from = 0, sl_len = length cs\<rparr>, h @ [Array cells]) in
      case s0 of
        None \<Rightarrow> fresh
      | Some s \<Rightarrow>
          if length cs = sl_len s
          then (s0, h[sl_base s := Array (take (sl_from s) (array_at h (sl_base s)) @ cells @
                        drop (sl_from s + sl_len s) (array_at h (sl_base s)))])
          else fresh)"

lemma cells_at:
  assumes "array_at h b = pre @ map (\<lambda>c. Some (ConditionCell c)) cs @ post" and "b < length h"
  shows "conditions_valid h (Some \<lparr>sl_base = b, sl_from = length pre, sl_len = length cs\<rparr>) \<and>
    conditions_at h (Some \<lparr>sl_base = b, sl_from = length pre, sl_len = length cs\<rparr>) = cs"
  using assms
  by (auto simp: slice_valid_def elem_valid_def conditions_at_def slice_content_def or_else_def
      load_elem_def nth_append intro!: nth_equalityI)

interpretation ref_status: status_in_memory ref_ssc_memory set_status_condition_ref
proof
  fix h :: "('m, 'l, 'f) memory" and s c s' h'
  assume v: "conditions_valid h s" and set: "ref_ssc_memory s c h = (s', h')"
  let ?cs = "set_status_condition_ref (conditions_at h s) c"
  have fresh: "conditions_valid (h @ [Array (map (\<lambda>c. Some (ConditionCell c)) ?cs)])
        (Some \<lparr>sl_base = length h, sl_from = 0, sl_len = length ?cs\<rparr>) \<and>
      conditions_at (h @ [Array (map (\<lambda>c. Some (ConditionCell c)) ?cs)])
        (Some \<lparr>sl_base = length h, sl_from = 0, sl_len = length ?cs\<rparr>) = ?cs"
    using cells_at [where pre = "[]" and post = "[]" and cs = ?cs and b = "length h"
        and h = "h @ [Array (map (\<lambda>c. Some (ConditionCell c)) ?cs)]"] by simp
  show "conditions_valid h' s' \<and> conditions_at h' s' = ?cs"
  proof (cases "\<exists>s1. s = Some s1 \<and> length ?cs = sl_len s1")
    case True
    then obtain s1 where s1: "s = Some s1" "length ?cs = sl_len s1" by blast
    let ?pre = "take (sl_from s1) (array_at h (sl_base s1))"
    have "array_at h' (sl_base s1) = ?pre @ map (\<lambda>c. Some (ConditionCell c)) ?cs @
        drop (sl_from s1 + sl_len s1) (array_at h (sl_base s1))"
      and "s' = s" and "sl_base s1 < length h'" and "length ?pre = sl_from s1"
      using set s1 v by (auto simp: ref_ssc_memory_def Let_def array_at_update slice_valid_def)
    then show ?thesis using cells_at [of h' "sl_base s1" ?pre ?cs] s1 by (cases s1) simp
  next
    case False
    then show ?thesis
      using set fresh by (auto simp: ref_ssc_memory_def Let_def split: option.splits if_splits)
  qed
qed (auto simp: ref_ssc_memory_def Let_def nth_append split: option.splits if_splits)

subsection \<open>Copies and transitions of a ControlPlane\<close>

text \<open>A ControlPlane in memory, deploying, with a label and the address of a CA.\<close>

definition sample_memory :: "(RefMeta, string, entries) memory" where
  "sample_memory =
     (let no_svc = \<lparr>msvc_Type = [], msvc_Address = [], msvc_Annotations = None,
                    msvc_ExternalTrafficPolicy = []\<rparr>;
          s = empty_spec
      in [Obj (ForeignCell [(''app'', ''iofog'')]), Obj (StringCell ''ca''),
          Array [Some (ConditionCell (new_condition 1 0 conditionDeploying))],
          Obj (ControlPlaneCell
            \<lparr>mcp_TypeMeta = \<lparr>tm_Kind = ''ControlPlane'', tm_APIVersion = ''datasance.com/v3''\<rparr>,
             mcp_ObjectMeta = \<lparr>rm_fields = new_meta ''pot'' ''ns'' Map.empty Map.empty, rm_labels = Some 0\<rparr>,
             mcp_Spec =
               \<lparr>mspec_Auth = spec_Auth s,
                mspec_Database = \<lparr>mdb_Provider = [], mdb_Host = [], mdb_Port = 0, mdb_User = [],
                  mdb_Password = [], mdb_DatabaseName = [], mdb_SSL = None, mdb_CA = Some 1\<rparr>,
                mspec_Ingresses = \<lparr>ming_Controller = \<lparr>mci_Annotations = None, mci_IngressClassName = [],
                    mci_Host = [], mci_SecretName = []\<rparr>,
                  ming_Router = ing_Router (spec_Ingresses s), ming_Nats = ing_Nats (spec_Ingresses s)\<rparr>,
                mspec_Services = \<lparr>msvcs_Controller = no_svc, msvcs_Router = no_svc, msvcs_Nats = no_svc,
                  msvcs_NatsServer = no_svc\<rparr>,
                mspec_Replicas = spec_Replicas s, mspec_Images = spec_Images s,
                mspec_Controller = \<lparr>mctl_PidBaseDir = [], mctl_EcnViewerPort = 0, mctl_EcnViewerURL = [],
                  mctl_ECNName = [], mctl_Https = None, mctl_SecretName = [], mctl_LogLevel = []\<rparr>,
                mspec_Events = \<lparr>mevt_AuditEnabled = None, mevt_RetentionDays = 0,
                  mevt_CleanupInterval = 0, mevt_CaptureIpAddress = None\<rparr>,
                mspec_Nats = None, mspec_Vault = None\<rparr>,
             mcp_Status = \<lparr>mstat_Conditions = Some \<lparr>sl_base = 2, sl_from = 0, sl_len = 1\<rparr>\<rparr>\<rparr>)])"

lemmas valid_defs = ControlPlane_valid_def ControlPlaneSpec_valid_def Database_valid_def
  Ingresses_valid_def ControllerIngress_valid_def Services_valid_def Service_valid_def
  Controller_valid_def Events_valid_def ControlPlaneStatus_valid_def

lemma sample_object: "object_at ref_foreign sample_memory 3"
  by (simp add: object_at_def sample_memory_def ptr_valid_def load_def valid_defs ref_foreign_def
      slice_valid_def elem_valid_def array_at_def Let_def)

lemma sample_deploying: "GetCondition (snd (value_at ref_foreign sample_memory 3)) = conditionDeploying"
  by (simp add: value_at_def sample_memory_def load_def ControlPlane_content_def GetCondition_def
      ControlPlaneStatus_content_def slice_content_def load_elem_def array_at_def Let_def or_else_def
      ref_foreign_def ref_meta_content_def new_condition_def new_meta_def)

text \<open>
  C17: A deep copy has the value of the original and shares no memory with it: it is made of new
  objects only, so that it keeps its value whatever is later written to the objects that were
  there, and the original keeps its value whatever is written to the copy.
\<close>

theorem deepcopy_apart:
  assumes "foreign_copiers X" and "object_at X h p"
  shows "\<exists>q t. ControlPlane_DeepCopyObject X (Some p) h = (Some q, h @ t) \<and> length h \<le> q \<and>
           (\<forall>g. length g = length h \<longrightarrow> value_at X (g @ t) q = value_at X h p) \<and>
           (\<forall>t'. value_at X (h @ t') p = value_at X h p)"
proof -
  note X = foreign_copies.intro [OF assms(1)]
  note copier = foreign_copies.ControlPlane_DeepCopy_copies [OF X]
  note object = assms(2) [unfolded object_at_def]
  obtain v t u where q: "ControlPlane_DeepCopyObject X (Some p) h =
      (Some (length h), h @ Obj (ControlPlaneCell v) # t @ u)"
    using foreign_copies.object_copied [OF X assms(2)] by metis
  let ?t = "Obj (ControlPlaneCell v) # t @ u"
  let ?read = "ptr_content the_ControlPlane (ControlPlane_content X)"
  have "ControlPlane_DeepCopy X (Some p) h = (Some (length h), h @ ?t)"
    using q by (simp add: foreign_copies.ControlPlane_DeepCopyObject_eq [OF X])
  then have "?read (g @ ?t) (Some (length h)) = ?read h (Some p)" if "length g = length h" for g
    using deep_copier.copies [OF copier object] that by auto
  moreover have "?read (h @ t') (Some p) = ?read h (Some p)" for t'
    by (rule deep_copier.grows_content [OF copier object])
  ultimately show ?thesis
    using q by (intro exI [of _ "length h"] exI [of _ ?t]) (simp add: value_at_def ptr_content_def)
qed

lemma deepcopy_apart_witness:
  "\<exists>q t. ControlPlane_DeepCopyObject ref_foreign (Some 3) sample_memory = (Some q, sample_memory @ t) \<and>
     GetCondition (snd (value_at ref_foreign (replicate 4 Zeroed @ t) q)) = conditionDeploying"
proof -
  have "length (replicate 4 Zeroed :: (RefMeta, string, entries) memory) = length sample_memory"
    by (simp add: sample_memory_def Let_def)
  then show ?thesis
    using deepcopy_apart [OF ref_copies.foreign sample_object] sample_deploying by metis
qed

text \<open>
  C16: The reconciler may set the state of the object it reads: on a deep copy \<open>setCondition\<close>, which
  writes to the array of conditions in place, has the effect of \<open>setCondition\<close> on values, and
  the cached original keeps its value.
\<close>

theorem transition_spares_original:
  assumes "foreign_copiers X" and "status_in_memory ssc_mem ssc" and "object_at X h p"
  shows "\<exists>q h1. ControlPlane_DeepCopyObject X (Some p) h = (Some q, h1) \<and>
           value_at X (mem_setCondition X ssc_mem now ty q h1) q =
             (fst (value_at X h p), setCondition ssc now ty (snd (value_at X h p))) \<and>
           value_at X (mem_setCondition X ssc_mem now ty q h1) p = value_at X h p"
proof -
  note X = foreign_copies.intro [OF assms(1)]
  let ?v = "load the_ControlPlane h p"
  have p: "p < length h" and v: "ControlPlane_valid X h ?v"
    using assms(3) by (auto simp: object_at_def ptr_valid_def)
  obtain v' t u where q: "ControlPlane_DeepCopyObject X (Some p) h =
      (Some (length h), h @ Obj (ControlPlaneCell v') # t @ u)"
    and copied: "copied_to X (h @ [Zeroed]) ?v v' t u"
    using foreign_copies.object_copied [OF X assms(3)] .
  let ?h2 = "mem_setCondition X ssc_mem now ty (length h) (h @ Obj (ControlPlaneCell v') # t @ u)"
  obtain x v'' where x: "?h2 = h @ Obj (ControlPlaneCell v'') # t @ x"
    and v'': "ControlPlane_content X ?h2 v'' =
      (fst (value_at X h p), setCondition ssc now ty (snd (value_at X h p)))"
    using transition_of_copy [OF X assms(2) copied v, of now ty] unfolding value_at_def .
  have "value_at X ?h2 p = value_at X h p"
    using p deep_copier.grows_content [OF foreign_copies.ControlPlane_copies [OF X] v]
    by (simp add: x value_at_def)
  moreover have "value_at X ?h2 (length h) = ControlPlane_content X ?h2 v''"
    by (simp add: x value_at_def)
  ultimately show ?thesis using q v'' by auto
qed

lemma transition_spares_original_witness:
  "\<exists>q h1. ControlPlane_DeepCopyObject ref_foreign (Some 3) sample_memory = (Some q, h1) \<and>
     (let h2 = mem_setCondition ref_foreign ref_ssc_memory 7 conditionReady q h1 in
      GetCondition (snd (value_at ref_foreign h2 q)) = conditionReady \<and>
      GetCondition (snd (value_at ref_foreign h2 3)) = conditionDeploying)"
  using transition_spares_original [OF ref_copies.foreign ref_status.status_in_memory_axioms sample_object,
      of 7 conditionReady] sample_deploying ssc_ref.get_set
  by (fastforce simp: Let_def)

end
