(* ===== verification/AppCopies.thy ===== *)
theory AppCopies
  imports Memory ApiTypes
begin

text \<open>
  The deep copies of the Application's types (\<open>apis/apps/v3/zz_generated.deepcopy.go\<close>), in the way of
  \<open>ApiCopies\<close> and \<open>DeepCopies\<close>. A microservice is a type of the ioFog SDK with a deep copy of its own;
  the NATS configuration of an application has no pointers, as the generator copies it by
  assignment. The types of outside are a record, and the locale \<open>app_foreign_copies\<close> states the
  contract of their deep copies.
\<close>

subsection \<open>The structs in memory\<close>

record MApplicationSpec =
  maspec_Microservices :: "Slice option"
  maspec_NatsConfig :: "nat option"
  maspec_Replicas :: int

record MApplicationStatus =
  mastat_Replicas :: int
  mastat_LabelSelector :: string
  mastat_PodNames :: "Slice option"

record 'm MApplication =
  mapp_TypeMeta :: "string \<times> string"
  mapp_ObjectMeta :: 'm
  mapp_Spec :: MApplicationSpec
  mapp_Status :: MApplicationStatus

record 'l MApplicationList =
  mappl_TypeMeta :: "string \<times> string"
  mappl_ListMeta :: 'l
  mappl_Items :: "Slice option"

datatype ('m, 'l, 's, 'f) app_cell =
    is_Name: NameCell (the_Name: string)
  | is_NatsConfig: NatsConfigCell (the_NatsConfig: string)
  | is_Microservice: MicroserviceCell (the_Microservice: 's)
  | is_ApplicationSpec: ApplicationSpecCell (the_ApplicationSpec: MApplicationSpec)
  | is_ApplicationStatus: ApplicationStatusCell (the_ApplicationStatus: MApplicationStatus)
  | is_Application: ApplicationCell (the_Application: "'m MApplication")
  | is_ApplicationList: ApplicationListCell (the_ApplicationList: "'l MApplicationList")
  | is_Outside: OutsideCell (the_Outside: 'f)

type_synonym ('m, 'l, 's, 'f) app_memory = "('m, 'l, 's, 'f) app_cell mem"
type_synonym ('a, 'm, 'l, 's, 'f) app_copying =
  "'a \<Rightarrow> ('m, 'l, 's, 'f) app_cell mem \<Rightarrow> 'a \<times> ('m, 'l, 's, 'f) app_cell mem"

record ('m, 'l, 's, 'f, 'y) AppForeign =
  xa_meta_valid :: "('m, 'l, 's, 'f) app_memory \<Rightarrow> 'm \<Rightarrow> bool"
  xa_meta_content :: "('m, 'l, 's, 'f) app_memory \<Rightarrow> 'm \<Rightarrow> Meta"
  xa_meta_DeepCopyInto :: "('m, 'm, 'l, 's, 'f) app_copying"
  xa_list_valid :: "('m, 'l, 's, 'f) app_memory \<Rightarrow> 'l \<Rightarrow> bool"
  xa_list_content :: "('m, 'l, 's, 'f) app_memory \<Rightarrow> 'l \<Rightarrow> 'y"
  xa_list_DeepCopyInto :: "('l, 'm, 'l, 's, 'f) app_copying"
  xa_msvc_valid :: "('m, 'l, 's, 'f) app_memory \<Rightarrow> 's \<Rightarrow> bool"
  xa_msvc_content :: "('m, 'l, 's, 'f) app_memory \<Rightarrow> 's \<Rightarrow> AppMicroservice"
  xa_msvc_DeepCopyInto :: "('s, 'm, 'l, 's, 'f) app_copying"

subsection \<open>The code\<close>

definition ApplicationSpec_DeepCopyInto ::
  "('m, 'l, 's, 'f, 'y) AppForeign \<Rightarrow> (MApplicationSpec, 'm, 'l, 's, 'f) app_copying"
where
  "ApplicationSpec_DeepCopyInto X inp h =
     (let out = inp;
          (x, h) = copy_slice MicroserviceCell the_Microservice (xa_msvc_DeepCopyInto X)
                     (maspec_Microservices inp) h;
          out = out\<lparr>maspec_Microservices := x\<rparr>;
          (x, h) = new_copy NatsConfigCell the_NatsConfig assign (maspec_NatsConfig inp) h;
          out = out\<lparr>maspec_NatsConfig := x\<rparr>
      in (out, h))"

definition ApplicationSpec_DeepCopy ::
  "('m, 'l, 's, 'f, 'y) AppForeign \<Rightarrow> (nat option, 'm, 'l, 's, 'f) app_copying"
where
  "ApplicationSpec_DeepCopy X =
     new_copy ApplicationSpecCell the_ApplicationSpec (ApplicationSpec_DeepCopyInto X)"

text \<open>The built-in \<open>copy\<close> of Go assigns element by element.\<close>

definition ApplicationStatus_DeepCopyInto :: "(MApplicationStatus, 'm, 'l, 's, 'f) app_copying" where
  "ApplicationStatus_DeepCopyInto inp h =
     (let out = inp;
          (x, h) = copy_slice NameCell the_Name assign (mastat_PodNames inp) h;
          out = out\<lparr>mastat_PodNames := x\<rparr>
      in (out, h))"

definition ApplicationStatus_DeepCopy :: "(nat option, 'm, 'l, 's, 'f) app_copying" where
  "ApplicationStatus_DeepCopy =
     new_copy ApplicationStatusCell the_ApplicationStatus ApplicationStatus_DeepCopyInto"

definition Application_DeepCopyInto ::
  "('m, 'l, 's, 'f, 'y) AppForeign \<Rightarrow> ('m MApplication, 'm, 'l, 's, 'f) app_copying"
where
  "Application_DeepCopyInto X inp h =
     (let out = inp;
          out = out\<lparr>mapp_TypeMeta := mapp_TypeMeta inp\<rparr>;
          (x, h) = xa_meta_DeepCopyInto X (mapp_ObjectMeta inp) h;
          out = out\<lparr>mapp_ObjectMeta := x\<rparr>;
          (x, h) = ApplicationSpec_DeepCopyInto X (mapp_Spec inp) h;
          out = out\<lparr>mapp_Spec := x\<rparr>;
          (x, h) = ApplicationStatus_DeepCopyInto (mapp_Status inp) h;
          out = out\<lparr>mapp_Status := x\<rparr>
      in (out, h))"

definition Application_DeepCopy ::
  "('m, 'l, 's, 'f, 'y) AppForeign \<Rightarrow> (nat option, 'm, 'l, 's, 'f) app_copying"
where
  "Application_DeepCopy X = new_copy ApplicationCell the_Application (Application_DeepCopyInto X)"

definition Application_DeepCopyObject ::
  "('m, 'l, 's, 'f, 'y) AppForeign \<Rightarrow> (nat option, 'm, 'l, 's, 'f) app_copying"
where
  "Application_DeepCopyObject X inp h =
     (let (c, h) = Application_DeepCopy X inp h in
      case c of
        Some p \<Rightarrow> (Some p, h)
      | None \<Rightarrow> (None, h))"

definition ApplicationList_DeepCopyInto ::
  "('m, 'l, 's, 'f, 'y) AppForeign \<Rightarrow> ('l MApplicationList, 'm, 'l, 's, 'f) app_copying"
where
  "ApplicationList_DeepCopyInto X inp h =
     (let out = inp;
          out = out\<lparr>mappl_TypeMeta := mappl_TypeMeta inp\<rparr>;
          (x, h) = xa_list_DeepCopyInto X (mappl_ListMeta inp) h;
          out = out\<lparr>mappl_ListMeta := x\<rparr>;
          (x, h) = copy_slice ApplicationCell the_Application (Application_DeepCopyInto X)
                     (mappl_Items inp) h;
          out = out\<lparr>mappl_Items := x\<rparr>
      in (out, h))"

definition ApplicationList_DeepCopy ::
  "('m, 'l, 's, 'f, 'y) AppForeign \<Rightarrow> (nat option, 'm, 'l, 's, 'f) app_copying"
where
  "ApplicationList_DeepCopy X =
     new_copy ApplicationListCell the_ApplicationList (ApplicationList_DeepCopyInto X)"

definition ApplicationList_DeepCopyObject ::
  "('m, 'l, 's, 'f, 'y) AppForeign \<Rightarrow> (nat option, 'm, 'l, 's, 'f) app_copying"
where
  "ApplicationList_DeepCopyObject X inp h =
     (let (c, h) = ApplicationList_DeepCopy X inp h in
      case c of
        Some p \<Rightarrow> (Some p, h)
      | None \<Rightarrow> (None, h))"

subsection \<open>Well-formed memory and its contents\<close>

definition ApplicationSpec_valid ::
  "('m, 'l, 's, 'f, 'y) AppForeign \<Rightarrow> ('m, 'l, 's, 'f) app_memory \<Rightarrow> MApplicationSpec \<Rightarrow> bool"
where
  "ApplicationSpec_valid X h v \<longleftrightarrow>
     slice_valid is_Microservice the_Microservice (xa_msvc_valid X) h (maspec_Microservices v) \<and>
     ptr_valid is_NatsConfig the_NatsConfig (\<lambda>h v. True) h (maspec_NatsConfig v)"

definition ApplicationSpec_content ::
  "('m, 'l, 's, 'f, 'y) AppForeign \<Rightarrow> ('m, 'l, 's, 'f) app_memory \<Rightarrow> MApplicationSpec \<Rightarrow> ApplicationSpec"
where
  "ApplicationSpec_content X h v =
     \<lparr>aspec_Microservices =
        (case slice_content the_Microservice (xa_msvc_content X) h (maspec_Microservices v) of
           None \<Rightarrow> [] | Some ms \<Rightarrow> ms),
      aspec_NatsConfig = ptr_content the_NatsConfig (\<lambda>h v. v) h (maspec_NatsConfig v),
      aspec_Replicas = maspec_Replicas v\<rparr>"

definition ApplicationStatus_valid :: "('m, 'l, 's, 'f) app_memory \<Rightarrow> MApplicationStatus \<Rightarrow> bool" where
  "ApplicationStatus_valid h v = slice_valid is_Name the_Name (\<lambda>h v. True) h (mastat_PodNames v)"

definition ApplicationStatus_content ::
  "('m, 'l, 's, 'f) app_memory \<Rightarrow> MApplicationStatus \<Rightarrow> ApplicationStatus"
where
  "ApplicationStatus_content h v =
     \<lparr>astat_Replicas = mastat_Replicas v, astat_LabelSelector = mastat_LabelSelector v,
      astat_PodNames = slice_content the_Name (\<lambda>h v. v) h (mastat_PodNames v)\<rparr>"

definition Application_valid ::
  "('m, 'l, 's, 'f, 'y) AppForeign \<Rightarrow> ('m, 'l, 's, 'f) app_memory \<Rightarrow> 'm MApplication \<Rightarrow> bool"
where
  "Application_valid X h v \<longleftrightarrow>
     xa_meta_valid X h (mapp_ObjectMeta v) \<and> ApplicationSpec_valid X h (mapp_Spec v) \<and>
     ApplicationStatus_valid h (mapp_Status v)"

definition Application_content ::
  "('m, 'l, 's, 'f, 'y) AppForeign \<Rightarrow> ('m, 'l, 's, 'f) app_memory \<Rightarrow> 'm MApplication \<Rightarrow>
     (string \<times> string) \<times> Application"
where
  "Application_content X h v =
     (mapp_TypeMeta v,
      \<lparr>app_Meta = xa_meta_content X h (mapp_ObjectMeta v),
       app_Spec = ApplicationSpec_content X h (mapp_Spec v),
       app_Status = ApplicationStatus_content h (mapp_Status v)\<rparr>)"

definition ApplicationList_valid ::
  "('m, 'l, 's, 'f, 'y) AppForeign \<Rightarrow> ('m, 'l, 's, 'f) app_memory \<Rightarrow> 'l MApplicationList \<Rightarrow> bool"
where
  "ApplicationList_valid X h v \<longleftrightarrow>
     xa_list_valid X h (mappl_ListMeta v) \<and>
     slice_valid is_Application the_Application (Application_valid X) h (mappl_Items v)"

definition ApplicationList_content ::
  "('m, 'l, 's, 'f, 'y) AppForeign \<Rightarrow> ('m, 'l, 's, 'f) app_memory \<Rightarrow> 'l MApplicationList \<Rightarrow>
     (string \<times> string) \<times> 'y \<times> ((string \<times> string) \<times> Application) list option"
where
  "ApplicationList_content X h v =
     (mappl_TypeMeta v, xa_list_content X h (mappl_ListMeta v),
      slice_content the_Application (Application_content X) h (mappl_Items v))"

subsection \<open>Each of them is a deep copy\<close>

lemma pod_names_copies:
  "deep_copier (slice_valid is_Name the_Name (\<lambda>h v. True)) (slice_content the_Name (\<lambda>h v. v))
     (copy_slice NameCell the_Name assign)"
  by (rule copy_slice_copies [OF assign_copies]) simp_all

lemma NatsConfig_copies:
  "deep_copier (ptr_valid is_NatsConfig the_NatsConfig (\<lambda>h v. True))
     (ptr_content the_NatsConfig (\<lambda>h v. v)) (new_copy NatsConfigCell the_NatsConfig assign)"
  by (rule new_copy_copies [OF assign_copies]) simp_all

lemma ApplicationStatus_copies:
  "deep_copier ApplicationStatus_valid ApplicationStatus_content ApplicationStatus_DeepCopyInto"
  by (rule struct_copies [where get = mastat_PodNames and put = "\<lambda>x s. s\<lparr>mastat_PodNames := x\<rparr>",
      OF pod_names_copies])
    (auto simp: ApplicationStatus_valid_def ApplicationStatus_content_def
      ApplicationStatus_DeepCopyInto_def split: prod.splits)

interpretation app_status: deep_copier
  ApplicationStatus_valid ApplicationStatus_content ApplicationStatus_DeepCopyInto
  by (rule ApplicationStatus_copies)

locale app_foreign_copies =
  fixes X :: "('m, 'l, 's, 'f, 'y) AppForeign"
  assumes meta_copies: "deep_copier (xa_meta_valid X) (xa_meta_content X) (xa_meta_DeepCopyInto X)"
    and list_copies: "deep_copier (xa_list_valid X) (xa_list_content X) (xa_list_DeepCopyInto X)"
    and msvc_copies: "deep_copier (xa_msvc_valid X) (xa_msvc_content X) (xa_msvc_DeepCopyInto X)"
begin

lemma ApplicationSpec_copies:
  "deep_copier (ApplicationSpec_valid X) (ApplicationSpec_content X) (ApplicationSpec_DeepCopyInto X)"
  by (rule struct_copies [where get = "\<lambda>s. (maspec_Microservices s, maspec_NatsConfig s)"
      and put = "\<lambda>x s. s\<lparr>maspec_Microservices := fst x, maspec_NatsConfig := snd x\<rparr>",
      OF pair_copies [OF copy_slice_copies [OF msvc_copies, where mk = MicroserviceCell
          and is_v = is_Microservice and the_v = the_Microservice] NatsConfig_copies]])
    (auto simp: ApplicationSpec_valid_def ApplicationSpec_content_def ApplicationSpec_DeepCopyInto_def
      pair_defs Let_def split: prod.splits)

lemma Application_copies:
  "deep_copier (Application_valid X) (Application_content X) (Application_DeepCopyInto X)"
  by (rule struct_copies [where get = "\<lambda>s. (mapp_ObjectMeta s, mapp_Spec s, mapp_Status s)"
      and put = "\<lambda>x s. s\<lparr>mapp_ObjectMeta := fst x, mapp_Spec := fst (snd x), mapp_Status := snd (snd x)\<rparr>",
      OF pair_copies [OF meta_copies pair_copies [OF ApplicationSpec_copies ApplicationStatus_copies]]])
    (auto simp: Application_valid_def Application_content_def Application_DeepCopyInto_def
      pair_defs Let_def split: prod.splits)

lemma Application_DeepCopyObject_copies:
  "deep_copier (ptr_valid is_Application the_Application (Application_valid X))
     (ptr_content the_Application (Application_content X)) (Application_DeepCopyObject X)"
proof -
  have "Application_DeepCopyObject X = Application_DeepCopy X"
    by (auto simp: fun_eq_iff Application_DeepCopyObject_def split: prod.splits option.splits)
  then show ?thesis
    unfolding Application_DeepCopy_def by (simp add: new_copy_copies [OF Application_copies])
qed

lemma ApplicationList_copies:
  "deep_copier (ApplicationList_valid X) (ApplicationList_content X) (ApplicationList_DeepCopyInto X)"
  by (rule struct_copies [where get = "\<lambda>s. (mappl_ListMeta s, mappl_Items s)"
      and put = "\<lambda>x s. s\<lparr>mappl_ListMeta := fst x, mappl_Items := snd x\<rparr>",
      OF pair_copies [OF list_copies copy_slice_copies [OF Application_copies,
        where mk = ApplicationCell and is_v = is_Application and the_v = the_Application]]])
    (auto simp: ApplicationList_valid_def ApplicationList_content_def
      ApplicationList_DeepCopyInto_def pair_defs Let_def split: prod.splits)

lemma ApplicationList_DeepCopyObject_copies:
  "deep_copier (ptr_valid is_ApplicationList the_ApplicationList (ApplicationList_valid X))
     (ptr_content the_ApplicationList (ApplicationList_content X)) (ApplicationList_DeepCopyObject X)"
proof -
  have "ApplicationList_DeepCopyObject X = ApplicationList_DeepCopy X"
    by (auto simp: fun_eq_iff ApplicationList_DeepCopyObject_def split: prod.splits option.splits)
  then show ?thesis
    unfolding ApplicationList_DeepCopy_def by (simp add: new_copy_copies [OF ApplicationList_copies])
qed

end

text \<open>Outside types as they may be, with a part of a microservice in memory of its own.\<close>

record RefMicroservice =
  rms_fields :: AppMicroservice
  rms_rest :: "nat option"

definition ref_app_foreign ::
  "(Meta, string, RefMicroservice, string, string) AppForeign"
where
  "ref_app_foreign =
     \<lparr>xa_meta_valid = \<lambda>h m. True, xa_meta_content = \<lambda>h m. m, xa_meta_DeepCopyInto = assign,
      xa_list_valid = \<lambda>h l. True, xa_list_content = \<lambda>h l. l, xa_list_DeepCopyInto = assign,
      xa_msvc_valid = \<lambda>h m. ptr_valid is_Outside the_Outside (\<lambda>h v. True) h (rms_rest m),
      xa_msvc_content = \<lambda>h m. (rms_fields m)\<lparr>ams_Rest :=
        (case ptr_content the_Outside (\<lambda>h v. v) h (rms_rest m) of None \<Rightarrow> [] | Some r \<Rightarrow> r)\<rparr>,
      xa_msvc_DeepCopyInto = \<lambda>m h.
        (let (x, h) = new_copy OutsideCell the_Outside assign (rms_rest m) h in (m\<lparr>rms_rest := x\<rparr>, h))\<rparr>"

interpretation ref_app_copies: app_foreign_copies ref_app_foreign
proof (rule app_foreign_copies.intro)
  show "deep_copier (xa_msvc_valid ref_app_foreign) (xa_msvc_content ref_app_foreign)
      (xa_msvc_DeepCopyInto ref_app_foreign)"
    by (rule struct_copies [where get = rms_rest and put = "\<lambda>x m. m\<lparr>rms_rest := x\<rparr>",
        OF new_copy_copies [OF plain.deep_copier_axioms, where mk = OutsideCell and is_v = is_Outside
          and the_v = the_Outside]])
      (auto simp: ref_app_foreign_def)
qed (simp_all add: ref_app_foreign_def assign_copies)

end
