(* ===== verification/Spec2Isabelle.thy ===== *)
theory Spec2Isabelle
  imports Conditions NatsRoutes Json Workloads Apps Apis ApiOrder Lifecycle
    Selectors SecretContents AppScaling Configs Deviations Deployed Credentials Startup MemoryStatus AppCopies
begin

text \<open>
  The ioFog operator: a Kubernetes operator that deploys a ControlPlane (a controller, a router
  and a NATS hub) from a custom resource, and Applications from another. This theory imports the
  model of the operator's Go code and the theorems on it.

  \<^bold>\<open>The program.\<close> \<open>main.go\<close> parses the flags, registers the
  two groups of resources and starts a manager that calls two reconcilers. The reconciler of a
  ControlPlane (\<open>controllers/controlplanes/controller.go\<close>, \<open>states.go\<close>) reads the resource, takes
  the state from its status conditions, and in the states deploying and updating runs three
  routines as goroutines (\<open>reconcile.go\<close>), collects their results from a channel, and sets the
  status to ready when none of them failed or asked to be called again. The routines build
  microservices (\<open>microservices.go\<close>), make API objects of them (\<open>resources.go\<close>, \<open>nats/\<close>,
  \<open>router/\<close>) and create or update these in the cluster (\<open>k8s.go\<close>); they call the ioFog
  controller's REST API and Keycloak (\<open>internal/util\<close>). The reconciler of Applications
  (\<open>controllers/apps\<close>) keeps one deployment per application.

  \<^bold>\<open>The shape of the model.\<close> Code that only computes is a function. Code that calls the outside is
  a tree of calls (\<open>Effects\<close>): \<open>'a prog\<close> with a node per call, whose continuation takes the
  answer, and leaves for a returned value and for a panic or \<open>log.Fatal\<close>. So a theorem on a tree
  is about every answer the API server, the controller, the clock or the random source can give.
  An error is the left side of a sum, with the reason and message the code looks at. Goroutines are a pool
  of trees whose steps interleave in every order (\<open>Traces\<close>). Code outside the repository (the
  operator SDK, controller-runtime, parsing of quantities and certificates) is the record \<open>Lib\<close>,
  an argument; three locales state what is relied on (\<open>operator_sdk\<close>, \<open>controller_reference\<close>,
  \<open>status_condition\<close>), and each has an interpretation on a function of the documented behaviour.
  The libraries the start of the process uses are the record \<open>Machinery\<close>, with the locale
  \<open>scheme_machinery\<close>. The API server is first only a source of answers (\<open>honest\<close>: it answers with
  the object asked for); in \<open>Server\<close> it is a store that others change too, between any two calls.

  \<^bold>\<open>Theories that model code.\<close>
  \<^item> \<open>ApiTypes\<close>, \<open>Kube\<close>, \<open>Effects\<close>, \<open>Traces\<close>, \<open>Lib\<close>: the custom resources, the objects of the
    Kubernetes API, calls, interleavings, outside code;
  \<^item> \<open>GoStrings\<close>, \<open>Json\<close>, \<open>Base64\<close>: what is used of Go's library, computed as documented;
  \<^item> \<open>Conditions\<close>: the state in the status conditions (\<open>setCondition\<close>, \<open>GetCondition\<close>);
  \<^item> \<open>NatsConfig\<close>: \<open>server.conf\<close> and its cluster routes (\<open>nats/config.go\<close>);
  \<^item> \<open>RouterConfig\<close>: the router's JSON configuration and its merge (\<open>router/config.go\<close>, \<open>k8s.go\<close>);
  \<^item> \<open>Util\<close>, \<open>Microservices\<close>, \<open>HubMicroservices\<close>, \<open>Resources\<close>: what is to run and its objects;
  \<^item> \<open>Certs\<close>, \<open>NatsSecrets\<close>: certificates and the secrets of the hub (\<open>certs.go\<close>, \<open>bootstrap.go\<close>);
  \<^item> \<open>K8sOps\<close>, \<open>OpenId\<close>: the operations on the cluster, and the Keycloak client;
  \<^item> \<open>Reconcile\<close>, \<open>Routines\<close>, \<open>ControllerRoutine\<close>: the three routines with every early return;
  \<^item> \<open>States\<close>: the reconciler of a ControlPlane; \<open>reconcile\<close> relates the state before, the calls of
    the start, of the routines and of the end, and the answer;
  \<^item> \<open>Apps\<close>, \<open>Apis\<close>: the reconciler of Applications and the check of resource definitions;
  \<^item> \<open>Startup\<close>: \<open>main.go\<close>, \<open>groupversion_info.go\<close>, \<open>InitClientScheme\<close> and \<open>SetupWithManager\<close> of both
    reconcilers; its calls are trees of their own, as they come before any reconcile;
  \<^item> \<open>Memory\<close>, \<open>ApiCopies\<close>, \<open>AppCopies\<close>: the generated deep copies (\<open>zz_generated.deepcopy.go\<close>) on an
    explicit memory. Everywhere else values are immutable, a copy is the value itself, and the code's
    changes through pointers are new values.

  \<^bold>\<open>Theories of lemmas.\<close>
  \<^item> \<open>NatsRoutes\<close>: \<open>server.conf\<close> parses to what was formatted; merging keeps foreign routes;
  \<^item> \<open>JsonRoundtrip\<close>, \<open>RouterMerge\<close>: decoding ends and inverts encoding; what a merge of router
    configurations keeps, and that it is stable;
  \<^item> \<open>Workloads\<close>, \<open>Selectors\<close>, \<open>Configs\<close>: environment, volumes, ports, labels and replicas fit together;
  \<^item> \<open>SecretContents\<close>: chains of certificates, their hosts and the routes of \<open>server.conf\<close>, missing
    secrets, the JetStream key;
  \<^item> \<open>Orders\<close>, \<open>Footprints\<close>, \<open>Confinement\<close>, \<open>Ensure\<close>, \<open>Ordering\<close>, \<open>ApiOrder\<close>: which objects the
    routines touch, and in which order; the operations that make sure an object exists share the
    locales \<open>ensurer\<close>, \<open>keeper\<close> and \<open>owned_ensurer\<close>, interpreted on the operations of \<open>K8sOps\<close>;
  \<^item> \<open>Reconciling\<close>, \<open>Completing\<close>, \<open>Readiness\<close>, \<open>Lifecycle\<close>: joined results, every schedule of the
    goroutines, when a ControlPlane becomes ready and that it can, and the reconciler as a
    refinement of a machine of three states;
  \<^item> \<open>Server\<close>, \<open>Evidence\<close>, \<open>HubEvidence\<close>, \<open>ControllerEvidence\<close>, \<open>Deployed\<close>: the API server as a store;
    what each routine has shown to exist when it ends well, also the two certificates that the hub's
    routine may first delete (\<open>track\<close> follows what is known of one object through the code); and so
    what is in the cluster when a ControlPlane becomes ready. The service accounts may be missing
    when the pull secret is of another type than it should, a defect of the code;
  \<^item> \<open>DeepCopies\<close>, \<open>MemoryStatus\<close>: every deep copy fulfils the contract \<open>deep_copier\<close>, and a transition
    of a copy in memory refines the one on values and spares the cached original, which is why the
    other theories may work on values;
  \<^item> \<open>Credentials\<close>: which credentials reach the cluster, and the calls to Keycloak;
  \<^item> \<open>AppScaling\<close>: on a server that refuses calls and that others change, an application's deployment
    has the wanted replicas from the first reconcile without an error; \<open>Deviations\<close>: defects found.

  \<^bold>\<open>Bounds and fuel.\<close> All loops of the program run over finite lists and are structural
  recursions. Only the JSON decoder has fuel, twice the length of the text and one more, and
  \<open>JsonRoundtrip\<close> shows that any more gives the same result. 32-bit integers of the
  resources are \<open>int\<close>: they are compared, copied and printed, and no arithmetic of the program
  can leave their range; the one conversion to 32 bits, of the viewer's port, is \<open>FromInt\<close>.

  \<^bold>\<open>Not modelled.\<close> Logging, and the cryptography and transport of the libraries.
\<close>

end
